(* ===== verification/Torio_Prelude.thy ===== *)
theory Torio_Prelude
  imports Main "HOL-Library.Char_ord" "HOL-Library.List_Lexorder" "HOL-Library.Sublist"
begin

text \<open>
  Shared ground of the development: Go strings as byte lists, the functions of Go's
  \<open>strings\<close>, \<open>unicode/utf8\<close>, \<open>strconv\<close> and \<open>path\<close> packages that the source calls, and the
  generic lemmas about them. A Go string is a sequence of bytes, and so is an Isabelle
  \<open>string\<close> (a list of 8-bit characters), so \<open>len(s)\<close> is \<open>length s\<close> and indexing counts bytes.
\<close>

named_theorems go_string_defs \<open>definitions of the modelled Go string functions\<close>

section \<open>Bytes and character classes\<close>

definition byte_of :: "char \<Rightarrow> nat" where
  "byte_of c = of_char c"

definition between :: "char \<Rightarrow> char \<Rightarrow> char \<Rightarrow> bool" where
  "between lo hi c \<longleftrightarrow> byte_of lo \<le> byte_of c \<and> byte_of c \<le> byte_of hi"

definition is_lower :: "char \<Rightarrow> bool" where "is_lower = between CHR ''a'' CHR ''z''"
definition is_upper :: "char \<Rightarrow> bool" where "is_upper = between CHR ''A'' CHR ''Z''"
definition is_digit :: "char \<Rightarrow> bool" where "is_digit = between CHR ''0'' CHR ''9''"
definition is_alnum :: "char \<Rightarrow> bool" where
  "is_alnum c \<longleftrightarrow> is_upper c \<or> is_lower c \<or> is_digit c"

lemmas char_class_defs = byte_of_def between_def is_lower_def is_upper_def is_digit_def is_alnum_def

declare char_class_defs [go_string_defs]

lemma byte_of_less_256 [simp]: "byte_of c < 256"
  by (simp add: byte_of_def)

lemma byte_of_inject [simp]: "byte_of a = byte_of b \<longleftrightarrow> a = b"
  by (simp add: byte_of_def)

section \<open>UTF-8\<close>

text \<open>
  \<open>utf8.DecodeRuneInString\<close>: the first rune and how many bytes it takes. An invalid byte is
  \<open>utf8.RuneError\<close> with width one, which is how a \<open>for range\<close> over a string reports it.
\<close>

definition rune_error :: nat where "rune_error = 0xFFFD"

definition cont :: "nat \<Rightarrow> nat \<Rightarrow> nat \<Rightarrow> bool" where
  "cont lo hi b \<longleftrightarrow> lo \<le> b \<and> b \<le> hi"

text \<open>The bytes of a text, zero past its end, where no continuation byte can be.\<close>

definition byte_at :: "string \<Rightarrow> nat \<Rightarrow> nat" where
  "byte_at s i = (if i < length s then byte_of (s ! i) else 0)"

definition decode4 :: "nat \<Rightarrow> nat \<Rightarrow> nat \<Rightarrow> nat \<Rightarrow> nat \<times> nat" where
  "decode4 b0 b1 b2 b3 =
     (if b0 < 0x80 then (b0, 1)
      else if cont 0xC2 0xDF b0 \<and> cont 0x80 0xBF b1 then ((b0 - 0xC0) * 0x40 + (b1 - 0x80), 2)
      else if cont 0xE0 0xEF b0 \<and>
          cont (if b0 = 0xE0 then 0xA0 else 0x80) (if b0 = 0xED then 0x9F else 0xBF) b1 \<and>
          cont 0x80 0xBF b2 then
        ((b0 - 0xE0) * 0x1000 + (b1 - 0x80) * 0x40 + (b2 - 0x80), 3)
      else if cont 0xF0 0xF4 b0 \<and>
          cont (if b0 = 0xF0 then 0x90 else 0x80) (if b0 = 0xF4 then 0x8F else 0xBF) b1 \<and>
          cont 0x80 0xBF b2 \<and> cont 0x80 0xBF b3 then
        ((b0 - 0xF0) * 0x40000 + (b1 - 0x80) * 0x1000 + (b2 - 0x80) * 0x40 + (b3 - 0x80), 4)
      else (rune_error, 1))"

definition decode_rune :: "string \<Rightarrow> nat \<times> nat" where
  "decode_rune s = (if s = [] then (rune_error, 0)
     else decode4 (byte_at s 0) (byte_at s 1) (byte_at s 2) (byte_at s 3))"

text \<open>The runes of a string with the bytes of each: what \<open>for _, r := range s\<close> walks over.\<close>

function rune_spans :: "string \<Rightarrow> (nat \<times> string) list" where
  "rune_spans s = (if s = [] then [] else
     (let (r, w) = decode_rune s; k = max 1 w in (r, take k s) # rune_spans (drop k s)))"
  by pat_completeness auto
termination
  by (relation "measure length") auto

declare rune_spans.simps [simp del]

definition runes :: "string \<Rightarrow> nat list" where
  "runes s = map fst (rune_spans s)"

lemma rune_spans_Nil [simp]: "rune_spans [] = []"
  by (simp add: rune_spans.simps)

lemma concat_rune_spans [simp]: "concat (map snd (rune_spans s)) = s"
proof (induction s rule: rune_spans.induct)
  case (1 s)
  then show ?case
    by (subst rune_spans.simps) (auto simp: Let_def split: prod.splits)
qed

lemma rune_spans_ascii:
  "byte_of c < 0x80 \<Longrightarrow> rune_spans (c # s) = (byte_of c, [c]) # rune_spans s"
  by (subst rune_spans.simps) (simp add: decode_rune_def decode4_def byte_at_def)

text \<open>\<open>utf8.ValidString\<close>: no byte decodes as an error of width one.\<close>

definition valid_utf8 :: "string \<Rightarrow> bool" where
  "valid_utf8 s \<longleftrightarrow> list_all (\<lambda>(r, bs). \<not> (r = rune_error \<and> length bs = 1)) (rune_spans s)"

text \<open>\<open>unicode.IsControl\<close> and \<open>unicode.IsSpace\<close>.\<close>

definition is_control :: "nat \<Rightarrow> bool" where
  "is_control r \<longleftrightarrow> r \<le> 0x1F \<or> cont 0x7F 0x9F r"

definition is_space :: "nat \<Rightarrow> bool" where
  "is_space r \<longleftrightarrow> cont 0x09 0x0D r \<or> r = 0x20 \<or> r = 0x85 \<or> r = 0xA0 \<or> r = 0x1680 \<or>
     cont 0x2000 0x200A r \<or> r = 0x2028 \<or> r = 0x2029 \<or> r = 0x202F \<or> r = 0x205F \<or> r = 0x3000"

section \<open>The strings package\<close>

definition has_prefix :: "string \<Rightarrow> string \<Rightarrow> bool" where
  "has_prefix s p \<longleftrightarrow> take (length p) s = p"

definition trim_prefix :: "string \<Rightarrow> string \<Rightarrow> string" where
  "trim_prefix s p = (if has_prefix s p then drop (length p) s else s)"

text \<open>
  \<open>strings.TrimSpace\<close> drops leading and trailing white-space runes. The code trims the right end
  by decoding backwards; a white-space rune is always a rune of the forward walk as well, since
  no continuation byte can start one.
\<close>

definition trim_space :: "string \<Rightarrow> string" where
  "trim_space s = (let sp = (\<lambda>(r, _). is_space r) in
     concat (map snd (rev (dropWhile sp (rev (dropWhile sp (rune_spans s)))))))"

text \<open>\<open>strings.Fields\<close>: the maximal runs of runes that are not white space.\<close>

fun fields_go :: "(nat \<times> string) list \<Rightarrow> string \<Rightarrow> string list" where
  "fields_go [] acc = (if acc = [] then [] else [acc])"
| "fields_go ((r, bs) # rest) acc =
     (if is_space r then (if acc = [] then [] else [acc]) @ fields_go rest []
      else fields_go rest (acc @ bs))"

definition str_fields :: "string \<Rightarrow> string list" where
  "str_fields s = fields_go (rune_spans s) []"

text \<open>\<open>strings.Split\<close> with a one-byte separator, \<open>strings.Join\<close>, \<open>strings.Cut\<close> and the indexes.\<close>

fun split_on :: "char \<Rightarrow> string \<Rightarrow> string list" where
  "split_on d [] = [[]]"
| "split_on d (c # s) = (if c = d then [] # split_on d s
     else (case split_on d s of [] \<Rightarrow> [[c]] | p # ps \<Rightarrow> (c # p) # ps))"

definition newline :: char where "newline = CHR 0x0A"

definition split_lines :: "string \<Rightarrow> string list" where
  "split_lines s = split_on newline s"

fun join :: "string \<Rightarrow> string list \<Rightarrow> string" where
  "join sep [] = []"
| "join sep [x] = x"
| "join sep (x # y # ys) = x @ sep @ join sep (y # ys)"

text \<open>\<open>strings.Index\<close> with a one-byte pattern (\<open>None\<close> is the code's \<open>-1\<close>), and \<open>LastIndex\<close>.\<close>

fun index_of :: "char \<Rightarrow> string \<Rightarrow> nat option" where
  "index_of d [] = None"
| "index_of d (c # s) = (if c = d then Some 0 else map_option Suc (index_of d s))"

definition last_index_of :: "char \<Rightarrow> string \<Rightarrow> nat option" where
  "last_index_of d s = map_option (\<lambda>i. length s - Suc i) (index_of d (rev s))"

text \<open>\<open>strings.Cut\<close> at the first occurrence of a separator string.\<close>

fun cut :: "string \<Rightarrow> string \<Rightarrow> (string \<times> string) option" where
  "cut sep [] = (if sep = [] then Some ([], []) else None)"
| "cut sep (c # s) = (if has_prefix (c # s) sep then Some ([], drop (length sep) (c # s))
     else map_option (\<lambda>(a, b). (c # a, b)) (cut sep s))"

fun contains :: "string \<Rightarrow> string \<Rightarrow> bool" where
  "contains [] p = (p = [])"
| "contains (c # s) p = (has_prefix (c # s) p \<or> contains s p)"

definition contains_any :: "string \<Rightarrow> string \<Rightarrow> bool" where
  "contains_any s chars \<longleftrightarrow> list_ex (\<lambda>c. c \<in> set chars) s"

definition to_lower_char :: "char \<Rightarrow> char" where
  "to_lower_char c = (if is_upper c then char_of (byte_of c + 32) else c)"

definition to_lower :: "string \<Rightarrow> string" where
  "to_lower s = map to_lower_char s"

lemmas go_string_basic = has_prefix_def trim_prefix_def contains_any_def to_lower_def
  to_lower_char_def last_index_of_def

declare go_string_basic [go_string_defs]

section \<open>The strconv package\<close>

definition digit_val :: "char \<Rightarrow> nat" where
  "digit_val c = byte_of c - byte_of CHR ''0''"

definition digits_val :: "string \<Rightarrow> nat" where
  "digits_val s = foldl (\<lambda>n c. 10 * n + digit_val c) 0 s"

text \<open>
  \<open>strconv.ParseInt(s, 10, 64)\<close>, which is also \<open>strconv.Atoi\<close> on the 64-bit platforms Torio
  supports: an optional sign, at least one decimal digit, nothing else, and a value in the range
  of a 64-bit integer. \<open>None\<close> is the error.
\<close>

definition parse_int64 :: "string \<Rightarrow> int option" where
  "parse_int64 s = (let neg = has_prefix s ''-'';
       ds = (if neg \<or> has_prefix s ''+'' then drop 1 s else s);
       v = int (digits_val ds) in
     if ds = [] \<or> \<not> list_all is_digit ds then None
     else if neg then (if v \<le> 2 ^ 63 then Some (- v) else None)
     else (if v < 2 ^ 63 then Some v else None))"

lemma parse_int64_range:
  "parse_int64 s = Some n \<Longrightarrow> - (2 ^ 63) \<le> n \<and> n < 2 ^ 63"
  by (auto simp: parse_int64_def Let_def split: if_splits)

text \<open>\<open>strconv.Itoa\<close>: the decimal digits of a number.\<close>

definition digit_of :: "nat \<Rightarrow> char" where
  "digit_of n = ''0123456789'' ! (n mod 10)"

fun show_nat :: "nat \<Rightarrow> string" where
  "show_nat n = (if n < 10 then [digit_of n] else show_nat (n div 10) @ [digit_of n])"

declare show_nat.simps [simp del]

definition show_int :: "int \<Rightarrow> string" where
  "show_int n = (if n < 0 then ''-'' @ show_nat (nat (- n)) else show_nat (nat n))"

section \<open>Generic lemmas\<close>

lemma split_on_nonempty [simp]: "split_on d s \<noteq> []"
  by (cases s) (auto split: list.splits)

lemma split_on_no_sep: "p \<in> set (split_on d s) \<Longrightarrow> d \<notin> set p"
  by (induction s arbitrary: p) (auto split: if_splits list.splits)

lemma join_split_on: "join [d] (split_on d s) = s"
proof (induction s)
  case (Cons c s)
  obtain p ps where "split_on d s = p # ps" by (cases "split_on d s") auto
  with Cons show ?case by (cases ps) auto
qed simp

lemma has_prefix_append [simp]: "has_prefix (p @ s) p"
  by (simp add: has_prefix_def)

lemma has_prefix_iff: "has_prefix s p \<longleftrightarrow> (\<exists>r. s = p @ r)"
  by (metis append_take_drop_id has_prefix_append has_prefix_def)

lemma index_of_None [simp]: "index_of d s = None \<longleftrightarrow> d \<notin> set s"
  by (induction s) auto

lemma index_of_Some:
  "index_of d s = Some i \<Longrightarrow> i < length s \<and> s ! i = d \<and> d \<notin> set (take i s)"
  by (induction s arbitrary: i) (auto split: if_splits)

lemma contains_append: "contains (a @ p @ b) p"
proof (induction a)
  case Nil
  show ?case
  proof (cases "p @ b")
    case (Cons c r)
    then have "has_prefix (c # r) p" by (metis has_prefix_append)
    then show ?thesis using Cons by simp
  qed auto
next
  case (Cons c a)
  then show ?case by simp
qed

lemma contains_iff: "contains s p \<longleftrightarrow> (\<exists>a b. s = a @ p @ b)"
proof (induction s)
  case (Cons c s)
  show ?case
  proof
    assume "contains (c # s) p"
    then consider "has_prefix (c # s) p" | "contains s p" by auto
    then show "\<exists>a b. c # s = a @ p @ b"
    proof cases
      case 1
      then show ?thesis by (metis append_Nil has_prefix_iff)
    next
      case 2
      then show ?thesis using Cons by (metis append_Cons)
    qed
  next
    assume "\<exists>a b. c # s = a @ p @ b"
    then show "contains (c # s) p" using contains_append by metis
  qed
qed auto

lemma filter_notin_id: "x \<notin> set (map f xs) \<Longrightarrow> filter (\<lambda>y. f y \<noteq> x) xs = xs"
  by (induction xs) auto

text \<open>The digits of a number are digits, and read back as it.\<close>

lemma digit_of_digit: "is_digit (digit_of n) \<and> digit_val (digit_of n) = n mod 10"
proof -
  have "list_all (\<lambda>k. is_digit (''0123456789'' ! k) \<and> digit_val (''0123456789'' ! k) = k) [0..<10]" by code_simp
  moreover have "n mod 10 \<in> set [0..<10]" by simp
  ultimately show ?thesis by (simp only: list_all_iff digit_of_def)
qed

lemma digit_val_less: "is_digit c \<Longrightarrow> digit_val c < 10"
proof -
  assume "is_digit c"
  then have "byte_of c \<le> 57" by (simp add: is_digit_def between_def byte_of_def)
  then show ?thesis by (simp add: digit_val_def byte_of_def)
qed

lemma digits_val_snoc [simp]: "digits_val (s @ [c]) = 10 * digits_val s + digit_val c"
  by (simp add: digits_val_def)

lemma digits_val_Nil [simp]: "digits_val [] = 0"
  by (simp add: digits_val_def)

lemma digits_val_append: "digits_val (s @ t) = digits_val s * 10 ^ length t + digits_val t"
  by (induction t rule: rev_induct) (simp_all add: append_assoc [symmetric] del: append_assoc)

lemma digits_val_Cons: "digits_val (c # s) = digit_val c * 10 ^ length s + digits_val s"
  using digits_val_append [of "[c]" s] by (simp add: digits_val_def)

lemma digits_val_less: "list_all is_digit s \<Longrightarrow> digits_val s < 10 ^ length s"
proof (induction s)
  case (Cons c s)
  then have "digit_val c < 10" "digits_val s < 10 ^ length s" using digit_val_less by simp_all
  then have "digit_val c * 10 ^ length s + digits_val s < Suc (digit_val c) * 10 ^ length s" by simp
  also have "\<dots> \<le> 10 * 10 ^ length s" using \<open>digit_val c < 10\<close> by (intro mult_le_mono1) simp
  finally show ?case by (simp add: digits_val_Cons)
qed simp

lemma show_nat_digits: "list_all is_digit (show_nat n) \<and> show_nat n \<noteq> [] \<and> digits_val (show_nat n) = n"
proof (induction n rule: show_nat.induct)
  case (1 n)
  have e: "show_nat n = (if n < 10 then [digit_of n] else show_nat (n div 10) @ [digit_of n])"
    by (rule show_nat.simps)
  show ?case
    using 1 digit_of_digit [of n] unfolding e by (cases "n < 10") (simp_all add: digits_val_Cons)
qed

lemma takeWhile_digits:
  assumes "list_all is_digit ds" and "rest = [] \<or> \<not> is_digit (hd rest)"
  shows "takeWhile is_digit (ds @ rest) = ds" and "dropWhile is_digit (ds @ rest) = rest"
  using assms by (induction ds; cases rest; auto)+

section \<open>Trimming ASCII\<close>

lemma ascii_spans:
  "list_all (\<lambda>c. byte_of c < 128) s \<Longrightarrow> rune_spans s = map (\<lambda>c. (byte_of c, [c])) s"
  by (induction s) (auto simp: rune_spans_ascii)

lemma trim_space_word:
  assumes "list_all (\<lambda>c. byte_of c < 128) s" and "s = [] \<or> \<not> is_space (byte_of (hd s)) \<and> \<not> is_space (byte_of (last s))"
  shows "trim_space s = s"
proof -
  let ?f = "\<lambda>c. (byte_of c, [c])" and ?sp = "\<lambda>(r, _). is_space r"
  have "dropWhile ?sp (map ?f s) = map ?f s" using assms(2) by (cases s) auto
  moreover have "dropWhile ?sp (rev (map ?f s)) = rev (map ?f s)"
    using assms(2) by (cases s rule: rev_cases) auto
  moreover have "concat (map (snd \<circ> ?f) t) = t" for t :: string
    by (induction t) auto
  ultimately show ?thesis
    by (simp add: trim_space_def Let_def ascii_spans [OF assms(1)])
qed

section \<open>Suffixes\<close>

definition has_suffix :: "string \<Rightarrow> string \<Rightarrow> bool" where
  "has_suffix s t \<longleftrightarrow> length t \<le> length s \<and> drop (length s - length t) s = t"

definition trim_suffix :: "string \<Rightarrow> string \<Rightarrow> string" where
  "trim_suffix s t = (if has_suffix s t then take (length s - length t) s else s)"

lemma has_suffix_append [simp]: "has_suffix (s @ t) t"
  by (simp add: has_suffix_def)

lemma trim_suffix_append [simp]: "trim_suffix (s @ t) t = s"
  by (simp add: trim_suffix_def)

lemma has_suffixE:
  assumes "has_suffix s t"
  obtains u where "s = u @ t" and "trim_suffix s t = u"
  using assms append_take_drop_id [of "length s - length t" s] by (metis has_suffix_def trim_suffix_append)

end
