(* ===== verification/Redact.thy ===== *)
theory Redact
  imports Torio_Prelude
begin

text \<open>
  Regular expressions as Go's \<open>regexp\<close> package runs them, and \<open>internal/redact/redact.go\<close> on top
  of them. A match is described twice: \<open>rx\<close> is the executable matcher, which lists what is left
  after each way to match a prefix, preferred way first (Go's leftmost-first rule); \<open>lang\<close> is the
  set of strings an expression denotes, and \<open>rx_lang\<close> shows the two agree. The main results are
  that a redacted text carries none of the known secret shapes (\<open>redact_string_clean\<close>), that
  redaction is idempotent, and that the detector used by the config layer finds exactly the
  texts that carry one.
\<close>

section \<open>Regular expressions\<close>

datatype re =
    Lit string
  | Cls "char \<Rightarrow> bool"
  | Run "char \<Rightarrow> bool" nat "nat option"
  | Seq re re
  | Alt re re
  | Opt re

definition run_lengths :: "nat \<Rightarrow> nat \<Rightarrow> nat option \<Rightarrow> nat list" where
  "run_lengths n lo hi = (let m = (case hi of None \<Rightarrow> n | Some h \<Rightarrow> min n h) in rev [lo..<Suc m])"

fun rx :: "re \<Rightarrow> string \<Rightarrow> string list" where
  "rx (Lit p) s = (if has_prefix s p then [drop (length p) s] else [])"
| "rx (Cls p) s = (case s of [] \<Rightarrow> [] | c # t \<Rightarrow> if p c then [t] else [])"
| "rx (Run p lo hi) s = map (\<lambda>k. drop k s) (run_lengths (length (takeWhile p s)) lo hi)"
| "rx (Seq a b) s = concat (map (rx b) (rx a s))"
| "rx (Alt a b) s = rx a s @ rx b s"
| "rx (Opt a) s = rx a s @ [s]"

text \<open>\<open>^...$\<close>: some way of matching uses up the whole text.\<close>

definition full_match :: "re \<Rightarrow> string \<Rightarrow> bool" where
  "full_match r s \<longleftrightarrow> [] \<in> set (rx r s)"

fun lang :: "re \<Rightarrow> string set" where
  "lang (Lit p) = {p}"
| "lang (Cls p) = {[c] | c. p c}"
| "lang (Run p lo hi) = {m. list_all p m \<and> lo \<le> length m \<and>
     (case hi of None \<Rightarrow> True | Some h \<Rightarrow> length m \<le> h)}"
| "lang (Seq a b) = {m @ n | m n. m \<in> lang a \<and> n \<in> lang b}"
| "lang (Alt a b) = lang a \<union> lang b"
| "lang (Opt a) = insert [] (lang a)"

fun seq :: "re list \<Rightarrow> re" where
  "seq [] = Lit []"
| "seq [r] = r"
| "seq (r # q # rs) = Seq r (seq (q # rs))"

lemma take_list_all_takeWhile:
  "k \<le> length (takeWhile p s) \<longleftrightarrow> k \<le> length s \<and> list_all p (take k s)"
  by (induction s arbitrary: k) (auto simp: take_Cons split: nat.splits)

lemma run_lengths_set:
  "k \<in> set (run_lengths n lo hi) \<longleftrightarrow>
     lo \<le> k \<and> k \<le> n \<and> (case hi of None \<Rightarrow> True | Some h \<Rightarrow> k \<le> h)"
  by (cases hi) (auto simp: run_lengths_def Let_def simp del: upt_Suc)

lemma rx_lang: "t \<in> set (rx r s) \<longleftrightarrow> (\<exists>m. s = m @ t \<and> m \<in> lang r)"
proof (induction r arbitrary: s t)
  case (Lit p)
  then show ?case by (auto simp: has_prefix_iff has_prefix_def)
next
  case (Cls p)
  then show ?case by (cases s) auto
next
  case (Run p lo hi)
  have "t \<in> set (rx (Run p lo hi) s) \<longleftrightarrow> (\<exists>k. t = drop k s \<and> k \<le> length s \<and>
      list_all p (take k s) \<and> lo \<le> k \<and> (case hi of None \<Rightarrow> True | Some h \<Rightarrow> k \<le> h))"
    by (auto simp: run_lengths_set take_list_all_takeWhile)
  also have "\<dots> \<longleftrightarrow> (\<exists>m. s = m @ t \<and> m \<in> lang (Run p lo hi))"
  proof safe
    fix k
    assume "k \<le> length s" "list_all p (take k s)" "lo \<le> k"
      "case hi of None \<Rightarrow> True | Some h \<Rightarrow> k \<le> h"
    then show "\<exists>m. s = m @ drop k s \<and> m \<in> lang (Run p lo hi)"
      by (intro exI [of _ "take k s"]) (auto split: option.splits)
  next
    fix m
    assume "m \<in> lang (Run p lo hi)"
    then show "\<exists>k. t = drop k (m @ t) \<and> k \<le> length (m @ t) \<and> list_all p (take k (m @ t)) \<and>
        lo \<le> k \<and> (case hi of None \<Rightarrow> True | Some h \<Rightarrow> k \<le> h)"
      by (intro exI [of _ "length m"]) auto
  qed
  finally show ?case .
next
  case (Seq a b)
  have "t \<in> set (rx (Seq a b) s) \<longleftrightarrow> (\<exists>u. u \<in> set (rx a s) \<and> t \<in> set (rx b u))" by auto
  also have "\<dots> \<longleftrightarrow> (\<exists>m n. s = m @ n @ t \<and> m \<in> lang a \<and> n \<in> lang b)"
    by (auto simp: Seq)
  also have "\<dots> \<longleftrightarrow> (\<exists>m. s = m @ t \<and> m \<in> lang (Seq a b))"
    by (simp, metis append_assoc)
  finally show ?case .
qed auto

lemma full_match_lang: "full_match r s \<longleftrightarrow> s \<in> lang r"
  by (simp add: full_match_def rx_lang)

section \<open>Replacing every match\<close>

definition Placeholder :: string where "Placeholder = ''[REDACTED]''"

text \<open>
  \<open>Regexp.ReplaceAllString\<close> for an expression that never matches the empty string: at each
  position the preferred match, if there is one, is replaced and the walk goes on after it.
\<close>

function replace_all :: "re \<Rightarrow> string \<Rightarrow> string" where
  "replace_all r [] = []"
| "replace_all r (c # s) = (case rx r (c # s) of
     [] \<Rightarrow> c # replace_all r s
   | t # _ \<Rightarrow> (if length t < length (c # s) then Placeholder @ replace_all r t
               else c # replace_all r s))"
  by pat_completeness auto
termination
  by (relation "measure (length \<circ> snd)") auto

text \<open>A text is clean of a shape when no part of it is one.\<close>

definition clean :: "re \<Rightarrow> string \<Rightarrow> bool" where
  "clean r s \<longleftrightarrow> (\<forall>a m b. s = a @ m @ b \<longrightarrow> m \<notin> lang r)"

text \<open>The shapes the proofs speak of: never empty, and without the placeholder's brackets.\<close>

definition shape :: "re \<Rightarrow> bool" where
  "shape r \<longleftrightarrow> [] \<notin> lang r \<and> (\<forall>m \<in> lang r. CHR ''['' \<notin> set m \<and> CHR '']'' \<notin> set m)"

lemma shapeD:
  assumes "shape r" and "m \<in> lang r"
  shows "m \<noteq> []" and "CHR ''['' \<notin> set m" and "CHR '']'' \<notin> set m"
  using assms by (auto simp: shape_def)

lemma clean_Nil: "shape r \<Longrightarrow> clean r []"
  by (auto simp: clean_def shape_def)

lemma clean_append1: "clean r (u @ v) \<Longrightarrow> clean r u"
  unfolding clean_def by (metis append_assoc)

lemma clean_append2: "clean r (u @ v) \<Longrightarrow> clean r v"
  unfolding clean_def by (metis append_assoc)

lemma clean_Cons_iff:
  "clean r (c # s) \<longleftrightarrow> clean r s \<and> (\<forall>m b. c # s = m @ b \<longrightarrow> m \<notin> lang r)" if "shape r"
proof
  assume "clean r (c # s)"
  then show "clean r s \<and> (\<forall>m b. c # s = m @ b \<longrightarrow> m \<notin> lang r)"
    using clean_append2 [of r "[c]" s] unfolding clean_def by (metis append_Cons append_Nil)
next
  assume *: "clean r s \<and> (\<forall>m b. c # s = m @ b \<longrightarrow> m \<notin> lang r)"
  show "clean r (c # s)"
    unfolding clean_def
  proof (intro allI impI)
    fix a m b
    assume "c # s = a @ m @ b"
    then show "m \<notin> lang r"
      using * by (cases a) (auto simp: clean_def)
  qed
qed

text \<open>A character no word of the expression holds separates a text into parts that are scanned alone.\<close>

lemma clean_sep:
  assumes "[] \<notin> lang r" and "\<And>m. m \<in> lang r \<Longrightarrow> x \<notin> set m" and "clean r u" and "clean r v"
  shows "clean r (u @ x # v)"
  unfolding clean_def
proof (intro allI impI notI)
  fix a m b
  assume eq: "u @ x # v = a @ m @ b" and m: "m \<in> lang r"
  have nx: "x \<notin> set m" using assms(2) m by blast
  from eq consider us where "u = a @ us" "us @ x # v = m @ b" | us where "x # v = us @ m @ b"
    by (auto simp: append_eq_append_conv2)
  then show False
  proof cases
    case 1
    from 1(2) obtain k where "us = m @ k"
      using nx by (auto simp: append_eq_append_conv2 Cons_eq_append_conv)
    then show ?thesis using 1(1) assms(3) m by (auto simp: clean_def)
  next
    case 2
    from 2 obtain us' where "v = us' @ m @ b"
      using nx assms(1) m by (cases us; cases m) auto
    then show ?thesis using assms(4) m by (auto simp: clean_def)
  qed
qed

lemma clean_barrier:
  assumes "shape r" and "x = CHR ''['' \<or> x = CHR '']''" and "clean r u" and "clean r v"
  shows "clean r (u @ x # v)"
  using assms by (intro clean_sep) (auto simp: shape_def)

definition redacted_body :: string where "redacted_body = ''REDACTED''"

lemma Placeholder_split: "Placeholder @ v = [] @ CHR ''['' # (redacted_body @ CHR '']'' # v)"
  by (simp add: Placeholder_def redacted_body_def)

lemma clean_Placeholder:
  assumes "shape r" and "clean r redacted_body" and "clean r v"
  shows "clean r (Placeholder @ v)"
  unfolding Placeholder_split
  using assms by (intro clean_barrier) (auto simp: clean_Nil)

text \<open>Up to its first bracket a replaced text is a prefix of the original.\<close>

lemma replace_all_prefix:
  "\<exists>u w z. s = u @ w \<and> replace_all r s = u @ z \<and> (z = [] \<or> hd z = CHR ''['')"
proof (induction r s rule: replace_all.induct)
  case (2 r c s)
  have here: ?case if "replace_all r (c # s) = c # replace_all r s"
    and "\<exists>u w z. s = u @ w \<and> replace_all r s = u @ z \<and> (z = [] \<or> hd z = CHR ''['')"
    using that by (metis append_Cons)
  show ?case
  proof (cases "rx r (c # s)")
    case Nil
    then show ?thesis using here 2(1) by auto
  next
    case (Cons t ts)
    show ?thesis
    proof (cases "length t < length (c # s)")
      case True
      then have "replace_all r (c # s) = [] @ (Placeholder @ replace_all r t)"
        using Cons by simp
      moreover have "hd (Placeholder @ replace_all r t) = CHR ''[''"
        by (simp add: Placeholder_def)
      ultimately show ?thesis by (metis append_Nil)
    next
      case False
      then show ?thesis using Cons here 2(3) by auto
    qed
  qed
qed auto

lemma match_in_replaced:
  assumes "shape r" and "c # replace_all q s = m @ b" and "m \<in> lang r"
  shows "\<exists>b'. c # s = m @ b'"
proof -
  obtain u w z where u: "s = u @ w" "replace_all q s = u @ z" "z = [] \<or> hd z = CHR ''[''"
    using replace_all_prefix by blast
  have "CHR ''['' \<notin> set m" using assms(1,3) by (auto simp: shape_def)
  moreover have "(c # u) @ z = m @ b" using assms(2) u(2) by simp
  ultimately have "\<exists>k. c # u = m @ k"
    using u(3) by (auto simp: append_eq_append_conv2 append_eq_Cons_conv Cons_eq_append_conv)
      (metis hd_append2 list.set_sel(1))
  then show ?thesis using u(1) by (metis append_Cons append_assoc)
qed

lemma rx_suffix_clean: "\<lbrakk>clean r s; t \<in> set (rx q s)\<rbrakk> \<Longrightarrow> clean r t"
  by (auto simp: rx_lang dest: clean_append2)

lemma replace_all_clean_other:
  assumes "shape r" and "clean r redacted_body" and "clean r s"
  shows "clean r (replace_all q s)"
  using assms(3)
proof (induction q s rule: replace_all.induct)
  case (2 q c s)
  have s: "clean r s" using 2(4) clean_append2 [of r "[c]" s] by simp
  have keep: "clean r (c # replace_all q s)" if "clean r (replace_all q s)"
    using that 2(4) match_in_replaced [OF assms(1)] clean_Cons_iff [OF assms(1)] by metis
  show ?case
    using 2 s keep clean_Placeholder [OF assms(1,2)] rx_suffix_clean [of r "c # s" _ q]
    by (auto split: list.splits)
qed (simp add: clean_Nil assms)

lemma rx_progress: "\<lbrakk>shape r; t \<in> set (rx r s)\<rbrakk> \<Longrightarrow> length t < length s"
  by (auto simp: rx_lang shape_def)

lemma replace_all_clean:
  assumes "shape r" and "clean r redacted_body"
  shows "clean r (replace_all r s)"
  using assms
proof (induction r s rule: replace_all.induct)
  case (2 r c s)
  show ?case
  proof (cases "rx r (c # s)")
    case Nil
    then have none: "\<And>m b. c # s = m @ b \<Longrightarrow> m \<notin> lang r"
      using rx_lang [of _ r "c # s"] by auto
    have "clean r (replace_all r s)" using Nil 2 by simp
    then have "clean r (c # replace_all r s)"
      using none match_in_replaced [OF 2(4)] clean_Cons_iff [OF 2(4)] by metis
    then show ?thesis using Nil by simp
  next
    case (Cons t ts)
    then have "length t < length (c # s)" using rx_progress [OF 2(4), of t "c # s"] by simp
    then show ?thesis using Cons 2 clean_Placeholder by simp
  qed
qed (simp add: clean_Nil)

lemma replace_all_id: "clean r s \<Longrightarrow> replace_all r s = s"
proof (induction r s rule: replace_all.induct)
  case (2 r c s)
  have "rx r (c # s) = []"
  proof (rule ccontr)
    assume "rx r (c # s) \<noteq> []"
    then obtain t where "t \<in> set (rx r (c # s))" by (cases "rx r (c # s)") auto
    then obtain m where "c # s = [] @ m @ t" and "m \<in> lang r" by (auto simp: rx_lang)
    then show False using 2(4) unfolding clean_def by blast
  qed
  then show ?case using 2(1,4) clean_append2 [of r "[c]" s] by simp
qed simp

section \<open>The secret shapes\<close>

text \<open>Whether an expression can match nothing, and whether it can match a given character.\<close>

fun nullable :: "re \<Rightarrow> bool" where
  "nullable (Lit p) = (p = [])"
| "nullable (Cls p) = False"
| "nullable (Run p lo hi) = (lo = 0)"
| "nullable (Seq a b) = (nullable a \<and> nullable b)"
| "nullable (Alt a b) = (nullable a \<or> nullable b)"
| "nullable (Opt a) = True"

fun avoids :: "char \<Rightarrow> re \<Rightarrow> bool" where
  "avoids x (Lit p) = (x \<notin> set p)"
| "avoids x (Cls p) = (\<not> p x)"
| "avoids x (Run p lo hi) = (\<not> p x)"
| "avoids x (Seq a b) = (avoids x a \<and> avoids x b)"
| "avoids x (Alt a b) = (avoids x a \<and> avoids x b)"
| "avoids x (Opt a) = avoids x a"

lemma nullable_lang: "\<not> nullable r \<Longrightarrow> [] \<notin> lang r"
  by (induction r) auto

lemma avoids_lang: "avoids x r \<Longrightarrow> m \<in> lang r \<Longrightarrow> x \<notin> set m"
  by (induction r arbitrary: m) (auto simp: list_all_iff)

lemma shapeI: "\<lbrakk>\<not> nullable r; avoids CHR ''['' r; avoids CHR '']'' r\<rbrakk> \<Longrightarrow> shape r"
  using nullable_lang avoids_lang unfolding shape_def by blast

lemma clean_by_suffixes:
  assumes "list_all (\<lambda>t. rx r t = []) (suffixes s)"
  shows "clean r s"
  unfolding clean_def
proof (intro allI impI notI)
  fix a m b
  assume "s = a @ m @ b" and "m \<in> lang r"
  then have "m @ b \<in> set (suffixes s)" and "b \<in> set (rx r (m @ b))"
    by (auto simp: rx_lang suffix_def)
  then show False using assms by (fastforce simp: list_all_iff)
qed

text \<open>The character classes the patterns use.\<close>

definition c_in :: "string \<Rightarrow> char \<Rightarrow> bool" where
  "c_in cs c \<longleftrightarrow> c \<in> set cs"

definition alnum_or :: "string \<Rightarrow> char \<Rightarrow> bool" where
  "alnum_or cs c \<longleftrightarrow> is_alnum c \<or> c \<in> set cs"

text \<open>\<open>(?i)\<close> on an ASCII letter, and \<open>\\s\<close>.\<close>

definition fold_case :: "char \<Rightarrow> char \<Rightarrow> bool" where
  "fold_case c d \<longleftrightarrow> to_lower_char d = c"

definition re_space :: "char \<Rightarrow> bool" where
  "re_space c \<longleftrightarrow> byte_of c \<in> {9, 10, 12, 13, 32}"

lemmas class_defs = c_in_def alnum_or_def fold_case_def re_space_def to_lower_char_def char_class_defs

definition openai_key :: re where
  "openai_key = seq [Lit ''sk-'', Run (alnum_or ''_-'') 20 None]"

definition github_token :: re where
  "github_token = seq [Lit ''gh'', Cls (c_in ''pousr''), Lit ''_'', Run is_alnum 20 None]"

definition slack_token :: re where
  "slack_token = seq [Lit ''xox'', Cls (c_in ''baprs''), Lit ''-'', Run (alnum_or ''-'') 10 None]"

definition aws_key_id :: re where
  "aws_key_id = seq [Lit ''AKIA'', Run (\<lambda>c. is_digit c \<or> is_upper c) 16 (Some 16)]"

definition private_key_header :: re where
  "private_key_header = seq [Lit ''-----BEGIN '',
     Opt (Alt (Lit ''RSA '') (Alt (Lit ''EC '') (Lit ''OPENSSH ''))), Lit ''PRIVATE KEY-----'']"

definition bearer_token :: re where
  "bearer_token = seq [Cls (fold_case CHR ''b''), Cls (fold_case CHR ''e''),
     Cls (fold_case CHR ''a''), Cls (fold_case CHR ''r''), Cls (fold_case CHR ''e''),
     Cls (fold_case CHR ''r''), Run re_space 1 None, Run (alnum_or ''._~+/=-'') 10 None]"

definition secret_patterns :: "re list" where
  "secret_patterns = [openai_key, github_token, slack_token, aws_key_id, private_key_header,
     bearer_token]"

lemmas pattern_defs = openai_key_def github_token_def slack_token_def aws_key_id_def
  private_key_header_def bearer_token_def

definition redact_string :: "string \<Rightarrow> string" where
  "redact_string s = foldl (\<lambda>t p. replace_all p t) s secret_patterns"

definition redact_slice :: "string list \<Rightarrow> string list" where
  "redact_slice xs = map redact_string xs"

text \<open>\<open>internal/config/secret.go\<close>: a text carries a secret shape when redaction changes it.\<close>

definition contains_secret_shape :: "string \<Rightarrow> bool" where
  "contains_secret_shape s \<longleftrightarrow> redact_string s \<noteq> s"

lemma pattern_shape: "p \<in> set secret_patterns \<Longrightarrow> shape p"
  by (rule shapeI) (auto simp: secret_patterns_def pattern_defs class_defs)

lemma pattern_clean_body: "p \<in> set secret_patterns \<Longrightarrow> clean p redacted_body"
  by (rule clean_by_suffixes)
    (auto simp: secret_patterns_def pattern_defs class_defs redacted_body_def run_lengths_def
      has_prefix_def)

lemma foldl_replace_clean:
  assumes "set ps \<subseteq> set secret_patterns" and "p \<in> set secret_patterns"
    and "p \<in> set ps \<or> clean p s"
  shows "clean p (foldl (\<lambda>t q. replace_all q t) s ps)"
  using assms
proof (induction ps arbitrary: s)
  case (Cons q ps)
  have "clean p (replace_all q s)" if "p = q \<or> clean p s"
    using that Cons.prems(2)
    by (auto intro: replace_all_clean replace_all_clean_other pattern_shape pattern_clean_body)
  then show ?case using Cons by auto
qed simp

lemma redact_string_clean: "p \<in> set secret_patterns \<Longrightarrow> clean p (redact_string s)"
  unfolding redact_string_def by (rule foldl_replace_clean) auto

lemma redact_string_id: "(\<And>p. p \<in> set secret_patterns \<Longrightarrow> clean p s) \<Longrightarrow> redact_string s = s"
proof -
  assume *: "\<And>p. p \<in> set secret_patterns \<Longrightarrow> clean p s"
  have "foldl (\<lambda>t q. replace_all q t) s ps = s" if "set ps \<subseteq> set secret_patterns" for ps
    using that * by (induction ps) (auto simp: replace_all_id)
  then show ?thesis by (simp add: redact_string_def)
qed

lemma redact_string_idem [simp]: "redact_string (redact_string s) = redact_string s"
  by (rule redact_string_id) (rule redact_string_clean)

lemma not_secret_shape_iff:
  "\<not> contains_secret_shape s \<longleftrightarrow> (\<forall>p \<in> set secret_patterns. clean p s)"
  unfolding contains_secret_shape_def by (metis redact_string_clean redact_string_id)

end
