(* ===== verification/Config.thy ===== *)
theory Config
  imports Redact
begin

text \<open>
  The config document and the project registry inside it: \<open>internal/config/config.go\<close>,
  \<open>projects.go\<close> and the semantic half of \<open>file.go\<close> (\<open>File\<close>, \<open>Validate\<close> and the field checks).
  Go errors are values here: a check returns \<open>None\<close> for a nil error, a value operation an error or
  the new document. An error is the rule that was broken, not its message; the three sentinels the
  layers above compare against with \<open>errors.Is\<close> are constructors, so \<open>redactErr\<close>, which rewrites a
  message, has nothing to act on here.
\<close>

section \<open>Settings\<close>

text \<open>\<open>time.Duration\<close> is a count of nanoseconds.\<close>

definition second :: int where "second = 1000000000"
definition MaxTimeout :: int where "MaxTimeout = 600 * second"

datatype settings_err = TimeoutNotPositive | TimeoutOverMaximum

definition settings_validate :: "int \<Rightarrow> settings_err option" where
  "settings_validate timeout =
     (if timeout \<le> 0 then Some TimeoutNotPositive
      else if timeout > MaxTimeout then Some TimeoutOverMaximum
      else None)"

section \<open>Documents\<close>

record project =
  ID :: string
  DisplayName :: string
  Remote :: string

record config_file =
  SchemaVersion :: string
  Timeout :: int
  Backend :: string
  OperatorKey :: string
  Projects :: "project list"

definition ConfigSchemaVersion :: string where "ConfigSchemaVersion = ''4''"

definition readable_schema_version :: "string \<Rightarrow> bool" where
  "readable_schema_version v \<longleftrightarrow> v \<in> set [''2'', ''3'', ''4'']"

datatype remote_err =
    RemoteTooLong | RemoteNotUTF8 | RemoteSecret | RemoteControl | RemotePercent | RemoteDash
  | RemoteURL | RemoteUser | RemoteHost | RemoteForm

datatype name_err =
    NameRequired | NameTooLong | NameNotUTF8 | NameSecret | NameControl | NameWhitespace

datatype id_err = IdRequired | IdTooLong | IdSecret | IdPattern

datatype key_err = KeyTooLong | KeyWhitespace | KeyControl

datatype config_err =
    ErrDuplicateProjectID string
  | ErrDuplicateRemote string
  | ErrProjectNotFound string
  | BadID id_err
  | BadDisplayName string name_err
  | BadRemote string remote_err
  | TooManyProjects
  | BadSchemaVersion string
  | BadBackend string
  | BadOperatorKey key_err
  | BadTimeout settings_err

section \<open>Patterns\<close>

definition maxProjects :: nat where "maxProjects = 64"
definition maxProjectIDLen :: nat where "maxProjectIDLen = 64"
definition maxDisplayNameLen :: nat where "maxDisplayNameLen = 64"
definition maxRemoteLen :: nat where "maxRemoteLen = 512"
definition maxOperatorKeyLen :: nat where "maxOperatorKeyLen = 256"

definition lower_digit :: "char \<Rightarrow> bool" where
  "lower_digit c \<longleftrightarrow> is_lower c \<or> is_digit c"

definition lower_digit_dash :: "char \<Rightarrow> bool" where
  "lower_digit_dash c \<longleftrightarrow> lower_digit c \<or> c = CHR ''-''"

definition slug :: "nat \<Rightarrow> re" where
  "slug inner = Seq (Cls lower_digit)
     (Opt (Seq (Run lower_digit_dash 0 (Some inner)) (Cls lower_digit)))"

definition projectIDPattern :: re where "projectIDPattern = slug 62"
definition backendNamePattern :: re where "backendNamePattern = slug 30"

definition remoteHostPattern :: re where
  "remoteHostPattern = Seq (Cls is_alnum)
     (Opt (Seq (Run (alnum_or ''.-'') 0 (Some 252)) (Cls is_alnum)))"

definition remoteUserPattern :: re where
  "remoteUserPattern = Run (alnum_or ''._-'') 1 (Some 64)"

definition remoteURLPathPattern :: re where
  "remoteURLPathPattern = Seq (Lit ''/'') (Run (alnum_or ''._~+/-'') 1 None)"

definition scpRemotePattern :: re where
  "scpRemotePattern = seq [
     Opt (Seq (Run (alnum_or ''._-'') 1 (Some 64)) (Lit ''@'')),
     Cls is_alnum, Run (alnum_or ''.-'') 0 (Some 252), Lit '':'',
     Cls (alnum_or ''._~+-''), Run (alnum_or ''._~+/-'') 0 None]"

definition remotePortPattern :: re where
  "remotePortPattern = Run is_digit 1 (Some 5)"

section \<open>Field checks\<close>

definition has_control_rune :: "string \<Rightarrow> bool" where
  "has_control_rune s \<longleftrightarrow> list_ex (\<lambda>r. is_control r \<or> r = rune_error) (runes s)"

definition validate_project_id :: "string \<Rightarrow> id_err option" where
  "validate_project_id pid =
     (if pid = [] then Some IdRequired
      else if length pid > maxProjectIDLen then Some IdTooLong
      else if contains_secret_shape pid then Some IdSecret
      else if \<not> full_match projectIDPattern pid then Some IdPattern
      else None)"

definition validate_display_name :: "string \<Rightarrow> name_err option" where
  "validate_display_name name =
     (if name = [] then Some NameRequired
      else if length name > maxDisplayNameLen then Some NameTooLong
      else if \<not> valid_utf8 name then Some NameNotUTF8
      else if contains_secret_shape name then Some NameSecret
      else if has_control_rune name then Some NameControl
      else if trim_space name \<noteq> name then Some NameWhitespace
      else None)"

text \<open>
  \<open>url.Parse\<close> on a text that starts with \<open>https://\<close> or \<open>ssh://\<close> and holds no percent sign, control
  character or space, as the caller has checked. Nothing is escaped, so every component is a piece
  of the text: the fragment after the first \<open>#\<close>, the query after the first \<open>?\<close> before it, the
  authority up to the first slash, the userinfo up to its last \<open>@\<close>.
\<close>

record url =
  u_scheme :: string
  u_query :: bool \<comment> \<open>\<open>ForceQuery\<close> or a non-empty \<open>RawQuery\<close>: a question mark was there\<close>
  u_fragment :: string
  u_user :: "string option" \<comment> \<open>the userinfo, \<open>None\<close> for a nil \<open>User\<close>\<close>
  u_hostport :: string
  u_path :: string

definition split_at :: "nat option \<Rightarrow> string \<Rightarrow> string \<times> string" where
  "split_at i s = (case i of None \<Rightarrow> (s, []) | Some k \<Rightarrow> (take k s, drop (Suc k) s))"

definition url_parse :: "string \<Rightarrow> url" where
  "url_parse raw = (let (u, frag) = split_at (index_of CHR ''#'' raw) raw;
       (rest, query) = split_at (index_of CHR ''?'' u) u;
       scheme = (if has_prefix rest ''https://'' then ''https'' else ''ssh'');
       after = drop (length scheme + 3) rest;
       slash = index_of CHR ''/'' after;
       authority = (case slash of None \<Rightarrow> after | Some i \<Rightarrow> take i after);
       path = (case slash of None \<Rightarrow> [] | Some i \<Rightarrow> drop i after);
       user_at = last_index_of CHR ''@'' authority
     in \<lparr>u_scheme = scheme, u_query = (CHR ''?'' \<in> set u), u_fragment = frag,
         u_user = map_option (\<lambda>i. take i authority) user_at,
         u_hostport = (case user_at of None \<Rightarrow> authority | Some i \<Rightarrow> drop (Suc i) authority),
         u_path = path\<rparr>)"

text \<open>
  \<open>Hostname()\<close> and \<open>Port()\<close>: the port is what follows the last colon, when it is all digits. A host
  that \<open>url.Parse\<close> itself refuses (a bad port, a bracket that is no IPv6 literal, a character a
  host may not hold) and one \<open>remoteHostPattern\<close> refuses are both refusals of the whole remote;
  an accepted IPv6 literal reads back with its colons, which the pattern refuses too.
\<close>

definition host_and_port :: "string \<Rightarrow> string \<times> string" where
  "host_and_port hp = (case last_index_of CHR '':'' hp of
       None \<Rightarrow> (hp, [])
     | Some i \<Rightarrow> if list_all is_digit (drop (Suc i) hp) then (take i hp, drop (Suc i) hp)
                 else (hp, []))"

definition validate_user :: "url \<Rightarrow> bool" where
  "validate_user u = (case u_user u of None \<Rightarrow> True
     | Some info \<Rightarrow> u_scheme u \<noteq> ''https'' \<and> CHR '':'' \<notin> set info \<and>
         full_match remoteUserPattern info)"

definition validate_remote_url :: "string \<Rightarrow> bool" where
  "validate_remote_url remote = (let u = url_parse remote; (host, port) = host_and_port (u_hostport u) in
     \<not> u_query u \<and> u_fragment u = [] \<and> validate_user u \<and>
     full_match remoteHostPattern host \<and>
     (port = [] \<or> full_match remotePortPattern port) \<and>
     full_match remoteURLPathPattern (u_path u))"

text \<open>
  The groups of \<open>scpRemotePattern\<close>: neither a user nor a host can hold an \<open>@\<close> or a colon, so in a
  text that matches, the user ends at the first \<open>@\<close> before the first colon and the host at that colon.
\<close>

definition scp_groups :: "string \<Rightarrow> string \<times> string" where
  "scp_groups remote = (let (authority, _) = split_at (index_of CHR '':'' remote) remote in
     case index_of CHR ''@'' authority of
       None \<Rightarrow> ([], authority)
     | Some i \<Rightarrow> (take i authority, drop (Suc i) authority))"

definition validate_remote :: "string \<Rightarrow> remote_err option" where
  "validate_remote remote =
     (if remote = [] then None
      else if length remote > maxRemoteLen then Some RemoteTooLong
      else if \<not> valid_utf8 remote then Some RemoteNotUTF8
      else if contains_secret_shape remote then Some RemoteSecret
      else if has_control_rune remote \<or> contains_any remote [CHR '' '', CHR 0x09] then Some RemoteControl
      else if CHR ''%'' \<in> set remote then Some RemotePercent
      else if has_prefix remote ''-'' then Some RemoteDash
      else if has_prefix remote ''https://'' \<or> has_prefix remote ''ssh://'' then
        (if validate_remote_url remote then None else Some RemoteURL)
      else if full_match scpRemotePattern remote then
        (let (user, host) = scp_groups remote in
         if user \<noteq> [] \<and> \<not> full_match remoteUserPattern user then Some RemoteUser
         else if \<not> full_match remoteHostPattern host then Some RemoteHost
         else None)
      else Some RemoteForm)"

definition project_validate :: "project \<Rightarrow> config_err option" where
  "project_validate p = (case validate_project_id (ID p) of
       Some e \<Rightarrow> Some (BadID e)
     | None \<Rightarrow> (case validate_display_name (DisplayName p) of
         Some e \<Rightarrow> Some (BadDisplayName (ID p) e)
       | None \<Rightarrow> map_option (BadRemote (ID p)) (validate_remote (Remote p))))"

text \<open>The loop of \<open>validateProjects\<close>, with the set of IDs it has seen.\<close>

fun validate_entries :: "string set \<Rightarrow> project list \<Rightarrow> config_err option" where
  "validate_entries seen [] = None"
| "validate_entries seen (p # ps) = (case project_validate p of
       Some e \<Rightarrow> Some e
     | None \<Rightarrow> if ID p \<in> seen then Some (ErrDuplicateProjectID (ID p))
               else validate_entries (insert (ID p) seen) ps)"

definition validate_projects :: "project list \<Rightarrow> config_err option" where
  "validate_projects ps =
     (if length ps > maxProjects then Some TooManyProjects else validate_entries {} ps)"

definition validate_operator_key :: "string \<Rightarrow> key_err option" where
  "validate_operator_key key =
     (if key = [] then None
      else if length key > maxOperatorKeyLen then Some KeyTooLong
      else if trim_space key \<noteq> key then Some KeyWhitespace
      else if list_ex (\<lambda>r. r < 0x20 \<or> r = 0x7F) (runes key) then Some KeyControl
      else None)"

definition file_validate :: "config_file \<Rightarrow> config_err option" where
  "file_validate f =
     (if \<not> readable_schema_version (SchemaVersion f) then Some (BadSchemaVersion (SchemaVersion f))
      else if Backend f \<noteq> [] \<and> \<not> full_match backendNamePattern (Backend f) then
        Some (BadBackend (Backend f))
      else (case validate_operator_key (OperatorKey f) of
          Some e \<Rightarrow> Some (BadOperatorKey e)
        | None \<Rightarrow> (case (if Timeout f \<noteq> 0 then settings_validate (Timeout f) else None) of
            Some e \<Rightarrow> Some (BadTimeout e)
          | None \<Rightarrow> validate_projects (Projects f))))"

section \<open>Value operations on the registry\<close>

record add_options =
  AllowDuplicateRemote :: bool

text \<open>The scan \<open>WithProject\<close> makes over the registered entries before it appends one.\<close>

fun add_conflict :: "add_options \<Rightarrow> project \<Rightarrow> project list \<Rightarrow> config_err option" where
  "add_conflict opts p [] = None"
| "add_conflict opts p (e # es) =
     (if ID e = ID p then Some (ErrDuplicateProjectID (ID p))
      else if \<not> AllowDuplicateRemote opts \<and> Remote p \<noteq> [] \<and> Remote e = Remote p then
        Some (ErrDuplicateRemote (ID e))
      else add_conflict opts p es)"

definition with_project :: "config_file \<Rightarrow> project \<Rightarrow> add_options \<Rightarrow> config_err + config_file" where
  "with_project f p opts = (case project_validate p of
       Some e \<Rightarrow> Inl e
     | None \<Rightarrow> (case add_conflict opts p (Projects f) of
         Some e \<Rightarrow> Inl e
       | None \<Rightarrow> (let out = f\<lparr>SchemaVersion := ConfigSchemaVersion, Projects := Projects f @ [p]\<rparr> in
           case file_validate out of Some e \<Rightarrow> Inl e | None \<Rightarrow> Inr out)))"

text \<open>The loop of \<open>WithUpdatedRemote\<close>: the entries rebuilt so far and whether the ID was found.\<close>

fun update_remote :: "string \<Rightarrow> string \<Rightarrow> add_options \<Rightarrow> project list \<Rightarrow>
    config_err + (project list \<times> bool)" where
  "update_remote pid remote opts [] = Inr ([], False)"
| "update_remote pid remote opts (p # ps) =
     (if ID p \<noteq> pid then
        (if \<not> AllowDuplicateRemote opts \<and> remote \<noteq> [] \<and> Remote p = remote then
           Inl (ErrDuplicateRemote (ID p))
         else map_sum id (\<lambda>(us, found). (p # us, found)) (update_remote pid remote opts ps))
      else (case project_validate (p\<lparr>Remote := remote\<rparr>) of
          Some e \<Rightarrow> Inl e
        | None \<Rightarrow> map_sum id (\<lambda>(us, _). (p\<lparr>Remote := remote\<rparr> # us, True))
                    (update_remote pid remote opts ps)))"

definition with_updated_remote :: "config_file \<Rightarrow> string \<Rightarrow> string \<Rightarrow> add_options \<Rightarrow> config_err + config_file" where
  "with_updated_remote f pid remote opts = (case update_remote pid remote opts (Projects f) of
       Inl e \<Rightarrow> Inl e
     | Inr (updated, found) \<Rightarrow>
         (if \<not> found then Inl (ErrProjectNotFound pid)
          else (let out = f\<lparr>SchemaVersion := ConfigSchemaVersion, Projects := updated\<rparr> in
            case file_validate out of Some e \<Rightarrow> Inl e | None \<Rightarrow> Inr out)))"

definition without_project :: "config_file \<Rightarrow> string \<Rightarrow> config_err + config_file" where
  "without_project f pid =
     (let kept = filter (\<lambda>p. ID p \<noteq> pid) (Projects f); found = list_ex (\<lambda>p. ID p = pid) (Projects f) in
      if \<not> found then Inl (ErrProjectNotFound pid)
      else (let out = f\<lparr>SchemaVersion := ConfigSchemaVersion, Projects := kept\<rparr> in
        case file_validate out of Some e \<Rightarrow> Inl e | None \<Rightarrow> Inr out))"

end
