(* ===== verification/Config_Facts.thy ===== *)
theory Config_Facts
  imports Config
begin

text \<open>
  What the checks and value operations of \<open>Config\<close> guarantee: the shape of an accepted ID and an
  accepted remote, the meaning of a validated document, and the registry seen as a finite map. The
  locale \<open>registry_doc\<close> is the contract the project manager relies on when it looks an entry up
  after an addition or a removal; it is interpreted on the model's own operations.
\<close>

named_theorems config_unfold \<open>the checks a validated document has passed\<close>

section \<open>Validated documents\<close>

lemma validate_entries_None:
  "validate_entries seen ps = None \<longleftrightarrow>
     list_all (\<lambda>p. project_validate p = None) ps \<and> distinct (map ID ps) \<and> set (map ID ps) \<inter> seen = {}"
  by (induction ps arbitrary: seen) (auto split: option.splits)

lemma validate_projects_None [config_unfold]:
  "validate_projects ps = None \<longleftrightarrow>
     length ps \<le> maxProjects \<and> list_all (\<lambda>p. project_validate p = None) ps \<and> distinct (map ID ps)"
  by (auto simp: validate_projects_def validate_entries_None)

definition header_ok :: "config_file \<Rightarrow> bool" where
  "header_ok f \<longleftrightarrow> (Backend f = [] \<or> full_match backendNamePattern (Backend f)) \<and>
     validate_operator_key (OperatorKey f) = None \<and>
     (Timeout f = 0 \<or> settings_validate (Timeout f) = None)"

lemma file_validate_None [config_unfold]:
  "file_validate f = None \<longleftrightarrow> readable_schema_version (SchemaVersion f) \<and> header_ok f \<and>
     validate_projects (Projects f) = None"
  by (auto simp: file_validate_def header_ok_def split: option.splits)

lemma header_ok_update [simp]:
  "header_ok (f\<lparr>SchemaVersion := v, Projects := ps\<rparr>) = header_ok f"
  by (simp add: header_ok_def)

lemma current_version_readable [simp]: "readable_schema_version ConfigSchemaVersion"
  by (simp add: readable_schema_version_def ConfigSchemaVersion_def)

text \<open>The policy window of a timeout: positive and at most ten minutes.\<close>

lemma settings_validate_None: "settings_validate t = None \<longleftrightarrow> 0 < t \<and> t \<le> MaxTimeout"
  by (auto simp: settings_validate_def)

section \<open>Accepted IDs\<close>

lemma slug_lang:
  "s \<in> lang (slug n) \<longleftrightarrow> s \<noteq> [] \<and> length s \<le> n + 2 \<and> list_all lower_digit_dash s \<and>
     lower_digit (hd s) \<and> lower_digit (last s)"
proof
  assume "s \<in> lang (slug n)"
  then show "s \<noteq> [] \<and> length s \<le> n + 2 \<and> list_all lower_digit_dash s \<and>
      lower_digit (hd s) \<and> lower_digit (last s)"
    by (auto simp: slug_def lower_digit_dash_def list_all_iff)
next
  assume *: "s \<noteq> [] \<and> length s \<le> n + 2 \<and> list_all lower_digit_dash s \<and>
    lower_digit (hd s) \<and> lower_digit (last s)"
  then obtain c t where s: "s = c # t" by (cases s) auto
  show "s \<in> lang (slug n)"
  proof (cases t rule: rev_cases)
    case Nil
    then show ?thesis using * s by (auto simp: slug_def)
  next
    case (snoc u d)
    have "[c] \<in> lang (Cls lower_digit)" "u \<in> lang (Run lower_digit_dash 0 (Some n))"
      "[d] \<in> lang (Cls lower_digit)"
      using * s snoc by auto
    moreover have "s = [c] @ (u @ [d])" using s snoc by simp
    ultimately show ?thesis unfolding slug_def lang.simps by blast
  qed
qed

lemma validate_project_id_None:
  "validate_project_id pid = None \<longleftrightarrow> pid \<noteq> [] \<and> length pid \<le> 64 \<and> list_all lower_digit_dash pid \<and>
     lower_digit (hd pid) \<and> lower_digit (last pid) \<and> \<not> contains_secret_shape pid"
  unfolding validate_project_id_def projectIDPattern_def full_match_lang slug_lang maxProjectIDLen_def
  by auto

lemma lower_digit_dash_not:
  "lower_digit_dash c \<Longrightarrow> c \<notin> {CHR ''/'', CHR ''.'', CHR ''@'', CHR '':'', CHR '' '', CHR 0x5C}"
  by (auto simp: lower_digit_dash_def lower_digit_def char_class_defs)

lemma valid_id_chars:
  "validate_project_id pid = None \<Longrightarrow> c \<in> {CHR ''/'', CHR ''.'', CHR ''@'', CHR '':'', CHR '' '', CHR 0x5C}
     \<Longrightarrow> c \<notin> set pid"
  using lower_digit_dash_not by (fastforce simp: validate_project_id_None list_all_iff)

lemma project_validate_None [config_unfold]:
  "project_validate p = None \<longleftrightarrow> validate_project_id (ID p) = None \<and>
     validate_display_name (DisplayName p) = None \<and> validate_remote (Remote p) = None"
  by (auto simp: project_validate_def split: option.splits)

section \<open>The value operations\<close>

lemma add_conflict_None:
  "add_conflict opts p es = None \<longleftrightarrow> ID p \<notin> set (map ID es) \<and>
     (AllowDuplicateRemote opts \<or> Remote p = [] \<or> Remote p \<notin> set (map Remote es))"
  by (induction es) auto

lemma with_project_Inr:
  "with_project f p opts = Inr g \<longleftrightarrow>
     g = f\<lparr>SchemaVersion := ConfigSchemaVersion, Projects := Projects f @ [p]\<rparr> \<and>
     project_validate p = None \<and> add_conflict opts p (Projects f) = None \<and> file_validate g = None"
  by (auto simp: with_project_def Let_def split: option.splits)

lemma without_project_Inr:
  "without_project f pid = Inr g \<longleftrightarrow>
     g = f\<lparr>SchemaVersion := ConfigSchemaVersion, Projects := filter (\<lambda>p. ID p \<noteq> pid) (Projects f)\<rparr> \<and>
     pid \<in> set (map ID (Projects f)) \<and> file_validate g = None"
  by (auto simp: without_project_def Let_def list_ex_iff split: option.splits)

definition set_remote :: "string \<Rightarrow> string \<Rightarrow> project \<Rightarrow> project" where
  "set_remote pid remote p = (if ID p = pid then p\<lparr>Remote := remote\<rparr> else p)"

lemma set_remote_ID [simp]: "ID (set_remote pid remote p) = ID p"
  by (simp add: set_remote_def)

lemma set_remote_DisplayName [simp]: "DisplayName (set_remote pid remote p) = DisplayName p"
  by (simp add: set_remote_def)

lemma update_remote_Inr:
  "update_remote pid remote opts ps = Inr (us, found) \<longleftrightarrow>
     us = map (set_remote pid remote) ps \<and> (found \<longleftrightarrow> pid \<in> set (map ID ps)) \<and>
     list_all (\<lambda>p. ID p = pid \<longrightarrow> project_validate (p\<lparr>Remote := remote\<rparr>) = None) ps \<and>
     (AllowDuplicateRemote opts \<or> remote = [] \<or>
        list_all (\<lambda>p. ID p = pid \<or> Remote p \<noteq> remote) ps)"
proof (induction ps arbitrary: us found)
  case (Cons p ps)
  show ?case
  proof (cases "update_remote pid remote opts ps")
    case (Inl e)
    then have "\<not> (list_all (\<lambda>p. ID p = pid \<longrightarrow> project_validate (p\<lparr>Remote := remote\<rparr>) = None) ps \<and>
        (AllowDuplicateRemote opts \<or> remote = [] \<or>
          list_all (\<lambda>p. ID p = pid \<or> Remote p \<noteq> remote) ps))"
      using Cons.IH [of "map (set_remote pid remote) ps" "pid \<in> set (map ID ps)"] by auto
    then show ?thesis using Inl by (auto split: option.splits)
  next
    case (Inr r)
    then obtain vs fnd where "update_remote pid remote opts ps = Inr (vs, fnd)" by (cases r) auto
    then show ?thesis
      using Cons.IH [of vs fnd] by (auto simp: set_remote_def split: option.splits)
  qed
qed auto

lemma with_updated_remote_Inr:
  "with_updated_remote f pid remote opts = Inr g \<longleftrightarrow>
     update_remote pid remote opts (Projects f) = Inr (map (set_remote pid remote) (Projects f), True) \<and>
     g = f\<lparr>SchemaVersion := ConfigSchemaVersion,
           Projects := map (set_remote pid remote) (Projects f)\<rparr> \<and>
     file_validate g = None"
proof (cases "update_remote pid remote opts (Projects f)")
  case (Inr r)
  then obtain us found where u: "update_remote pid remote opts (Projects f) = Inr (us, found)"
    by (cases r) auto
  then have "us = map (set_remote pid remote) (Projects f)" using update_remote_Inr by metis
  then show ?thesis using u by (auto simp: with_updated_remote_def Let_def split: option.splits)
qed (simp add: with_updated_remote_def)

text \<open>Distinct remotes among the entries that have one: the rule of strict addition.\<close>

definition remotes_distinct :: "project list \<Rightarrow> bool" where
  "remotes_distinct ps \<longleftrightarrow> distinct (filter (\<lambda>r. r \<noteq> []) (map Remote ps))"

lemma remotes_distinct_snoc:
  "remotes_distinct (ps @ [p]) \<longleftrightarrow>
     remotes_distinct ps \<and> (Remote p = [] \<or> Remote p \<notin> set (map Remote ps))"
  by (auto simp: remotes_distinct_def)

lemma set_remote_other: "ID p \<noteq> pid \<Longrightarrow> set_remote pid remote p = p"
  by (simp add: set_remote_def)

lemma map_set_remote_other: "pid \<notin> set (map ID ps) \<Longrightarrow> map (set_remote pid remote) ps = ps"
  by (induction ps) (auto simp: set_remote_def)

lemma remotes_distinct_set_remote:
  assumes "remotes_distinct ps" and "distinct (map ID ps)"
    and "remote = [] \<or> list_all (\<lambda>p. ID p = pid \<or> Remote p \<noteq> remote) ps"
  shows "remotes_distinct (map (set_remote pid remote) ps)"
  using assms
proof (induction ps)
  case (Cons p ps)
  note IH = Cons.IH and prems = Cons.prems
  have rest: "remotes_distinct ps" "distinct (map ID ps)"
    "remote = [] \<or> list_all (\<lambda>p. ID p = pid \<or> Remote p \<noteq> remote) ps"
    using prems by (auto simp: remotes_distinct_def split: if_splits)
  show ?case
  proof (cases "ID p = pid")
    case True
    then have same: "map (set_remote pid remote) ps = ps"
      using prems(2) by (intro map_set_remote_other) auto
    have "pid \<notin> ID ` set ps" using prems(2) True by auto
    then have "\<And>q. q \<in> set ps \<Longrightarrow> ID q \<noteq> pid" by (metis image_eqI)
    then have "remote = [] \<or> remote \<notin> set (map Remote ps)"
      using rest(3) by (fastforce simp: list_all_iff)
    moreover have "Remote (set_remote pid remote p) = remote"
      using True by (simp add: set_remote_def)
    ultimately show ?thesis
      using rest(1) unfolding remotes_distinct_def list.map(2) same by auto
  next
    case False
    have "Remote p \<notin> set (map Remote (map (set_remote pid remote) ps))" if "Remote p \<noteq> []"
      using that prems(1,3) False
      by (auto simp: remotes_distinct_def set_remote_def split: if_splits)
    then show ?thesis
      using IH [OF rest] False by (auto simp: remotes_distinct_def set_remote_other)
  qed
qed (simp add: remotes_distinct_def)

section \<open>The registry as a map\<close>

text \<open>\<open>findProject\<close> of \<open>internal/projects/manager.go\<close>.\<close>

fun find_project :: "project list \<Rightarrow> string \<Rightarrow> project option" where
  "find_project [] pid = None"
| "find_project (p # ps) pid = (if ID p = pid then Some p else find_project ps pid)"

lemma find_project_None: "find_project ps pid = None \<longleftrightarrow> pid \<notin> set (map ID ps)"
  by (induction ps) auto

lemma find_project_notin [simp]: "pid \<notin> ID ` set ps \<Longrightarrow> find_project ps pid = None"
  by (simp add: find_project_None)

lemma find_project_Some: "find_project ps pid = Some p \<Longrightarrow> p \<in> set ps \<and> ID p = pid"
  by (induction ps) (auto split: if_splits)

lemma find_project_append:
  "find_project (ps @ qs) pid =
     (case find_project ps pid of Some p \<Rightarrow> Some p | None \<Rightarrow> find_project qs pid)"
  by (induction ps) auto

lemma find_project_filter:
  "find_project (filter (\<lambda>p. ID p \<noteq> pid) ps) k = (if k = pid then None else find_project ps k)"
  by (induction ps) auto

lemma find_project_set_remote:
  "find_project (map (set_remote pid remote) ps) k = map_option (set_remote pid remote) (find_project ps k)"
  by (induction ps) auto

locale registry_doc =
  fixes find :: "'doc \<Rightarrow> string \<Rightarrow> 'entry option"
    and add :: "'doc \<Rightarrow> 'entry \<Rightarrow> 'err + 'doc"
    and remove :: "'doc \<Rightarrow> string \<Rightarrow> 'err + 'doc"
    and key :: "'entry \<Rightarrow> string"
    and valid :: "'doc \<Rightarrow> bool"
  assumes add_fresh: "add d e = Inr d' \<Longrightarrow> find d (key e) = None"
    and add_find: "add d e = Inr d' \<Longrightarrow> find d' k = (if k = key e then Some e else find d k)"
    and add_valid: "add d e = Inr d' \<Longrightarrow> valid d'"
    and remove_present: "remove d k = Inr d' \<Longrightarrow> find d k \<noteq> None"
    and remove_find: "remove d k = Inr d' \<Longrightarrow> find d' j = (if j = k then None else find d j)"
    and remove_valid: "remove d k = Inr d' \<Longrightarrow> valid d'"
begin

lemma added: "add d e = Inr d' \<Longrightarrow> find d' (key e) = Some e"
  by (simp add: add_find)

lemma readd_fails: "add d e = Inr d' \<Longrightarrow> key e' = key e \<Longrightarrow> \<exists>err. add d' e' = Inl err"
  using add_fresh added by (cases "add d' e'") (metis, metis option.distinct(1))

lemma removed_gone: "remove d k = Inr d' \<Longrightarrow> \<exists>err. remove d' k = Inl err"
  using remove_present remove_find by (cases "remove d' k") (metis, metis)

lemma add_remove_find:
  assumes "add d e = Inr d'" and "remove d' (key e) = Inr d''"
  shows "find d'' k = find d k"
  using remove_find [OF assms(2), of k] add_find [OF assms(1), of k] add_fresh [OF assms(1)]
  by (cases "k = key e") simp_all

end

interpretation reg: registry_doc "\<lambda>f. find_project (Projects f)" "\<lambda>f p. with_project f p opts"
  without_project ID "\<lambda>f. file_validate f = None" for opts
  by unfold_locales
    (auto simp: with_project_Inr without_project_Inr add_conflict_None find_project_append
      find_project_filter find_project_None dest: find_project_Some split: option.splits)

section \<open>Accepted remotes\<close>

lemma lang_class_list_all:
  "full_match (Run p lo hi) s \<Longrightarrow> list_all p s"
  by (simp add: full_match_lang)

lemma index_of_takeWhile:
  "index_of d s = (if d \<in> set s then Some (length (takeWhile (\<lambda>c. c \<noteq> d) s)) else None)"
  by (induction s) auto

lemma take_takeWhile_length [simp]: "take (length (takeWhile p s)) s = takeWhile p s"
  by (metis takeWhile_eq_take)

lemma split_at_index:
  "split_at (index_of d s) s = (takeWhile (\<lambda>c. c \<noteq> d) s, drop (Suc (length (takeWhile (\<lambda>c. c \<noteq> d) s))) s)"
proof (cases "d \<in> set s")
  case False
  then have tw: "takeWhile (\<lambda>c. c \<noteq> d) s = s" by (auto simp: takeWhile_eq_all_conv)
  show ?thesis using False by (simp add: split_at_def index_of_takeWhile tw)
qed (simp add: split_at_def index_of_takeWhile)

end
