(* ===== verification/Projects.thy ===== *)
theory Projects
  imports Config_Facts
begin

text \<open>
  The pure half of \<open>internal/projects\<close>: the derived workspace path, the checkout status with its
  issues (\<open>projects.go\<close>), the error kinds (\<open>errors.go\<close>), the reduction of a remote to a transport
  and a host (\<open>remoteaccess.go\<close>), and the checks of \<open>manager.go\<close> that look at values only.
\<close>

section \<open>Lexical paths\<close>

text \<open>Go's \<open>path.Clean\<close>, \<open>path.Dir\<close> and \<open>path.Base\<close>; \<open>filepath\<close> is the same on the supported hosts.\<close>

fun clean_step :: "bool \<Rightarrow> string list \<Rightarrow> string list \<Rightarrow> string list" where
  "clean_step rooted out [] = out"
| "clean_step rooted out (c # cs) =
     (if c = [] \<or> c = ''.'' then clean_step rooted out cs
      else if c = ''..'' then
        (if out \<noteq> [] \<and> last out \<noteq> ''..'' then clean_step rooted (butlast out) cs
         else if rooted then clean_step rooted out cs
         else clean_step rooted (out @ [c]) cs)
      else clean_step rooted (out @ [c]) cs)"

definition path_clean :: "string \<Rightarrow> string" where
  "path_clean p = (let rooted = has_prefix p ''/'';
       out = clean_step rooted [] (split_on CHR ''/'' p) in
     if rooted then CHR ''/'' # join ''/'' out
     else if out = [] then ''.'' else join ''/'' out)"

definition path_dir :: "string \<Rightarrow> string" where
  "path_dir p = (case last_index_of CHR ''/'' p of
     None \<Rightarrow> ''.'' | Some i \<Rightarrow> path_clean (take (Suc i) p))"

definition path_base :: "string \<Rightarrow> string" where
  "path_base p = (let q = rev (dropWhile (\<lambda>c. c = CHR ''/'') (rev p)) in
     if p = [] then ''.'' else if q = [] then ''/''
     else rev (takeWhile (\<lambda>c. c \<noteq> CHR ''/'') (rev q)))"

section \<open>The derived workspace path\<close>

text \<open>\<open>derivePath\<close>: \<open>None\<close> is \<open>errInvalidID\<close>.\<close>

definition derive_path :: "string \<Rightarrow> string \<Rightarrow> string option" where
  "derive_path workspaceRoot pid =
     (if pid = [] \<or> workspaceRoot = [] then None
      else (let p = workspaceRoot @ ''/'' @ pid in
        if p \<noteq> path_clean p \<or> path_dir p \<noteq> workspaceRoot \<or> path_base p \<noteq> pid then None
        else if contains_any pid [CHR ''/'', CHR 0x5C] \<or> pid = ''.'' \<or> pid = ''..'' then None
        else Some p))"

text \<open>\<open>projects.Project\<close>, the reported form of a registry entry, and \<open>view\<close>.\<close>

record view_project =
  view_ID :: string
  view_DisplayName :: string
  view_Remote :: string
  view_Path :: string

definition view :: "project \<Rightarrow> string \<Rightarrow> view_project" where
  "view p workspacePath = \<lparr>view_ID = ID p, view_DisplayName = DisplayName p,
     view_Remote = Remote p, view_Path = workspacePath\<rparr>"

text \<open>\<open>validateProject\<close>: the config layer's validators over a one-entry document.\<close>

definition validate_project :: "project \<Rightarrow> config_err option" where
  "validate_project p = file_validate \<lparr>SchemaVersion = ConfigSchemaVersion, Timeout = 0,
     Backend = [], OperatorKey = [], Projects = [p]\<rparr>"

section \<open>Checkout status\<close>

record CheckoutStatus =
  PathExists :: bool
  Symlink :: bool
  Directory :: bool
  Repository :: bool
  OriginMatches :: bool
  HasOrigin :: bool
  FullClone :: bool
  Clean :: bool
  NoCredentialHelper :: bool
  Owner :: string
  Group :: string
  Mode :: string
  SharedPermissions :: bool

definition no_status :: CheckoutStatus where
  "no_status = \<lparr>PathExists = False, Symlink = False, Directory = False, Repository = False,
     OriginMatches = False, HasOrigin = False, FullClone = False, Clean = False,
     NoCredentialHelper = False, Owner = [], Group = [], Mode = [], SharedPermissions = False\<rparr>"

definition compliant :: "CheckoutStatus \<Rightarrow> bool" where
  "compliant c \<longleftrightarrow> PathExists c \<and> \<not> Symlink c \<and> Directory c \<and> Repository c \<and>
     OriginMatches c \<and> FullClone c \<and> Clean c \<and> NoCredentialHelper c \<and> SharedPermissions c"

definition issueCheckoutAbsent :: string where "issueCheckoutAbsent = ''checkout_absent''"

definition issue :: "bool \<Rightarrow> string \<Rightarrow> string list" where
  "issue b marker = (if b then [] else [marker])"

definition issues :: "CheckoutStatus \<Rightarrow> string list" where
  "issues c =
     (if Symlink c then [''path_is_symlink'']
      else if \<not> PathExists c then [issueCheckoutAbsent]
      else if \<not> Directory c then [''path_is_not_a_directory''] else []) @
     (if PathExists c \<and> \<not> Symlink c \<and> Directory c then
        issue (Repository c) ''not_a_git_repository'' @
        issue (OriginMatches c) ''origin_mismatch'' @
        issue (FullClone c) ''shallow_clone'' @
        issue (Clean c) ''worktree_dirty'' @
        issue (NoCredentialHelper c) ''repo_local_credential_helper'' @
        issue (SharedPermissions c) ''shared_permissions_missing''
      else [])"

section \<open>Errors\<close>

datatype ErrorKind =
    KindInvalidConfig | KindConfigWrite | KindPrecondition | KindAuth | KindConflict
  | KindGuestCommand | KindGit | KindRegistration | KindNoRegistry | KindVerification
  | KindTransport | KindTimeout | KindCancelled

text \<open>What the guest transport can fail with, as far as \<open>fromGuestErr\<close> tells failures apart.\<close>

datatype guest_err = DeadlineExceeded | Canceled | TransportFailure

text \<open>
  What the registry can fail with: a rule of the config layer, a document that could not be read
  or written, or \<open>persist\<close>'s own refusal of an entry registered with different details.
\<close>

datatype registry_err = DocErr config_err | DocIO

text \<open>The wrapped cause of an error, one constructor per message of the source.\<close>

datatype cause =
    CConfig config_err
  | CRegistry registry_err
  | CGuest guest_err
  | CTruncated
  | CExit int
  | CHostIO
  | CInvalidPath
  | CDisplayNameDash
  | CTwoSources
  | CDifferentDetails
  | CPathIsSymlink
  | CPathNotDirectory
  | CNotCompliant
  | CNotFound string
  | CNoOperatorUser
  | CNotBootstrapped guest_err
  | CUnresolvedHost
  | CUnreadableRemote bool
  | CShallowUnknown
  | CNotRepository
  | COtherOrigin
  | CShallow
  | CDirty
  | CCredentialHelper
  | CSafeDirectory
  | CNotPublicKey
  | CNeedsSource
  | CRemoteRemoval
  | CNotRepointed
  | CSessionDrift
  | CNoAgentSocket
  | CAgentUnreachable
  | CAgentEmpty
  | CHasRemote
  | CNoCheckout
  | CUnexpectedOrigin
  | CNoStaging
  | CCarry
  | CRefUnreadable
  | CCountUnreadable
  | CLoginName
  | CBundlePath
  | CNoGit

datatype perr = PErr (perr_op: string) (perr_kind: ErrorKind) (perr_cause: cause)
  (perr_issues: "string list")

definition mk_err :: "string \<Rightarrow> ErrorKind \<Rightarrow> cause \<Rightarrow> perr" where
  "mk_err opn kind c = PErr opn kind c []"

fun from_guest_err :: "string \<Rightarrow> guest_err \<Rightarrow> perr" where
  "from_guest_err opn DeadlineExceeded = mk_err opn KindTimeout (CGuest DeadlineExceeded)"
| "from_guest_err opn Canceled = mk_err opn KindCancelled (CGuest Canceled)"
| "from_guest_err opn TransportFailure = mk_err opn KindTransport (CGuest TransportFailure)"

definition command_error :: "string \<Rightarrow> ErrorKind \<Rightarrow> int \<Rightarrow> perr" where
  "command_error opn kind exitCode = mk_err opn kind (CExit exitCode)"

definition is_checkout_absent_only :: "perr \<Rightarrow> bool" where
  "is_checkout_absent_only e \<longleftrightarrow>
     perr_kind e = KindVerification \<and> perr_issues e = [issueCheckoutAbsent]"

section \<open>Remotes as transports\<close>

datatype Transport = TransportSSH | TransportHTTPS | TransportOther

record RemoteAccess =
  Transport :: Transport
  Host :: string
  HostKnown :: bool

definition access :: "Transport \<Rightarrow> string \<Rightarrow> RemoteAccess" where
  "access t h = \<lparr>Transport = t, Host = h, HostKnown = False\<rparr>"

definition hostPattern :: re where
  "hostPattern = Seq (Cls is_alnum) (Opt (Seq (Run (alnum_or ''._-'') 0 (Some 253)) (Cls is_alnum)))"

definition is_digits :: "string \<Rightarrow> bool" where
  "is_digits s \<longleftrightarrow> s \<noteq> [] \<and> list_all is_digit s"

definition host_from_authority :: "string \<Rightarrow> string" where
  "host_from_authority authority =
     (let a1 = (case index_of CHR ''/'' authority of None \<Rightarrow> authority | Some i \<Rightarrow> take i authority);
          a2 = (case last_index_of CHR ''@'' a1 of None \<Rightarrow> a1 | Some i \<Rightarrow> drop (Suc i) a1) in
      if has_prefix a2 ''['' then []
      else (let a3 = (case last_index_of CHR '':'' a2 of None \<Rightarrow> a2
              | Some i \<Rightarrow> if is_digits (drop (Suc i) a2) then take i a2 else a2) in
        if full_match hostPattern a3 then a3 else []))"

definition classify_remote :: "string \<Rightarrow> RemoteAccess" where
  "classify_remote raw =
     (if raw = [] then access TransportOther []
      else (case cut ''://'' raw of
          Some (scheme, rest) \<Rightarrow>
            (if to_lower scheme = ''ssh'' then access TransportSSH (host_from_authority rest)
             else if to_lower scheme \<in> {''http'', ''https''} then access TransportHTTPS []
             else access TransportOther [])
        | None \<Rightarrow> (case index_of CHR '':'' raw of
            Some colon \<Rightarrow>
              (if colon > 0 \<and> (case index_of CHR ''/'' raw of None \<Rightarrow> True | Some slash \<Rightarrow> colon < slash)
               then access TransportSSH (host_from_authority (take colon raw))
               else access TransportOther [])
          | None \<Rightarrow> access TransportOther [])))"

section \<open>Checks on values\<close>

record AddRequest =
  req_ID :: string
  req_DisplayName :: string
  req_Remote :: string
  req_Local :: bool
  req_BundlePath :: string
  req_AllowDuplicateRemote :: bool

definition require_one_attach_source :: "AddRequest \<Rightarrow> bool" where
  "require_one_attach_source req \<longleftrightarrow>
     \<not> (req_Remote req \<noteq> [] \<and> req_Local req) \<and>
     \<not> (req_Remote req \<noteq> [] \<and> req_BundlePath req \<noteq> []) \<and>
     \<not> (req_Local req \<and> req_BundlePath req \<noteq> [])"

definition require_adoptable :: "string \<Rightarrow> CheckoutStatus \<Rightarrow> perr option" where
  "require_adoptable opn st =
     (if \<not> Repository st then Some (mk_err opn KindConflict CNotRepository)
      else if \<not> OriginMatches st then Some (mk_err opn KindConflict COtherOrigin)
      else if \<not> FullClone st then Some (mk_err opn KindConflict CShallow)
      else if \<not> Clean st then Some (mk_err opn KindConflict CDirty)
      else if \<not> NoCredentialHelper st then Some (mk_err opn KindConflict CCredentialHelper)
      else None)"

definition octal_digit :: "char \<Rightarrow> bool" where
  "octal_digit = between CHR ''0'' CHR ''7''"

definition shared_mode_ok :: "string \<Rightarrow> bool" where
  "shared_mode_ok mode \<longleftrightarrow> length mode = 4 \<and> octal_digit (mode ! 0) \<and> octal_digit (mode ! 2) \<and>
     and (digit_val (mode ! 0)) 2 = 2 \<and> and (digit_val (mode ! 2)) 7 = 7"

definition parse_ownership_mode :: "string \<Rightarrow> string \<times> string \<times> string" where
  "parse_ownership_mode out = (case str_fields (trim_space out) of
       [owner_group, mode] \<Rightarrow> (case index_of CHR '':'' owner_group of
           None \<Rightarrow> ([], [], [])
         | Some i \<Rightarrow> (take i owner_group, drop (Suc i) owner_group, mode))
     | _ \<Rightarrow> ([], [], []))"

text \<open>\<open>publicKeyPattern\<close>: the only shape of a public key that is passed on to a report.\<close>

definition printable :: "char \<Rightarrow> bool" where
  "printable = between CHR '' '' CHR ''~''"

definition publicKeyPattern :: re where
  "publicKeyPattern = seq [Alt (Lit ''ssh-ed25519'') (Alt (Lit ''ssh-rsa'')
       (Seq (Lit ''ecdsa-sha2-nistp'') (Run is_digit 1 None))),
     Lit '' '', Run (alnum_or ''+/='') 1 None, Opt (Seq (Lit '' '') (Run printable 0 None))]"

definition count_lines :: "string \<Rightarrow> nat" where
  "count_lines out = length (filter (\<lambda>l. trim_space l \<noteq> []) (split_lines out))"

end
