(* ===== verification/Programs.thy ===== *)
theory Programs
  imports Main
begin

text \<open>
  Programs with errors. An operation is a program over a state: it returns an error or a value and the state
  after it. The locale \<open>frame\<close> gives the rules by which a relation between states (what may have been emitted,
  whether a document moved) is carried through a whole program, \<open>raises\<close> the rules by which its errors are
  bounded.
\<close>

section \<open>Programs\<close>

type_synonym ('e, 's, 'a) eprog = "'s \<Rightarrow> ('e + 'a) \<times> 's"

definition ret :: "'a \<Rightarrow> ('e, 's, 'a) eprog" where
  "ret x = (\<lambda>s. (Inr x, s))"

definition raise :: "'e \<Rightarrow> ('e, 's, 'a) eprog" where
  "raise e = (\<lambda>s. (Inl e, s))"

definition bnd :: "('e, 's, 'a) eprog \<Rightarrow> ('a \<Rightarrow> ('e, 's, 'b) eprog) \<Rightarrow> ('e, 's, 'b) eprog" where
  "bnd m f = (\<lambda>s. case m s of (Inl e, s') \<Rightarrow> (Inl e, s') | (Inr x, s') \<Rightarrow> f x s')"

definition thn :: "('e, 's, 'a) eprog \<Rightarrow> ('e, 's, 'b) eprog \<Rightarrow> ('e, 's, 'b) eprog" where
  "thn m n = bnd m (\<lambda>_. n)"

text \<open>A check whose failure is an error, and an error handled as a value.\<close>

definition check :: "'e option \<Rightarrow> ('e, 's, unit) eprog" where
  "check c = (case c of None \<Rightarrow> ret () | Some e \<Rightarrow> raise e)"

definition attempt :: "('e, 's, 'a) eprog \<Rightarrow> ('e, 's, 'e + 'a) eprog" where
  "attempt m = (\<lambda>s. case m s of (r, s') \<Rightarrow> (Inr r, s'))"

text \<open>A deferred clean-up: it runs whatever the outcome was, and its own result is dropped.\<close>

definition finally_do :: "('e, 's, 'a) eprog \<Rightarrow> ('e, 's, 'b) eprog \<Rightarrow> ('e, 's, 'a) eprog" where
  "finally_do m c = (\<lambda>s. case m s of (r, s') \<Rightarrow> (r, snd (c s')))"

fun for_each :: "'a list \<Rightarrow> ('a \<Rightarrow> ('e, 's, unit) eprog) \<Rightarrow> ('e, 's, unit) eprog" where
  "for_each [] f = ret ()"
| "for_each (x # xs) f = thn (f x) (for_each xs f)"

lemmas prog_defs = ret_def raise_def bnd_def thn_def check_def attempt_def finally_do_def

lemma bnd_Inr: "bnd m f s = (Inr y, s'') \<longleftrightarrow> (\<exists>x s'. m s = (Inr x, s') \<and> f x s' = (Inr y, s''))"
  by (auto simp: bnd_def split: prod.splits sum.splits)

lemma thn_Inr: "thn m n s = (Inr y, s'') \<longleftrightarrow> (\<exists>x s'. m s = (Inr x, s') \<and> n s' = (Inr y, s''))"
  by (simp add: thn_def bnd_Inr)

lemma ret_Inr: "ret x s = (Inr y, s') \<longleftrightarrow> y = x \<and> s' = s"
  by (auto simp: ret_def)

lemma raise_Inr: "raise e s = (Inr y, s') \<longleftrightarrow> False"
  by (simp add: raise_def)

lemma check_Inr: "check c s = (Inr y, s') \<longleftrightarrow> c = None \<and> s' = s"
  by (auto simp: check_def ret_def raise_def split: option.splits)

lemmas prog_Inr = bnd_Inr thn_Inr ret_Inr raise_Inr check_Inr

section \<open>Frames\<close>

text \<open>\<open>keeps R p\<close>: whatever happens, the state after \<open>p\<close> is related to the one before.\<close>

definition keeps :: "('s \<Rightarrow> 's \<Rightarrow> bool) \<Rightarrow> ('e, 's, 'a) eprog \<Rightarrow> bool" where
  "keeps R p \<longleftrightarrow> (\<forall>s. R s (snd (p s)))"

named_theorems frame_intros \<open>rules that carry a frame through a program\<close>

locale frame =
  fixes R :: "'s \<Rightarrow> 's \<Rightarrow> bool"
  assumes refl: "R s s"
    and trans: "R s t \<Longrightarrow> R t u \<Longrightarrow> R s u"
begin

lemma keeps_ret: "keeps R (ret x)"
  by (simp add: keeps_def ret_def refl)

lemma keeps_raise: "keeps R (raise e)"
  by (simp add: keeps_def raise_def refl)

lemma keeps_check: "keeps R (check c)"
  by (cases c) (simp_all add: check_def keeps_ret keeps_raise)

lemma keeps_bnd: "keeps R m \<Longrightarrow> (\<And>x. keeps R (f x)) \<Longrightarrow> keeps R (bnd m f)"
  unfolding keeps_def bnd_def
  by (auto split: prod.splits sum.splits) (metis snd_conv trans)+

lemma keeps_bnd_dep:
  "keeps R m \<Longrightarrow> (\<And>x s s'. m s = (Inr x, s') \<Longrightarrow> keeps R (f x)) \<Longrightarrow> keeps R (bnd m f)"
  unfolding keeps_def bnd_def
  by (auto split: prod.splits sum.splits) (metis snd_conv trans)+

lemma keeps_thn: "keeps R m \<Longrightarrow> keeps R n \<Longrightarrow> keeps R (thn m n)"
  by (simp add: thn_def keeps_bnd)

lemma keeps_attempt: "keeps R m \<Longrightarrow> keeps R (attempt m)"
  unfolding keeps_def attempt_def by (auto split: prod.splits) (metis snd_conv)

lemma keeps_finally: "keeps R m \<Longrightarrow> keeps R c \<Longrightarrow> keeps R (finally_do m c)"
  unfolding keeps_def finally_do_def by (auto split: prod.splits) (metis snd_conv trans)

lemma keeps_for_each: "(\<And>x. x \<in> set xs \<Longrightarrow> keeps R (f x)) \<Longrightarrow> keeps R (for_each xs f)"
  by (induction xs) (auto intro: keeps_thn keeps_ret)

lemma keeps_if: "(b \<Longrightarrow> keeps R p) \<Longrightarrow> (\<not> b \<Longrightarrow> keeps R q) \<Longrightarrow> keeps R (if b then p else q)"
  by simp

lemma keeps_case_option:
  "keeps R p \<Longrightarrow> (\<And>x. keeps R (f x)) \<Longrightarrow> keeps R (case z of None \<Rightarrow> p | Some x \<Rightarrow> f x)"
  by (cases z) simp_all

lemma keeps_case_sum:
  "(\<And>x. keeps R (f x)) \<Longrightarrow> (\<And>y. keeps R (g y)) \<Longrightarrow> keeps R (case z of Inl x \<Rightarrow> f x | Inr y \<Rightarrow> g y)"
  by (cases z) simp_all

lemma keeps_case_prod: "(\<And>x y. z = (x, y) \<Longrightarrow> keeps R (f x y)) \<Longrightarrow> keeps R (case z of (x, y) \<Rightarrow> f x y)"
  by (cases z) simp_all

lemma keeps_let: "(\<And>x. x = v \<Longrightarrow> keeps R (f x)) \<Longrightarrow> keeps R (Let v f)"
  by simp

lemmas keeps_rules = keeps_ret keeps_raise keeps_check keeps_bnd keeps_thn keeps_attempt
  keeps_finally keeps_for_each keeps_if keeps_case_option keeps_case_sum keeps_case_prod keeps_let

end

section \<open>Programs with a report\<close>

text \<open>
  The operations that fill in a report return it on failure as well (\<open>return report, err\<close>). Their
  state is the report and the world: \<open>lift\<close> runs a program that does not see the report, \<open>update\<close>
  assigns to it, and \<open>with_report\<close> closes the operation over an initial report.
\<close>

definition lift :: "('e, 'w, 'a) eprog \<Rightarrow> ('e, 'r \<times> 'w, 'a) eprog" where
  "lift p = (\<lambda>(r, w). case p w of (x, w') \<Rightarrow> (x, (r, w')))"

definition update :: "('r \<Rightarrow> 'r) \<Rightarrow> ('e, 'r \<times> 'w, unit) eprog" where
  "update f = (\<lambda>(r, w). (Inr (), (f r, w)))"

definition with_report :: "'r \<Rightarrow> ('e, 'r \<times> 'w, 'a) eprog \<Rightarrow> 'w \<Rightarrow> ('r \<times> 'e option) \<times> 'w" where
  "with_report r0 p w = (case p (r0, w) of
       (Inl e, (r, w')) \<Rightarrow> ((r, Some e), w')
     | (Inr _, (r, w')) \<Rightarrow> ((r, None), w'))"

definition on_world :: "('w \<Rightarrow> 'w \<Rightarrow> bool) \<Rightarrow> 'r \<times> 'w \<Rightarrow> 'r \<times> 'w \<Rightarrow> bool" where
  "on_world R s s' \<longleftrightarrow> R (snd s) (snd s')"

lemma rep_lift [frame_intros]: "keeps R p \<Longrightarrow> keeps (on_world R) (lift p)"
  by (auto simp: keeps_def on_world_def lift_def split: prod.splits) (metis snd_conv)

lemma with_report_world: "snd (with_report r0 p w) = snd (snd (p (r0, w)))"
  by (auto simp: with_report_def split: prod.splits sum.splits)

lemma lift_Inr: "lift p (r, w) = (Inr x, s') \<longleftrightarrow> (\<exists>w'. p w = (Inr x, w') \<and> s' = (r, w'))"
  by (auto simp: lift_def split: prod.splits)

lemma update_Inr: "update f (r, w) = (Inr x, s') \<longleftrightarrow> s' = (f r, w)"
  by (auto simp: update_def)

lemma with_report_None:
  "with_report r0 p w = ((r, None), w') \<longleftrightarrow> (\<exists>x. p (r0, w) = (Inr x, (r, w')))"
  by (auto simp: with_report_def split: prod.splits sum.splits)

section \<open>Errors a program can raise\<close>

definition raises :: "('e \<Rightarrow> bool) \<Rightarrow> ('e, 's, 'a) eprog \<Rightarrow> bool" where
  "raises Q p \<longleftrightarrow> (\<forall>s e s'. p s = (Inl e, s') \<longrightarrow> Q e)"

named_theorems raise_intros \<open>rules that bound the errors of a program\<close>

lemma raises_ret [raise_intros]: "raises Q (ret x)"
  by (simp add: raises_def ret_def)

lemma raises_raise [raise_intros]: "Q e \<Longrightarrow> raises Q (raise e)"
  by (simp add: raises_def raise_def)

lemma raises_check [raise_intros]: "(\<And>e. c = Some e \<Longrightarrow> Q e) \<Longrightarrow> raises Q (check c)"
  by (cases c) (simp_all add: check_def raises_ret raises_raise)

lemma raises_bnd_dep:
  "raises Q m \<Longrightarrow> (\<And>x s s'. m s = (Inr x, s') \<Longrightarrow> raises Q (f x)) \<Longrightarrow> raises Q (bnd m f)"
  unfolding raises_def bnd_def by (auto split: prod.splits sum.splits)

lemma raises_bnd [raise_intros]: "raises Q m \<Longrightarrow> (\<And>x. raises Q (f x)) \<Longrightarrow> raises Q (bnd m f)"
  by (rule raises_bnd_dep)

lemma raises_thn [raise_intros]: "raises Q m \<Longrightarrow> raises Q n \<Longrightarrow> raises Q (thn m n)"
  by (simp add: thn_def raises_bnd)

lemma raises_attempt [raise_intros]: "raises Q (attempt m)"
  by (simp add: raises_def attempt_def split: prod.splits)

lemma raises_finally [raise_intros]: "raises Q m \<Longrightarrow> raises Q (finally_do m c)"
  by (auto simp: raises_def finally_do_def split: prod.splits)

lemma raises_for_each [raise_intros]:
  "(\<And>x. raises Q (f x)) \<Longrightarrow> raises Q (for_each xs f)"
  by (induction xs) (auto intro: raises_thn raises_ret)

lemma raises_if [raise_intros]:
  "(b \<Longrightarrow> raises Q p) \<Longrightarrow> (\<not> b \<Longrightarrow> raises Q q) \<Longrightarrow> raises Q (if b then p else q)"
  by simp

lemma raises_case_option [raise_intros]:
  "raises Q p \<Longrightarrow> (\<And>x. raises Q (f x)) \<Longrightarrow> raises Q (case z of None \<Rightarrow> p | Some x \<Rightarrow> f x)"
  by (cases z) simp_all

lemma raises_case_sum [raise_intros]:
  "(\<And>x. z = Inl x \<Longrightarrow> raises Q (f x)) \<Longrightarrow> (\<And>y. raises Q (g y)) \<Longrightarrow>
     raises Q (case z of Inl x \<Rightarrow> f x | Inr y \<Rightarrow> g y)"
  by (cases z) simp_all

lemma raises_case_prod [raise_intros]:
  "(\<And>x y. raises Q (f x y)) \<Longrightarrow> raises Q (case z of (x, y) \<Rightarrow> f x y)"
  by (cases z) simp_all

lemma raises_let [raise_intros]: "(\<And>x. x = v \<Longrightarrow> raises Q (f x)) \<Longrightarrow> raises Q (Let v f)"
  by simp

lemma raises_lift [raise_intros]: "raises Q p \<Longrightarrow> raises Q (lift p)"
  unfolding raises_def lift_def by (auto split: prod.splits)

lemma raises_update [raise_intros]: "raises Q (update f)"
  by (simp add: raises_def update_def)

lemma with_report_raises:
  "raises Q p \<Longrightarrow> with_report r0 p w = ((r, Some e), w') \<Longrightarrow> Q e"
  unfolding raises_def with_report_def by (auto split: prod.splits sum.splits) blast

end
