(* ===== verification/Guest.thy ===== *)
theory Guest
  imports Projects Programs
begin

text \<open>
  Effects. An operation of the manager is a program over a state: it returns an error or a value
  and the state after it. The state is the history of everything that crossed a boundary (guest
  commands, host Git, copies, host files, registry writes) and the registry document. The guest,
  the host's Git and file system and the operator's SSH agent are not code of this repository, so a
  \<open>manager\<close> carries them as functions of the history and the request: any deterministic
  environment, however stateful, is such a function.

  \<open>guestexec.go\<close> and the command wrappers at the end of \<open>manager.go\<close> are modelled here.
\<close>

type_synonym ('s, 'a) prog = "(perr, 's, 'a) eprog"

section \<open>The environment\<close>

record result =
  ExitCode :: int
  Stdout :: string
  Stderr :: string
  StdoutTruncated :: bool
  StderrTruncated :: bool

datatype event =
    GuestRun "string list"
  | BootstrapRun
  | HostGit "string list"
  | CopyIn string string
  | CopyOut string string
  | HostMkdirTemp string
  | HostMkdir string
  | HostRemoveAll string
  | HostCopyFile string string
  | AgentQuery
  | RegistryRead
  | RegistryWrite "project list"

type_synonym history = "event list"

record world =
  history :: history
  document :: config_file

text \<open>
  The manager's fields and its boundaries. \<open>XdgDataHome\<close> and \<open>UserHome\<close> are the two values of the
  host's environment it reads. \<open>mkdir_temp\<close>, \<open>mkdir_ok\<close> and \<open>path_exists\<close> are the host's file
  system: the name of a fresh directory, whether one could be made, whether a path exists. \<open>bundle_info\<close> is
  what \<open>Lstat\<close> says of the operator's bundle: \<open>None\<close> when it is not there, otherwise whether it is
  a regular file, and its size. \<open>load_ok\<close>, \<open>write_ok\<close> and \<open>verify_ok\<close> say whether the registry
  document could be read, renamed into place and read back.
\<close>

record manager =
  GuestUser :: string
  Home :: string
  WorkspacePath :: string
  BackendName :: string
  OperatorUser :: string
  InstanceName :: string
  HubRoot :: string
  XdgDataHome :: string
  UserHome :: "string option"
  ssh :: "history \<Rightarrow> string list \<Rightarrow> guest_err + result"
  bootstrap :: "history \<Rightarrow> guest_err option"
  host_git :: "history \<Rightarrow> string list \<Rightarrow> guest_err + result"
  copy_in_err :: "history \<Rightarrow> guest_err option"
  copy_out_err :: "history \<Rightarrow> guest_err option"
  mkdir_temp :: "history \<Rightarrow> string \<Rightarrow> string option"
  mkdir_ok :: "history \<Rightarrow> string \<Rightarrow> bool"
  path_exists :: "history \<Rightarrow> string \<Rightarrow> bool"
  bundle_info :: "history \<Rightarrow> string \<Rightarrow> (bool \<times> int) option"
  copy_file_ok :: "history \<Rightarrow> bool"
  agent_socket :: string
  ssh_add :: "history \<Rightarrow> guest_err + result"
  load_ok :: "history \<Rightarrow> bool"
  write_ok :: "history \<Rightarrow> bool"
  verify_ok :: "history \<Rightarrow> bool"

definition emit :: "event \<Rightarrow> world \<Rightarrow> world" where
  "emit e w = w\<lparr>history := history w @ [e]\<rparr>"

lemma emit_simps [simp]:
  "history (emit e w) = history w @ [e]" "document (emit e w) = document w"
  by (simp_all add: emit_def)

section \<open>guestexec\<close>

definition root_exec :: "string list \<Rightarrow> string list" where
  "root_exec args = [''sudo'', ''-n'', ''--''] @ args"

definition user_exec_as :: "string \<Rightarrow> string list \<Rightarrow> string list" where
  "user_exec_as user args = [''sudo'', ''-n'', ''-u'', user, ''--''] @ args"

datatype run_err = RunTruncated | RunGuest guest_err

definition guestexec_run :: "manager \<Rightarrow> string list \<Rightarrow> world \<Rightarrow> (run_err + result) \<times> world" where
  "guestexec_run m argv w = (case ssh m (history w) argv of
       Inl e \<Rightarrow> (Inl (RunGuest e), emit (GuestRun argv) w)
     | Inr res \<Rightarrow> (if StdoutTruncated res \<or> StderrTruncated res
                  then (Inl RunTruncated, emit (GuestRun argv) w)
                  else (Inr res, emit (GuestRun argv) w)))"

section \<open>Command wrappers of the manager\<close>

definition run :: "manager \<Rightarrow> string \<Rightarrow> string list \<Rightarrow> (world, result) prog" where
  "run m opn argv = (\<lambda>w. case guestexec_run m argv w of
       (Inl RunTruncated, w') \<Rightarrow> (Inl (mk_err opn KindVerification CTruncated), w')
     | (Inl (RunGuest e), w') \<Rightarrow> (Inl (from_guest_err opn e), w')
     | (Inr res, w') \<Rightarrow> (Inr res, w'))"

definition must_run :: "manager \<Rightarrow> string \<Rightarrow> ErrorKind \<Rightarrow> string list \<Rightarrow> (world, unit) prog" where
  "must_run m opn kind argv = bnd (run m opn argv) (\<lambda>res.
     if ExitCode res \<noteq> 0 then raise (command_error opn kind (ExitCode res)) else ret ())"

text \<open>\<open>test\<close> has two documented exits; any other is unverifiable.\<close>

definition test_answer :: "string \<Rightarrow> result \<Rightarrow> (world, bool) prog" where
  "test_answer opn res = (if ExitCode res = 0 then ret True else if ExitCode res = 1 then ret False
     else raise (command_error opn KindGuestCommand (ExitCode res)))"

definition test_root :: "manager \<Rightarrow> string \<Rightarrow> string \<Rightarrow> string \<Rightarrow> (world, bool) prog" where
  "test_root m opn flag p = bnd (run m opn (root_exec [''test'', flag, p])) (test_answer opn)"

definition test_as_user :: "manager \<Rightarrow> string \<Rightarrow> string \<Rightarrow> string \<Rightarrow> (world, bool) prog" where
  "test_as_user m opn flag p =
     bnd (run m opn (user_exec_as (GuestUser m) [''test'', flag, p])) (test_answer opn)"

definition workspace_git :: "manager \<Rightarrow> string \<Rightarrow> string list \<Rightarrow> string list" where
  "workspace_git m workspace args = user_exec_as (GuestUser m) ([''git'', ''-C'', workspace] @ args)"

section \<open>The host's file system\<close>

definition host_mkdir_temp :: "manager \<Rightarrow> string \<Rightarrow> string \<Rightarrow> (world, string) prog" where
  "host_mkdir_temp m opn pattern = (\<lambda>w. case mkdir_temp m (history w) pattern of
       None \<Rightarrow> (Inl (mk_err opn KindTransport CNoStaging), w)
     | Some dir \<Rightarrow> (Inr dir, emit (HostMkdirTemp dir) w))"

definition host_mkdir :: "manager \<Rightarrow> perr \<Rightarrow> string \<Rightarrow> (world, unit) prog" where
  "host_mkdir m e dir = (\<lambda>w. if mkdir_ok m (history w) dir then (Inr (), emit (HostMkdir dir) w)
     else (Inl e, w))"

definition host_remove_all :: "string \<Rightarrow> (world, unit) prog" where
  "host_remove_all dir = (\<lambda>w. (Inr (), emit (HostRemoveAll dir) w))"

definition host_stat :: "manager \<Rightarrow> string \<Rightarrow> (world, bool) prog" where
  "host_stat m p = (\<lambda>w. (Inr (path_exists m (history w) p), w))"

definition copy_to_guest :: "manager \<Rightarrow> (guest_err \<Rightarrow> perr) \<Rightarrow> string \<Rightarrow> string \<Rightarrow> (world, unit) prog" where
  "copy_to_guest m f src dst = (\<lambda>w. case copy_in_err m (history w) of
       Some e \<Rightarrow> (Inl (f e), emit (CopyIn src dst) w)
     | None \<Rightarrow> (Inr (), emit (CopyIn src dst) w))"

definition copy_from_guest :: "manager \<Rightarrow> (guest_err \<Rightarrow> perr) \<Rightarrow> string \<Rightarrow> string \<Rightarrow> (world, unit) prog" where
  "copy_from_guest m f src dst = (\<lambda>w. case copy_out_err m (history w) of
       Some e \<Rightarrow> (Inl (f e), emit (CopyOut src dst) w)
     | None \<Rightarrow> (Inr (), emit (CopyOut src dst) w))"

text \<open>
  The frame of a program that touches nothing but the guest and the host: it leaves the document
  alone and extends the history by events that satisfy \<open>P\<close>.
\<close>

definition emits_only :: "(event \<Rightarrow> bool) \<Rightarrow> world \<Rightarrow> world \<Rightarrow> bool" where
  "emits_only P w w' \<longleftrightarrow> document w' = document w \<and>
     (\<exists>es. history w' = history w @ es \<and> list_all P es)"

lemma emits_only_refl: "emits_only P w w"
  by (simp add: emits_only_def)

lemma emits_only_trans: "emits_only P u v \<Longrightarrow> emits_only P v w \<Longrightarrow> emits_only P u w"
  by (auto simp: emits_only_def)

interpretation emits: frame "emits_only P" for P
  by unfold_locales (auto intro: emits_only_refl emits_only_trans)

declare emits.keeps_rules [frame_intros]

lemma emits_only_mono: "emits_only P w w' \<Longrightarrow> (\<And>e. P e \<Longrightarrow> Q e) \<Longrightarrow> emits_only Q w w'"
  by (auto simp: emits_only_def list_all_iff)

lemma emits_emit: "P e \<Longrightarrow> emits_only P w (emit e w)"
  by (simp add: emits_only_def)

lemma guestexec_run_world [simp]: "snd (guestexec_run m argv w) = emit (GuestRun argv) w"
  by (auto simp: guestexec_run_def split: sum.splits)

lemma run_world [simp]: "snd (run m opn argv w) = emit (GuestRun argv) w"
  by (auto simp: run_def guestexec_run_def split: sum.splits)

lemma emits_run: "P (GuestRun argv) \<Longrightarrow> keeps (emits_only P) (run m opn argv)"
  by (simp add: keeps_def emits_emit)

lemma emits_must_run:
  "P (GuestRun argv) \<Longrightarrow> keeps (emits_only P) (must_run m opn kind argv)"
  unfolding must_run_def by (intro frame_intros emits_run)

lemma emits_test_answer [frame_intros]: "keeps (emits_only P) (test_answer opn res)"
  unfolding test_answer_def by (intro frame_intros)

lemma emits_test_root:
  "P (GuestRun (root_exec [''test'', flag, p])) \<Longrightarrow> keeps (emits_only P) (test_root m opn flag p)"
  unfolding test_root_def by (intro frame_intros emits_run)

lemma emits_test_as_user:
  "P (GuestRun (user_exec_as (GuestUser m) [''test'', flag, p])) \<Longrightarrow>
     keeps (emits_only P) (test_as_user m opn flag p)"
  unfolding test_as_user_def by (intro frame_intros emits_run)

lemma emits_host_mkdir_temp [frame_intros]:
  "(\<And>dir. P (HostMkdirTemp dir)) \<Longrightarrow> keeps (emits_only P) (host_mkdir_temp m opn pattern)"
  by (auto simp: keeps_def host_mkdir_temp_def emits_emit emits_only_refl split: option.splits)

lemma emits_host_mkdir [frame_intros]:
  "P (HostMkdir dir) \<Longrightarrow> keeps (emits_only P) (host_mkdir m e dir)"
  by (auto simp: keeps_def host_mkdir_def emits_emit emits_only_refl)

lemma emits_host_remove_all [frame_intros]:
  "P (HostRemoveAll dir) \<Longrightarrow> keeps (emits_only P) (host_remove_all dir)"
  by (auto simp: keeps_def host_remove_all_def emits_emit)

lemma emits_host_stat [frame_intros]: "keeps (emits_only P) (host_stat m p)"
  by (auto simp: keeps_def host_stat_def emits_only_refl)

lemma emits_copy_to_guest [frame_intros]:
  "P (CopyIn src dst) \<Longrightarrow> keeps (emits_only P) (copy_to_guest m f src dst)"
  by (auto simp: keeps_def copy_to_guest_def emits_emit split: option.splits)

lemma emits_copy_from_guest [frame_intros]:
  "P (CopyOut src dst) \<Longrightarrow> keeps (emits_only P) (copy_from_guest m f src dst)"
  by (auto simp: keeps_def copy_from_guest_def emits_emit split: option.splits)

interpretation rep: frame "on_world (emits_only P)" for P
  by unfold_locales (auto simp: on_world_def intro: emits_only_refl emits_only_trans)

declare rep.keeps_rules [frame_intros]

lemma rep_update [frame_intros]: "keeps (on_world (emits_only P)) (update f)"
  by (auto simp: keeps_def on_world_def update_def intro: emits_only_refl)

lemma with_report_emits:
  "keeps (on_world (emits_only P)) p \<Longrightarrow> emits_only P w (snd (with_report r0 p w))"
  by (auto simp: keeps_def on_world_def with_report_world)

lemma raises_run [raise_intros]:
  "(\<And>k c. k \<in> {KindVerification, KindTimeout, KindCancelled, KindTransport} \<Longrightarrow> Q (mk_err opn k c)) \<Longrightarrow>
     raises Q (run m opn argv)"
  by (auto simp: raises_def run_def split: prod.splits sum.splits run_err.splits)
    (metis from_guest_err.elims insert_iff)

section \<open>What a program appends to the history\<close>

text \<open>The weaker frame of a program that may write the registry: only its events are bounded.\<close>

definition appends :: "(event \<Rightarrow> bool) \<Rightarrow> world \<Rightarrow> world \<Rightarrow> bool" where
  "appends P w w' \<longleftrightarrow> (\<exists>es. history w' = history w @ es \<and> list_all P es)"

interpretation app: frame "appends P" for P
  by unfold_locales (auto simp: appends_def)

interpretation app_rep: frame "on_world (appends P)" for P
  by unfold_locales (auto simp: on_world_def intro: app.refl app.trans)

declare app.keeps_rules [frame_intros]
declare app_rep.keeps_rules [frame_intros]

lemma keeps_appends: "keeps (emits_only P) p \<Longrightarrow> keeps (appends P) p"
  by (auto simp: keeps_def emits_only_def appends_def)

lemma app_lift [frame_intros]: "keeps (appends P) p \<Longrightarrow> keeps (on_world (appends P)) (lift p)"
  by (rule rep_lift)

lemma app_update [frame_intros]: "keeps (on_world (appends P)) (update f)"
  by (auto simp: keeps_def on_world_def update_def intro: app.refl)

lemma with_report_appends:
  "keeps (on_world (appends P)) p \<Longrightarrow> appends P w (snd (with_report r0 p w))"
  by (auto simp: keeps_def on_world_def with_report_world)

section \<open>What a run answered\<close>

lemma run_Inr: "run m opn argv w = (Inr res, w') \<longleftrightarrow>
    ssh m (history w) argv = Inr res \<and> \<not> StdoutTruncated res \<and> \<not> StderrTruncated res \<and>
    w' = emit (GuestRun argv) w"
  by (auto simp: run_def guestexec_run_def split: prod.splits sum.splits)

lemma must_run_Inr: "must_run m opn kind argv w = (Inr u, w') \<longleftrightarrow>
    (\<exists>res. run m opn argv w = (Inr res, w') \<and> ExitCode res = 0)"
  by (auto simp: must_run_def prog_Inr split: if_splits)

end
