(* ===== verification/Registry.thy ===== *)
theory Registry
  imports Guest "HOL-Library.Multiset"
begin

text \<open>
  The registry document on disk: \<open>UpdateRegistry\<close> and the write path of
  \<open>internal/config/registry.go\<close>, and \<open>FileRegistry\<close> of \<open>internal/projects/projects.go\<close> on top. The
  advisory lock makes one update a single step, so an update is a function of the document as it is
  when the lock is held. The locale \<open>registry_store\<close> is Go's \<open>Registry\<close> interface with the laws its
  callers rely on.
\<close>

text \<open>\<open>WriteRegistry\<close> sorts a copy by ID, validates it, renames it into place and reads it back.\<close>

definition sort_projects :: "project list \<Rightarrow> project list" where
  "sort_projects ps = sort_key ID ps"

definition write_registry :: "manager \<Rightarrow> project list \<Rightarrow> world \<Rightarrow> (registry_err + unit) \<times> world" where
  "write_registry m ps w = (let out = sort_projects ps in
     case validate_projects out of
       Some e \<Rightarrow> (Inl (DocErr e), w)
     | None \<Rightarrow>
         (if \<not> write_ok m (history w) then (Inl DocIO, w)
          else (let w' = emit (RegistryWrite out) (w\<lparr>document := (document w)\<lparr>Projects := out\<rparr>\<rparr>) in
            if verify_ok m (history w') then (Inr (), w') else (Inl DocIO, w'))))"

definition update_registry :: "manager \<Rightarrow> (project list \<Rightarrow> config_err + project list) \<Rightarrow>
    world \<Rightarrow> (registry_err + unit) \<times> world" where
  "update_registry m f w =
     (if \<not> load_ok m (history w) then (Inl DocIO, emit RegistryRead w)
      else (let w1 = emit RegistryRead w; ps = Projects (document w) in
        case f ps of
          Inl e \<Rightarrow> (Inl (DocErr e), w1)
        | Inr next \<Rightarrow> (if next = ps then (Inr (), w1) else write_registry m next w1)))"

text \<open>\<open>FileRegistry.Load\<close> and \<open>FileRegistry.Update\<close>.\<close>

definition registry_load :: "manager \<Rightarrow> world \<Rightarrow> (registry_err + config_file) \<times> world" where
  "registry_load m w =
     (if load_ok m (history w) then (Inr (document w), emit RegistryRead w)
      else (Inl DocIO, emit RegistryRead w))"

definition bare_file :: "project list \<Rightarrow> config_file" where
  "bare_file ps = \<lparr>SchemaVersion = ConfigSchemaVersion, Timeout = 0, Backend = [],
     OperatorKey = [], Projects = ps\<rparr>"

definition registry_update :: "manager \<Rightarrow> (config_file \<Rightarrow> config_err + config_file) \<Rightarrow>
    world \<Rightarrow> (registry_err + unit) \<times> world" where
  "registry_update m f = update_registry m (\<lambda>ps. map_sum id Projects (f (bare_file ps)))"

section \<open>Sorting keeps the registry\<close>

lemma find_project_sound:
  "distinct (map ID ps) \<Longrightarrow> p \<in> set ps \<Longrightarrow> find_project ps (ID p) = Some p"
  by (induction ps) (auto simp: image_iff)

lemma find_project_iff:
  "distinct (map ID ps) \<Longrightarrow> find_project ps pid = Some p \<longleftrightarrow> p \<in> set ps \<and> ID p = pid"
  using find_project_sound find_project_Some by metis

lemma find_project_set_eq:
  assumes "set ps = set qs" and "distinct (map ID ps)" and "distinct (map ID qs)"
  shows "find_project ps pid = find_project qs pid"
proof (cases "find_project qs pid")
  case None
  then show ?thesis using assms(1) by (auto simp: find_project_None)
next
  case (Some p)
  then show ?thesis using assms by (metis find_project_iff)
qed

lemma set_sort_projects [simp]: "set (sort_projects ps) = set ps"
  by (simp add: sort_projects_def)

lemma distinct_sort_projects [simp]:
  "distinct (map ID (sort_projects ps)) \<longleftrightarrow> distinct (map ID ps)"
proof -
  have "mset (map ID (sort_projects ps)) = mset (map ID ps)"
    by (simp add: sort_projects_def mset_map)
  then show ?thesis by (rule mset_eq_imp_distinct_iff)
qed

lemma find_sort_projects:
  "distinct (map ID ps) \<Longrightarrow> find_project (sort_projects ps) pid = find_project ps pid"
  by (rule find_project_set_eq) simp_all

lemma validate_sort_projects [simp]:
  "validate_projects (sort_projects ps) = None \<longleftrightarrow> validate_projects ps = None"
  by (simp add: validate_projects_None list_all_iff) (simp add: sort_projects_def)

lemma sorted_sort_projects: "sorted (map ID (sort_projects ps))"
  by (simp add: sort_projects_def)

section \<open>The store as an interface\<close>

locale registry_store =
  fixes load :: "'s \<Rightarrow> ('ioerr + 'doc) \<times> 's"
    and update :: "('doc \<Rightarrow> 'err + 'doc) \<Rightarrow> 's \<Rightarrow> ('ioerr + unit) \<times> 's"
    and doc :: "'s \<Rightarrow> 'entry list"
    and entries :: "'doc \<Rightarrow> 'entry list"
    and find :: "'entry list \<Rightarrow> string \<Rightarrow> 'entry option"
    and refused :: "'err \<Rightarrow> 'ioerr"
    and fresh :: "'entry list \<Rightarrow> 'doc"
  assumes load_reads: "load s = (Inr d, s') \<Longrightarrow> entries d = doc s \<and> doc s' = doc s"
    and load_pure: "doc (snd (load s)) = doc s"
    and update_ok: "update f s = (Inr (), s') \<Longrightarrow>
       \<exists>d. f (fresh (doc s)) = Inr d \<and> (\<forall>k. find (doc s') k = find (entries d) k)"
    and update_refused: "update f s = (Inl (refused e), s') \<Longrightarrow> f (fresh (doc s)) = Inl e \<Longrightarrow> doc s' = doc s"
begin

lemma update_find:
  assumes "update f s = (Inr (), s')" and "f (fresh (doc s)) = Inr d"
  shows "find (doc s') k = find (entries d) k"
  using update_ok [OF assms(1)] assms(2) by auto

lemma load_after_update:
  assumes "update f s = (Inr (), s')" and "load s' = (Inr d, s'')"
  obtains d0 where "f (fresh (doc s)) = Inr d0" and "\<And>k. find (entries d) k = find (entries d0) k"
  using update_ok [OF assms(1)] load_reads [OF assms(2)] that by auto

end

definition doc_projects :: "world \<Rightarrow> project list" where
  "doc_projects w = Projects (document w)"

lemma doc_projects_emit [simp]: "doc_projects (emit e w) = doc_projects w"
  by (simp add: doc_projects_def)

lemma write_registry_Inr:
  "write_registry m ps w = (Inr (), w') \<Longrightarrow>
     validate_projects ps = None \<and> doc_projects w' = sort_projects ps"
  by (auto simp: write_registry_def Let_def doc_projects_def split: option.splits if_splits)

lemma update_registry_Inr:
  assumes "update_registry m f w = (Inr (), w')"
  shows "\<exists>ps. f (doc_projects w) = Inr ps \<and>
    (doc_projects w' = ps \<or> validate_projects ps = None \<and> doc_projects w' = sort_projects ps)"
  using assms
  by (auto simp: update_registry_def Let_def doc_projects_def split: sum.splits if_splits
      dest: write_registry_Inr [unfolded doc_projects_def])

lemma update_registry_find:
  assumes "update_registry m f w = (Inr (), w')"
  shows "\<exists>ps. f (doc_projects w) = Inr ps \<and> (\<forall>k. find_project (doc_projects w') k = find_project ps k)"
  using update_registry_Inr [OF assms]
  by (auto simp: validate_projects_None find_sort_projects)

interpretation store: registry_store "registry_load m" "registry_update m" doc_projects Projects
  find_project DocErr bare_file for m
proof unfold_locales
  fix f :: "config_file \<Rightarrow> config_err + config_file" and w w'
  assume "registry_update m f w = (Inr (), w')"
  then obtain ps where "map_sum id Projects (f (bare_file (doc_projects w))) = Inr ps"
    "\<forall>k. find_project (doc_projects w') k = find_project ps k"
    using update_registry_find unfolding registry_update_def by blast
  then show "\<exists>d. f (bare_file (doc_projects w)) = Inr d \<and>
      (\<forall>k. find_project (doc_projects w') k = find_project (Projects d) k)"
    by (cases "f (bare_file (doc_projects w))") auto
qed (auto simp: registry_load_def registry_update_def update_registry_def Let_def doc_projects_def
    split: if_splits sum.splits)

text \<open>A registry write that validated nothing new leaves the document as it was.\<close>

lemma registry_update_frame:
  assumes "registry_update m f w = (r, w')"
  shows "doc_projects w' = doc_projects w \<or>
    (\<exists>d. f (bare_file (doc_projects w)) = Inr d \<and> validate_projects (Projects d) = None \<and>
       doc_projects w' = sort_projects (Projects d))"
  using assms
  by (auto simp: registry_update_def update_registry_def write_registry_def Let_def doc_projects_def
      map_sum_def split: sum.splits option.splits if_splits)

end
