(* ===== verification/Hub.thy ===== *)
theory Hub
  imports Registry "HOL-Library.AList"
begin

text \<open>
  The host repository of a local project: the helpers of \<open>internal/projects/sync.go\<close> that read
  refs, decide which of them move and run Git on the host, and \<open>bundle.go\<close>, which carries a
  repository into the guest. A Go \<open>map[string]string\<close> of refs is an association list with distinct
  keys; the code reads it by key or through its sorted key list only.
\<close>

section \<open>Where the host repository is\<close>

definition file_join :: "string list \<Rightarrow> string" where
  "file_join elems = (case dropWhile (\<lambda>e. e = []) elems of
     [] \<Rightarrow> [] | es \<Rightarrow> path_clean (join ''/'' es))"

definition hubRepoSuffix :: string where "hubRepoSuffix = ''.git''"
definition hubMirrorRef :: string where "hubMirrorRef = ''refs/torio/hub''"
definition guestBundleName :: string where "guestBundleName = ''guest.bundle''"
definition hubBundleName :: string where "hubBundleName = ''hub.bundle''"
definition bundleFileName :: string where "bundleFileName = ''project.bundle''"
definition refListFormat :: string where "refListFormat = ''--format=%(refname) %(objectname)''"

definition sync_staging_path :: "manager \<Rightarrow> string" where
  "sync_staging_path m = Home m @ ''/.torio-project-sync-staging''"

definition bundle_staging_path :: "manager \<Rightarrow> string" where
  "bundle_staging_path m = Home m @ ''/.torio-project-attach-staging''"

definition hub_mirror_namespace :: "manager \<Rightarrow> string" where
  "hub_mirror_namespace m =
     ''refs/torio/'' @ (if BackendName m = [] then ''replica'' else BackendName m)"

definition hub_root_path :: "manager \<Rightarrow> string option" where
  "hub_root_path m =
     (if HubRoot m \<noteq> [] then Some (HubRoot m)
      else if XdgDataHome m \<noteq> [] then Some (file_join [XdgDataHome m, ''torio'', ''projects''])
      else map_option (\<lambda>home. file_join [file_join [home, ''.local'', ''share''], ''torio'', ''projects''])
             (UserHome m))"

definition hub_path :: "manager \<Rightarrow> string \<Rightarrow> cause + string" where
  "hub_path m pid =
     (if pid = [] \<or> contains_any pid [CHR ''/'', CHR 0x5C] \<or> pid = ''.'' \<or> pid = ''..''
      then Inl CInvalidPath
      else (case hub_root_path m of
          None \<Rightarrow> Inl CHostIO
        | Some root \<Rightarrow> (let name = pid @ hubRepoSuffix; p = file_join [root, name] in
            if path_dir p \<noteq> root \<or> path_base p \<noteq> name then Inl CInvalidPath else Inr p)))"

definition hub_exists :: "manager \<Rightarrow> string \<Rightarrow> (world, bool) prog" where
  "hub_exists m hub = host_stat m (file_join [hub, ''HEAD''])"

section \<open>Git on the host\<close>

definition run_host :: "manager \<Rightarrow> string \<Rightarrow> string \<Rightarrow> string list \<Rightarrow> (world, result) prog" where
  "run_host m opn dir args =
     (let argv = [''git''] @ (if dir \<noteq> [] then [''-C'', dir] else []) @ args in
      (\<lambda>w. case host_git m (history w) argv of
         Inl e \<Rightarrow> (Inl (mk_err opn KindGit CNoGit), emit (HostGit argv) w)
       | Inr res \<Rightarrow> (Inr res, emit (HostGit argv) w)))"

definition must_run_host :: "manager \<Rightarrow> string \<Rightarrow> string \<Rightarrow> string list \<Rightarrow> (world, unit) prog" where
  "must_run_host m opn dir args = bnd (run_host m opn dir args) (\<lambda>res.
     if ExitCode res \<noteq> 0 then raise (command_error opn KindGit (ExitCode res)) else ret ())"

section \<open>Reading refs and counts\<close>

type_synonym refs = "(string \<times> string) list"

definition lookup_ref :: "refs \<Rightarrow> string \<Rightarrow> string" where
  "lookup_ref refs name = (case map_of refs name of None \<Rightarrow> [] | Some object \<Rightarrow> object)"

definition is_object_id :: "string \<Rightarrow> bool" where
  "is_object_id s \<longleftrightarrow> 4 \<le> length s \<and> length s \<le> 64 \<and>
     list_all (\<lambda>c. is_digit c \<or> between CHR ''a'' CHR ''f'' c) s"

fun parse_ref_lines :: "string \<Rightarrow> string \<Rightarrow> string list \<Rightarrow> refs \<Rightarrow> perr + refs" where
  "parse_ref_lines opn pre [] refs = Inr refs"
| "parse_ref_lines opn pre (l # ls) refs = (let line = trim_space l in
     if line = [] then parse_ref_lines opn pre ls refs
     else (case index_of CHR '' '' line of
         None \<Rightarrow> Inl (mk_err opn KindVerification CRefUnreadable)
       | Some i \<Rightarrow> (let name = take i line; object = drop (Suc i) line in
           if \<not> has_prefix name pre \<or> \<not> is_object_id object
           then Inl (mk_err opn KindVerification CRefUnreadable)
           else parse_ref_lines opn pre ls (AList.update (trim_prefix name pre) object refs))))"

definition parse_refs :: "string \<Rightarrow> string \<Rightarrow> string \<Rightarrow> perr + refs" where
  "parse_refs opn out pre = parse_ref_lines opn pre (split_lines out) []"

definition of_sum :: "perr + 'a \<Rightarrow> ('s, 'a) prog" where
  "of_sum r = (case r of Inl e \<Rightarrow> raise e | Inr x \<Rightarrow> ret x)"

definition list_guest_refs :: "manager \<Rightarrow> string \<Rightarrow> string \<Rightarrow> string \<Rightarrow> string list \<Rightarrow> (world, refs) prog" where
  "list_guest_refs m opn workspace pre patterns =
     bnd (run m opn (workspace_git m workspace ([''for-each-ref'', refListFormat] @ patterns))) (\<lambda>res.
       if ExitCode res \<noteq> 0 then raise (command_error opn KindGit (ExitCode res))
       else of_sum (parse_refs opn (Stdout res) pre))"

definition list_host_refs :: "manager \<Rightarrow> string \<Rightarrow> string \<Rightarrow> string \<Rightarrow> string list \<Rightarrow> (world, refs) prog" where
  "list_host_refs m opn hub pre patterns =
     bnd (run_host m opn hub ([''for-each-ref'', refListFormat] @ patterns)) (\<lambda>res.
       if ExitCode res \<noteq> 0 then raise (command_error opn KindGit (ExitCode res))
       else of_sum (parse_refs opn (Stdout res) pre))"

definition parse_count :: "string \<Rightarrow> result \<Rightarrow> perr + int" where
  "parse_count opn res = (case parse_int64 (trim_space (Stdout res)) of
       None \<Rightarrow> Inl (mk_err opn KindVerification CCountUnreadable)
     | Some n \<Rightarrow> (if n < 0 then Inl (mk_err opn KindVerification CCountUnreadable) else Inr n))"

definition count_guest :: "manager \<Rightarrow> string \<Rightarrow> string \<Rightarrow> string \<Rightarrow> (world, int) prog" where
  "count_guest m opn workspace arg =
     bnd (run m opn (workspace_git m workspace [''rev-list'', ''--count'', arg])) (\<lambda>res.
       if ExitCode res \<noteq> 0 then raise (command_error opn KindGit (ExitCode res))
       else of_sum (parse_count opn res))"

definition count_host :: "manager \<Rightarrow> string \<Rightarrow> string \<Rightarrow> string \<Rightarrow> (world, int) prog" where
  "count_host m opn hub arg = bnd (run_host m opn hub [''rev-list'', ''--count'', arg]) (\<lambda>res.
       if ExitCode res \<noteq> 0 then raise (command_error opn KindGit (ExitCode res))
       else of_sum (parse_count opn res))"

text \<open>Two documented exits; any other is unverifiable ancestry.\<close>

definition ancestor_answer :: "string \<Rightarrow> result \<Rightarrow> ('s, bool) prog" where
  "ancestor_answer opn res = (if ExitCode res = 0 then ret True
     else if ExitCode res = 1 then ret False
     else raise (command_error opn KindGit (ExitCode res)))"

definition guest_ancestor :: "manager \<Rightarrow> string \<Rightarrow> string \<Rightarrow> string \<Rightarrow> string \<Rightarrow> (world, bool) prog" where
  "guest_ancestor m opn workspace old new =
     bnd (run m opn (workspace_git m workspace [''merge-base'', ''--is-ancestor'', old, new]))
       (ancestor_answer opn)"

definition host_ancestor :: "manager \<Rightarrow> string \<Rightarrow> string \<Rightarrow> string \<Rightarrow> string \<Rightarrow> (world, bool) prog" where
  "host_ancestor m opn hub old new =
     bnd (run_host m opn hub [''merge-base'', ''--is-ancestor'', old, new]) (ancestor_answer opn)"

section \<open>Deciding which refs move\<close>

record ref_plan =
  Ref :: string
  Target :: string
  From :: string

definition commit_range :: "ref_plan \<Rightarrow> string" where
  "commit_range p = (if From p = [] then Target p else From p @ ''..'' @ Target p)"

definition sorted_ref_names :: "refs \<Rightarrow> string list" where
  "sorted_ref_names refs = sort (map fst refs)"

fun plan_names :: "(string \<Rightarrow> string \<Rightarrow> ('s, bool) prog) \<Rightarrow> refs \<Rightarrow> refs \<Rightarrow> string list \<Rightarrow>
    ('s, ref_plan list \<times> string list) prog" where
  "plan_names is_ancestor mine theirs [] = ret ([], [])"
| "plan_names is_ancestor mine theirs (ref # names) =
     (let target = lookup_ref theirs ref; rest = plan_names is_ancestor mine theirs names in
      case map_of mine ref of
        None \<Rightarrow> bnd rest (\<lambda>(plans, diverged).
          ret (\<lparr>Ref = ref, Target = target, From = []\<rparr> # plans, diverged))
      | Some current \<Rightarrow>
          (if current = target then rest
           else bnd (is_ancestor current target) (\<lambda>forward.
             if forward then bnd rest (\<lambda>(plans, diverged).
               ret (\<lparr>Ref = ref, Target = target, From = current\<rparr> # plans, diverged))
             else bnd (is_ancestor target current) (\<lambda>behind.
               if behind then rest
               else bnd rest (\<lambda>(plans, diverged). ret (plans, ref # diverged))))))"

definition plan_ref_updates :: "refs \<Rightarrow> refs \<Rightarrow> (string \<Rightarrow> string \<Rightarrow> ('s, bool) prog) \<Rightarrow>
    ('s, ref_plan list \<times> string list) prog" where
  "plan_ref_updates mine theirs is_ancestor =
     plan_names is_ancestor mine theirs (sorted_ref_names theirs)"

definition append_names :: "string list \<Rightarrow> string list \<Rightarrow> string list" where
  "append_names existing names =
     sort (fold (\<lambda>name acc. if name \<in> set acc then acc else acc @ [name]) names existing)"

section \<open>HEAD of the host repository\<close>

definition preferred_branch :: "refs \<Rightarrow> string" where
  "preferred_branch refs =
     (case filter (\<lambda>want. map_of refs want \<noteq> None) [''heads/main'', ''heads/master''] of
        want # _ \<Rightarrow> want
      | [] \<Rightarrow> (case filter (\<lambda>name. has_prefix name ''heads/'') (sorted_ref_names refs) of
          name # _ \<Rightarrow> name | [] \<Rightarrow> []))"

definition ensure_hub_head :: "manager \<Rightarrow> string \<Rightarrow> string \<Rightarrow> (world, unit) prog" where
  "ensure_hub_head m opn hub =
     bnd (run_host m opn hub [''rev-parse'', ''--verify'', ''--quiet'', ''HEAD'']) (\<lambda>res.
       if ExitCode res = 0 then ret ()
       else bnd (list_host_refs m opn hub ''refs/'' [''refs/heads'']) (\<lambda>refs.
         let branch = preferred_branch refs in
         if branch = [] then ret ()
         else must_run_host m opn hub [''symbolic-ref'', ''HEAD'', ''refs/'' @ branch]))"

definition ensure_hub_repository :: "manager \<Rightarrow> string \<Rightarrow> string \<Rightarrow> (world, bool) prog" where
  "ensure_hub_repository m opn hub = bnd (hub_exists m hub) (\<lambda>there.
     if there then ret False
     else thn (host_mkdir m (mk_err opn KindPrecondition CHostIO) hub)
       (thn (must_run_host m opn [] [''init'', ''--bare'', ''--quiet'', ''--initial-branch=main'', hub])
         (ret True)))"

section \<open>Carrying a bundle in\<close>

definition placeholderOperator :: string where "placeholderOperator = ''__TORIO_OPERATOR_USER__''"

definition operatorUserPattern :: re where
  "operatorUserPattern = Seq (Cls (\<lambda>c. is_upper c \<or> is_lower c \<or> c = CHR ''_''))
     (Run (alnum_or ''_-'') 0 (Some 63))"

definition validate_operator_user :: "string \<Rightarrow> bool" where
  "validate_operator_user user = (let u = trim_space user in
     u \<noteq> [] \<and> u \<noteq> placeholderOperator \<and> full_match operatorUserPattern u)"

definition guest_session_user :: "manager \<Rightarrow> string \<Rightarrow> (world, string) prog" where
  "guest_session_user m opn = bnd (run m opn [''id'', ''-un'']) (\<lambda>res.
     if ExitCode res \<noteq> 0 then raise (command_error opn KindGuestCommand (ExitCode res))
     else (let user = trim_space (Stdout res) in
       if validate_operator_user user then ret user
       else raise (mk_err opn KindVerification CLoginName)))"

definition sharedGroup :: string where "sharedGroup = ''torio-projects''"

definition prepare_staging :: "manager \<Rightarrow> string \<Rightarrow> string \<Rightarrow> (world, unit) prog" where
  "prepare_staging m opn staging =
     thn (must_run m opn KindGuestCommand (root_exec [''rm'', ''-rf'', ''--'', staging]))
       (bnd (guest_session_user m opn) (\<lambda>transport_user.
          must_run m opn KindGuestCommand (root_exec [''install'', ''-d'', ''-o'', transport_user,
            ''-g'', sharedGroup, ''-m'', ''2770'', staging])))"

definition maxBundleBytes :: int where "maxBundleBytes = 4294967296"

definition stage_bundle_on_host :: "manager \<Rightarrow> string \<Rightarrow> string \<Rightarrow> (world, string) prog" where
  "stage_bundle_on_host m opn bundle = (\<lambda>w.
     if \<not> has_prefix bundle ''/'' then raise (mk_err opn KindInvalidConfig CBundlePath) w
     else (case bundle_info m (history w) bundle of
         None \<Rightarrow> raise (mk_err opn KindPrecondition CBundlePath) w
       | Some (regular, bytes) \<Rightarrow>
           (if \<not> regular \<or> bytes > maxBundleBytes then raise (mk_err opn KindPrecondition CBundlePath) w
            else bnd (host_mkdir_temp m opn ''torio-project-bundle-'') (\<lambda>dir w'.
              if copy_file_ok m (history w')
              then (Inr dir, emit (HostCopyFile bundle (file_join [dir, bundleFileName])) w')
              else thn (host_remove_all dir) (raise (mk_err opn KindTransport CNoStaging)) w') w)))"

definition attach_from_bundle :: "manager \<Rightarrow> string \<Rightarrow> string \<Rightarrow> string \<Rightarrow> (world, unit) prog" where
  "attach_from_bundle m opn bundle workspace =
     bnd (stage_bundle_on_host m opn bundle) (\<lambda>host_staging.
     let staging = bundle_staging_path m; agent = GuestUser m in
     finally_do
       (finally_do
         (thn (prepare_staging m opn staging)
         (thn (copy_to_guest m (from_guest_err opn) host_staging staging)
         (thn (must_run m opn KindGuestCommand
                (root_exec [''chown'', ''-R'', agent @ '':'' @ agent, staging]))
         (thn (must_run m opn KindGuestCommand
                (root_exec [''chmod'', ''-R'', ''u=rwX,g=,o='', staging]))
         (thn (must_run m opn KindGit (user_exec_as agent [''git'', ''clone'', ''--quiet'', ''--'',
                staging @ ''/'' @ bundleFileName, workspace]))
           (must_run m opn KindGit (user_exec_as agent [''git'', ''-C'', workspace,
                ''remote'', ''remove'', ''origin''])))))))
         (run m opn (root_exec [''rm'', ''-rf'', ''--'', staging])))
       (host_remove_all host_staging))"

definition attach_from_hub :: "manager \<Rightarrow> string \<Rightarrow> string \<Rightarrow> string \<Rightarrow> (world, bool) prog" where
  "attach_from_hub m opn pid workspace = (case hub_path m pid of
       Inl c \<Rightarrow> raise (mk_err opn KindInvalidConfig c)
     | Inr hub \<Rightarrow> bnd (hub_exists m hub) (\<lambda>there.
         if \<not> there then ret False
         else bnd (list_host_refs m opn hub ''refs/'' [''refs/heads'', ''refs/tags'']) (\<lambda>refs.
           if refs = [] then ret False
           else thn (ensure_hub_head m opn hub)
             (bnd (host_mkdir_temp m opn ''torio-project-hub-'') (\<lambda>dir.
               let host_bundle = file_join [dir, bundleFileName] in
               finally_do
                 (thn (must_run_host m opn hub [''bundle'', ''create'', host_bundle, ''HEAD'',
                         ''--branches'', ''--tags''])
                 (thn (attach_from_bundle m opn host_bundle workspace)
                   (ret True)))
                 (host_remove_all dir))))))"

end
