(* ===== verification/Manager.thy ===== *)
theory Manager
  imports Hub
begin

text \<open>
  The read and write steps of \<open>internal/projects/manager.go\<close>: the preconditions, the inspection of a
  checkout, the readability of a remote with the deploy key it may need, the permission and
  safe-directory steps, and \<open>persist\<close>.
\<close>

section \<open>Preconditions\<close>

definition require_operator_user :: "manager \<Rightarrow> string \<Rightarrow> perr option" where
  "require_operator_user m opn = (if trim_space (OperatorUser m) = []
     then Some (mk_err opn KindPrecondition CNoOperatorUser) else None)"

definition bootstrap_guest :: "manager \<Rightarrow> string \<Rightarrow> (world, unit) prog" where
  "bootstrap_guest m opn = (\<lambda>w. case bootstrap m (history w) of
       Some e \<Rightarrow> (Inl (mk_err opn KindPrecondition (CNotBootstrapped e)), emit BootstrapRun w)
     | None \<Rightarrow> (Inr (), emit BootstrapRun w))"

definition require_prepared :: "manager \<Rightarrow> string \<Rightarrow> (world, unit) prog" where
  "require_prepared m opn = thn (check (require_operator_user m opn))
     (thn (bootstrap_guest m opn) (must_run m opn KindGuestCommand (root_exec [''true''])))"

definition load_document :: "manager \<Rightarrow> string \<Rightarrow> (world, config_file) prog" where
  "load_document m opn = (\<lambda>w. case registry_load m w of
       (Inl e, w') \<Rightarrow> (Inl (mk_err opn KindInvalidConfig (CRegistry e)), w')
     | (Inr f, w') \<Rightarrow> (Inr f, w'))"

definition resolve :: "manager \<Rightarrow> string \<Rightarrow> string \<Rightarrow> (world, project \<times> string) prog" where
  "resolve m opn pid = (case derive_path (WorkspacePath m) pid of
       None \<Rightarrow> raise (mk_err opn KindInvalidConfig CInvalidPath)
     | Some workspace \<Rightarrow> bnd (load_document m opn) (\<lambda>current.
         case find_project (Projects current) pid of
           None \<Rightarrow> raise (mk_err opn KindConflict (CNotFound pid))
         | Some entry \<Rightarrow> ret (entry, workspace)))"

section \<open>Inspecting a checkout\<close>

definition shallow_answer :: "string \<Rightarrow> result \<Rightarrow> perr + bool" where
  "shallow_answer opn res =
     (if ExitCode res \<noteq> 0 then Inl (command_error opn KindGit (ExitCode res))
      else if trim_space (Stdout res) = ''false'' then Inr True
      else if trim_space (Stdout res) = ''true'' then Inr False
      else Inl (mk_err opn KindVerification CShallowUnknown))"

definition credential_answer :: "string \<Rightarrow> result \<Rightarrow> perr + bool" where
  "credential_answer opn res =
     (if ExitCode res = 0 then Inr False else if ExitCode res = 1 then Inr True
      else Inl (command_error opn KindGit (ExitCode res)))"

text \<open>The second half of \<open>inspectCheckout\<close>: what Git says of a proven top level.\<close>

definition inspect_repository :: "manager \<Rightarrow> string \<Rightarrow> string \<Rightarrow> string \<Rightarrow> CheckoutStatus \<Rightarrow>
    (world, CheckoutStatus) prog" where
  "inspect_repository m opn workspace remote st =
     bnd (run m opn (workspace_git m workspace [''config'', ''--get'', ''remote.origin.url''])) (\<lambda>origin.
     let recorded = (if ExitCode origin = 0 then trim_space (Stdout origin) else []) in
     bnd (run m opn (workspace_git m workspace [''rev-parse'', ''--is-shallow-repository''])) (\<lambda>shallow.
     bnd (of_sum (shallow_answer opn shallow)) (\<lambda>full.
     bnd (run m opn (workspace_git m workspace
            [''status'', ''--porcelain=v1'', ''--untracked-files=normal''])) (\<lambda>worktree.
     if ExitCode worktree \<noteq> 0 then raise (command_error opn KindGit (ExitCode worktree))
     else bnd (run m opn (workspace_git m workspace
            [''config'', ''--local'', ''--get-regexp'', ''^credential'' @ [CHR 0x5C] @ ''.''])) (\<lambda>cred.
     bnd (of_sum (credential_answer opn cred)) (\<lambda>no_helper.
     ret (st\<lparr>HasOrigin := recorded \<noteq> [], OriginMatches := recorded = remote, FullClone := full,
       Clean := trim_space (Stdout worktree) = [], NoCredentialHelper := no_helper\<rparr>)))))))"

text \<open>What runs once the path is a plain directory: its ownership and mode, then its top level.\<close>

definition directory_status :: "manager \<Rightarrow> string \<Rightarrow> CheckoutStatus" where
  "directory_status m out = (let (owner, grp, mode) = parse_ownership_mode out in
     no_status\<lparr>PathExists := True, Directory := True, Owner := owner, Group := grp, Mode := mode,
       SharedPermissions := owner = GuestUser m \<and> grp = sharedGroup \<and> shared_mode_ok mode\<rparr>)"

definition inspect_directory :: "manager \<Rightarrow> string \<Rightarrow> string \<Rightarrow> string \<Rightarrow> (world, CheckoutStatus) prog" where
  "inspect_directory m opn workspace remote =
     bnd (run m opn (root_exec [''stat'', ''-c'', ''%U:%G %a'', workspace])) (\<lambda>meta.
     if ExitCode meta \<noteq> 0 then raise (command_error opn KindGuestCommand (ExitCode meta))
     else (let st = directory_status m (Stdout meta) in
     bnd (run m opn (workspace_git m workspace [''rev-parse'', ''--show-toplevel''])) (\<lambda>top.
     if ExitCode top = 0 \<and> trim_space (Stdout top) = workspace
     then inspect_repository m opn workspace remote (st\<lparr>Repository := True\<rparr>)
     else ret st)))"

definition inspect_checkout :: "manager \<Rightarrow> string \<Rightarrow> string \<Rightarrow> string \<Rightarrow> (world, CheckoutStatus) prog" where
  "inspect_checkout m opn workspace remote =
     bnd (test_root m opn ''-L'' workspace) (\<lambda>link.
     if link then ret (no_status\<lparr>PathExists := True, Symlink := True\<rparr>)
     else bnd (test_root m opn ''-e'' workspace) (\<lambda>there.
     if \<not> there then ret no_status
     else bnd (test_root m opn ''-d'' workspace) (\<lambda>dir.
     if \<not> dir then ret (no_status\<lparr>PathExists := True\<rparr>)
     else inspect_directory m opn workspace remote)))"

section \<open>Deploy keys\<close>

record DeployKey =
  PublicKey :: string
  key_Host :: string
  KeyPath :: string
  Generated :: bool

definition gitSSHCommandVar :: string where "gitSSHCommandVar = ''GIT_SSH_COMMAND=''"

definition gitNoninteractiveEnv :: "string list" where
  "gitNoninteractiveEnv = [''env'', ''GIT_TERMINAL_PROMPT=0'',
     gitSSHCommandVar @ ''ssh -o BatchMode=yes -o StrictHostKeyChecking=accept-new'']"

definition git_exec :: "manager \<Rightarrow> string \<Rightarrow> string list \<Rightarrow> string list" where
  "git_exec m key_path args = user_exec_as (GuestUser m)
     (map (\<lambda>token. if key_path \<noteq> [] \<and> has_prefix token gitSSHCommandVar
            then token @ '' -o IdentitiesOnly=yes -i '' @ key_path else token) gitNoninteractiveEnv @
      [''git''] @ args)"

definition deploy_key_path :: "manager \<Rightarrow> string \<Rightarrow> string" where
  "deploy_key_path m pid = Home m @ ''/.ssh/torio/'' @ pid"

definition deploy_key_comment :: "string \<Rightarrow> string" where
  "deploy_key_comment pid = ''torio-deploy-'' @ pid"

definition deploy_key_ssh_command :: "string \<Rightarrow> string" where
  "deploy_key_ssh_command key_path =
     ''ssh -o BatchMode=yes -o StrictHostKeyChecking=accept-new -o IdentitiesOnly=yes -i '' @ key_path"

definition read_public_key :: "manager \<Rightarrow> string \<Rightarrow> string \<Rightarrow> (world, string) prog" where
  "read_public_key m opn key_path =
     bnd (run m opn (user_exec_as (GuestUser m) [''cat'', key_path @ ''.pub''])) (\<lambda>res.
       if ExitCode res \<noteq> 0 then raise (command_error opn KindGuestCommand (ExitCode res))
       else (let line = trim_space (Stdout res) in
         if full_match publicKeyPattern line then ret line
         else raise (mk_err opn KindVerification CNotPublicKey)))"

definition ensure_deploy_key :: "manager \<Rightarrow> string \<Rightarrow> string \<Rightarrow> (world, string) prog" where
  "ensure_deploy_key m opn pid = (let key_path = deploy_key_path m pid; home = Home m in
     thn (must_run m opn KindGuestCommand (user_exec_as (GuestUser m)
            [''mkdir'', ''-p'', ''-m'', ''0700'', home @ ''/.ssh'', home @ ''/.ssh/torio'']))
       (thn (must_run m opn KindGuestCommand (user_exec_as (GuestUser m)
            [''ssh-keygen'', ''-q'', ''-t'', ''ed25519'', ''-N'', [], ''-C'', deploy_key_comment pid,
             ''-f'', key_path]))
         (read_public_key m opn key_path)))"

definition provision_guest_git_access :: "manager \<Rightarrow> string \<Rightarrow> string \<Rightarrow> string \<Rightarrow> (world, unit) prog" where
  "provision_guest_git_access m opn pid workspace =
     (let key_path = deploy_key_path m pid; include = key_path @ ''.gitconfig''; user = GuestUser m in
      thn (must_run m opn KindGuestCommand (user_exec_as user
             [''git'', ''config'', ''-f'', include, ''core.sshCommand'', deploy_key_ssh_command key_path]))
        (must_run m opn KindGuestCommand (user_exec_as user
             [''git'', ''config'', ''--global'', ''includeIf.gitdir:'' @ workspace @ ''/.path'', include])))"

section \<open>Readability of a remote\<close>

definition mentions_unresolved_host :: "string \<Rightarrow> bool" where
  "mentions_unresolved_host stderr = contains stderr ''Could not resolve hostname''"

definition preflight_remote :: "manager \<Rightarrow> string \<Rightarrow> string \<Rightarrow> string \<Rightarrow> (world, bool) prog" where
  "preflight_remote m opn remote key_path =
     bnd (run m opn (git_exec m key_path [''ls-remote'', ''--'', remote, ''HEAD''])) (\<lambda>res.
       if ExitCode res \<noteq> 0 \<and> mentions_unresolved_host (Stderr res)
       then raise (mk_err opn KindVerification CUnresolvedHost)
       else ret (ExitCode res = 0))"

definition unreadable_remote :: "string \<Rightarrow> DeployKey option \<Rightarrow> perr" where
  "unreadable_remote opn key = mk_err opn KindAuth (CUnreadableRemote (key \<noteq> None))"

text \<open>
  \<open>ensureRemoteReadable\<close> returns the key path, the deploy key and the error together; only the
  refusals that carry a key do so, the others are plain failures.
\<close>

definition ensure_remote_readable :: "manager \<Rightarrow> string \<Rightarrow> string \<Rightarrow> string \<Rightarrow>
    (world, string \<times> DeployKey option \<times> perr option) prog" where
  "ensure_remote_readable m opn pid remote = (let key_path = deploy_key_path m pid in
     bnd (test_as_user m opn ''-f'' key_path) (\<lambda>held.
     let offered = (if held then key_path else []) in
     bnd (preflight_remote m opn remote offered) (\<lambda>readable.
     let acc = classify_remote remote in
     if readable then ret (offered, None, None)
     else if Transport acc \<noteq> TransportSSH \<or> Host acc = [] then raise (unreadable_remote opn None)
     else bnd (if held then read_public_key m opn key_path else ensure_deploy_key m opn pid) (\<lambda>pub.
     let key = \<lparr>PublicKey = pub, key_Host = Host acc, KeyPath = key_path, Generated = \<not> held\<rparr> in
     if held then ret ([], Some key, Some (unreadable_remote opn (Some key)))
     else bnd (preflight_remote m opn remote key_path) (\<lambda>readable2.
     if readable2 then ret (key_path, Some key, None)
     else ret ([], Some key, Some (unreadable_remote opn (Some key))))))))"

section \<open>Permissions\<close>

definition ensure_shared_permissions :: "manager \<Rightarrow> string \<Rightarrow> string \<Rightarrow> (world, unit) prog" where
  "ensure_shared_permissions m opn workspace =
     thn (must_run m opn KindGuestCommand (root_exec
            [''chown'', ''-R'', GuestUser m @ '':'' @ sharedGroup, ''--'', workspace]))
    (thn (must_run m opn KindGuestCommand (root_exec [''chmod'', ''-R'', ''g+rwX'', ''--'', workspace]))
      (must_run m opn KindGuestCommand (root_exec
            [''find'', workspace, ''-type'', ''d'', ''-exec'', ''chmod'', ''g+s'', ''{}'', ''+''])))"

definition safe_directory_present :: "manager \<Rightarrow> string \<Rightarrow> string \<Rightarrow> string \<Rightarrow> (world, bool) prog" where
  "safe_directory_present m opn user workspace =
     bnd (run m opn (user_exec_as user
            [''git'', ''config'', ''--global'', ''--get-all'', ''safe.directory''])) (\<lambda>res.
       if ExitCode res = 0 \<or> ExitCode res = 1
       then ret (list_ex (\<lambda>line. trim_space line = workspace) (split_lines (Stdout res)))
       else raise (command_error opn KindGit (ExitCode res)))"

definition ensure_safe_directory :: "manager \<Rightarrow> string \<Rightarrow> string \<Rightarrow> string \<Rightarrow> (world, unit) prog" where
  "ensure_safe_directory m opn user workspace =
     bnd (safe_directory_present m opn user workspace) (\<lambda>present.
     if present then ret ()
     else thn (must_run m opn KindGit (user_exec_as user
            [''git'', ''config'', ''--global'', ''--add'', ''safe.directory'', workspace]))
       (bnd (safe_directory_present m opn user workspace) (\<lambda>now.
         if now then ret () else raise (mk_err opn KindVerification CSafeDirectory))))"

section \<open>Persisting an entry\<close>

definition persist_update :: "project \<Rightarrow> bool \<Rightarrow> config_file \<Rightarrow> config_err + config_file" where
  "persist_update entry allow current = (case find_project (Projects current) (ID entry) of
       Some existing \<Rightarrow> (if existing = entry then Inr current
                         else Inl (ErrDuplicateProjectID (ID entry)))
     | None \<Rightarrow> with_project current entry \<lparr>AllowDuplicateRemote = allow\<rparr>)"

fun is_duplicate :: "registry_err \<Rightarrow> bool" where
  "is_duplicate (DocErr (ErrDuplicateProjectID pid)) = True"
| "is_duplicate (DocErr (ErrDuplicateRemote pid)) = True"
| "is_duplicate e = False"

fun is_not_found :: "registry_err \<Rightarrow> bool" where
  "is_not_found (DocErr (ErrProjectNotFound pid)) = True"
| "is_not_found e = False"

definition persist :: "manager \<Rightarrow> string \<Rightarrow> project \<Rightarrow> bool \<Rightarrow> (world, unit) prog" where
  "persist m opn entry allow = (\<lambda>w. case registry_update m (persist_update entry allow) w of
       (Inr _, w') \<Rightarrow> (Inr (), w')
     | (Inl e, w') \<Rightarrow> (Inl (mk_err opn (if is_duplicate e then KindConflict else KindConfigWrite)
                             (CRegistry e)), w'))"

section \<open>The host's SSH agent\<close>

text \<open>
  \<open>hostSSHAgent.Identities\<close>: the exit code of \<open>ssh-add -l\<close> decides, the output is counted. \<open>None\<close> is
  an agent that could not be queried, whatever the reason.
\<close>

definition host_agent_identities :: "guest_err + result \<Rightarrow> nat option" where
  "host_agent_identities answer = (case answer of
       Inl e \<Rightarrow> None
     | Inr res \<Rightarrow> (if ExitCode res = 0 then Some (count_lines (Stdout res))
                  else if ExitCode res = 1 then Some 0 else None))"

definition query_agent :: "manager \<Rightarrow> string \<Rightarrow> (world, nat) prog" where
  "query_agent m opn = (\<lambda>w. case host_agent_identities (ssh_add m (history w)) of
       None \<Rightarrow> (Inl (mk_err opn KindPrecondition CAgentUnreachable), emit AgentQuery w)
     | Some n \<Rightarrow> (Inr n, emit AgentQuery w))"

definition require_forwardable_agent :: "manager \<Rightarrow> string \<Rightarrow> (world, unit) prog" where
  "require_forwardable_agent m opn =
     (if trim_space (agent_socket m) = [] then raise (mk_err opn KindPrecondition CNoAgentSocket)
      else bnd (query_agent m opn) (\<lambda>n.
        if n < 1 then raise (mk_err opn KindAuth CAgentEmpty) else ret ()))"

section \<open>What a session shows\<close>

record ReviewContext =
  Branch :: string
  Ahead :: int
  AheadKnown :: bool

definition no_review :: ReviewContext where
  "no_review = \<lparr>Branch = [], Ahead = 0, AheadKnown = False\<rparr>"

definition review_context :: "manager \<Rightarrow> string \<Rightarrow> string \<Rightarrow> (world, ReviewContext) prog" where
  "review_context m opn workspace =
     bnd (attempt (run m opn (workspace_git m workspace [''symbolic-ref'', ''--short'', ''HEAD'']))) (\<lambda>r.
     case r of Inl e \<Rightarrow> ret no_review
     | Inr branch \<Rightarrow>
       (let name = trim_space (Stdout branch); review = no_review\<lparr>Branch := name\<rparr> in
        if ExitCode branch \<noteq> 0 \<or> name = [] then ret no_review
        else bnd (attempt (run m opn (workspace_git m workspace
                    [''rev-list'', ''--count'', ''@'' @ ''{u}..HEAD'']))) (\<lambda>r2.
          case r2 of Inl e \<Rightarrow> ret review
          | Inr ahead \<Rightarrow> (if ExitCode ahead \<noteq> 0 then ret review
              else (case parse_int64 (trim_space (Stdout ahead)) of
                  None \<Rightarrow> ret review
                | Some n \<Rightarrow> (if n < 0 then ret review
                    else ret (review\<lparr>Ahead := n, AheadKnown := True\<rparr>)))))))"

end
