(* ===== verification/Attach.thy ===== *)
theory Attach
  imports Manager
begin

text \<open>
  \<open>Manager.Add\<close> of \<open>internal/projects/manager.go\<close>: the checks that run before any guest command, the
  four ways a checkout comes to exist, and the steps that end in a registered project. The report
  is part of the state, since a failed attachment returns what it had filled in.
\<close>

record AddReport =
  add_Project :: view_project
  Cloned :: bool
  Adopted :: bool
  Initialized :: bool
  Registered :: bool
  add_Notes :: "string list"
  add_DeployKey :: "DeployKey option"

definition no_view :: view_project where
  "no_view = \<lparr>view_ID = [], view_DisplayName = [], view_Remote = [], view_Path = []\<rparr>"

definition no_add_report :: AddReport where
  "no_add_report = \<lparr>add_Project = no_view, Cloned = False, Adopted = False, Initialized = False,
     Registered = False, add_Notes = [], add_DeployKey = None\<rparr>"

type_synonym 'a add_prog = "(AddReport \<times> world, 'a) prog"

definition add_op :: string where "add_op = ''add''"

section \<open>Before any guest command\<close>

definition add_entry :: "AddRequest \<Rightarrow> project" where
  "add_entry req = \<lparr>ID = req_ID req, DisplayName = req_DisplayName req, Remote = req_Remote req\<rparr>"

definition add_request_check :: "AddRequest \<Rightarrow> perr option" where
  "add_request_check req = (case validate_project (add_entry req) of
       Some e \<Rightarrow> Some (mk_err add_op KindInvalidConfig (CConfig e))
     | None \<Rightarrow>
         (if has_prefix (req_DisplayName req) ''-'' then
            Some (mk_err add_op KindInvalidConfig CDisplayNameDash)
          else if \<not> require_one_attach_source req then
            Some (mk_err add_op KindInvalidConfig CTwoSources)
          else None))"

definition add_register_check :: "config_file \<Rightarrow> project \<Rightarrow> bool \<Rightarrow> perr option" where
  "add_register_check current entry allow = (case find_project (Projects current) (ID entry) of
       Some existing \<Rightarrow>
         (if existing \<noteq> entry then Some (mk_err add_op KindConflict CDifferentDetails) else None)
     | None \<Rightarrow> (case with_project current entry \<lparr>AllowDuplicateRemote = allow\<rparr> of
         Inl e \<Rightarrow> Some (mk_err add_op KindConflict (CConfig e))
       | Inr _ \<Rightarrow> None))"

definition add_checks :: "manager \<Rightarrow> AddRequest \<Rightarrow> string add_prog" where
  "add_checks m req = (let entry = add_entry req in
     thn (check (add_request_check req))
       (case derive_path (WorkspacePath m) (req_ID req) of
          None \<Rightarrow> raise (mk_err add_op KindInvalidConfig CInvalidPath)
        | Some workspace \<Rightarrow>
            thn (update (\<lambda>r. r\<lparr>add_Project := view entry workspace\<rparr>))
              (bnd (lift (load_document m add_op)) (\<lambda>current.
                thn (check (add_register_check current entry (req_AllowDuplicateRemote req)))
                  (ret workspace)))))"

section \<open>How the checkout comes to exist\<close>

definition add_note :: "string \<Rightarrow> unit add_prog" where
  "add_note n = update (\<lambda>r. r\<lparr>add_Notes := add_Notes r @ [n]\<rparr>)"

definition add_key :: "DeployKey option \<Rightarrow> unit add_prog" where
  "add_key key = (case key of None \<Rightarrow> ret ()
     | Some k \<Rightarrow> thn (update (\<lambda>r. r\<lparr>add_DeployKey := Some k\<rparr>))
         (add_note (if Generated k then ''deploy_key_generated''
                    else ''deploy_key_pending_authorization'')))"

definition adopt :: "CheckoutStatus \<Rightarrow> unit add_prog" where
  "adopt status = thn (check (require_adoptable add_op status))
     (update (\<lambda>r. r\<lparr>Adopted := True\<rparr>))"

definition add_from_remote :: "manager \<Rightarrow> AddRequest \<Rightarrow> string \<Rightarrow> CheckoutStatus \<Rightarrow> string add_prog" where
  "add_from_remote m req workspace status =
     bnd (lift (ensure_remote_readable m add_op (req_ID req) (req_Remote req)))
       (\<lambda>(key_path, key, err).
     thn (add_key key)
    (thn (check err)
    (thn (if key_path \<noteq> [] then add_note ''deploy_key_used'' else ret ())
    (thn (if \<not> PathExists status then
            thn (lift (must_run m add_op KindGit (git_exec m key_path
                   [''clone'', ''--quiet'', ''--'', req_Remote req, workspace])))
              (update (\<lambda>r. r\<lparr>Cloned := True\<rparr>))
          else adopt status)
      (ret key_path)))))"

definition add_from_bundle :: "manager \<Rightarrow> AddRequest \<Rightarrow> string \<Rightarrow> CheckoutStatus \<Rightarrow> unit add_prog" where
  "add_from_bundle m req workspace status =
     (if PathExists status then thn (adopt status) (add_note ''bundle_unused_checkout_present'')
      else thn (lift (attach_from_bundle m add_op (req_BundlePath req) workspace))
        (thn (update (\<lambda>r. r\<lparr>Cloned := True\<rparr>)) (add_note ''attached_from_bundle'')))"

definition add_local :: "manager \<Rightarrow> string \<Rightarrow> CheckoutStatus \<Rightarrow> unit add_prog" where
  "add_local m workspace status =
     (if PathExists status then adopt status
      else thn (lift (must_run m add_op KindGit (user_exec_as (GuestUser m)
             [''git'', ''init'', ''--initial-branch=main'', workspace])))
        (thn (update (\<lambda>r. r\<lparr>Initialized := True\<rparr>)) (add_note ''initialized_local'')))"

definition add_from_hub :: "manager \<Rightarrow> AddRequest \<Rightarrow> string \<Rightarrow> CheckoutStatus \<Rightarrow> unit add_prog" where
  "add_from_hub m req workspace status =
     (if PathExists status then adopt status
      else bnd (lift (attach_from_hub m add_op (req_ID req) workspace)) (\<lambda>materialized.
        if \<not> materialized then raise (mk_err add_op KindPrecondition CNeedsSource)
        else thn (update (\<lambda>r. r\<lparr>Cloned := True\<rparr>)) (add_note ''attached_from_host'')))"

text \<open>The value is the deploy key that opened the remote, empty when none did.\<close>

definition add_source :: "manager \<Rightarrow> AddRequest \<Rightarrow> string \<Rightarrow> CheckoutStatus \<Rightarrow> string add_prog" where
  "add_source m req workspace status =
     (if req_Remote req \<noteq> [] then add_from_remote m req workspace status
      else if req_BundlePath req \<noteq> [] then thn (add_from_bundle m req workspace status) (ret [])
      else if req_Local req then thn (add_local m workspace status) (ret [])
      else thn (add_from_hub m req workspace status) (ret []))"

section \<open>Postconditions and the record\<close>

definition require_plain_path :: "CheckoutStatus \<Rightarrow> perr option" where
  "require_plain_path status =
     (if Symlink status then Some (mk_err add_op KindConflict CPathIsSymlink)
      else if PathExists status \<and> \<not> Directory status then
        Some (mk_err add_op KindConflict CPathNotDirectory)
      else None)"

text \<open>Only a checkout that meets every postcondition is recorded.\<close>

definition add_record :: "manager \<Rightarrow> AddRequest \<Rightarrow> string \<Rightarrow> unit add_prog" where
  "add_record m req workspace =
     bnd (lift (inspect_checkout m add_op workspace (req_Remote req))) (\<lambda>final.
       if \<not> compliant final then raise (mk_err add_op KindVerification CNotCompliant)
       else bnd (attempt (lift (persist m add_op (add_entry req) (req_AllowDuplicateRemote req))))
         (\<lambda>saved. case saved of
            Inl e \<Rightarrow> thn (add_note ''checkout_retained'') (thn (add_note ''rerun_finishes'') (raise e))
          | Inr _ \<Rightarrow> update (\<lambda>r. r\<lparr>Registered := True\<rparr>)))"

definition add_finish :: "manager \<Rightarrow> AddRequest \<Rightarrow> string \<Rightarrow> string \<Rightarrow> unit add_prog" where
  "add_finish m req workspace key_path =
     thn (lift (ensure_shared_permissions m add_op workspace))
    (thn (for_each [GuestUser m, OperatorUser m]
            (\<lambda>user. lift (ensure_safe_directory m add_op user workspace)))
    (thn (if key_path \<noteq> [] then lift (provision_guest_git_access m add_op (req_ID req) workspace)
          else ret ())
      (add_record m req workspace)))"

definition add_body :: "manager \<Rightarrow> AddRequest \<Rightarrow> unit add_prog" where
  "add_body m req = bnd (add_checks m req) (\<lambda>workspace.
     thn (lift (require_prepared m add_op))
    (bnd (lift (inspect_checkout m add_op workspace (req_Remote req))) (\<lambda>status.
     thn (check (require_plain_path status))
    (bnd (add_source m req workspace status) (\<lambda>key_path.
       add_finish m req workspace key_path)))))"

definition add :: "manager \<Rightarrow> AddRequest \<Rightarrow> world \<Rightarrow> (AddReport \<times> perr option) \<times> world" where
  "add m req = with_report no_add_report (add_body m req)"

end
