(* ===== verification/Sessions.thy ===== *)
theory Sessions
  imports Attach
begin

text \<open>
  The other operations of \<open>internal/projects/manager.go\<close> over a registered project: \<open>List\<close>, \<open>Show\<close>,
  \<open>SetRemote\<close>, \<open>Remove\<close>, the two session preflights, and \<open>RemoteAccess\<close> of \<open>remoteaccess.go\<close>.
\<close>

section \<open>List and Show\<close>

fun list_views :: "manager \<Rightarrow> project list \<Rightarrow> view_project list option" where
  "list_views m [] = Some []"
| "list_views m (p # ps) = (case derive_path (WorkspacePath m) (ID p) of
       None \<Rightarrow> None
     | Some workspace \<Rightarrow> map_option (\<lambda>vs. view p workspace # vs) (list_views m ps))"

definition list_projects :: "manager \<Rightarrow> (world, view_project list) prog" where
  "list_projects m = bnd (load_document m ''list'') (\<lambda>current.
     case list_views m (Projects current) of
       None \<Rightarrow> raise (mk_err ''list'' KindVerification CInvalidPath)
     | Some out \<Rightarrow> ret (sort_key view_ID out))"

record ShowReport =
  show_Project :: view_project
  Checkout :: CheckoutStatus
  Issues :: "string list"

definition show_project_body :: "manager \<Rightarrow> string \<Rightarrow> (ShowReport \<times> world, unit) prog" where
  "show_project_body m pid = (let opn = ''show'' in
     bnd (lift (resolve m opn pid)) (\<lambda>(entry, workspace).
     thn (update (\<lambda>r. r\<lparr>show_Project := view entry workspace\<rparr>))
    (thn (lift (require_prepared m opn))
    (bnd (lift (inspect_checkout m opn workspace (Remote entry))) (\<lambda>checkout.
     update (\<lambda>r. r\<lparr>Checkout := checkout, Issues := issues checkout\<rparr>))))))"

definition show_project :: "manager \<Rightarrow> string \<Rightarrow> world \<Rightarrow> (ShowReport \<times> perr option) \<times> world" where
  "show_project m pid = with_report \<lparr>show_Project = no_view, Checkout = no_status, Issues = []\<rparr>
     (show_project_body m pid)"

section \<open>SetRemote\<close>

record SetRemoteReport =
  set_Project :: view_project
  PreviousRemote :: string
  CheckoutRepointed :: bool
  set_DeployKey :: "DeployKey option"
  set_Notes :: "string list"

type_synonym 'a set_prog = "(SetRemoteReport \<times> world, 'a) prog"

definition set_op :: string where "set_op = ''set_remote''"

definition set_note :: "string \<Rightarrow> unit set_prog" where
  "set_note n = update (\<lambda>r. r\<lparr>set_Notes := set_Notes r @ [n]\<rparr>)"

definition set_key :: "DeployKey option \<Rightarrow> unit set_prog" where
  "set_key key = (case key of None \<Rightarrow> ret ()
     | Some k \<Rightarrow> thn (update (\<lambda>r. r\<lparr>set_DeployKey := Some k\<rparr>))
         (set_note (if Generated k then ''deploy_key_generated''
                    else ''deploy_key_pending_authorization'')))"

definition correct_record :: "manager \<Rightarrow> string \<Rightarrow> string \<Rightarrow> (world, unit) prog" where
  "correct_record m pid remote = (\<lambda>w.
     case registry_update m (\<lambda>current. with_updated_remote current pid remote
            \<lparr>AllowDuplicateRemote = False\<rparr>) w of
       (Inr _, w') \<Rightarrow> (Inr (), w')
     | (Inl e, w') \<Rightarrow> (Inl (mk_err set_op
           (if is_duplicate e \<or> is_not_found e then KindConflict else KindConfigWrite)
           (CRegistry e)), w'))"

text \<open>The first half: everything up to the corrected record, and what the checkout says now.\<close>

definition set_remote_record :: "manager \<Rightarrow> string \<Rightarrow> string \<Rightarrow> (project \<times> string) set_prog" where
  "set_remote_record m pid remote =
     bnd (lift (resolve m set_op pid)) (\<lambda>(entry, workspace).
     if remote = [] then raise (mk_err set_op KindInvalidConfig CRemoteRemoval)
     else thn (update (\<lambda>r. r\<lparr>PreviousRemote := Remote entry,
              set_Project := view (entry\<lparr>Remote := remote\<rparr>) workspace\<rparr>))
       (thn (lift (correct_record m pid remote)) (ret (entry, workspace))))"

text \<open>The second half: an origin added where there was none, moved where it still was the old one.\<close>

definition set_remote_origin :: "manager \<Rightarrow> string \<Rightarrow> string \<Rightarrow> string \<Rightarrow> bool \<Rightarrow> unit set_prog" where
  "set_remote_origin m pid remote workspace promoting =
     bnd (if promoting then
            bnd (lift (ensure_remote_readable m set_op pid remote)) (\<lambda>(key_path, key, err).
              thn (set_key key) (thn (check err)
             (thn (if key_path \<noteq> [] then set_note ''deploy_key_used'' else ret ()) (ret key_path))))
          else ret []) (\<lambda>key_path.
     thn (lift (must_run m set_op KindGit (workspace_git m workspace
            (if promoting then [''remote'', ''add'', ''origin'', remote]
             else [''remote'', ''set-url'', ''origin'', remote]))))
    (thn (if key_path \<noteq> [] then lift (provision_guest_git_access m set_op pid workspace) else ret ())
    (bnd (lift (inspect_checkout m set_op workspace remote)) (\<lambda>final.
     if \<not> OriginMatches final then raise (mk_err set_op KindVerification CNotRepointed)
     else thn (update (\<lambda>r. r\<lparr>CheckoutRepointed := True\<rparr>))
       (set_note (if promoting then ''remote_attached'' else ''checkout_repointed''))))))"

definition set_remote_body :: "manager \<Rightarrow> string \<Rightarrow> string \<Rightarrow> unit set_prog" where
  "set_remote_body m pid remote = bnd (set_remote_record m pid remote) (\<lambda>(entry, workspace).
     bnd (attempt (lift (thn (require_prepared m set_op)
            (inspect_checkout m set_op workspace (Remote entry))))) (\<lambda>seen.
     case seen of
       Inl _ \<Rightarrow> set_note ''checkout_untouched_guest_unavailable''
     | Inr checkout \<Rightarrow> (let promoting = \<not> HasOrigin checkout in
         if \<not> PathExists checkout \<or> \<not> Repository checkout then set_note ''checkout_absent''
         else if \<not> promoting \<and> \<not> OriginMatches checkout then set_note ''checkout_origin_differs''
         else set_remote_origin m pid remote workspace promoting)))"

definition set_project_remote :: "manager \<Rightarrow> string \<Rightarrow> string \<Rightarrow> world \<Rightarrow>
    (SetRemoteReport \<times> perr option) \<times> world" where
  "set_project_remote m pid remote = with_report \<lparr>set_Project = no_view, PreviousRemote = [],
     CheckoutRepointed = False, set_DeployKey = None, set_Notes = []\<rparr> (set_remote_body m pid remote)"

section \<open>Remove\<close>

record RemoveReport =
  remove_Project :: view_project
  CheckoutRetained :: bool
  CheckoutPath :: string
  remove_Notes :: "string list"

definition remove_note :: "string \<Rightarrow> (RemoveReport \<times> world, unit) prog" where
  "remove_note n = update (\<lambda>r. r\<lparr>remove_Notes := remove_Notes r @ [n]\<rparr>)"

definition forget_entry :: "manager \<Rightarrow> string \<Rightarrow> (world, registry_err option) prog" where
  "forget_entry m pid = (\<lambda>w. case registry_update m (\<lambda>fresh. without_project fresh pid) w of
       (Inr _, w') \<Rightarrow> (Inr None, w') | (Inl e, w') \<Rightarrow> (Inr (Some e), w'))"

definition remove_body :: "manager \<Rightarrow> string \<Rightarrow> (RemoveReport \<times> world, unit) prog" where
  "remove_body m pid = (let opn = ''remove'' in
     bnd (lift (resolve m opn pid)) (\<lambda>(entry, workspace).
     thn (update (\<lambda>r. r\<lparr>remove_Project := view entry workspace, CheckoutPath := workspace,
            CheckoutRetained := True\<rparr>))
    (thn (remove_note ''checkout_retained'')
    (thn (lift (require_prepared m opn))
    (bnd (lift (test_as_user m opn ''-f'' (deploy_key_path m pid))) (\<lambda>held.
     thn (if held then remove_note ''deploy_key_retained'' else ret ())
    (bnd (lift (forget_entry m pid)) (\<lambda>failed. case failed of
       None \<Rightarrow> ret ()
     | Some e \<Rightarrow> (if is_not_found e then ret ()
         else thn (remove_note ''config_entry_retained'') (thn (remove_note ''rerun_finishes'')
           (raise (mk_err opn KindConfigWrite (CRegistry e)))))))))))))"

definition remove_project :: "manager \<Rightarrow> string \<Rightarrow> world \<Rightarrow> (RemoveReport \<times> perr option) \<times> world" where
  "remove_project m pid = with_report \<lparr>remove_Project = no_view, CheckoutRetained = False,
     CheckoutPath = [], remove_Notes = []\<rparr> (remove_body m pid)"

section \<open>Session preflights\<close>

record session =
  ses_Project :: view_project
  ses_Group :: string
  Instance :: string
  ses_OperatorUser :: string
  Preconditions :: "string list"
  Verified :: "string list"
  Review :: ReviewContext

definition enterPreconditions :: "string list" where
  "enterPreconditions = [''vm_running'', ''project_enter_helper'', ''shared_group_membership'',
     ''checkout_present'', ''origin_matches'', ''shared_permissions'']"

definition shellPreconditions :: "string list" where
  "shellPreconditions = [''vm_running'', ''operator_shell_helper'', ''shared_group_membership'',
     ''checkout_present'', ''origin_matches'', ''shared_permissions'', ''operator_ssh_agent'']"

definition session_drift :: "string \<Rightarrow> CheckoutStatus \<Rightarrow> perr" where
  "session_drift opn checkout = PErr opn KindVerification CSessionDrift (issues checkout)"

text \<open>The three drift checks of a preflight, with the markers each one proves.\<close>

definition session_checks :: "string \<Rightarrow> CheckoutStatus \<Rightarrow> perr + string list" where
  "session_checks opn checkout =
     (if \<not> PathExists checkout \<or> Symlink checkout \<or> \<not> Directory checkout \<or> \<not> Repository checkout
      then Inl (session_drift opn checkout)
      else if \<not> OriginMatches checkout then Inl (session_drift opn checkout)
      else if \<not> SharedPermissions checkout then Inl (session_drift opn checkout)
      else Inr [''checkout_present'', ''origin_matches'', ''shared_permissions''])"

definition session_spec :: "manager \<Rightarrow> string \<Rightarrow> string list \<Rightarrow> string \<Rightarrow> (world, session) prog" where
  "session_spec m opn preconditions pid = bnd (resolve m opn pid) (\<lambda>(entry, workspace).
     thn (check (require_operator_user m opn))
       (ret \<lparr>ses_Project = view entry workspace, ses_Group = sharedGroup, Instance = InstanceName m,
          ses_OperatorUser = OperatorUser m, Preconditions = preconditions, Verified = [],
          Review = no_review\<rparr>))"

definition enter_preflight :: "manager \<Rightarrow> string \<Rightarrow> (world, session) prog" where
  "enter_preflight m pid = (let opn = ''enter'' in
     bnd (session_spec m opn enterPreconditions pid) (\<lambda>s.
     thn (require_prepared m opn)
    (bnd (inspect_checkout m opn (view_Path (ses_Project s)) (view_Remote (ses_Project s))) (\<lambda>checkout.
     bnd (of_sum (session_checks opn checkout)) (\<lambda>proved.
     bnd (review_context m opn (view_Path (ses_Project s))) (\<lambda>review.
     ret (s\<lparr>Verified := [''vm_running'', ''project_enter_helper'', ''shared_group_membership''] @ proved,
       Review := review\<rparr>)))))))"

definition shell_preflight :: "manager \<Rightarrow> string \<Rightarrow> (world, session) prog" where
  "shell_preflight m pid = (let opn = ''shell'' in
     bnd (session_spec m opn shellPreconditions pid) (\<lambda>s.
     thn (require_prepared m opn)
    (bnd (inspect_checkout m opn (view_Path (ses_Project s)) (view_Remote (ses_Project s))) (\<lambda>checkout.
     bnd (of_sum (session_checks opn checkout)) (\<lambda>proved.
     thn (require_forwardable_agent m opn)
    (bnd (review_context m opn (view_Path (ses_Project s))) (\<lambda>review.
     ret (s\<lparr>Verified := [''vm_running'', ''operator_shell_helper'', ''shared_group_membership''] @
         proved @ [''operator_ssh_agent''],
       Review := review\<rparr>))))))))"

section \<open>RemoteAccess\<close>

datatype SessionIdentity = OperatorIdentity | AgentIdentity

definition remote_access :: "manager \<Rightarrow> string \<Rightarrow> SessionIdentity \<Rightarrow> (world, RemoteAccess) prog" where
  "remote_access m pid who = (let opn = ''remote_access'' in
     bnd (resolve m opn pid) (\<lambda>(_, workspace).
     bnd (run m opn (workspace_git m workspace [''remote'', ''get-url'', ''--push'', ''origin''])) (\<lambda>res.
     if ExitCode res \<noteq> 0 then raise (command_error opn KindGit (ExitCode res))
     else (let acc = classify_remote (trim_space (Stdout res));
           user = (if who = AgentIdentity then GuestUser m else OperatorUser m) in
       if Transport acc \<noteq> TransportSSH \<or> Host acc = [] \<or> user = [] then ret acc
       else bnd (run m opn (user_exec_as user [''ssh-keygen'', ''-F'', Host acc])) (\<lambda>known.
         ret (acc\<lparr>HostKnown := ExitCode known = 0\<rparr>))))))"

end
