(* ===== verification/Sync.thy ===== *)
theory Sync
  imports Sessions
begin

text \<open>
  \<open>Manager.Sync\<close> of \<open>internal/projects/sync.go\<close>: the reconciliation of a local project's checkout
  with its bare repository on the host, outbound and then inbound.
\<close>

record RefMove =
  move_Ref :: string
  Commits :: int

record SyncReport =
  sync_Project :: view_project
  HubPath :: string
  HubCreated :: bool
  ToHub :: "RefMove list"
  ToGuest :: "RefMove list"
  Diverged :: "string list"
  HeldBack :: "string list"
  sync_Notes :: "string list"

type_synonym 'a sync_prog = "(SyncReport \<times> world, 'a) prog"

definition no_sync_report :: SyncReport where
  "no_sync_report = \<lparr>sync_Project = no_view, HubPath = [], HubCreated = False, ToHub = [],
     ToGuest = [], Diverged = [], HeldBack = [], sync_Notes = []\<rparr>"

definition moved :: "SyncReport \<Rightarrow> bool" where
  "moved r \<longleftrightarrow> length (ToHub r) > 0 \<or> length (ToGuest r) > 0"

definition sync_op :: string where "sync_op = ''sync''"

definition guest_has_history :: "manager \<Rightarrow> string \<Rightarrow> (world, bool) prog" where
  "guest_has_history m workspace = bnd (run m sync_op (workspace_git m workspace
       [''for-each-ref'', ''--count=1'', ''--format=%(refname)'', ''refs/heads'', ''refs/tags''])) (\<lambda>res.
     if ExitCode res \<noteq> 0 then raise (command_error sync_op KindGit (ExitCode res))
     else ret (length (trim_space (Stdout res)) > 0))"

section \<open>Outbound\<close>

definition carry_out :: "manager \<Rightarrow> string \<Rightarrow> string \<Rightarrow> (world, string) prog" where
  "carry_out m host_root workspace = (let staging = sync_staging_path m;
       host_staging = file_join [host_root, ''from-guest''];
       host_bundle = file_join [host_staging, guestBundleName] in
     thn (must_run m sync_op KindGit (workspace_git m workspace
            [''bundle'', ''create'', staging @ ''/'' @ guestBundleName, ''--branches'', ''--tags'']))
    (thn (host_mkdir m (mk_err sync_op KindTransport CNoStaging) host_staging)
    (thn (copy_from_guest m (\<lambda>_. mk_err sync_op KindTransport CCarry) staging host_staging)
    (bnd (host_stat m host_bundle) (\<lambda>arrived.
       if arrived then ret host_bundle else raise (mk_err sync_op KindTransport CCarry))))))"

definition move_hub_ref :: "manager \<Rightarrow> string \<Rightarrow> ref_plan \<Rightarrow> unit sync_prog" where
  "move_hub_ref m hub p =
     thn (lift (must_run_host m sync_op hub [''update-ref'', ''refs/'' @ Ref p, Target p]))
       (bnd (lift (count_host m sync_op hub (commit_range p))) (\<lambda>n.
         update (\<lambda>r. r\<lparr>ToHub := ToHub r @ [\<lparr>move_Ref = Ref p, Commits = n\<rparr>]\<rparr>)))"

definition sync_outbound :: "manager \<Rightarrow> string \<Rightarrow> string \<Rightarrow> string \<Rightarrow> unit sync_prog" where
  "sync_outbound m host_root workspace hub =
     bnd (lift (carry_out m host_root workspace)) (\<lambda>host_bundle.
     bnd (lift (ensure_hub_repository m sync_op hub)) (\<lambda>created.
     thn (update (\<lambda>r. r\<lparr>HubCreated := created\<rparr>))
    (let mirror = hub_mirror_namespace m in
     thn (lift (must_run_host m sync_op hub [''fetch'', ''--quiet'', ''--prune'', ''--no-tags'',
            host_bundle, ''+refs/heads/*:'' @ mirror @ ''/heads/*'',
            ''+refs/tags/*:'' @ mirror @ ''/tags/*'']))
    (bnd (lift (list_host_refs m sync_op hub ''refs/'' [''refs/heads'', ''refs/tags''])) (\<lambda>ours.
     bnd (lift (list_host_refs m sync_op hub (mirror @ ''/'') [mirror])) (\<lambda>theirs.
     bnd (lift (plan_ref_updates ours theirs (host_ancestor m sync_op hub))) (\<lambda>(plans, diverged).
     thn (update (\<lambda>r. r\<lparr>Diverged := append_names (Diverged r) diverged\<rparr>))
    (thn (for_each plans (move_hub_ref m hub))
      (lift (ensure_hub_head m sync_op hub))))))))))"

section \<open>Inbound\<close>

definition checked_out_branch :: "manager \<Rightarrow> string \<Rightarrow> (world, string) prog" where
  "checked_out_branch m workspace = bnd (run m sync_op (workspace_git m workspace
       [''symbolic-ref'', ''--short'', ''HEAD''])) (\<lambda>res.
     if ExitCode res \<noteq> 0 then ret [] else ret (trim_space (Stdout res)))"

definition fast_forward_checkout :: "manager \<Rightarrow> string \<Rightarrow> string \<Rightarrow> (world, bool) prog" where
  "fast_forward_checkout m workspace ref = bnd (run m sync_op (workspace_git m workspace
       [''merge'', ''--ff-only'', hubMirrorRef @ ''/'' @ ref])) (\<lambda>res. ret (ExitCode res = 0))"

definition carry_in :: "manager \<Rightarrow> string \<Rightarrow> string \<Rightarrow> string \<Rightarrow> (world, unit) prog" where
  "carry_in m host_root workspace hub = (let staging = sync_staging_path m;
       host_staging = file_join [host_root, ''to-guest''];
       host_bundle = file_join [host_staging, hubBundleName] in
     thn (host_mkdir m (mk_err sync_op KindTransport CNoStaging) host_staging)
    (thn (must_run_host m sync_op hub
            [''bundle'', ''create'', host_bundle, ''--branches'', ''--tags''])
    (thn (copy_to_guest m (\<lambda>_. mk_err sync_op KindTransport CCarry) host_staging staging)
    (thn (must_run m sync_op KindGuestCommand (root_exec [''chmod'', ''2770'', staging]))
      (must_run m sync_op KindGit (workspace_git m workspace
            [''fetch'', ''--quiet'', ''--prune'', ''--no-tags'', staging @ ''/'' @ hubBundleName,
             ''+refs/heads/*:'' @ hubMirrorRef @ ''/heads/*'',
             ''+refs/tags/*:'' @ hubMirrorRef @ ''/tags/*''])))))) "

definition move_guest_ref :: "manager \<Rightarrow> string \<Rightarrow> string \<Rightarrow> ref_plan \<Rightarrow> unit sync_prog" where
  "move_guest_ref m workspace branch p =
     (let report_move = bnd (lift (count_guest m sync_op workspace (commit_range p))) (\<lambda>n.
            update (\<lambda>r. r\<lparr>ToGuest := ToGuest r @ [\<lparr>move_Ref = Ref p, Commits = n\<rparr>]\<rparr>)) in
      if branch \<noteq> [] \<and> Ref p = ''heads/'' @ branch then
        bnd (lift (fast_forward_checkout m workspace (Ref p))) (\<lambda>moved_it.
          if moved_it then report_move
          else update (\<lambda>r. r\<lparr>HeldBack := append_names (HeldBack r) [Ref p]\<rparr>))
      else thn (lift (must_run m sync_op KindGit (workspace_git m workspace
                  [''update-ref'', ''refs/'' @ Ref p, Target p])))
             report_move)"

definition sync_inbound :: "manager \<Rightarrow> string \<Rightarrow> string \<Rightarrow> string \<Rightarrow> unit sync_prog" where
  "sync_inbound m host_root workspace hub =
     bnd (lift (list_host_refs m sync_op hub ''refs/'' [''refs/heads'', ''refs/tags''])) (\<lambda>host_refs.
     if host_refs = [] then ret ()
     else thn (lift (carry_in m host_root workspace hub))
    (bnd (lift (list_guest_refs m sync_op workspace ''refs/'' [''refs/heads'', ''refs/tags''])) (\<lambda>mine.
     bnd (lift (list_guest_refs m sync_op workspace (hubMirrorRef @ ''/'') [hubMirrorRef])) (\<lambda>theirs.
     bnd (lift (plan_ref_updates mine theirs (guest_ancestor m sync_op workspace))) (\<lambda>(plans, diverged).
     thn (update (\<lambda>r. r\<lparr>Diverged := append_names (Diverged r) diverged\<rparr>))
    (bnd (lift (checked_out_branch m workspace)) (\<lambda>branch.
     for_each plans (move_guest_ref m workspace branch))))))))"

section \<open>The reconciliation\<close>

definition sync_checks :: "manager \<Rightarrow> string \<Rightarrow> (string \<times> string) sync_prog" where
  "sync_checks m pid =
     bnd (lift (resolve m sync_op pid)) (\<lambda>(entry, workspace).
     thn (update (\<lambda>r. r\<lparr>sync_Project := view entry workspace\<rparr>))
    (if Remote entry \<noteq> [] then raise (mk_err sync_op KindPrecondition CHasRemote)
     else (case hub_path m pid of
         Inl c \<Rightarrow> raise (mk_err sync_op KindInvalidConfig c)
       | Inr hub \<Rightarrow>
           thn (update (\<lambda>r. r\<lparr>HubPath := hub\<rparr>))
          (thn (lift (require_prepared m sync_op))
          (bnd (lift (inspect_checkout m sync_op workspace (Remote entry))) (\<lambda>checkout.
           if \<not> PathExists checkout \<or> Symlink checkout \<or> \<not> Directory checkout \<or> \<not> Repository checkout
           then raise (PErr sync_op KindPrecondition CNoCheckout (issues checkout))
           else if HasOrigin checkout
           then raise (PErr sync_op KindConflict CUnexpectedOrigin (issues checkout))
           else ret (workspace, hub)))))))"

definition reconcile :: "manager \<Rightarrow> string \<Rightarrow> string \<Rightarrow> string \<Rightarrow> unit sync_prog" where
  "reconcile m host_root workspace hub =
     thn (lift (prepare_staging m sync_op (sync_staging_path m)))
    (bnd (lift (guest_has_history m workspace)) (\<lambda>has_history.
     thn (if has_history then sync_outbound m host_root workspace hub
          else update (\<lambda>r. r\<lparr>sync_Notes := sync_Notes r @ [''no_history_yet'']\<rparr>))
      (\<lambda>(r, w). if HubCreated r then ret () (r, w)
         else bnd (lift (hub_exists m hub)) (\<lambda>there.
           if there then sync_inbound m host_root workspace hub else ret ()) (r, w))))"

definition sync_body :: "manager \<Rightarrow> string \<Rightarrow> unit sync_prog" where
  "sync_body m pid = bnd (sync_checks m pid) (\<lambda>(workspace, hub).
     bnd (lift (host_mkdir_temp m sync_op ''torio-project-sync-'')) (\<lambda>host_root.
       finally_do (reconcile m host_root workspace hub)
         (lift (thn (host_remove_all host_root)
           (run m sync_op (root_exec [''rm'', ''-rf'', ''--'', sync_staging_path m]))))))"

definition sync :: "manager \<Rightarrow> string \<Rightarrow> world \<Rightarrow> (SyncReport \<times> perr option) \<times> world" where
  "sync m pid = with_report no_sync_report (sync_body m pid)"

end
