(* ===== verification/Guest_Commands.thy ===== *)
theory Guest_Commands
  imports Sync
begin

text \<open>
  What the operations of \<open>internal/projects\<close> may run in the guest: a reading of an argv as the
  command behind \<open>sudo\<close> and \<open>env\<close>, the commands that only read, the commands an attachment may run,
  and the frames that carry these bounds through the steps of \<open>Manager\<close> and \<open>Hub\<close>.
\<close>

section \<open>Reading an argv\<close>

definition strip_sudo :: "string list \<Rightarrow> string list" where
  "strip_sudo argv = (if take 3 argv = [''sudo'', ''-n'', ''--''] then drop 3 argv
     else if take 3 argv = [''sudo'', ''-n'', ''-u''] then drop 5 argv else argv)"

definition strip_env :: "string list \<Rightarrow> string list" where
  "strip_env argv = (if take 1 argv = [''env''] then drop 3 argv else argv)"

definition command_of :: "string list \<Rightarrow> string list" where
  "command_of argv = strip_env (strip_sudo argv)"

text \<open>The arguments of a Git command after \<open>-C dir\<close>, \<open>None\<close> for any other command.\<close>

definition git_args :: "string list \<Rightarrow> string list option" where
  "git_args argv = (let c = command_of argv in
     if take 1 c \<noteq> [''git''] then None
     else if take 1 (drop 1 c) = [''-C''] then Some (drop 3 c) else Some (drop 1 c))"

definition starts :: "string list list \<Rightarrow> string list \<Rightarrow> bool" where
  "starts ps args \<longleftrightarrow> list_ex (\<lambda>p. take (length p) args = p) ps"

definition read_only_guest :: "string list \<Rightarrow> bool" where
  "read_only_guest argv = (case git_args argv of
     Some args \<Rightarrow> starts [[''rev-parse''], [''config'', ''--get''], [''config'', ''--local'', ''--get-regexp''],
       [''config'', ''--global'', ''--get-all''], [''status''], [''symbolic-ref'', ''--short'', ''HEAD''],
       [''rev-list'', ''--count''], [''for-each-ref''], [''merge-base'', ''--is-ancestor'']] args
   | None \<Rightarrow> starts [[''test''], [''stat''], [''true''], [''id'']] (command_of argv))"

lemmas argv_defs = read_only_guest_def git_args_def command_of_def strip_env_def strip_sudo_def
  starts_def workspace_git_def root_exec_def user_exec_as_def

text \<open>
  What an attachment may run besides: it may read the remote, clone, initialize, configure, hold a
  deploy key and set ownership. It removes nothing but its own staging directory.
\<close>

definition attach_root :: "string list \<Rightarrow> string list \<Rightarrow> bool" where
  "attach_root stagings c \<longleftrightarrow>
     starts [[''chown'', ''-R''], [''chmod'', ''-R''], [''install'', ''-d''], [''mkdir'', ''-p''],
       [''ssh-keygen'', ''-q'', ''-t'', ''ed25519'']] c \<or>
     take 1 c = [''find''] \<and> drop 2 c = [''-type'', ''d'', ''-exec'', ''chmod'', ''g+s'', ''{}'', ''+''] \<or>
     take 1 c = [''cat''] \<and> length c = 2 \<and> suffix ''.pub'' (c ! 1) \<or>
     take 3 c = [''rm'', ''-rf'', ''--''] \<and> length c = 4 \<and> c ! 3 \<in> set stagings"

definition attach_guest :: "manager \<Rightarrow> string list \<Rightarrow> bool" where
  "attach_guest m argv \<longleftrightarrow> read_only_guest argv \<or> (case git_args argv of
     Some args \<Rightarrow> starts [[''ls-remote'', ''--''], [''clone'', ''--quiet'', ''--''], [''init''],
       [''config'', ''--global''], [''config'', ''-f''], [''remote'', ''add'', ''origin''],
       [''remote'', ''set-url'', ''origin''], [''remote'', ''remove'', ''origin'']] args
   | None \<Rightarrow> attach_root [bundle_staging_path m] (command_of argv))"

section \<open>Frames of the shared steps\<close>

definition allows_reads :: "(event \<Rightarrow> bool) \<Rightarrow> bool" where
  "allows_reads P \<longleftrightarrow> (\<forall>argv. read_only_guest argv \<longrightarrow> P (GuestRun argv)) \<and> P BootstrapRun \<and> P RegistryRead"

definition allows_attach :: "manager \<Rightarrow> (event \<Rightarrow> bool) \<Rightarrow> bool" where
  "allows_attach m P \<longleftrightarrow> (\<forall>argv. attach_guest m argv \<longrightarrow> P (GuestRun argv)) \<and> P BootstrapRun \<and> P RegistryRead"

lemma allows_attach_reads: "allows_attach m P \<Longrightarrow> allows_reads P"
  by (auto simp: allows_attach_def allows_reads_def attach_guest_def)

lemma emits_read:
  "allows_reads P \<Longrightarrow> read_only_guest argv \<Longrightarrow> keeps (emits_only P) (run m opn argv)"
  by (rule emits_run) (simp add: allows_reads_def)

lemma emits_of_sum [frame_intros]: "keeps (emits_only P) (of_sum r)"
  unfolding of_sum_def by (intro frame_intros)

lemma emits_load_document [frame_intros]: "allows_reads P \<Longrightarrow> keeps (emits_only P) (load_document m opn)"
  by (auto simp: keeps_def load_document_def registry_load_def allows_reads_def emits_emit
      split: prod.splits sum.splits if_splits)

lemma emits_resolve [frame_intros]: "allows_reads P \<Longrightarrow> keeps (emits_only P) (resolve m opn pid)"
  unfolding resolve_def by (intro frame_intros)

lemma emits_bootstrap [frame_intros]: "allows_reads P \<Longrightarrow> keeps (emits_only P) (bootstrap_guest m opn)"
  by (auto simp: keeps_def bootstrap_guest_def allows_reads_def emits_emit split: option.splits)

lemma read_test_root [simp]: "read_only_guest (root_exec [''test'', flag, p])"
  by (simp add: argv_defs)

lemma read_test_user [simp]: "read_only_guest (user_exec_as u [''test'', flag, p])"
  by (simp add: argv_defs)

lemma emits_require_prepared [frame_intros]:
  "allows_reads P \<Longrightarrow> keeps (emits_only P) (require_prepared m opn)"
  unfolding require_prepared_def must_run_def by (intro frame_intros emits_read; simp add: argv_defs)

lemma emits_test_root_read [frame_intros]:
  "allows_reads P \<Longrightarrow> keeps (emits_only P) (test_root m opn flag p)"
  unfolding test_root_def by (intro frame_intros emits_read; simp)

lemma emits_test_user_read [frame_intros]:
  "allows_reads P \<Longrightarrow> keeps (emits_only P) (test_as_user m opn flag p)"
  unfolding test_as_user_def by (intro frame_intros emits_read; simp)

lemma emits_inspect_repository [frame_intros]:
  "allows_reads P \<Longrightarrow> keeps (emits_only P) (inspect_repository m opn workspace remote st)"
  unfolding inspect_repository_def by (intro frame_intros emits_read; simp add: argv_defs)

lemma emits_inspect_checkout [frame_intros]:
  "allows_reads P \<Longrightarrow> keeps (emits_only P) (inspect_checkout m opn workspace remote)"
  unfolding inspect_checkout_def inspect_directory_def by (intro frame_intros emits_read; simp add: argv_defs)

lemma emits_review_context [frame_intros]:
  "allows_reads P \<Longrightarrow> keeps (emits_only P) (review_context m opn workspace)"
  unfolding review_context_def by (intro frame_intros emits_read; simp add: argv_defs)

lemma emits_session_spec [frame_intros]:
  "allows_reads P \<Longrightarrow> keeps (emits_only P) (session_spec m opn pre pid)"
  unfolding session_spec_def by (intro frame_intros)

lemma emits_agent [frame_intros]:
  "P AgentQuery \<Longrightarrow> keeps (emits_only P) (require_forwardable_agent m opn)"
  unfolding require_forwardable_agent_def
  by (intro frame_intros) (auto simp: keeps_def query_agent_def emits_emit split: option.splits)

section \<open>Frames of the attachment's steps\<close>

lemma attach_run:
  "allows_attach m P \<Longrightarrow> attach_guest m argv \<Longrightarrow> keeps (emits_only P) (run m' opn argv)"
  by (rule emits_run) (simp add: allows_attach_def)

lemma attach_must_run:
  "allows_attach m P \<Longrightarrow> attach_guest m argv \<Longrightarrow> keeps (emits_only P) (must_run m' opn kind argv)"
  by (rule emits_must_run) (simp add: allows_attach_def)

lemmas attach_defs = attach_guest_def attach_root_def argv_defs

lemma attach_guest_read: "read_only_guest argv \<Longrightarrow> attach_guest m argv"
  by (simp add: attach_guest_def)

lemma git_exec_args [simp]:
  "git_args (git_exec m key args) = (if take 1 args = [''-C''] then Some (drop 2 args) else Some args)"
  by (cases args) (simp_all add: git_exec_def gitNoninteractiveEnv_def argv_defs Let_def
      has_prefix_def gitSSHCommandVar_def)

lemma emits_preflight_remote [frame_intros]:
  "allows_attach m P \<Longrightarrow> keeps (emits_only P) (preflight_remote m opn remote key)"
  unfolding preflight_remote_def
  by (intro frame_intros attach_run attach_must_run; simp add: attach_guest_def starts_def)

lemma emits_read_public_key [frame_intros]:
  "allows_attach m P \<Longrightarrow> keeps (emits_only P) (read_public_key m opn key)"
  unfolding read_public_key_def
  by (intro frame_intros attach_run attach_must_run; simp add: attach_defs Let_def suffix_def)

lemma emits_ensure_deploy_key [frame_intros]:
  "allows_attach m P \<Longrightarrow> keeps (emits_only P) (ensure_deploy_key m opn pid)"
  unfolding ensure_deploy_key_def
  by (intro frame_intros attach_run attach_must_run; simp add: attach_defs Let_def)

lemma emits_ensure_remote_readable [frame_intros]:
  "allows_attach m P \<Longrightarrow> keeps (emits_only P) (ensure_remote_readable m opn pid remote)"
  unfolding ensure_remote_readable_def
  by (frule allows_attach_reads; intro frame_intros; simp)

lemma emits_provision [frame_intros]:
  "allows_attach m P \<Longrightarrow> keeps (emits_only P) (provision_guest_git_access m opn pid workspace)"
  unfolding provision_guest_git_access_def
  by (intro frame_intros attach_run attach_must_run; simp add: attach_defs Let_def)

lemma emits_shared_permissions [frame_intros]:
  "allows_attach m P \<Longrightarrow> keeps (emits_only P) (ensure_shared_permissions m opn workspace)"
  unfolding ensure_shared_permissions_def
  by (intro frame_intros attach_run attach_must_run; simp add: attach_defs Let_def)

lemma emits_safe_directory [frame_intros]:
  "allows_attach m P \<Longrightarrow> keeps (emits_only P) (ensure_safe_directory m opn user workspace)"
  unfolding ensure_safe_directory_def safe_directory_present_def
  by (intro frame_intros attach_run attach_must_run; simp add: attach_defs Let_def)

lemma emits_guest_session_user [frame_intros]:
  "allows_reads P \<Longrightarrow> keeps (emits_only P) (guest_session_user m opn)"
  unfolding guest_session_user_def by (intro frame_intros emits_read; simp add: argv_defs)

text \<open>What an attachment may do on the host: make private directories, copy a file, ask Git for refs,
  point HEAD at one of them and write a bundle.\<close>

definition attach_host :: "string list \<Rightarrow> bool" where
  "attach_host argv = (case git_args argv of None \<Rightarrow> False
     | Some args \<Rightarrow> starts [[''for-each-ref''], [''rev-parse'', ''--verify''], [''symbolic-ref'', ''HEAD''],
         [''bundle'', ''create'']] args)"

definition allows_host :: "(event \<Rightarrow> bool) \<Rightarrow> bool" where
  "allows_host P \<longleftrightarrow> (\<forall>a b. P (CopyIn a b) \<and> P (HostCopyFile a b)) \<and>
     (\<forall>d. P (HostMkdirTemp d) \<and> P (HostMkdir d) \<and> P (HostRemoveAll d)) \<and>
     (\<forall>argv. attach_host argv \<longrightarrow> P (HostGit argv))"

lemma emits_run_host:
  "P (HostGit ([''git''] @ (if dir \<noteq> [] then [''-C'', dir] else []) @ args)) \<Longrightarrow>
     keeps (emits_only P) (run_host m opn dir args)"
  by (auto simp: keeps_def run_host_def emits_emit Let_def split: sum.splits)

lemma emits_must_run_host:
  "P (HostGit ([''git''] @ (if dir \<noteq> [] then [''-C'', dir] else []) @ args)) \<Longrightarrow>
     keeps (emits_only P) (must_run_host m opn dir args)"
  unfolding must_run_host_def by (intro frame_intros emits_run_host)

lemma emits_list_host_refs [frame_intros]:
  "allows_host P \<Longrightarrow> keeps (emits_only P) (list_host_refs m opn hub pre patterns)"
  unfolding list_host_refs_def by (intro frame_intros emits_run_host; simp add: allows_host_def attach_host_def argv_defs)

lemma emits_ensure_hub_head [frame_intros]:
  "allows_host P \<Longrightarrow> keeps (emits_only P) (ensure_hub_head m opn hub)"
  unfolding ensure_hub_head_def by (intro frame_intros emits_run_host emits_must_run_host; simp add: allows_host_def attach_host_def argv_defs)

lemma emits_stage_bundle [frame_intros]:
  "allows_host P \<Longrightarrow> keeps (emits_only P) (stage_bundle_on_host m opn bundle)"
  by (auto simp: keeps_def stage_bundle_on_host_def allows_host_def prog_defs host_mkdir_temp_def
      host_remove_all_def emits_only_def split: option.splits prod.splits)

lemma emits_attach_from_bundle [frame_intros]:
  "allows_attach m P \<Longrightarrow> allows_host P \<Longrightarrow>
     keeps (emits_only P) (attach_from_bundle m opn bundle workspace)"
  unfolding attach_from_bundle_def prepare_staging_def
  by (frule allows_attach_reads; intro frame_intros attach_run attach_must_run;
      simp add: attach_defs Let_def allows_host_def attach_host_def)

lemma emits_attach_from_hub [frame_intros]:
  "allows_attach m P \<Longrightarrow> allows_host P \<Longrightarrow>
     keeps (emits_only P) (attach_from_hub m opn pid workspace)"
  unfolding attach_from_hub_def hub_exists_def
  by (intro frame_intros emits_must_run_host; simp add: allows_host_def attach_host_def argv_defs)

end
