(* ===== verification/Demo_Guest.thy ===== *)
theory Demo_Guest
  imports Sync
begin

text \<open>
  A concrete environment, in the manner of \<open>internal/projects/fakeguest_test.go\<close>: a small stateful
  guest on which the operations are run to show that the properties apply. Its checkout exists from
  the start or from the first \<open>git init\<close> in the history, is shared once \<open>find\<close> has set the bits, and
  has a safe directory once one was added.
\<close>

definition printed :: "string \<Rightarrow> result" where
  "printed out = \<lparr>ExitCode = 0, Stdout = out, Stderr = [], StdoutTruncated = False, StderrTruncated = False\<rparr>"

definition exited :: "int \<Rightarrow> result" where
  "exited n = (printed [])\<lparr>ExitCode := n\<rparr>"

definition ran :: "string \<Rightarrow> history \<Rightarrow> bool" where
  "ran word h \<longleftrightarrow> list_ex (\<lambda>e. case e of GuestRun argv \<Rightarrow> word \<in> set argv | _ \<Rightarrow> False) h"

definition demo_present :: "bool \<Rightarrow> history \<Rightarrow> bool" where
  "demo_present present h \<longleftrightarrow> present \<or> ran ''init'' h"

lemma ran_simps [simp]:
  "\<not> ran word []" "ran word (h @ h') \<longleftrightarrow> ran word h \<or> ran word h'"
  "ran word (GuestRun argv # h) \<longleftrightarrow> word \<in> set argv \<or> ran word h"
  "ran word (RegistryRead # h) \<longleftrightarrow> ran word h" "ran word (BootstrapRun # h) \<longleftrightarrow> ran word h"
  "ran word (AgentQuery # h) \<longleftrightarrow> ran word h" "ran word (RegistryWrite ps # h) \<longleftrightarrow> ran word h"
  by (auto simp: ran_def)

lemma demo_present_simps [simp]:
  "demo_present True h" "demo_present False h \<longleftrightarrow> ran ''init'' h"
  "demo_present b (h @ es) \<longleftrightarrow> demo_present b h \<or> ran ''init'' es"
  by (auto simp: demo_present_def)

definition demo_answer :: "bool \<Rightarrow> history \<Rightarrow> string list \<Rightarrow> result" where
  "demo_answer present h argv = (let word = (\<lambda>s. s \<in> set argv) in
     if word ''-L'' \<or> word ''-f'' \<or> word ''--get'' \<or> word ''--get-regexp'' then exited 1
     else if word ''-e'' then (if demo_present present h then printed [] else exited 1)
     else if word ''stat'' then printed ''a:torio-projects 2770''
     else if word ''--show-toplevel'' \<or> word ''--get-all'' then printed ''/w/p''
     else if word ''--is-shallow-repository'' then printed ''false''
     else if word ''symbolic-ref'' then printed ''main''
     else if word ''rev-list'' then printed ''2''
     else printed [])"

definition demo :: "bool \<Rightarrow> manager" where
  "demo present = \<lparr>GuestUser = ''a'', Home = ''/h'', WorkspacePath = ''/w'', BackendName = ''b'',
     OperatorUser = ''o'', InstanceName = ''t'', HubRoot = ''/d'', XdgDataHome = [], UserHome = None,
     ssh = (\<lambda>h argv. Inr (demo_answer present h argv)), bootstrap = (\<lambda>h. None),
     host_git = (\<lambda>h argv. Inr (printed [])), copy_in_err = (\<lambda>h. None), copy_out_err = (\<lambda>h. None),
     mkdir_temp = (\<lambda>h pattern. Some ''/t''), mkdir_ok = (\<lambda>h d. True), path_exists = (\<lambda>h p. False),
     bundle_info = (\<lambda>h p. None), copy_file_ok = (\<lambda>h. True), agent_socket = ''s'',
     ssh_add = (\<lambda>h. Inr (printed ''k'')), load_ok = (\<lambda>h. True), write_ok = (\<lambda>h. True),
     verify_ok = (\<lambda>h. True)\<rparr>"

definition demo_project :: project where
  "demo_project = \<lparr>ID = ''p'', DisplayName = ''P'', Remote = []\<rparr>"

definition demo_world :: "project list \<Rightarrow> world" where
  "demo_world ps = \<lparr>history = [], document = \<lparr>SchemaVersion = ''4'', Timeout = 0, Backend = [],
     OperatorKey = [], Projects = ps\<rparr>\<rparr>"

section \<open>Running the programs\<close>

text \<open>
  Rewriting rules that run a program one command at a time: the guest's answer is computed, the
  command is appended, and the rest goes on.
\<close>

named_theorems demo_steps \<open>rules that run a program in the demonstration environment\<close>

lemma bnd_ret [demo_steps]: "bnd (ret x) f = f x"
  by (simp add: bnd_def ret_def)

lemma bnd_raise [demo_steps]: "bnd (raise e) f = raise e"
  by (simp add: bnd_def raise_def)

lemma bnd_assoc [demo_steps]: "bnd (bnd m f) g = bnd m (\<lambda>x. bnd (f x) g)"
  by (auto simp: bnd_def split: prod.splits sum.splits)

lemma bnd_check_None [demo_steps]: "bnd (check None) f = f ()"
  by (simp add: check_def bnd_ret)

lemma bnd_run [demo_steps]:
  "bnd (run (demo b) opn argv) f w = f (demo_answer b (history w) argv) (emit (GuestRun argv) w)"
  by (simp add: bnd_def run_def guestexec_run_def demo_def demo_answer_def printed_def exited_def Let_def)

lemma bnd_attempt_run [demo_steps]:
  "bnd (attempt (run (demo b) opn argv)) f w =
     f (Inr (demo_answer b (history w) argv)) (emit (GuestRun argv) w)"
  by (simp add: bnd_def attempt_def run_def guestexec_run_def demo_def demo_answer_def printed_def
      exited_def Let_def)

lemma bnd_bootstrap [demo_steps]: "bnd (bootstrap_guest (demo b) opn) f w = f () (emit BootstrapRun w)"
  by (simp add: bnd_def bootstrap_guest_def demo_def)

lemma bnd_load [demo_steps]: "bnd (load_document (demo b) opn) f w = f (document w) (emit RegistryRead w)"
  by (simp add: bnd_def load_document_def registry_load_def demo_def)

lemma run_end [demo_steps]: "run (demo b) opn argv w = (Inr (demo_answer b (history w) argv), emit (GuestRun argv) w)"
  by (simp add: run_def guestexec_run_def demo_def demo_answer_def printed_def exited_def Let_def)

lemma ret_end [demo_steps]: "ret x w = (Inr x, w)"
  by (simp add: ret_def)

lemma demo_fields [simp]:
  "GuestUser (demo b) = ''a''" "Home (demo b) = ''/h''" "WorkspacePath (demo b) = ''/w''"
  "OperatorUser (demo b) = ''o''" "InstanceName (demo b) = ''t''" "agent_socket (demo b) = ''s''"
  "ssh_add (demo b) h = Inr (printed ''k'')" "load_ok (demo b) h" "write_ok (demo b) h"
  "verify_ok (demo b) h" "ssh (demo b) h argv = Inr (demo_answer b h argv)"
  by (simp_all add: demo_def)

lemma printed_fields [simp]:
  "ExitCode (printed out) = 0" "Stdout (printed out) = out" "ExitCode (exited n) = n" "Stdout (exited n) = []"
  by (simp_all add: printed_def exited_def)

lemmas demo_run_defs = thn_def must_run_def test_root_def test_as_user_def test_answer_def Let_def
  root_exec_def user_exec_as_def workspace_git_def demo_answer_def demo_steps

lemma demo_path [simp]: "derive_path ''/w'' ''p'' = Some ''/w/p''"
  by (simp add: derive_path_def path_clean_def path_dir_def path_base_def has_prefix_def
      contains_any_def last_index_of_def)

lemma demo_words [simp]:
  "trim_space ''/w/p'' = ''/w/p''" "trim_space ''false'' = ''false''" "trim_space ''main'' = ''main''"
  "trim_space ''2'' = ''2''" "trim_space [] = []" "trim_space ''o'' = ''o''" "trim_space ''s'' = ''s''"
  "trim_space ''k'' = ''k''" "trim_space ''a:torio-projects 2770'' = ''a:torio-projects 2770''"
  by (simp_all add: trim_space_word byte_of_def is_space_def cont_def)

lemma demo_ownership [simp]:
  "parse_ownership_mode ''a:torio-projects 2770'' = (''a'', ''torio-projects'', ''2770'')"
  by (simp add: parse_ownership_mode_def str_fields_def ascii_spans byte_of_def is_space_def cont_def)

definition demo_status :: CheckoutStatus where
  "demo_status = \<lparr>PathExists = True, Symlink = False, Directory = True, Repository = True,
     OriginMatches = True, HasOrigin = False, FullClone = True, Clean = True, NoCredentialHelper = True,
     Owner = ''a'', Group = ''torio-projects'', Mode = ''2770'', SharedPermissions = True\<rparr>"

lemma demo_mode [simp]: "shared_mode_ok ''2770''"
  by (simp add: shared_mode_ok_def octal_digit_def between_def byte_of_def digit_val_def)

lemmas demo_inspect_defs = inspect_checkout_def inspect_directory_def inspect_repository_def
  directory_status_def no_status_def of_sum_def shallow_answer_def credential_answer_def
  demo_status_def sharedGroup_def emit_def

text \<open>An inspection answers in one step.\<close>

definition seen_absent :: history where
  "seen_absent = map (\<lambda>flag. GuestRun (root_exec [''test'', flag, ''/w/p''])) [''-L'', ''-e'']"

definition seen_present :: history where
  "seen_present = seen_absent @ map GuestRun ([root_exec [''test'', ''-d'', ''/w/p''],
       root_exec [''stat'', ''-c'', ''%U:%G %a'', ''/w/p'']] @
     map (\<lambda>args. user_exec_as ''a'' ([''git'', ''-C'', ''/w/p''] @ args))
       [[''rev-parse'', ''--show-toplevel''], [''config'', ''--get'', ''remote.origin.url''],
        [''rev-parse'', ''--is-shallow-repository''],
        [''status'', ''--porcelain=v1'', ''--untracked-files=normal''],
        [''config'', ''--local'', ''--get-regexp'', ''^credential'' @ [CHR 0x5C] @ ''.'']])"

lemma demo_inspect_present [demo_steps]:
  "demo_present b (history w) \<Longrightarrow>
     inspect_checkout (demo b) opn ''/w/p'' [] w = (Inr demo_status, w\<lparr>history := history w @ seen_present\<rparr>)"
  by (simp add: demo_inspect_defs demo_run_defs seen_present_def seen_absent_def)

lemma demo_inspect_absent [demo_steps]:
  "\<not> demo_present b (history w) \<Longrightarrow>
     inspect_checkout (demo b) opn ''/w/p'' [] w = (Inr no_status, w\<lparr>history := history w @ seen_absent\<rparr>)"
  by (simp add: inspect_checkout_def demo_run_defs emit_def seen_absent_def)

lemma ran_seen [simp]: "\<not> ran ''init'' seen_absent" "\<not> ran ''init'' seen_present"
  by (simp_all add: seen_absent_def seen_present_def ran_def root_exec_def user_exec_as_def)

lemma bnd_inspect [demo_steps]:
  "bnd (inspect_checkout (demo b) opn ''/w/p'' []) f w = (if demo_present b (history w)
     then f demo_status (w\<lparr>history := history w @ seen_present\<rparr>)
     else f no_status (w\<lparr>history := history w @ seen_absent\<rparr>))"
  by (simp add: bnd_def demo_inspect_present demo_inspect_absent)

lemma bnd_fun [demo_steps]:
  "bnd (\<lambda>a. (Inr (x a), h a)) f w = f (x w) (h w)" "bnd (Pair (Inr y)) f = f y"
  "bnd (\<lambda>a. (Inl (e a), h a)) f w = (Inl (e w), h w)"
  by (simp_all add: bnd_def)

lemma demo_count [simp]: "count_lines ''k'' = 1"
  by (simp add: count_lines_def split_lines_def newline_def)

lemma bnd_query_agent [demo_steps]: "bnd (query_agent (demo b) opn) f w = f 1 (emit AgentQuery w)"
  by (simp add: bnd_def query_agent_def host_agent_identities_def)

lemmas demo_session_defs = shell_preflight_def enter_preflight_def session_spec_def resolve_def
  demo_world_def demo_project_def require_operator_user_def require_prepared_def emit_def view_def
  of_sum_def session_checks_def require_forwardable_agent_def review_context_def raise_def

section \<open>An attachment\<close>

definition demo_request :: "bool \<Rightarrow> AddRequest" where
  "demo_request local = \<lparr>req_ID = ''p'', req_DisplayName = ''P'', req_Remote = [], req_Local = local,
     req_BundlePath = [], req_AllowDuplicateRemote = False\<rparr>"

lemma demo_clean: "\<not> contains_secret_shape ''p''" "\<not> contains_secret_shape ''P''"
  by (simp_all add: not_secret_shape_iff clean_by_suffixes secret_patterns_def pattern_defs class_defs
      run_lengths_def has_prefix_def)

lemmas text_eval = not_secret_shape_iff clean_by_suffixes secret_patterns_def pattern_defs class_defs
  run_lengths_def has_prefix_def valid_utf8_def ascii_spans byte_of_def runes_def rune_error_def
  has_control_rune_def is_control_def cont_def is_space_def contains_any_def full_match_def

lemma demo_names [simp]: "validate_project_id ''p'' = None" "validate_display_name ''P'' = None"
proof -
  show "validate_project_id ''p'' = None"
    by (simp add: validate_project_id_None demo_clean lower_digit_dash_def lower_digit_def char_class_defs)
  show "validate_display_name ''P'' = None"
    by (simp add: validate_display_name_def demo_clean valid_utf8_def ascii_spans byte_of_def runes_def
        has_control_rune_def maxDisplayNameLen_def is_control_def cont_def trim_space_word is_space_def
        rune_error_def)
qed

lemma demo_remote [simp]: "validate_remote ''h:r'' = None"
  by (simp add: validate_remote_def maxRemoteLen_def text_eval)
    (simp add: scpRemotePattern_def scp_groups_def split_at_def remoteUserPattern_def
      remoteHostPattern_def text_eval)

lemma demo_valid [simp]: "project_validate demo_project = None"
  by (simp add: project_validate_None demo_project_def validate_remote_def)

definition demo_moved :: project where
  "demo_moved = demo_project\<lparr>Remote := ''h:r''\<rparr>"

lemma demo_moved_valid [simp]: "project_validate demo_moved = None" "ID demo_moved = ''p''"
  by (simp_all add: project_validate_None demo_moved_def demo_project_def)

lemma demo_registered [simp]: "validate_projects [demo_project] = None"
  by (simp add: validate_projects_None maxProjects_def)

lemmas demo_document_defs = file_validate_def ConfigSchemaVersion_def readable_schema_version_def
  validate_operator_key_def

lemma demo_request_ok [simp]:
  "add_entry (demo_request l) = demo_project" "add_request_check (demo_request l) = None"
  "req_ID (demo_request l) = ''p''" "req_Remote (demo_request l) = []"
  "req_BundlePath (demo_request l) = []" "req_Local (demo_request l) = l"
  "\<not> req_AllowDuplicateRemote (demo_request l)"
  by (simp_all add: add_request_check_def add_entry_def demo_request_def demo_project_def [symmetric]
      validate_project_def demo_document_defs has_prefix_def require_one_attach_source_def)

lemma demo_with_project [simp]:
  "with_project (document (demo_world [])) demo_project opts = Inr (document (demo_world [demo_project]))"
  by (simp add: with_project_def demo_world_def demo_document_defs)

lemma demo_persist:
  "document w = document (demo_world []) \<Longrightarrow> persist (demo b) add_op demo_project False w =
     (Inr (), w\<lparr>history := history w @ [RegistryRead, RegistryWrite [demo_project]],
        document := document (demo_world [demo_project])\<rparr>)"
  by (simp add: persist_def registry_update_def update_registry_def persist_update_def bare_file_def Let_def)
    (simp add: demo_world_def with_project_def demo_document_defs write_registry_def sort_projects_def
      emit_def Let_def)

text \<open>Steps of a program with a report.\<close>

lemma bnd_update [demo_steps]: "bnd (update f) g (r, w) = g () (f r, w)"
  by (simp add: bnd_def update_def)

lemma bnd_lift [demo_steps]:
  "bnd (lift p) g (r, w) = (case p w of (Inl e, w') \<Rightarrow> (Inl e, (r, w')) | (Inr x, w') \<Rightarrow> g x (r, w'))"
  by (simp add: bnd_def lift_def split: prod.splits sum.splits)

lemma bnd_attempt_lift [demo_steps]:
  "bnd (attempt (lift p)) g (r, w) = (case p w of (x, w') \<Rightarrow> g x (r, w'))"
  by (simp add: bnd_def attempt_def lift_def split: prod.splits)

lemma update_end [demo_steps]: "update f (r, w) = (Inr (), (f r, w))"
  by (simp add: update_def)

lemma demo_world_fields [simp]:
  "history (demo_world ps) = []" "Projects (document (demo_world ps)) = ps"
  by (simp_all add: demo_world_def)

lemma demo_find [simp]: "find_project [demo_project] ''p'' = Some demo_project" "ID demo_project = ''p''"
  "Remote demo_project = []"
  by (simp_all add: demo_project_def)

lemma demo_checks [demo_steps]:
  "add_checks (demo b) (demo_request l) (r, demo_world []) =
     (Inr ''/w/p'', (r\<lparr>add_Project := view demo_project ''/w/p''\<rparr>, emit RegistryRead (demo_world [])))"
  by (simp add: add_checks_def Let_def thn_def demo_steps add_register_check_def load_document_def
      registry_load_def check_def)

lemma demo_prepared [demo_steps]:
  "require_prepared (demo b) opn w =
     (Inr (), w\<lparr>history := history w @ [BootstrapRun, GuestRun (root_exec [''true''])]\<rparr>)"
  by (simp add: require_prepared_def require_operator_user_def demo_run_defs demo_steps emit_def)

lemma demo_shared [demo_steps]:
  "ensure_shared_permissions (demo b) opn ''/w/p'' w =
     (Inr (), w\<lparr>history := history w @ map (GuestRun \<circ> root_exec)
        [[''chown'', ''-R'', ''a:torio-projects'', ''--'', ''/w/p''],
         [''chmod'', ''-R'', ''g+rwX'', ''--'', ''/w/p''],
         [''find'', ''/w/p'', ''-type'', ''d'', ''-exec'', ''chmod'', ''g+s'', ''{}'', ''+'']]\<rparr>)"
  by (simp add: ensure_shared_permissions_def sharedGroup_def demo_run_defs demo_steps emit_def)

lemma demo_safe [demo_steps]:
  "user = ''a'' \<or> user = ''o'' \<Longrightarrow> ensure_safe_directory (demo b) opn user ''/w/p'' w =
     (Inr (), emit (GuestRun (user_exec_as user
        [''git'', ''config'', ''--global'', ''--get-all'', ''safe.directory''])) w)"
  by (elim disjE) (simp_all add: ensure_safe_directory_def safe_directory_present_def split_lines_def
      newline_def demo_run_defs demo_steps)

lemma demo_hub [demo_steps]: "attach_from_hub (demo b) opn ''p'' workspace w = (Inr False, w)"
  by (simp add: attach_from_hub_def hub_path_def contains_any_def hub_root_path_def hubRepoSuffix_def
      file_join_def path_clean_def path_dir_def path_base_def has_prefix_def last_index_of_def Let_def
      hub_exists_def host_stat_def demo_def bnd_def ret_def)

lemma bnd_demo_checks [demo_steps]:
  "bnd (add_checks (demo b) (demo_request l)) f (r, demo_world []) =
     f ''/w/p'' (r\<lparr>add_Project := view demo_project ''/w/p''\<rparr>, emit RegistryRead (demo_world []))"
  by (simp add: bnd_def demo_checks)

lemma demo_moved_registered [simp]: "validate_projects [demo_moved] = None"
  by (simp add: validate_projects_None maxProjects_def)

lemma demo_update [simp]:
  "with_updated_remote (bare_file [demo_project]) ''p'' ''h:r'' opts = Inr (bare_file [demo_moved])"
  by (simp add: with_updated_remote_Inr bare_file_def update_remote_Inr set_remote_def
      demo_moved_def [symmetric] demo_document_defs)

lemma demo_bare: "Projects (bare_file ps) = ps"
  by (simp add: bare_file_def)

lemma demo_not_moved: "demo_moved \<noteq> demo_project"
  by (simp add: demo_moved_def demo_project_def)

lemma demo_correct [demo_steps]:
  "correct_record (demo b) ''p'' ''h:r'' (emit RegistryRead (demo_world [demo_project])) =
     (Inr (), emit (RegistryWrite [demo_moved]) (emit RegistryRead (emit RegistryRead (demo_world [demo_moved]))))"
  by (simp add: correct_record_def registry_update_def update_registry_def write_registry_def
      sort_projects_def Let_def demo_bare demo_not_moved)
    (simp add: emit_def demo_world_def)

lemma demo_resolve [demo_steps]:
  "resolve (demo b) opn ''p'' (demo_world [demo_project]) =
     (Inr (demo_project, ''/w/p''), emit RegistryRead (demo_world [demo_project]))"
  by (simp add: resolve_def demo_steps)

lemma demo_empty [simp]: "validate_projects [] = None"
  by (simp add: validate_projects_None)

lemma demo_without [simp]: "without_project (bare_file [demo_project]) ''p'' = Inr (bare_file [])"
  by (simp add: without_project_Inr bare_file_def demo_document_defs)

lemma demo_forget [demo_steps]:
  "document w = document (demo_world [demo_project]) \<Longrightarrow> forget_entry (demo b) ''p'' w =
     (Inr None, w\<lparr>history := history w @ [RegistryRead, RegistryWrite []],
        document := document (demo_world [])\<rparr>)"
  by (simp add: forget_entry_def registry_update_def update_registry_def write_registry_def
      sort_projects_def Let_def demo_bare)
    (simp add: emit_def demo_world_def)

lemma demo_key [demo_steps]:
  "test_as_user (demo b) opn ''-f'' p w =
     (Inr False, emit (GuestRun (user_exec_as ''a'' [''test'', ''-f'', p])) w)"
  by (simp add: demo_run_defs demo_steps)

lemma demo_set_remote_succeeds:
  "\<exists>r w'. set_project_remote (demo False) ''p'' ''h:r'' (demo_world [demo_project]) = ((r, None), w')"
  by (simp add: set_project_remote_def set_remote_body_def set_remote_record_def with_report_def thn_def
      demo_steps)
    (simp add: bnd_def [of "require_prepared _ _"] demo_steps emit_def root_exec_def no_status_def
      set_note_def)

lemma demo_remove_succeeds:
  "\<exists>r w'. remove_project (demo False) ''p'' (demo_world [demo_project]) = ((r, None), w')"
  by (simp add: remove_project_def remove_body_def with_report_def thn_def demo_steps Let_def
      remove_note_def)

lemmas demo_add_defs = add_def add_body_def with_report_def emit_def root_exec_def thn_def
  require_plain_path_def no_status_def check_def

lemma demo_add_succeeds:
  "\<exists>r w'. add (demo False) (demo_request True) (demo_world []) = ((r, None), w')"
  by (simp add: demo_add_defs demo_steps)
    (simp add: add_source_def add_local_def must_run_def demo_answer_def user_exec_as_def add_note_def
      demo_steps Let_def add_finish_def add_record_def thn_def emit_def,
     simp add: demo_status_def compliant_def demo_persist demo_steps)

lemma demo_add_fails:
  "\<exists>r w'. add (demo False) (demo_request False) (demo_world []) =
     ((r, Some (mk_err add_op KindPrecondition CNeedsSource)), w')"
  by (simp add: demo_add_defs demo_steps)
    (simp add: add_source_def add_from_hub_def thn_def demo_steps raise_def)

end
