(* ===== verification/Session_Facts.thy ===== *)
theory Session_Facts
  imports Guest_Commands Demo_Guest
begin

text \<open>
  What an inspection and a session preflight establish: which answers of the guest stand behind a
  status, which commands a preflight may run, and what its success and its failures mean.
\<close>

section \<open>Answers behind a status\<close>

text \<open>The guest answered \<open>argv\<close>, at some point of the run, with an untruncated result.\<close>

definition answered :: "manager \<Rightarrow> string list \<Rightarrow> result \<Rightarrow> bool" where
  "answered m argv res \<longleftrightarrow>
     (\<exists>h. ssh m h argv = Inr res \<and> \<not> StdoutTruncated res \<and> \<not> StderrTruncated res)"

lemma run_answered: "run m opn argv w = (Inr res, w') \<Longrightarrow> answered m argv res"
  by (auto simp: run_Inr answered_def)

lemma test_answer_Inr:
  "test_answer opn res w = (Inr b, w') \<longleftrightarrow> w' = w \<and> (b \<and> ExitCode res = 0 \<or> \<not> b \<and> ExitCode res = 1)"
  by (auto simp: test_answer_def prog_Inr)

lemma test_root_answered:
  "test_root m opn flag p w = (Inr b, w') \<Longrightarrow>
     \<exists>res. answered m (root_exec [''test'', flag, p]) res \<and> ExitCode res = (if b then 0 else 1)"
  by (auto simp: test_root_def prog_Inr test_answer_Inr dest!: run_answered)

definition absence_proved :: "manager \<Rightarrow> string \<Rightarrow> bool" where
  "absence_proved m workspace \<longleftrightarrow>
     (\<exists>res. answered m (root_exec [''test'', ''-L'', workspace]) res \<and> ExitCode res = 1) \<and>
     (\<exists>res. answered m (root_exec [''test'', ''-e'', workspace]) res \<and> ExitCode res = 1)"


lemma inspect_repository_keeps:
  "inspect_repository m opn workspace remote st w = (Inr st', w') \<Longrightarrow>
     PathExists st' = PathExists st \<and> Symlink st' = Symlink st \<and> Directory st' = Directory st \<and>
     Repository st' = Repository st \<and> SharedPermissions st' = SharedPermissions st"
  by (auto simp: inspect_repository_def prog_Inr Let_def split: if_splits)

lemma directory_status_simps [simp]:
  "PathExists (directory_status m out)" "Directory (directory_status m out)"
  "\<not> Symlink (directory_status m out)" "\<not> Repository (directory_status m out)"
  by (simp_all add: directory_status_def no_status_def split: prod.splits)

lemma inspect_directory_keeps:
  "inspect_directory m opn workspace remote w = (Inr st, w') \<Longrightarrow>
     PathExists st \<and> Directory st \<and> \<not> Symlink st"
  by (auto simp: inspect_directory_def prog_Inr Let_def dest: inspect_repository_keeps split: if_splits)

lemma inspect_checkout_cases:
  assumes "inspect_checkout m opn workspace remote w = (Inr st, w')"
  obtains
    (link) "test_root m opn ''-L'' workspace w = (Inr True, w')"
      "st = no_status\<lparr>PathExists := True, Symlink := True\<rparr>"
  | (absent) w1 where "test_root m opn ''-L'' workspace w = (Inr False, w1)"
      "test_root m opn ''-e'' workspace w1 = (Inr False, w')" "st = no_status"
  | (plain) w1 w2 where "test_root m opn ''-L'' workspace w = (Inr False, w1)"
      "test_root m opn ''-e'' workspace w1 = (Inr True, w2)"
      "test_root m opn ''-d'' workspace w2 = (Inr False, w')" "st = no_status\<lparr>PathExists := True\<rparr>"
  | (directory) w1 w2 w3 where "test_root m opn ''-L'' workspace w = (Inr False, w1)"
      "test_root m opn ''-e'' workspace w1 = (Inr True, w2)"
      "test_root m opn ''-d'' workspace w2 = (Inr True, w3)"
      "inspect_directory m opn workspace remote w3 = (Inr st, w')"
proof -
  obtain link w1 where L: "test_root m opn ''-L'' workspace w = (Inr link, w1)"
    and A: "link \<and> st = no_status\<lparr>PathExists := True, Symlink := True\<rparr> \<and> w' = w1 \<or>
      \<not> link \<and> (\<exists>there w2. test_root m opn ''-e'' workspace w1 = (Inr there, w2) \<and>
        (\<not> there \<and> st = no_status \<and> w' = w2 \<or>
         there \<and> (\<exists>dir w3. test_root m opn ''-d'' workspace w2 = (Inr dir, w3) \<and>
           (\<not> dir \<and> st = no_status\<lparr>PathExists := True\<rparr> \<and> w' = w3 \<or>
            dir \<and> inspect_directory m opn workspace remote w3 = (Inr st, w')))))"
    using assms unfolding inspect_checkout_def bnd_Inr if_distribR
    by (auto simp: prog_Inr split: if_split_asm)
  then show ?thesis using that by (cases link) auto
qed

lemma inspect_absent:
  assumes "inspect_checkout m opn workspace remote w = (Inr st, w')" and "\<not> PathExists st"
  shows "absence_proved m workspace"
  using assms(1)
proof (cases rule: inspect_checkout_cases)
  case (absent w1)
  then show ?thesis using test_root_answered by (fastforce simp: absence_proved_def)
qed (use assms(2) in \<open>auto dest: inspect_directory_keeps\<close>)

section \<open>Preflights only read\<close>

fun session_event :: "event \<Rightarrow> bool" where
  "session_event (GuestRun argv) = read_only_guest argv"
| "session_event BootstrapRun = True"
| "session_event RegistryRead = True"
| "session_event AgentQuery = True"
| "session_event e = False"

definition enter_event :: "event \<Rightarrow> bool" where
  "enter_event e \<longleftrightarrow> session_event e \<and> e \<noteq> AgentQuery"

lemma session_event_reads [simp]: "allows_reads session_event"
  by (simp add: allows_reads_def)

lemma enter_event_reads [simp]: "allows_reads enter_event"
  by (simp add: allows_reads_def enter_event_def)

text \<open>\<open>ShellPreflight\<close> runs read-only commands only, on success and on every failure: no push,
  no fetch, no write to the guest, the host or the registry.\<close>

theorem shell_preflight_read_only:
  "emits_only session_event w (snd (shell_preflight m pid w))"
proof -
  have "keeps (emits_only session_event) (shell_preflight m pid)"
    unfolding shell_preflight_def by (intro frame_intros; simp)
  then show ?thesis by (simp add: keeps_def)
qed

text \<open>\<open>EnterPreflight\<close> is read-only as well, and it never queries the host's SSH agent.\<close>

theorem enter_preflight_never_asks_agent:
  "emits_only enter_event w (snd (enter_preflight m pid w))"
proof -
  have "keeps (emits_only enter_event) (enter_preflight m pid)"
    unfolding enter_preflight_def by (intro frame_intros; simp)
  then show ?thesis by (simp add: keeps_def)
qed

text \<open>\<open>Show\<close> reports drift instead of repairing it: it writes nothing anywhere.\<close>

theorem show_read_only: "emits_only enter_event w (snd (show_project m pid w))"
proof -
  have "keeps (on_world (emits_only enter_event)) (show_project_body m pid)"
    unfolding show_project_body_def by (intro frame_intros; simp)
  then show ?thesis unfolding show_project_def by (rule with_report_emits)
qed

section \<open>What success and failure mean\<close>





text \<open>
  The one drift a caller may answer by materializing the checkout. \<open>absent_drift\<close> says that such an
  error stands on the guest's own answers that nothing is at the path.
\<close>

definition absent_drift :: "manager \<Rightarrow> string \<Rightarrow> perr \<Rightarrow> bool" where
  "absent_drift m workspace e \<longleftrightarrow> \<not> is_checkout_absent_only e \<or> absence_proved m workspace"

lemma absent_plain [simp]: "absent_drift m workspace (mk_err opn kind c)"
  by (simp add: absent_drift_def is_checkout_absent_only_def mk_err_def)

lemma absent_command [simp]: "absent_drift m workspace (command_error opn kind n)"
  by (simp add: command_error_def)

lemma absent_session_drift:
  "(\<not> PathExists st \<Longrightarrow> absence_proved m workspace) \<Longrightarrow> absent_drift m workspace (session_drift opn st)"
  by (auto simp: absent_drift_def is_checkout_absent_only_def session_drift_def issues_def issue_def
      issueCheckoutAbsent_def split: if_splits)

lemma absent_run [raise_intros]: "raises (absent_drift m workspace) (run m' opn argv)"
  by (intro raise_intros) simp

lemma absent_must_run [raise_intros]: "raises (absent_drift m workspace) (must_run m' opn kind argv)"
  unfolding must_run_def by (intro raise_intros absent_run) simp

lemma absent_of_sum: "(\<And>e. r = Inl e \<Longrightarrow> Q e) \<Longrightarrow> raises Q (of_sum r)"
  by (auto simp: of_sum_def raises_ret raises_raise split: sum.splits)

lemma absent_test_root: "raises (absent_drift m workspace) (test_root m' opn flag p)"
  unfolding test_root_def test_answer_def by (intro raise_intros absent_run) simp

lemma absent_inspect: "raises (absent_drift m ws) (inspect_checkout m' opn workspace remote)"
  unfolding inspect_checkout_def inspect_directory_def inspect_repository_def
  by (intro raise_intros absent_run absent_test_root absent_of_sum;
      auto simp: shallow_answer_def credential_answer_def split: if_splits)

lemma absent_resolve: "raises (absent_drift m ws) (resolve m' opn pid)"
  unfolding resolve_def
  by (intro raise_intros; simp add: raises_def load_document_def split: prod.splits sum.splits)

lemma absent_prepared: "raises (absent_drift m ws) (require_prepared m' opn)"
  unfolding require_prepared_def
  by (intro raise_intros absent_must_run;
      auto simp: require_operator_user_def raises_def bootstrap_guest_def split: if_splits option.splits)

lemma absent_review: "raises Q (review_context m opn workspace)"
  unfolding review_context_def by (intro raise_intros)

lemma absent_agent: "raises (absent_drift m ws) (require_forwardable_agent m' opn)"
  unfolding require_forwardable_agent_def
  by (intro raise_intros; simp add: raises_def query_agent_def split: option.splits)

lemma absent_session:
  "raises (absent_drift m workspace) (of_sum (session_checks opn st))"
  if "\<not> PathExists st \<Longrightarrow> absence_proved m workspace"
  using that by (intro absent_of_sum)
    (auto simp: session_checks_def intro: absent_session_drift split: if_splits)

text \<open>
  A preflight reads the registry first, so the workspace it inspects is the one derived from the ID.
\<close>

lemma session_spec_path:
  "session_spec m opn pre pid w = (Inr s, w') \<Longrightarrow>
     derive_path (WorkspacePath m) pid = Some (view_Path (ses_Project s))"
  by (auto simp: session_spec_def resolve_def prog_Inr view_def split: option.splits)

lemma absent_session_spec:
  "raises (absent_drift m ws) (session_spec m' opn pre pid)"
  unfolding session_spec_def
  by (intro raise_intros absent_resolve)
    (auto simp: require_operator_user_def split: if_splits)

text \<open>a session is refused as \<open>checkout_absent\<close> alone only when the guest itself answered that
  nothing is at the derived workspace path, neither a symlink nor anything else; every other drift
  and every other failure carries different issues, so a caller that materializes on this answer
  never clones over a tree.\<close>

theorem shell_absent_only_when_absent:
  assumes "shell_preflight m pid w = (Inl e, w')" and "is_checkout_absent_only e"
    and "derive_path (WorkspacePath m) pid = Some workspace"
  shows "absence_proved m workspace"
proof -
  have "raises (absent_drift m workspace) (shell_preflight m pid)"
    unfolding shell_preflight_def Let_def
    by (intro raises_bnd_dep absent_session_spec raises_thn absent_prepared absent_inspect
          absent_session absent_agent absent_review raises_ret raises_bnd)
      (use assms(3) in \<open>auto dest!: session_spec_path inspect_absent\<close>)
  then show ?thesis using assms(1,2) by (auto simp: raises_def absent_drift_def)
qed

theorem shell_absent_only_when_absent_witness:
  "absence_proved (demo False) ''/w/p''"
proof -
  have "\<exists>e w'. shell_preflight (demo False) ''p'' (demo_world [demo_project]) = (Inl e, w') \<and>
      is_checkout_absent_only e"
    by (simp add: demo_session_defs demo_run_defs demo_steps no_status_def session_drift_def
        issues_def is_checkout_absent_only_def)
  moreover have "derive_path (WorkspacePath (demo False)) ''p'' = Some ''/w/p''" by simp
  ultimately show ?thesis using shell_absent_only_when_absent by blast
qed

end
