(* ===== verification/Attach_Facts.thy ===== *)
theory Attach_Facts
  imports Session_Facts
begin

text \<open>
  The properties of \<open>Manager.Add\<close>: what success records, what a failure leaves behind, what runs
  before and after the registry was consulted, and why a rerun finishes.
\<close>

section \<open>Persisting\<close>

lemma persist_update_find:
  "persist_update entry allow f = Inr f' \<Longrightarrow> find_project (Projects f') (ID entry) = Some entry"
  using reg.added [of f entry "\<lparr>AllowDuplicateRemote = allow\<rparr>" f']
  by (simp add: persist_update_def split: option.splits if_splits)

lemma persist_Inr:
  assumes "persist m opn entry allow w = (Inr u, w')"
  shows "find_project (doc_projects w') (ID entry) = Some entry"
proof -
  from assms have R: "registry_update m (persist_update entry allow) w = (Inr (), w')"
    by (auto simp: persist_def split: prod.splits sum.splits)
  from store.update_ok [OF R] obtain d where
    "persist_update entry allow (bare_file (doc_projects w)) = Inr d"
    "\<forall>k. find_project (doc_projects w') k = find_project (Projects d) k" by auto
  then show ?thesis using persist_update_find by metis
qed

text \<open>persisting an entry that is already recorded writes nothing, which is what lets a rerun
  of an interrupted attachment finish.\<close>

theorem persist_again_writes_nothing:
  assumes "find_project (doc_projects w) (ID entry) = Some entry" and "load_ok m (history w)"
  shows "persist m opn entry allow w = (Inr (), emit RegistryRead w)"
  using assms
  by (simp add: persist_def registry_update_def update_registry_def persist_update_def bare_file_def
      doc_projects_def Let_def)

theorem persist_again_writes_nothing_witness:
  "persist (demo True) add_op demo_project False (demo_world [demo_project]) =
     (Inr (), emit RegistryRead (demo_world [demo_project]))"
  by (rule persist_again_writes_nothing) (simp_all add: demo_world_def doc_projects_def)

section \<open>Success\<close>

lemma attempt_Inr: "attempt m s = (Inr r, s') \<longleftrightarrow> m s = (r, s')"
  by (auto simp: attempt_def split: prod.splits)

lemma lift_pair: "lift p s = (x, s') \<longleftrightarrow> (\<exists>w'. p (snd s) = (x, w') \<and> s' = (fst s, w'))"
  by (cases s) (auto simp: lift_def split: prod.splits)

lemma update_pair: "update f s = (Inr x, s') \<longleftrightarrow> s' = (f (fst s), snd s)"
  by (cases s) (auto simp: update_def)

lemma add_record_Inr:
  assumes "add_record m req workspace s = (Inr u, (r, w'))"
  shows "Registered r \<and> (\<exists>st v v'. inspect_checkout m add_op workspace (req_Remote req) v = (Inr st, v') \<and>
      compliant st \<and> persist m add_op (add_entry req) (req_AllowDuplicateRemote req) v' = (Inr (), w'))"
proof -
  from assms obtain st s1 saved s2 where
    I: "lift (inspect_checkout m add_op workspace (req_Remote req)) s = (Inr st, s1)" and C: "compliant st" and
    P: "lift (persist m add_op (add_entry req) (req_AllowDuplicateRemote req)) s1 = (saved, s2)" and
    R: "(case saved of
         Inl e \<Rightarrow> thn (add_note ''checkout_retained'') (thn (add_note ''rerun_finishes'') (raise e))
       | Inr _ \<Rightarrow> update (\<lambda>r. r\<lparr>Registered := True\<rparr>)) s2 = (Inr u, (r, w'))"
    by (auto simp: add_record_def bnd_Inr attempt_Inr raise_Inr split: if_splits)
  from R have "saved = Inr ()" "Registered r" "w' = snd s2"
    by (auto simp: prog_Inr update_pair split: sum.splits)
  moreover from I obtain v where "inspect_checkout m add_op workspace (req_Remote req) (snd s) = (Inr st, v)"
    "s1 = (fst s, v)" by (auto simp: lift_pair)
  ultimately show ?thesis using C P by (auto simp: lift_pair) blast
qed

lemma add_checks_path:
  "add_checks m req s = (Inr ws, s') \<Longrightarrow> derive_path (WorkspacePath m) (req_ID req) = Some ws"
  by (auto simp: add_checks_def prog_Inr Let_def split: option.splits)

text \<open>C2: an attachment that returns no error has registered exactly the requested entry, and the
  last thing it did before recording it was an inspection of the derived path, under the requested
  remote, that met every attachment postcondition.\<close>

theorem add_success:
  assumes "add m req w = ((r, None), w')"
  shows "Registered r \<and> find_project (doc_projects w') (req_ID req) = Some (add_entry req) \<and>
    (\<exists>workspace st v v'. derive_path (WorkspacePath m) (req_ID req) = Some workspace \<and>
       inspect_checkout m add_op workspace (req_Remote req) v = (Inr st, v') \<and> compliant st \<and>
       persist m add_op (add_entry req) (req_AllowDuplicateRemote req) v' = (Inr (), w'))"
proof -
  from assms obtain x where "add_body m req (no_add_report, w) = (Inr x, (r, w'))"
    by (auto simp: add_def with_report_None)
  then obtain workspace s1 s2 where
    C: "add_checks m req (no_add_report, w) = (Inr workspace, s1)" and
    F: "add_record m req workspace s2 = (Inr x, (r, w'))"
    by (auto simp: add_body_def add_finish_def bnd_Inr thn_Inr)
  from add_record_Inr [OF F] add_checks_path [OF C] persist_Inr show ?thesis
    by (fastforce simp: add_entry_def)
qed

theorem add_success_witness:
  "\<exists>r w'. add (demo False) (demo_request True) (demo_world []) = ((r, None), w') \<and> Registered r \<and>
     find_project (doc_projects w') ''p'' = Some demo_project"
  using demo_add_succeeds add_success by fastforce

section \<open>Failure\<close>

text \<open>A program that leaves the document alone unless it fails while writing it.\<close>

definition stable :: "('r \<times> world, 'a) prog \<Rightarrow> bool" where
  "stable p \<longleftrightarrow> (\<forall>s e s'. p s = (Inl e, s') \<and> perr_kind e \<noteq> KindConfigWrite \<longrightarrow>
     document (snd s') = document (snd s))"

abbreviation quiet :: "('r \<times> world, 'a) prog \<Rightarrow> bool" where
  "quiet p \<equiv> keeps (on_world (emits_only (\<lambda>_. True))) p"

lemma quiet_document: "quiet p \<Longrightarrow> p s = (x, s') \<Longrightarrow> document (snd s') = document (snd s)"
  unfolding keeps_def on_world_def emits_only_def by (metis snd_conv)

lemma stable_quiet: "quiet p \<Longrightarrow> stable p"
  by (auto simp: stable_def dest: quiet_document)

lemma stable_bnd: "quiet m \<Longrightarrow> (\<And>x. stable (f x)) \<Longrightarrow> stable (bnd m f)"
  unfolding stable_def bnd_def
  by (fastforce split: prod.splits sum.splits dest: quiet_document)

lemma stable_thn: "quiet m \<Longrightarrow> stable n \<Longrightarrow> stable (thn m n)"
  by (simp add: thn_def stable_bnd)

lemma stable_if: "(b \<Longrightarrow> stable p) \<Longrightarrow> (\<not> b \<Longrightarrow> stable q) \<Longrightarrow> stable (if b then p else q)"
  by simp

lemma any_allowed [simp]: "allows_attach m (\<lambda>_. True)" "allows_host (\<lambda>_. True)" "allows_reads (\<lambda>_. True)"
  by (simp_all add: allows_attach_def allows_host_def allows_reads_def)

lemma persist_stable:
  "persist m opn entry allow w = (Inl e, w') \<Longrightarrow> perr_kind e \<noteq> KindConfigWrite \<Longrightarrow> document w' = document w"
  by (auto simp: persist_def registry_update_def update_registry_def write_registry_def Let_def mk_err_def
      split: prod.splits sum.splits if_splits option.splits)

section \<open>Frames of the steps of an attachment\<close>

lemma emits_add_note [frame_intros]: "keeps (on_world (emits_only P)) (add_note n)"
  unfolding add_note_def by (intro frame_intros)

lemma emits_add_key [frame_intros]: "keeps (on_world (emits_only P)) (add_key k)"
  unfolding add_key_def by (intro frame_intros)

lemma emits_adopt [frame_intros]: "keeps (on_world (emits_only P)) (adopt st)"
  unfolding adopt_def by (intro frame_intros)

lemma emits_add_checks [frame_intros]:
  "allows_reads P \<Longrightarrow> keeps (on_world (emits_only P)) (add_checks m req)"
  unfolding add_checks_def by (intro frame_intros)

lemma attach_clone [simp]: "attach_guest m (git_exec m key (''clone'' # ''--quiet'' # ''--'' # xs))"
  by (simp add: attach_guest_def starts_def)

lemma emits_add_source [frame_intros]:
  "allows_attach m P \<Longrightarrow> allows_host P \<Longrightarrow>
     keeps (on_world (emits_only P)) (add_source m req workspace st)"
  unfolding add_source_def add_from_remote_def add_from_bundle_def add_local_def add_from_hub_def
  by (intro frame_intros attach_must_run [where m = m]; simp?)
    (simp add: attach_guest_def starts_def argv_defs)

text \<open>C8: an attachment that fails leaves the registry exactly as it was, whatever had already
  happened in the guest; only a failure of the write itself (\<open>config_write\<close>) can say otherwise.\<close>

theorem add_failure_keeps_registry:
  assumes "add m req w = ((r, Some e), w')" and "perr_kind e \<noteq> KindConfigWrite"
  shows "document w' = document w"
proof -
  have tail: "stable (bnd (attempt (lift (persist m opn p b)))
      (\<lambda>saved. case saved of Inl e \<Rightarrow> thn (add_note x) (thn (add_note y) (raise e)) | Inr _ \<Rightarrow> update f))"
    for opn p b x y f
    by (auto simp: stable_def bnd_def thn_def attempt_def lift_def add_note_def update_def raise_def
        split: prod.splits sum.splits dest: persist_stable)
  have recorded: "stable (add_record m req workspace)" for workspace
    unfolding add_record_def
    by (intro stable_bnd stable_if tail frame_intros stable_quiet; simp)
  have finish: "stable (add_finish m req workspace key)" for workspace key
    unfolding add_finish_def
    by (intro stable_thn recorded frame_intros; simp)
  have "stable (add_body m req)"
    unfolding add_body_def
    by (intro stable_thn stable_bnd finish frame_intros; simp)
  moreover obtain u where "add_body m req (no_add_report, w) = (Inl e, (r, w'))"
    using assms(1) by (auto simp: add_def with_report_def split: prod.splits sum.splits)
  ultimately show ?thesis using assms(2) by (fastforce simp: stable_def)
qed

theorem add_failure_keeps_registry_witness:
  "document (snd (add (demo False) (demo_request False) (demo_world []))) = document (demo_world [])"
proof -
  obtain r w' where "add (demo False) (demo_request False) (demo_world []) =
      ((r, Some (mk_err add_op KindPrecondition CNeedsSource)), w')"
    using demo_add_fails by blast
  from add_failure_keeps_registry [OF this] this show ?thesis by (simp add: mk_err_def)
qed

text \<open>a request the registry cannot take (the ID is recorded with other details, or its remote is
  recorded under another ID without the operator's consent) is refused before anything runs in the
  guest or on the host: the only thing that happened is the registry read.\<close>

theorem add_conflict_touches_nothing:
  assumes "add_register_check (document w) (add_entry req) (req_AllowDuplicateRemote req) = Some e"
  shows "\<exists>r e'. fst (add m req w) = (r, Some e') \<and>
    emits_only (\<lambda>ev. ev = RegistryRead) w (snd (add m req w))"
proof -
  have "\<exists>e' r w'. add_checks m req (r0, w) = (Inl e', (r, w')) \<and> emits_only (\<lambda>ev. ev = RegistryRead) w w'"
    for r0
    using assms
    by (auto simp: add_checks_def bnd_def thn_def check_def raise_def ret_def update_def lift_def Let_def
        load_document_def registry_load_def emits_only_def split: option.splits prod.splits sum.splits)
  from this [of no_add_report] show ?thesis
    by (auto simp: add_def add_body_def with_report_def bnd_def)
qed

theorem add_conflict_touches_nothing_witness:
  "\<exists>r e'. fst (add (demo True) ((demo_request True)\<lparr>req_DisplayName := ''Q''\<rparr>) (demo_world [demo_project])) =
     (r, Some e')"
proof -
  let ?req = "(demo_request True)\<lparr>req_DisplayName := ''Q''\<rparr>"
  have "add_register_check (document (demo_world [demo_project])) (add_entry ?req)
      (req_AllowDuplicateRemote ?req) = Some (mk_err add_op KindConflict CDifferentDetails)"
    by (simp add: add_register_check_def add_entry_def demo_request_def demo_project_def)
  then show ?thesis using add_conflict_touches_nothing by blast
qed

section \<open>What an attachment may run\<close>

definition attach_event :: "manager \<Rightarrow> event \<Rightarrow> bool" where
  "attach_event m e = (case e of
       GuestRun argv \<Rightarrow> attach_guest m argv
     | HostGit argv \<Rightarrow> attach_host argv
     | CopyOut src dst \<Rightarrow> False
     | AgentQuery \<Rightarrow> False
     | _ \<Rightarrow> True)"

lemma attach_event_allows [simp]: "allows_attach m (attach_event m)" "allows_host (attach_event m)"
  by (simp_all add: allows_attach_def allows_host_def attach_event_def)

lemma attach_event_reads [simp]: "allows_reads (attach_event m)"
  by (rule allows_attach_reads [of m]) simp

lemma persist_appends:
  "P RegistryRead \<Longrightarrow> (\<And>ps. P (RegistryWrite ps)) \<Longrightarrow> keeps (appends P) (persist m opn entry allow)"
  by (auto simp: keeps_def persist_def registry_update_def update_registry_def write_registry_def Let_def
      appends_def split: prod.splits sum.splits if_splits option.splits)

lemma rep_appends: "keeps (on_world (emits_only P)) p \<Longrightarrow> keeps (on_world (appends P)) p"
  by (auto simp: keeps_def on_world_def emits_only_def appends_def)

text \<open>C10: whatever the request and however it ends, an attachment runs only the commands of
  \<open>attach_guest\<close> in the guest: it never pushes, fetches, resets or cleans, the only path it removes is
  its own staging directory, and the only files it reads are public halves of keys.\<close>

theorem add_bounded: "appends (attach_event m) w (snd (add m req w))"
proof -
  have recorded: "keeps (on_world (appends (attach_event m))) (add_record m req workspace)" for workspace
    unfolding add_record_def
    by (intro app_rep.keeps_rules rep_appends [OF emits_add_note] app_update app_lift persist_appends
          keeps_appends [OF emits_inspect_checkout]; simp add: attach_event_def)
  have "keeps (on_world (appends (attach_event m))) (add_body m req)"
    unfolding add_body_def add_finish_def
    by (intro app_rep.keeps_rules recorded app_lift rep_appends [OF emits_add_checks]
          rep_appends [OF emits_add_source] keeps_appends; (intro frame_intros)?; simp)
  then show ?thesis unfolding add_def by (rule with_report_appends)
qed

end
