(* ===== verification/Record_Facts.thy ===== *)
theory Record_Facts
  imports Attach_Facts
begin

text \<open>
  The properties of the operations that change a recorded project: \<open>SetRemote\<close> corrects the record
  first and for good, \<open>Remove\<close> forgets the entry and touches nothing else.
\<close>

section \<open>The registry after an update\<close>

lemma correct_record_Inr:
  assumes "correct_record m pid remote w = (Inr u, w')"
  shows "find_project (doc_projects w') k =
    map_option (set_remote pid remote) (find_project (doc_projects w) k)"
proof -
  let ?f = "\<lambda>current. with_updated_remote current pid remote \<lparr>AllowDuplicateRemote = False\<rparr>"
  from assms have R: "registry_update m ?f w = (Inr (), w')"
    by (auto simp: correct_record_def split: prod.splits sum.splits)
  from store.update_ok [OF R] obtain d where D: "?f (bare_file (doc_projects w)) = Inr d"
    "\<And>k. find_project (doc_projects w') k = find_project (Projects d) k" by auto
  from with_updated_remote_Inr [THEN iffD1, OF D(1)] show ?thesis
    by (auto simp: D(2) bare_file_def find_project_set_remote)
qed

lemma project_validate_not_found: "project_validate p \<noteq> Some (ErrProjectNotFound q)"
  by (auto simp: project_validate_def split: option.splits)

lemma validate_entries_not_found: "validate_entries seen ps \<noteq> Some (ErrProjectNotFound q)"
  by (induction seen ps rule: validate_entries.induct)
    (auto simp: project_validate_not_found split: option.splits)

lemma validate_projects_not_found: "validate_projects ps \<noteq> Some (ErrProjectNotFound q)"
  by (simp add: validate_projects_def validate_entries_not_found)

lemma file_validate_not_found: "file_validate f \<noteq> Some (ErrProjectNotFound q)"
  by (auto simp: file_validate_def validate_projects_not_found split: option.splits if_splits)

lemma without_project_not_found:
  "without_project f pid = Inl (ErrProjectNotFound q) \<Longrightarrow> find_project (Projects f) pid = None"
  by (auto simp: without_project_def Let_def list_ex_iff file_validate_not_found
      dest: find_project_Some split: option.splits if_splits) (metis find_project_Some option.exhaust)

lemma map_sum_Inl [simp]: "map_sum id g r = Inl e \<longleftrightarrow> r = Inl e"
  by (cases r) auto

lemma forget_entry_Inr:
  assumes "forget_entry m pid w = (Inr failed, w')" and "\<forall>e. failed = Some e \<longrightarrow> is_not_found e"
  shows "find_project (doc_projects w') k = (if k = pid then None else find_project (doc_projects w) k)"
proof -
  let ?f = "\<lambda>fresh. without_project fresh pid"
  obtain r where R: "registry_update m ?f w = (r, w')" "failed = (case r of Inl e \<Rightarrow> Some e | Inr _ \<Rightarrow> None)"
    using assms(1) by (auto simp: forget_entry_def split: prod.splits sum.splits)
  show ?thesis
  proof (cases r)
    case (Inr u)
    with R have "registry_update m ?f w = (Inr (), w')" by simp
    from store.update_ok [OF this] obtain d where D: "?f (bare_file (doc_projects w)) = Inr d"
      "\<And>k. find_project (doc_projects w') k = find_project (Projects d) k" by auto
    from reg.remove_find [OF D(1)] show ?thesis by (simp add: D(2) bare_file_def)
  next
    case (Inl e)
    with R assms(2) have nf: "is_not_found e" by auto
    then obtain q where e: "e = DocErr (ErrProjectNotFound q)" by (cases e rule: is_not_found.cases) auto
    have "document w' = document w \<and> ?f (bare_file (doc_projects w)) = Inl (ErrProjectNotFound q)"
      using R(1) Inl e
      by (auto simp: registry_update_def update_registry_def write_registry_def Let_def doc_projects_def
          validate_projects_not_found split: if_splits sum.splits option.splits)
    then show ?thesis
      using without_project_not_found by (fastforce simp: doc_projects_def bare_file_def)
  qed
qed

section \<open>SetRemote\<close>

lemma emits_set_note [frame_intros]: "keeps (on_world (emits_only P)) (set_note n)"
  unfolding set_note_def by (intro frame_intros)

lemma emits_set_key [frame_intros]: "keeps (on_world (emits_only P)) (set_key k)"
  unfolding set_key_def by (intro frame_intros)

lemma attach_origin:
  "attach_guest m (workspace_git m ws (if b then [''remote'', ''add'', ''origin'', r]
     else [''remote'', ''set-url'', ''origin'', r]))"
  by (cases b) (simp_all add: attach_guest_def starts_def argv_defs)

lemma emits_set_remote_origin [frame_intros]:
  "allows_attach m P \<Longrightarrow> keeps (on_world (emits_only P)) (set_remote_origin m pid remote workspace promoting)"
  unfolding set_remote_origin_def
  by (frule allows_attach_reads; intro frame_intros attach_must_run [where m = m] attach_origin)

definition record_kind :: "perr \<Rightarrow> bool" where
  "record_kind e \<longleftrightarrow> perr_kind e \<in> {KindInvalidConfig, KindConflict, KindConfigWrite}"

lemma raises_load: "Q (mk_err opn KindInvalidConfig (CRegistry DocIO)) \<Longrightarrow> raises Q (load_document m opn)"
  by (auto simp: raises_def load_document_def registry_load_def split: prod.splits sum.splits if_splits)

lemma raises_set_remote_record: "raises record_kind (set_remote_record m pid remote)"
  unfolding set_remote_record_def resolve_def
  by (intro raise_intros raises_load)
    (auto simp: record_kind_def mk_err_def raises_def correct_record_def split: prod.splits sum.splits)

lemma kept_document:
  assumes "keeps (emits_only (\<lambda>_. True)) p" and "p w = (x, w')"
  shows "document w' = document w"
proof -
  from assms(1) have "emits_only (\<lambda>_. True) w (snd (p w))" by (simp add: keeps_def)
  with assms(2) show ?thesis by (simp add: emits_only_def)
qed

lemma resolve_document: "resolve m opn pid w = (x, w') \<Longrightarrow> document w' = document w"
  by (rule kept_document [OF emits_resolve]) simp_all

lemma resolve_Inr: "resolve m opn pid w = (Inr (p, workspace), w') \<Longrightarrow>
    find_project (doc_projects w) pid = Some p \<and> derive_path (WorkspacePath m) pid = Some workspace"
  by (auto simp: resolve_def prog_Inr load_document_def registry_load_def doc_projects_def
      split: option.splits if_splits sum.splits prod.splits)

lemma set_remote_record_Inr:
  assumes "set_remote_record m pid remote (r0, w) = (Inr (entry, workspace), (r, w'))"
  shows "find_project (doc_projects w) pid = Some entry \<and> remote \<noteq> [] \<and>
    find_project (doc_projects w') k = map_option (set_remote pid remote) (find_project (doc_projects w) k)"
proof -
  from assms obtain w1 where R: "resolve m set_op pid w = (Inr (entry, workspace), w1)" and
    C: "correct_record m pid remote w1 = (Inr (), w')" and ne: "remote \<noteq> []"
    by (auto simp: set_remote_record_def prog_Inr lift_pair update_pair split: if_splits)
  from correct_record_Inr [OF C, of k] resolve_document [OF R] resolve_Inr [OF R] ne
  show ?thesis by (simp add: doc_projects_def)
qed

text \<open>C7: correcting a remote is final as soon as the record is written. Unless the call failed while
  resolving or writing the record, the registry afterwards is the old one with that entry's remote
  replaced and nothing else changed: not on success only, but also when the guest could not be
  reached, the deploy key is not authorized yet, or the checkout did not follow.\<close>

theorem set_remote_corrects_record:
  assumes "set_project_remote m pid remote w = ((r, oe), w')"
    and "oe = None \<or> (\<exists>e. oe = Some e \<and> \<not> record_kind e)"
  shows "find_project (doc_projects w) pid \<noteq> None \<and> remote \<noteq> [] \<and>
    find_project (doc_projects w') k = map_option (set_remote pid remote) (find_project (doc_projects w) k)"
proof -
  let ?rest = "\<lambda>(entry, workspace). bnd (attempt (lift (thn (require_prepared m set_op)
            (inspect_checkout m set_op workspace (Remote entry))))) (\<lambda>seen. case seen of
       Inl _ \<Rightarrow> set_note ''checkout_untouched_guest_unavailable''
     | Inr checkout \<Rightarrow> (let promoting = \<not> HasOrigin checkout in
         if \<not> PathExists checkout \<or> \<not> Repository checkout then set_note ''checkout_absent''
         else if \<not> promoting \<and> \<not> OriginMatches checkout then set_note ''checkout_origin_differs''
         else set_remote_origin m pid remote workspace promoting))"
  have quiet: "quiet (?rest x)" for x
    by (intro frame_intros; simp)
  obtain r0 where B: "bnd (set_remote_record m pid remote) ?rest (r0, w) =
      ((case oe of None \<Rightarrow> Inr () | Some e \<Rightarrow> Inl e), (r, w'))"
    using assms(1)
    by (auto simp: set_project_remote_def with_report_def set_remote_body_def split: prod.splits sum.splits)
  obtain x r1 w1 where S: "set_remote_record m pid remote (r0, w) = (x, (r1, w1))"
    by (metis prod.exhaust)
  show ?thesis
  proof (cases x)
    case (Inl e)
    with S B have "oe = Some e" by (auto simp: bnd_def split: option.splits)
    moreover have "record_kind e" using raises_set_remote_record S Inl by (fastforce simp: raises_def)
    ultimately show ?thesis using assms(2) by auto
  next
    case (Inr ew)
    obtain entry workspace where ew: "ew = (entry, workspace)" by (cases ew)
    with S B Inr have "\<exists>y. ?rest (entry, workspace) (r1, w1) = (y, (r, w'))"
      by (simp add: bnd_def)
    then have "document w' = document w1" using quiet_document [OF quiet] by fastforce
    with set_remote_record_Inr [of m pid remote r0 w entry workspace r1 w1] S Inr ew
    show ?thesis by (simp add: doc_projects_def)
  qed
qed

theorem set_remote_corrects_record_witness:
  "find_project (doc_projects (snd (set_project_remote (demo False) ''p'' ''h:r'' (demo_world [demo_project])))) ''p'' =
     Some demo_moved"
proof -
  obtain r w' where R: "set_project_remote (demo False) ''p'' ''h:r'' (demo_world [demo_project]) = ((r, None), w')"
    using demo_set_remote_succeeds by blast
  from set_remote_corrects_record [OF this, of "''p''"] R show ?thesis
    by (simp add: doc_projects_def set_remote_def demo_moved_def)
qed

section \<open>Remove\<close>

lemma emits_remove_note [frame_intros]: "keeps (on_world (emits_only P)) (remove_note n)"
  unfolding remove_note_def by (intro frame_intros)

text \<open>a removal that returns no error has removed exactly that entry; every other entry is as it
  was.\<close>

theorem remove_forgets_entry:
  assumes "remove_project m pid w = ((r, None), w')"
  shows "find_project (doc_projects w') k = (if k = pid then None else find_project (doc_projects w) k)"
proof -
  from assms obtain r0 r1 p ws w1 w2 w3 held failed w4 where
    R: "resolve m ''remove'' pid w = (Inr (p, ws), w1)" and
    P: "require_prepared m ''remove'' w1 = (Inr (), w2)" and
    T: "test_as_user m ''remove'' ''-f'' (deploy_key_path m pid) w2 = (Inr held, w3)" and
    F: "forget_entry m pid w3 = (Inr failed, w')" and
    N: "\<forall>e. failed = Some e \<longrightarrow> is_not_found e"
    by (auto simp: remove_project_def with_report_None remove_body_def prog_Inr Let_def lift_pair
        update_pair remove_note_def split: if_splits option.splits) blast+
  have "document w2 = document w1"
    by (rule kept_document [OF emits_require_prepared P]) simp
  moreover have "document w3 = document w2"
    by (rule kept_document [OF emits_test_user_read T]) simp
  ultimately show ?thesis
    using forget_entry_Inr [OF F N] resolve_document [OF R] by (simp add: doc_projects_def)
qed

theorem remove_forgets_entry_witness:
  "find_project (doc_projects (snd (remove_project (demo False) ''p'' (demo_world [demo_project])))) ''p'' = None"
proof -
  obtain r w' where R: "remove_project (demo False) ''p'' (demo_world [demo_project]) = ((r, None), w')"
    using demo_remove_succeeds by blast
  from remove_forgets_entry [OF this, of "''p''"] R show ?thesis by simp
qed

definition remove_event :: "event \<Rightarrow> bool" where
  "remove_event e = (case e of GuestRun argv \<Rightarrow> starts [[''true''], [''test'', ''-f'']] (command_of argv)
     | BootstrapRun \<Rightarrow> True | RegistryRead \<Rightarrow> True | RegistryWrite ps \<Rightarrow> True | _ \<Rightarrow> False)"

text \<open>a removal runs two commands in the guest at most, \<open>true\<close> and a \<open>test\<close> for the deploy key: it
  never touches the checkout or the key, whether it succeeds or fails.\<close>

theorem remove_never_touches_checkout: "appends remove_event w (snd (remove_project m pid w))"
proof -
  have forget: "keeps (appends remove_event) (forget_entry m pid)" for pid
    by (auto simp: keeps_def forget_entry_def registry_update_def update_registry_def write_registry_def
        Let_def appends_def remove_event_def split: prod.splits sum.splits if_splits option.splits)
  have load: "keeps (appends remove_event) (resolve m opn pid)" for opn
    unfolding resolve_def by (intro frame_intros)
      (auto simp: keeps_def load_document_def registry_load_def appends_def remove_event_def
        split: prod.splits sum.splits)
  have prepared: "keeps (appends remove_event) (require_prepared m opn)" for opn
    unfolding require_prepared_def
    by (intro app.keeps_rules keeps_appends [OF emits_must_run])
      (auto simp: keeps_def bootstrap_guest_def appends_def remove_event_def argv_defs split: option.splits)
  have key: "keeps (appends remove_event) (test_as_user m opn ''-f'' p)" for opn p
    by (rule keeps_appends, rule emits_test_as_user) (simp add: remove_event_def argv_defs)
  have "keeps (on_world (appends remove_event)) (remove_body m pid)"
    unfolding remove_body_def remove_note_def Let_def
    by (intro app_rep.keeps_rules app_lift app_update forget load prepared key)
  then show ?thesis unfolding remove_project_def by (rule with_report_appends)
qed

end
