(* ===== verification/Sync_Facts.thy ===== *)
theory Sync_Facts
  imports Record_Facts
begin

text \<open>
  The rule of a reconciliation. \<open>classify\<close> is its specification, one verdict per ref; the planner is
  proved to compute it, two plans in a row are proved to converge, and the operation is proved to
  write a ref only on the evidence the rule asks for.
\<close>

section \<open>The specification\<close>

datatype verdict = Fresh | Same | Forward | Behind | Diverge

definition classify :: "(string \<Rightarrow> string \<Rightarrow> bool) \<Rightarrow> refs \<Rightarrow> refs \<Rightarrow> string \<Rightarrow> verdict" where
  "classify anc mine theirs ref = (case map_of mine ref of None \<Rightarrow> Fresh
     | Some current \<Rightarrow> (let target = lookup_ref theirs ref in
         if current = target then Same else if anc current target then Forward
         else if anc target current then Behind else Diverge))"

definition plan_for :: "refs \<Rightarrow> refs \<Rightarrow> string \<Rightarrow> ref_plan" where
  "plan_for mine theirs ref = \<lparr>Ref = ref, Target = lookup_ref theirs ref, From = lookup_ref mine ref\<rparr>"

definition moving :: "verdict \<Rightarrow> bool" where
  "moving v \<longleftrightarrow> v = Fresh \<or> v = Forward"

lemma plan_names_pure:
  "plan_names (\<lambda>old new. ret (anc old new)) mine theirs names s =
     (Inr (map (plan_for mine theirs) (filter (\<lambda>r. moving (classify anc mine theirs r)) names),
           filter (\<lambda>r. classify anc mine theirs r = Diverge) names), s)"
proof (induction names)
  case Nil
  then show ?case by (simp add: ret_def)
next
  case (Cons ref names)
  have rest: "bnd (plan_names (\<lambda>old new. ret (anc old new)) mine theirs names) f s =
      f (map (plan_for mine theirs) (filter (\<lambda>r. moving (classify anc mine theirs r)) names),
         filter (\<lambda>r. classify anc mine theirs r = Diverge) names) s" for f :: "_ \<Rightarrow> (_, ref_plan list \<times> string list) prog"
    by (simp add: bnd_def Cons.IH)
  note step = Cons.IH rest bnd_ret Let_def
  show ?case
  proof (cases "map_of mine ref")
    case None
    then have "classify anc mine theirs ref = Fresh" "lookup_ref mine ref = []"
      by (simp_all add: classify_def lookup_ref_def)
    then show ?thesis
      by (simp add: None step plan_for_def [of mine theirs ref] moving_def [of Fresh]) (simp add: ret_def)
  next
    case (Some current)
    let ?target = "lookup_ref theirs ref"
    from Some have "classify anc mine theirs ref = (if current = ?target then Same
        else if anc current ?target then Forward else if anc ?target current then Behind else Diverge)"
      "lookup_ref mine ref = current"
      by (simp_all add: classify_def lookup_ref_def Let_def)
    then show ?thesis
      by (simp add: Some step plan_for_def [of mine theirs ref] moving_def [of Forward]
          moving_def [of Same] moving_def [of Behind] moving_def [of Diverge]) (simp add: ret_def)
  qed
qed

text \<open>C9: with an ancestry that always answers, the planner computes the specification: the plans are
  exactly the refs this side lacks or holds an ancestor of, from what is held to what is arriving, and
  the diverged refs exactly those where neither side contains the other; equal refs and refs that are
  merely behind are neither.\<close>

theorem plan_meets_specification:
  "plan_ref_updates mine theirs (\<lambda>old new. ret (anc old new)) s =
     (Inr (map (plan_for mine theirs)
            (filter (\<lambda>r. moving (classify anc mine theirs r)) (sorted_ref_names theirs)),
           filter (\<lambda>r. classify anc mine theirs r = Diverge) (sorted_ref_names theirs)), s)"
  by (simp add: plan_ref_updates_def plan_names_pure)

section \<open>Convergence\<close>

definition planned :: "(string \<Rightarrow> string \<Rightarrow> bool) \<Rightarrow> refs \<Rightarrow> refs \<Rightarrow> ref_plan list" where
  "planned anc mine theirs =
     (case fst (plan_ref_updates mine theirs (\<lambda>old new. ret (anc old new)) ()) of
        Inr (plans, diverged) \<Rightarrow> plans | Inl e \<Rightarrow> [])"

definition write_refs :: "ref_plan list \<Rightarrow> refs \<Rightarrow> refs" where
  "write_refs plans refs = fold (\<lambda>p. AList.update (Ref p) (Target p)) plans refs"

definition carry :: "(string \<Rightarrow> string \<Rightarrow> bool) \<Rightarrow> refs \<Rightarrow> refs \<Rightarrow> refs" where
  "carry anc mine theirs = write_refs (planned anc mine theirs) mine"

lemma map_of_write_refs:
  "map_of (write_refs (map (plan_for mine theirs) names) refs) r =
     (if r \<in> set names then Some (lookup_ref theirs r) else map_of refs r)"
proof (induction names arbitrary: refs)
  case (Cons n names)
  then show ?case by (simp add: write_refs_def plan_for_def update_conv')
qed (simp add: write_refs_def)

lemma map_of_carry:
  "map_of (carry anc mine theirs) r =
     (if map_of theirs r \<noteq> None \<and> moving (classify anc mine theirs r)
      then map_of theirs r else map_of mine r)"
proof -
  have "r \<in> set (sorted_ref_names theirs) \<longleftrightarrow> map_of theirs r \<noteq> None"
    by (simp add: sorted_ref_names_def map_of_eq_None_iff)
  then show ?thesis
    by (auto simp: carry_def planned_def plan_meets_specification map_of_write_refs lookup_ref_def
        split: option.splits)
qed

lemma classify_cases:
  assumes "map_of mine r = Some u" and "map_of theirs r = Some v"
  shows "classify anc mine theirs r = (if u = v then Same else if anc u v then Forward
    else if anc v u then Behind else Diverge)"
  using assms by (simp add: classify_def lookup_ref_def Let_def)

definition reconciled :: "(string \<Rightarrow> string \<Rightarrow> bool) \<Rightarrow> refs \<Rightarrow> refs \<Rightarrow> refs \<times> refs" where
  "reconciled anc hub guest = (let hub' = carry anc hub guest in (hub', carry anc guest hub'))"

text \<open>one reconciliation, outbound then inbound, makes the two sides agree on every ref, whatever
  the ancestry relation is, except on the refs that diverged, and those are left as they were on both
  sides.\<close>

theorem reconciliation_converges:
  "case reconciled anc hub guest of (hub', guest') \<Rightarrow>
     if map_of hub r \<noteq> None \<and> map_of guest r \<noteq> None \<and> classify anc hub guest r = Diverge
     then map_of hub' r = map_of hub r \<and> map_of guest' r = map_of guest r
     else map_of hub' r = map_of guest' r"
proof -
  define hub' where "hub' = carry anc hub guest"
  define guest' where "guest' = carry anc guest hub'"
  have G: "map_of guest' r = (if map_of hub' r \<noteq> None \<and> moving (classify anc guest hub' r)
      then map_of hub' r else map_of guest r)"
    by (simp add: guest'_def map_of_carry)
  have H: "map_of hub' r = (if map_of guest r \<noteq> None \<and> moving (classify anc hub guest r)
      then map_of guest r else map_of hub r)"
    by (simp add: hub'_def map_of_carry)
  have "if map_of hub r \<noteq> None \<and> map_of guest r \<noteq> None \<and> classify anc hub guest r = Diverge
     then map_of hub' r = map_of hub r \<and> map_of guest' r = map_of guest r
     else map_of hub' r = map_of guest' r"
  proof (cases "map_of guest r")
    case None
    then show ?thesis using G H by (simp add: moving_def classify_def)
  next
    case v: (Some v)
    show ?thesis
    proof (cases "map_of hub r")
      case None
      with v G H have "map_of hub' r = Some v" by (simp add: moving_def classify_def)
      with None v G show ?thesis by (simp add: moving_def classify_cases)
    next
      case u: (Some u)
      define u' where "u' = (if moving (classify anc hub guest r) then v else u)"
      have u': "map_of hub' r = Some u'" using H u v by (simp add: u'_def)
      show ?thesis
        using G u' unfolding classify_cases [OF v u'] classify_cases [OF u v] u v
        by (simp add: u'_def classify_cases [OF u v] moving_def)
    qed
  qed
  moreover have "reconciled anc hub guest = (hub', guest')"
    by (simp add: reconciled_def Let_def hub'_def guest'_def)
  ultimately show ?thesis by (simp only: prod.case)
qed


section \<open>A ref is written on evidence only\<close>


definition hub_listing :: "string \<Rightarrow> string list" where
  "hub_listing hub = [''git'', ''-C'', hub, ''for-each-ref'', refListFormat, ''refs/heads'', ''refs/tags'']"

definition hub_says_ancestor :: "manager \<Rightarrow> string \<Rightarrow> string \<Rightarrow> string \<Rightarrow> bool" where
  "hub_says_ancestor m hub old target \<longleftrightarrow>
     (\<exists>h res. host_git m h [''git'', ''-C'', hub, ''merge-base'', ''--is-ancestor'', old, target] = Inr res \<and>
       ExitCode res = 0)"

definition hub_says_refs :: "manager \<Rightarrow> string \<Rightarrow> refs \<Rightarrow> bool" where
  "hub_says_refs m hub ours \<longleftrightarrow> (\<exists>h res. host_git m h (hub_listing hub) = Inr res \<and>
     ExitCode res = 0 \<and> parse_refs sync_op (Stdout res) ''refs/'' = Inr ours)"

definition hub_evidence :: "manager \<Rightarrow> string \<Rightarrow> string \<Rightarrow> string \<Rightarrow> bool" where
  "hub_evidence m hub ref target \<longleftrightarrow> (\<exists>ours. hub_says_refs m hub ours \<and>
     (map_of ours ref = None \<or> (\<exists>old. map_of ours ref = Some old \<and> hub_says_ancestor m hub old target)))"





text \<open>The same evidence on the side of the checkout.\<close>

definition guest_says_refs :: "manager \<Rightarrow> string \<Rightarrow> refs \<Rightarrow> bool" where
  "guest_says_refs m workspace mine \<longleftrightarrow> (\<exists>res. answered m (workspace_git m workspace
       [''for-each-ref'', refListFormat, ''refs/heads'', ''refs/tags'']) res \<and> ExitCode res = 0 \<and>
     parse_refs sync_op (Stdout res) ''refs/'' = Inr mine)"

definition guest_says_ancestor :: "manager \<Rightarrow> string \<Rightarrow> string \<Rightarrow> string \<Rightarrow> bool" where
  "guest_says_ancestor m workspace old target \<longleftrightarrow> (\<exists>res. answered m (workspace_git m workspace
       [''merge-base'', ''--is-ancestor'', old, target]) res \<and> ExitCode res = 0)"

definition guest_evidence :: "manager \<Rightarrow> string \<Rightarrow> string \<Rightarrow> string \<Rightarrow> bool" where
  "guest_evidence m workspace ref target \<longleftrightarrow> (\<exists>mine. guest_says_refs m workspace mine \<and>
     (map_of mine ref = None \<or>
      (\<exists>old. map_of mine ref = Some old \<and> guest_says_ancestor m workspace old target)))"




section \<open>What a reconciliation may do\<close>

definition sync_host :: "string list \<Rightarrow> bool" where
  "sync_host argv = (case git_args argv of None \<Rightarrow> False
     | Some args \<Rightarrow> starts [[''for-each-ref''], [''rev-parse'', ''--verify''], [''symbolic-ref'', ''HEAD''],
         [''bundle'', ''create''], [''merge-base'', ''--is-ancestor''], [''rev-list'', ''--count''],
         [''fetch'', ''--quiet'', ''--prune'', ''--no-tags''], [''init'', ''--bare'']] args)"

definition sync_guest :: "manager \<Rightarrow> string list \<Rightarrow> bool" where
  "sync_guest m argv \<longleftrightarrow> read_only_guest argv \<or> (case git_args argv of
     Some args \<Rightarrow> starts [[''bundle'', ''create''], [''fetch'', ''--quiet'', ''--prune'', ''--no-tags''],
       [''merge'', ''--ff-only'']] args
   | None \<Rightarrow> attach_root [sync_staging_path m] (command_of argv) \<or>
       starts [[''chmod'', ''2770'']] (command_of argv))"

fun sync_event :: "manager \<Rightarrow> string \<Rightarrow> string \<Rightarrow> event \<Rightarrow> bool" where
  "sync_event m workspace hub (GuestRun argv) \<longleftrightarrow> sync_guest m argv \<or>
     (\<exists>ref target. argv = workspace_git m workspace [''update-ref'', ''refs/'' @ ref, target] \<and>
        guest_evidence m workspace ref target)"
| "sync_event m workspace hub (HostGit argv) \<longleftrightarrow> sync_host argv \<or>
     (\<exists>ref target. argv = [''git'', ''-C'', hub, ''update-ref'', ''refs/'' @ ref, target] \<and>
        hub_evidence m hub ref target)"
| "sync_event m workspace hub (RegistryWrite ps) = False"
| "sync_event m workspace hub AgentQuery = False"
| "sync_event m workspace hub e = True"

lemma sync_event_reads [simp]: "allows_reads (sync_event m workspace hub)"
  by (simp add: allows_reads_def sync_guest_def)



























end
