(* ===== verification/Path_Facts.thy ===== *)
theory Path_Facts
  imports Projects
begin

text \<open>
  Lexical paths: a plain name joined to a clean absolute directory is clean, lies directly in it, and
  comes apart into the two again. Everything the code derives a location with is such a join.
\<close>

lemma split_on_snoc: "d \<notin> set t \<Longrightarrow> split_on d (s @ d # t) = split_on d s @ [t]"
proof (induction s)
  case Nil
  have "split_on d t = [t]" using Nil by (induction t) auto
  then show ?case by simp
next
  case (Cons c s)
  then show ?case by (cases "split_on d s") auto
qed

lemma clean_step_append:
  "clean_step rooted out (xs @ ys) = clean_step rooted (clean_step rooted out xs) ys"
  by (induction rooted out xs rule: clean_step.induct) auto

lemma join_snoc: "xs \<noteq> [] \<Longrightarrow> join sep (xs @ [x]) = join sep xs @ sep @ x"
proof (induction xs)
  case (Cons y ys)
  then show ?case by (cases ys) auto
qed simp

definition clean_root :: "string \<Rightarrow> bool" where
  "clean_root root \<longleftrightarrow> has_prefix root ''/'' \<and> root \<noteq> ''/'' \<and> path_clean root = root"

definition plain_name :: "string \<Rightarrow> bool" where
  "plain_name n \<longleftrightarrow> n \<noteq> [] \<and> n \<noteq> ''.'' \<and> n \<noteq> ''..'' \<and> CHR ''/'' \<notin> set n"

lemma child_path:
  assumes "clean_root root" and "plain_name name"
  shows "path_clean (root @ ''/'' @ name) = root @ ''/'' @ name" and "path_dir (root @ ''/'' @ name) = root"
    and "path_base (root @ ''/'' @ name) = name" and "clean_root (root @ ''/'' @ name)"
proof -
  have n: "name \<noteq> []" "name \<noteq> ''.''" "name \<noteq> ''..''" "CHR ''/'' \<notin> set name"
    using assms(2) by (simp_all add: plain_name_def)
  let ?out = "clean_step True [] (split_on CHR ''/'' root)"
  have rooted: "has_prefix root ''/''" "has_prefix (root @ t) ''/''" for t
    using assms(1) by (auto simp: clean_root_def has_prefix_def) (cases root; simp)+
  have root: "root = CHR ''/'' # join ''/'' ?out" and out: "?out \<noteq> []"
    using assms(1) rooted by (auto simp: clean_root_def path_clean_def Let_def)
  have "path_clean (root @ ''/'' @ name) = CHR ''/'' # join ''/'' (?out @ [name])"
    using rooted n by (simp add: path_clean_def split_on_snoc clean_step_append)
  then show clean: "path_clean (root @ ''/'' @ name) = root @ ''/'' @ name"
    using root out by (simp add: join_snoc)
  have slash: "path_clean (root @ ''/'') = root"
    using rooted split_on_snoc [of "CHR ''/''" "[]" root] root
    by (simp add: path_clean_def clean_step_append)
  have "index_of CHR ''/'' (rev name @ CHR ''/'' # rev root) = Some (length name)"
    using n(4) by (simp add: index_of_takeWhile takeWhile_append)
  then show "path_dir (root @ ''/'' @ name) = root"
    using slash by (simp add: path_dir_def last_index_of_def)
  obtain c t where name: "rev name = c # t" using n(1) by (cases "rev name") auto
  then have "c \<noteq> CHR ''/''" using n(4) by (metis list.set_intros(1) set_rev)
  then show "path_base (root @ ''/'' @ name) = name"
    using name n(4) by (auto simp: path_base_def Let_def takeWhile_append)
  show "clean_root (root @ ''/'' @ name)"
    using clean rooted(2) [of "''/'' @ name"] n(1) unfolding clean_root_def by (cases root) auto
qed

section \<open>Cleaning an absolute path\<close>

lemma split_on_plain: "d \<notin> set x \<Longrightarrow> split_on d x = [x]"
  by (induction x) auto

lemma split_on_join: "xs \<noteq> [] \<Longrightarrow> \<forall>x \<in> set xs. d \<notin> set x \<Longrightarrow> split_on d (join [d] xs) = xs"
proof (induction xs rule: rev_induct)
  case (snoc x xs)
  then show ?case by (cases "xs = []") (simp_all add: join_snoc split_on_plain split_on_snoc)
qed simp

lemma clean_step_plain:
  "list_all plain_name out \<Longrightarrow> list_all (\<lambda>c. CHR ''/'' \<notin> set c) cs \<Longrightarrow> list_all plain_name (clean_step True out cs)"
proof (induction "True" out cs rule: clean_step.induct)
  case (2 out c cs)
  have "list_all plain_name (butlast out)"
    using \<open>list_all plain_name out\<close> by (auto simp: list_all_iff dest: in_set_butlastD)
  then show ?case using 2 by (auto simp: plain_name_def split: if_splits)
qed simp

lemma clean_step_id: "list_all plain_name cs \<Longrightarrow> clean_step rooted out cs = out @ cs"
  by (induction rooted out cs rule: clean_step.induct) (auto simp: plain_name_def)

lemma clean_abs:
  assumes "has_prefix p ''/''"
  obtains cs where "path_clean p = CHR ''/'' # join ''/'' cs" and "list_all plain_name cs"
    and "split_on CHR ''/'' (path_clean p) = [] # (if cs = [] then [[]] else cs)"
proof -
  define cs where "cs = clean_step True [] (split_on CHR ''/'' p)"
  have plain: "list_all plain_name cs"
    unfolding cs_def by (rule clean_step_plain) (auto simp: list_all_iff dest: split_on_no_sep)
  have e: "path_clean p = CHR ''/'' # join ''/'' cs" using assms by (simp add: path_clean_def cs_def)
  have "\<forall>c \<in> set cs. CHR ''/'' \<notin> set c" using plain by (simp add: list_all_iff plain_name_def)
  then have "split_on CHR ''/'' (path_clean p) = [] # (if cs = [] then [[]] else cs)"
    unfolding e using split_on_join [of cs "CHR ''/''"] by (cases "cs = []") auto
  then show thesis using that e plain by blast
qed

lemma path_clean_idem:
  assumes "has_prefix p ''/''"
  shows "path_clean (path_clean p) = path_clean p"
proof -
  obtain cs where e: "path_clean p = CHR ''/'' # join ''/'' cs" and plain: "list_all plain_name cs"
    and split: "split_on CHR ''/'' (path_clean p) = [] # (if cs = [] then [[]] else cs)"
    using clean_abs [OF assms] by metis
  have "has_prefix (path_clean p) ''/''" using e by (simp add: has_prefix_def)
  then show ?thesis
    using clean_step_id [OF plain, of True "[]"] unfolding path_clean_def [of "path_clean p"] split
    by (cases "cs = []") (simp_all add: e)
qed

lemma clean_abs_cases:
  assumes "has_prefix p ''/''"
  shows "path_clean p = ''/'' \<or> clean_root (path_clean p)"
proof -
  obtain cs where "path_clean p = CHR ''/'' # join ''/'' cs" using clean_abs [OF assms] by metis
  then have "has_prefix (path_clean p) ''/''" by (simp add: has_prefix_def)
  then show ?thesis using path_clean_idem [OF assms] by (simp add: clean_root_def)
qed

lemma child_of_top: "plain_name n \<Longrightarrow> path_clean (''/'' @ ''/'' @ n) = ''/'' @ n"
  using split_on_plain [of "CHR ''/''" n] by (simp add: path_clean_def has_prefix_def plain_name_def)

lemma clean_root_top: "plain_name n \<Longrightarrow> clean_root (''/'' @ n)"
  using split_on_plain [of "CHR ''/''" n] by (simp add: clean_root_def path_clean_def has_prefix_def plain_name_def)

end
