(* ===== verification/Config_Props.thy ===== *)
theory Config_Props
  imports Path_Facts Demo_Guest
begin

text \<open>
  The properties of the two packages everything rests on: redaction (\<open>internal/redact\<close>), the project
  registry document (\<open>internal/config\<close>), and the derived workspace path (\<open>internal/projects\<close>).
\<close>

section \<open>Redaction\<close>

text \<open>C4: a redacted text holds no text of any known secret shape, whatever the input was; in particular
  replacing one shape never creates another.\<close>

theorem redaction_leaves_no_secret:
  "list_all (\<lambda>p. clean p (redact_string s)) secret_patterns"
  by (simp add: list_all_iff redact_string_clean)

text \<open>the detector of the config layer, which asks whether redaction changes a text, answers yes
  exactly when some secret shape occurs in it, and redacting twice is redacting once.\<close>

theorem secret_detector_exact:
  "contains_secret_shape s = list_ex (\<lambda>p. \<not> clean p s) secret_patterns \<and>
   redact_string (redact_string s) = redact_string s"
  using not_secret_shape_iff [of s] by (auto simp: list_ex_iff)

section \<open>The registry document\<close>

lemma file_validate_subset:
  assumes "file_validate g = None" and "SchemaVersion h = SchemaVersion g" and "Timeout h = Timeout g"
    and "Backend h = Backend g" and "OperatorKey h = OperatorKey g"
    and "validate_projects (Projects h) = None"
  shows "file_validate h = None"
  using assms by (auto simp: file_validate_def split: option.splits if_splits)

text \<open>an addition that is accepted can always be undone: removing the added ID succeeds and gives
  back the entries as they were, in their order.\<close>

theorem add_then_remove:
  assumes "with_project f p opts = Inr g"
  shows "\<exists>h. without_project g (ID p) = Inr h \<and> Projects h = Projects f \<and> file_validate h = None"
proof -
  from assms have g: "g = f\<lparr>SchemaVersion := ConfigSchemaVersion, Projects := Projects f @ [p]\<rparr>"
    and new: "ID p \<notin> set (map ID (Projects f))" and valid: "file_validate g = None"
    by (auto simp: with_project_Inr add_conflict_None)
  let ?h = "g\<lparr>SchemaVersion := ConfigSchemaVersion, Projects := Projects f\<rparr>"
  have "filter (\<lambda>q. ID q \<noteq> ID p) (Projects g) = Projects f"
    using g filter_notin_id [OF new] by simp
  moreover have "validate_projects (Projects g) = None"
    using valid by (auto simp: file_validate_def split: option.splits if_splits)
  then have "validate_projects (Projects f) = None"
    using g by (auto simp: validate_projects_None)
  then have "file_validate ?h = None"
    using g by (intro file_validate_subset [OF valid]) simp_all
  ultimately have "without_project g (ID p) = Inr ?h"
    using g by (auto simp: without_project_Inr)
  with \<open>file_validate ?h = None\<close> show ?thesis by auto
qed


section \<open>The derived workspace path\<close>

text \<open>for every ID the config layer accepts, under a clean absolute workspace root, the path is
  derived and is exactly \<open>root/id\<close>; so the containment assertion never refuses a valid ID, and two
  IDs never share a workspace.\<close>

theorem valid_id_derives_path:
  assumes "validate_project_id pid = None" and "clean_root root"
  shows "derive_path root pid = Some (root @ ''/'' @ pid)"
proof -
  have chars: "CHR ''/'' \<notin> set pid" "CHR ''.'' \<notin> set pid" "CHR 0x5C \<notin> set pid"
    using valid_id_chars [OF assms(1)] by auto
  have ne: "pid \<noteq> []" using assms(1) by (simp add: validate_project_id_None)
  have dots: "pid \<noteq> ''.''" "pid \<noteq> ''..''" using chars(2) by auto
  then have "plain_name pid" using ne chars(1) by (simp add: plain_name_def)
  note C = child_path [OF assms(2) this]
  have "root \<noteq> []" using assms(2) by (auto simp: clean_root_def has_prefix_def)
  moreover have "\<not> contains_any pid [CHR ''/'', CHR 0x5C]"
    using chars by (auto simp: contains_any_def list_ex_iff)
  ultimately show ?thesis
    using ne dots C unfolding derive_path_def Let_def by simp
qed

theorem valid_id_derives_path_witness:
  "derive_path ''/w'' ''p'' = Some ''/w/p''"
proof -
  have "validate_project_id ''p'' = None" by simp
  moreover have "clean_root ''/w''" by (simp add: clean_root_def has_prefix_def path_clean_def)
  ultimately show ?thesis using valid_id_derives_path [of "''p''" "''/w''"] by simp
qed

text \<open>Two witnesses on the demonstration project.\<close>

theorem add_then_remove_witness:
  "\<exists>h. without_project (document (demo_world [demo_project])) ''p'' = Inr h \<and> Projects h = []"
  using add_then_remove [of "document (demo_world [])" demo_project "\<lparr>AllowDuplicateRemote = False\<rparr>"
      "document (demo_world [demo_project])"]
  by auto


section \<open>Accepted HTTPS remotes\<close>

lemma split_at_sep:
  "d \<in> set s \<Longrightarrow> s = takeWhile (\<lambda>c. c \<noteq> d) s @ d # drop (Suc (length (takeWhile (\<lambda>c. c \<noteq> d) s))) s"
  by (induction s) auto

text \<open>an HTTPS remote the config layer accepts carries no credential: no userinfo, no query and no
  percent escape that could hide one.\<close>

theorem https_remote_carries_no_credential:
  assumes "validate_remote remote = None" and "has_prefix remote ''https://''"
  shows "CHR ''@'' \<notin> set remote \<and> CHR ''?'' \<notin> set remote \<and> CHR ''%'' \<notin> set remote"
proof -
  from assms have pct: "CHR ''%'' \<notin> set remote" and url: "validate_remote_url remote"
    by (auto simp: validate_remote_def has_prefix_def split: if_splits)
  define u where "u = takeWhile (\<lambda>c. c \<noteq> CHR ''#'') remote"
  define frag where "frag = drop (Suc (length u)) remote"
  define after where "after = drop 8 u"
  define i where "i = index_of CHR ''/'' after"
  define authority where "authority = (case i of None \<Rightarrow> after | Some k \<Rightarrow> take k after)"
  define path where "path = (case i of None \<Rightarrow> [] | Some k \<Rightarrow> drop k after)"
  have prefix: "has_prefix u ''https://''"
    using assms(2) by (auto simp: u_def has_prefix_iff)
  have after: "u = ''https://'' @ after" using prefix by (auto simp: after_def has_prefix_iff)
  have split: "after = authority @ path"
    by (auto simp: authority_def path_def split: option.splits)
  have whole: "remote = u \<or> remote = u @ CHR ''#'' # frag"
  proof (cases "CHR ''#'' \<in> set remote")
    case True
    from split_at_sep [OF this] show ?thesis unfolding u_def frag_def by (rule disjI2)
  next
    case False
    then have "takeWhile (\<lambda>c. c \<noteq> CHR ''#'') remote = remote" by (auto simp: takeWhile_eq_all_conv)
    from sym [OF this] show ?thesis unfolding u_def by (rule disjI1)
  qed
  have checks: "\<not> u_query (url_parse remote)" "u_fragment (url_parse remote) = []"
    and user: "validate_user (url_parse remote)"
    and path_ok: "full_match remoteURLPathPattern (u_path (url_parse remote))"
    using url by (auto simp: validate_remote_url_def Let_def split: prod.splits)
  have "u_query (url_parse remote) = (CHR ''?'' \<in> set u)" "u_fragment (url_parse remote) = frag"
    by (simp_all add: url_parse_def split_at_index Let_def u_def frag_def)
  with checks have no_query: "CHR ''?'' \<notin> set u" and no_frag: "frag = []" by simp_all
  have rest: "takeWhile (\<lambda>c. c \<noteq> CHR ''?'') u = u" using no_query by (auto simp: takeWhile_eq_all_conv)
  have parsed: "u_scheme (url_parse remote) = ''https''" "u_path (url_parse remote) = path"
    "u_user (url_parse remote) = map_option (\<lambda>k. take k authority) (last_index_of CHR ''@'' authority)"
    using prefix
    by (simp_all add: url_parse_def split_at_index Let_def rest u_def [symmetric] after_def [symmetric]
        i_def [symmetric] authority_def path_def cong: option.case_cong)
      (cases i; simp add: after_def)
  have "CHR ''@'' \<notin> set authority"
    using user parsed by (auto simp: validate_user_def last_index_of_def split: option.splits)
  moreover have "CHR ''@'' \<notin> set path"
    using path_ok parsed(2)
    by (auto simp: remoteURLPathPattern_def full_match_lang list_all_iff alnum_or_def char_class_defs)
      (drule bspec, assumption, simp)
  ultimately show ?thesis
    using whole no_frag no_query pct after split by auto
qed

theorem https_remote_carries_no_credential_witness:
  "CHR ''@'' \<notin> set ''https://h/r''"
proof -
  have "validate_remote ''https://h/r'' = None"
    by (simp add: validate_remote_def maxRemoteLen_def text_eval)
      (simp add: validate_remote_url_def url_parse_def split_at_def host_and_port_def validate_user_def
        last_index_of_def remoteHostPattern_def remoteURLPathPattern_def text_eval)
  moreover have "has_prefix ''https://h/r'' ''https://''" by (simp add: has_prefix_def)
  ultimately show ?thesis using https_remote_carries_no_credential by blast
qed

text \<open>
  A fragment is refused on every URL form, except the empty one: \<open>url.Parse\<close> reads \<open>https://h/r#\<close> with
  an empty \<open>Fragment\<close>, so the check passes and the remote is recorded with its trailing \<open>#\<close>.
\<close>

lemma empty_fragment_accepted: "validate_remote ''https://h/r#'' = None"
  by (simp add: validate_remote_def maxRemoteLen_def text_eval)
    (simp add: validate_remote_url_def url_parse_def split_at_def host_and_port_def validate_user_def
      last_index_of_def remoteHostPattern_def remoteURLPathPattern_def text_eval)

end
