(* ===== verification/Sha256.thy ===== *)
theory Sha256
  imports Torio_Prelude "HOL-Library.Word"
begin

text \<open>
  The two library functions behind \<open>Identity.Fingerprint\<close> of \<open>internal/sshagent/sshagent.go\<close>:
  \<open>crypto/sha256\<close> on byte strings (FIPS 180-4) and \<open>base64.RawStdEncoding\<close> (RFC 4648, no padding).
  Bytes are \<open>8 word\<close>, the compression works on \<open>32 word\<close>, where addition wraps as in the standard.
\<close>

unbundle bit_operations_syntax

type_synonym byte = "8 word"
type_synonym bytes = "byte list"

section \<open>Big-endian integers\<close>

definition put_uint32 :: "32 word \<Rightarrow> bytes" where
  "put_uint32 w = [ucast (drop_bit 24 w), ucast (drop_bit 16 w), ucast (drop_bit 8 w), ucast w]"

definition get_uint32 :: "bytes \<Rightarrow> 32 word" where
  "get_uint32 b = push_bit 24 (ucast (b ! 0)) OR push_bit 16 (ucast (b ! 1)) OR
     push_bit 8 (ucast (b ! 2)) OR ucast (b ! 3)"

lemma length_put_uint32 [simp]: "length (put_uint32 w) = 4"
  by (simp add: put_uint32_def)

lemma get_put_uint32 [simp]: "get_uint32 (put_uint32 w @ rest) = w"
proof (rule bit_word_eqI)
  fix n assume "n < LENGTH(32)"
  then show "bit (get_uint32 (put_uint32 w @ rest)) n \<longleftrightarrow> bit w n"
    by (cases "n < 8"; cases "n < 16"; cases "n < 24")
      (auto simp: get_uint32_def put_uint32_def bit_simps)
qed

lemma no_high_bit [simp]: "8 \<le> k \<Longrightarrow> \<not> bit (a :: byte) (k + n)"
  using bit_imp_le_length [of a "k + n"] by auto

lemma put_get_uint32:
  assumes "length b = 4"
  shows "put_uint32 (get_uint32 b) = b"
proof -
  from assms obtain a0 a1 a2 a3 where b: "b = [a0, a1, a2, a3]"
    by (auto simp: length_Suc_conv numeral_eq_Suc)
  show ?thesis
    unfolding b put_uint32_def get_uint32_def
    by (auto intro!: bit_word_eqI simp: bit_simps)
qed

section \<open>SHA-256\<close>

text \<open>
  The constants are the first 32 bits of the fractional parts of the cube roots and square roots of
  the first primes, found here by bisection of the integer root of \<open>p * 2 ^ (32 * n)\<close>.
\<close>

definition small_primes :: "int list" where
  "small_primes = filter (\<lambda>n. list_all (\<lambda>k. n mod k \<noteq> 0) [2..17] \<or> n \<in> {2, 3, 5, 7, 11, 13, 17}) [2..311]"

fun int_root :: "nat \<Rightarrow> nat \<Rightarrow> int \<Rightarrow> int \<Rightarrow> int" where
  "int_root 0 n lo x = lo"
| "int_root (Suc k) n lo x = int_root k n (if (lo + 2 ^ k) ^ n \<le> x then lo + 2 ^ k else lo) x"

definition root_bits :: "nat \<Rightarrow> int \<Rightarrow> 32 word" where
  "root_bits n p = word_of_int (int_root 38 n 0 (p * 2 ^ (32 * n)))"

definition round_constants :: "32 word list" where
  "round_constants = map (root_bits 3) small_primes"

definition initial_state :: "32 word list" where
  "initial_state = map (root_bits 2) (take 8 small_primes)"

definition rotr :: "nat \<Rightarrow> 32 word \<Rightarrow> 32 word" where
  "rotr n w = drop_bit n w OR push_bit (32 - n) w"

text \<open>The message is padded with a one bit, zeros and its bit length as a 64-bit integer.\<close>

definition pad :: "bytes \<Rightarrow> bytes" where
  "pad m = (let n = length m; zeros = (119 - n mod 64) mod 64; bits = 8 * int n in
     m @ [0x80] @ replicate zeros 0 @
     put_uint32 (word_of_int (bits div 2 ^ 32)) @ put_uint32 (word_of_int bits))"

fun words_of :: "bytes \<Rightarrow> 32 word list" where
  "words_of (a # b # c # d # rest) = get_uint32 [a, b, c, d] # words_of rest"
| "words_of _ = []"

text \<open>The schedule is built backwards: the newest word is at the head.\<close>

fun extend :: "nat \<Rightarrow> 32 word list \<Rightarrow> 32 word list" where
  "extend 0 ws = ws"
| "extend (Suc n) ws = (let a = ws ! 14; b = ws ! 1;
       s0 = rotr 7 a XOR rotr 18 a XOR drop_bit 3 a;
       s1 = rotr 17 b XOR rotr 19 b XOR drop_bit 10 b in
     extend n ((ws ! 15 + s0 + ws ! 6 + s1) # ws))"

definition round_step :: "32 word list \<Rightarrow> 32 word \<times> 32 word \<Rightarrow> 32 word list" where
  "round_step st kw = (case st of
     [a, b, c, d, e, f, g, h] \<Rightarrow>
       (let s1 = rotr 6 e XOR rotr 11 e XOR rotr 25 e;
            ch = (e AND f) XOR (NOT e AND g);
            t1 = h + s1 + ch + fst kw + snd kw;
            s0 = rotr 2 a XOR rotr 13 a XOR rotr 22 a;
            maj = (a AND b) XOR (a AND c) XOR (b AND c) in
        [t1 + s0 + maj, a, b, c, d + t1, e, f, g])
   | _ \<Rightarrow> st)"

definition compress :: "32 word list \<Rightarrow> 32 word list \<Rightarrow> 32 word list" where
  "compress st block = map2 (+) st
     (foldl round_step st (zip round_constants (rev (extend 48 (rev block)))))"

fun compress_blocks :: "nat \<Rightarrow> 32 word list \<Rightarrow> 32 word list \<Rightarrow> 32 word list" where
  "compress_blocks 0 st ws = st"
| "compress_blocks (Suc n) st ws = compress_blocks n (compress st (take 16 ws)) (drop 16 ws)"

definition sha256 :: "bytes \<Rightarrow> bytes" where
  "sha256 m = (let ws = words_of (pad m) in
     concat (map put_uint32 (compress_blocks (length ws div 16) initial_state ws)))"

section \<open>Unpadded base64\<close>

definition base64_alphabet :: string where
  "base64_alphabet = ''ABCDEFGHIJKLMNOPQRSTUVWXYZabcdefghijklmnopqrstuvwxyz0123456789+/''"

definition base64_char :: "int \<Rightarrow> char" where
  "base64_char n = base64_alphabet ! nat (n mod 64)"

fun base64_raw :: "bytes \<Rightarrow> string" where
  "base64_raw [] = []"
| "base64_raw [a] = (let n = uint a * 16 in [base64_char (n div 64), base64_char n])"
| "base64_raw [a, b] = (let n = (uint a * 256 + uint b) * 4 in
     [base64_char (n div 4096), base64_char (n div 64), base64_char n])"
| "base64_raw (a # b # c # rest) = (let n = (uint a * 256 + uint b) * 256 + uint c in
     [base64_char (n div 262144), base64_char (n div 4096), base64_char (n div 64), base64_char n] @
     base64_raw rest)"

end
