(* ===== verification/Sinks.thy ===== *)
theory Sinks
  imports Torio_Prelude
begin

text \<open>
  The append-only decision logs of the program: the recorders of \<open>internal/sshagent/audit.go\<close> and
  \<open>internal/mcpbroker/audit.go\<close> write one JSON line and sync it, and refuse everything after the first
  failure. The locale states that contract; both recorders interpret it through \<open>append_line\<close>.
\<close>

section \<open>The sink\<close>

text \<open>
  The sink: what the file holds, and whether the recorder gave up. \<open>sink_writes\<close> says how many bytes
  of a line the \<open>n\<close>-th write put in the file and whether it returned an error, \<open>sink_syncs\<close> whether the
  sync after it succeeded.
\<close>

record sink_env =
  has_writer :: bool
  sink_writes :: "string \<Rightarrow> string \<Rightarrow> nat \<times> bool"
  sink_syncs :: "string \<Rightarrow> bool"

record recorder =
  Contents :: string
  Failed :: bool

definition append_line :: "sink_env \<Rightarrow> string \<Rightarrow> recorder \<Rightarrow> bool \<times> recorder" where
  "append_line env line r =
     (if \<not> has_writer env \<or> Failed r then (False, r)
      else (let (n, err) = sink_writes env (Contents r) line; r' = r\<lparr>Contents := Contents r @ take n line\<rparr> in
        if err \<or> n \<noteq> length line then (False, r'\<lparr>Failed := True\<rparr>)
        else if \<not> sink_syncs env (Contents r') then (False, r'\<lparr>Failed := True\<rparr>)
        else (True, r')))"

section \<open>A log that fails closed\<close>

text \<open>A sequence of decisions, each recorded after the one before.\<close>

fun record_all :: "('d \<Rightarrow> 'r \<Rightarrow> bool \<times> 'r) \<Rightarrow> 'd list \<Rightarrow> 'r \<Rightarrow> bool list \<times> 'r" where
  "record_all rec [] r = ([], r)"
| "record_all rec (d # ds) r = (let (ok, r1) = rec d r; (oks, r2) = record_all rec ds r1 in (ok # oks, r2))"

text \<open>
  Go's \<open>Recorder\<close> with what its clients rely on: an accepted decision appends its whole line, a refused
  one at most a piece of it and leaves a log that refuses everything after.
\<close>

locale decision_log =
  fixes rec :: "'d \<Rightarrow> 'r \<Rightarrow> bool \<times> 'r"
    and contents :: "'r \<Rightarrow> string"
    and line :: "'d \<Rightarrow> string"
    and unavailable :: "'r \<Rightarrow> bool"
  assumes accepted: "rec d r = (True, r') \<Longrightarrow> contents r' = contents r @ line d"
    and refused: "rec d r = (False, r') \<Longrightarrow>
      unavailable r' \<and> (\<exists>n. contents r' = contents r @ take n (line d))"
    and closed: "unavailable r \<Longrightarrow> rec d r = (False, r)"
begin

lemma rec_all_closed: "unavailable r \<Longrightarrow> record_all rec ds r = (replicate (length ds) False, r)"
  by (induction ds) (simp_all add: closed)

lemma rec_all_contents:
  assumes "record_all rec ds r = (oks, r')"
  shows "\<exists>k n. k \<le> length ds \<and> oks = replicate k True @ replicate (length ds - k) False \<and>
    contents r' = contents r @ concat (map line (take k ds)) @
      (if k < length ds then take n (line (ds ! k)) else [])"
  using assms
proof (induction ds arbitrary: r oks)
  case Nil
  then show ?case by simp
next
  case (Cons d ds)
  obtain ok r1 where R: "rec d r = (ok, r1)" by fastforce
  obtain oks1 where A: "record_all rec ds r1 = (oks1, r')" and oks: "oks = ok # oks1"
    using Cons.prems R by (auto simp: Let_def split: prod.splits)
  show ?case
  proof (cases ok)
    case True
    obtain k n where "k \<le> length ds" "oks1 = replicate k True @ replicate (length ds - k) False"
      "contents r' = contents r1 @ concat (map line (take k ds)) @
        (if k < length ds then take n (line (ds ! k)) else [])"
      using Cons.IH [OF A] by blast
    then show ?thesis
      using True R oks accepted [of d r r1] by (intro exI [of _ "Suc k"] exI [of _ n]) simp
  next
    case False
    with R have "rec d r = (False, r1)" by simp
    then obtain n where "unavailable r1" "contents r1 = contents r @ take n (line d)"
      using refused by blast
    moreover from this(1) have "oks1 = replicate (length ds) False" "r' = r1"
      using A rec_all_closed by simp_all
    ultimately show ?thesis
      using False oks by (intro exI [of _ 0] exI [of _ n]) simp
  qed
qed

end

definition sink_closed :: "sink_env \<Rightarrow> recorder \<Rightarrow> bool" where
  "sink_closed env r \<longleftrightarrow> \<not> has_writer env \<or> Failed r"

lemma append_line_log: "decision_log (\<lambda>d. append_line env (line d)) Contents line (sink_closed env)"
  by (unfold_locales, auto simp: append_line_def sink_closed_def Let_def split: if_splits prod.splits
      intro: exI [of _ 0]) (metis order_refl take_all)

end
