(* ===== verification/Ssh_Agent.thy ===== *)
theory Ssh_Agent
  imports Sha256 Sinks
begin

text \<open>
  The agent Torio forwards in place of the operator's own, \<open>internal/sshagent\<close>: the wire format
  (\<open>protocol.go\<close>), the decision log (\<open>audit.go\<close>), the prompt (\<open>prompt.go\<close>) and the proxy (\<open>proxy.go\<close>).
  The operator's agent, the dialog, the clock, the log file and the guest's connection are
  functions of everything that happened before, so the order of events is part of the state.
\<close>

section \<open>Frames\<close>

definition msgFailure :: byte where "msgFailure = 5"
definition msgRequestIdentities :: byte where "msgRequestIdentities = 11"
definition msgIdentitiesAnswer :: byte where "msgIdentitiesAnswer = 12"
definition msgSignRequest :: byte where "msgSignRequest = 13"
definition msgExtension :: byte where "msgExtension = 27"

lemmas msg_defs = msgFailure_def msgRequestIdentities_def msgIdentitiesAnswer_def msgSignRequest_def
  msgExtension_def

definition maxFrame :: int where "maxFrame = 256 * 1024"

record frame =
  f_typ :: byte
  f_body :: bytes

datatype read_err = ReadEOF | ReadUnexpectedEOF | NoMessageType | FrameTooLong

text \<open>\<open>io.ReadFull\<close> on the bytes a peer has sent and will send before it closes.\<close>

definition read_full :: "nat \<Rightarrow> bytes \<Rightarrow> read_err + bytes \<times> bytes" where
  "read_full n input = (if n \<le> length input then Inr (take n input, drop n input)
     else if input = [] then Inl ReadEOF else Inl ReadUnexpectedEOF)"

definition read_frame :: "bytes \<Rightarrow> read_err + frame \<times> bytes" where
  "read_frame input = (case read_full 4 input of
       Inl e \<Rightarrow> Inl e
     | Inr (header, rest) \<Rightarrow>
         (let len = get_uint32 header in
          if len = 0 then Inl NoMessageType
          else if uint len > maxFrame then Inl FrameTooLong
          else (case read_full (unat len) rest of
              Inl e \<Rightarrow> Inl e
            | Inr (payload, rest') \<Rightarrow> Inr (\<lparr>f_typ = hd payload, f_body = tl payload\<rparr>, rest'))))"

definition write_frame :: "frame \<Rightarrow> bytes option" where
  "write_frame f = (let len = int (length (f_body f)) + 1 in
     if len > maxFrame then None
     else Some (put_uint32 (word_of_int len) @ f_typ f # f_body f))"

section \<open>Bodies\<close>

definition read_uint32 :: "bytes \<Rightarrow> (32 word \<times> bytes) option" where
  "read_uint32 b = (if length b < 4 then None else Some (get_uint32 (take 4 b), drop 4 b))"

definition read_string :: "bytes \<Rightarrow> (bytes \<times> bytes) option" where
  "read_string b = (case read_uint32 b of
       None \<Rightarrow> None
     | Some (n, rest) \<Rightarrow> (if unat n > length rest then None
                         else Some (take (unat n) rest, drop (unat n) rest)))"

text \<open>A Go string is its bytes.\<close>

definition text_of :: "bytes \<Rightarrow> string" where
  "text_of = map (\<lambda>b. char_of (unat b))"

definition bytes_of :: "string \<Rightarrow> bytes" where
  "bytes_of = map (\<lambda>c. word_of_nat (of_char c))"

record identity =
  Blob :: bytes
  Comment :: string

fun parse_entries :: "nat \<Rightarrow> bytes \<Rightarrow> identity list option" where
  "parse_entries 0 b = Some []"
| "parse_entries (Suc n) b = (case read_string b of
       None \<Rightarrow> None
     | Some (blob, rest) \<Rightarrow> (case read_string rest of
         None \<Rightarrow> None
       | Some (comment, rest') \<Rightarrow>
           map_option (\<lambda>ids. \<lparr>Blob = blob, Comment = text_of comment\<rparr> # ids) (parse_entries n rest')))"

definition parse_identities :: "bytes \<Rightarrow> identity list option" where
  "parse_identities body = (case read_uint32 body of
       None \<Rightarrow> None
     | Some (n, rest) \<Rightarrow> (if uint n * 8 > int (length body) then None
                         else parse_entries (unat n) rest))"

definition append_string :: "bytes \<Rightarrow> bytes \<Rightarrow> bytes" where
  "append_string dst s = dst @ put_uint32 (word_of_nat (length s)) @ s"

definition encode_identities :: "identity list \<Rightarrow> bytes" where
  "encode_identities ids = foldl (\<lambda>body i. append_string (append_string body (Blob i)) (bytes_of (Comment i)))
     (put_uint32 (word_of_nat (length ids))) ids"

definition sign_request_key :: "bytes \<Rightarrow> bytes option" where
  "sign_request_key body = map_option fst (read_string body)"

definition fingerprint :: "bytes \<Rightarrow> string" where
  "fingerprint blob = ''SHA256:'' @ base64_raw (sha256 blob)"

section \<open>The decision log\<close>

record decision =
  d_Time :: string
  d_Request :: string
  d_Fingerprint :: string
  d_Allowed :: bool

definition requestIdentities :: string where "requestIdentities = ''identities''"
definition requestSign :: string where "requestSign = ''sign''"
definition requestExtension :: string where "requestExtension = ''extension''"
definition requestOther :: string where "requestOther = ''unsupported''"

text \<open>
  \<open>json.Marshal\<close> of a decision and its newline. Neither a time, a request kind nor a fingerprint holds
  a character JSON escapes, and an empty fingerprint is omitted.
\<close>

definition json_field :: "string \<Rightarrow> string \<Rightarrow> string" where
  "json_field name value = [CHR 0x22] @ name @ [CHR 0x22] @ '':'' @ value"

definition json_text :: "string \<Rightarrow> string" where
  "json_text s = [CHR 0x22] @ s @ [CHR 0x22]"

definition decision_line :: "decision \<Rightarrow> string" where
  "decision_line d = ''{'' @ join '','' ([json_field ''time'' (json_text (d_Time d)),
       json_field ''request'' (json_text (d_Request d))] @
     (if d_Fingerprint d = [] then [] else [json_field ''fingerprint'' (json_text (d_Fingerprint d))]) @
     [json_field ''allowed'' (if d_Allowed d then ''true'' else ''false'')]) @ ''}'' @ [newline]"

text \<open>\<open>jsonRecorder.Record\<close>: one line through the sink of theory \<open>Sinks\<close>.\<close>

definition json_record :: "sink_env \<Rightarrow> decision \<Rightarrow> recorder \<Rightarrow> bool \<times> recorder" where
  "json_record env d r = append_line env (decision_line d) r"

section \<open>The prompt\<close>

record session_context =
  ctx_ProjectID :: string
  ctx_Host :: string
  ctx_Branch :: string
  ctx_Ahead :: int

record sign_request =
  sr_Identity :: identity
  sr_Session :: session_context

definition pad_right :: "nat \<Rightarrow> string \<Rightarrow> string" where
  "pad_right n s = s @ replicate (n - length s) CHR '' ''"

definition write_field :: "string \<Rightarrow> string \<Rightarrow> string" where
  "write_field label value = pad_right 8 label @ '' '' @
     (if value = [] then ''unknown'' else value) @ [newline]"

definition describe_branch :: "session_context \<Rightarrow> string" where
  "describe_branch c =
     (if ctx_Branch c = [] then []
      else if ctx_Ahead c = 0 then ctx_Branch c @ '', level with its upstream at session start''
      else if ctx_Ahead c = 1 then ctx_Branch c @ '', 1 commit ahead at session start''
      else ctx_Branch c @ '', '' @ show_int (ctx_Ahead c) @ '' commits ahead at session start'')"

definition describe_key :: "identity \<Rightarrow> string" where
  "describe_key i = (if Comment i = [] then fingerprint (Blob i)
     else fingerprint (Blob i) @ '' ('' @ Comment i @ '')'')"

definition prompt_message :: "sign_request \<Rightarrow> string" where
  "prompt_message req =
     ''A session is asking to use your SSH key.'' @ [newline, newline] @
     write_field ''project'' (ctx_ProjectID (sr_Session req)) @
     write_field ''origin'' (ctx_Host (sr_Session req)) @
     write_field ''branch'' (describe_branch (sr_Session req)) @
     write_field ''key'' (describe_key (sr_Identity req)) @
     [newline] @ ''Torio cannot see what the key will be used for. The host is'' @
     [newline] @ ''where origin pushes, and the commit count is what the checkout'' @
     [newline] @ ''held when the session opened. Allow only if you just asked'' @
     [newline] @ ''for this.''"

definition promptEnvVar :: string where "promptEnvVar = ''TORIO_AGENT_PROMPT''"

definition with_prompt_message :: "string list \<Rightarrow> string \<Rightarrow> string list" where
  "with_prompt_message env message = (let pre = promptEnvVar @ ''='' in
     filter (\<lambda>kv. \<not> has_prefix kv pre) env @ [pre @ message])"

section \<open>The proxy\<close>

datatype proxy_event =
    Asked sign_request bool
  | Recorded decision bool
  | Sent frame
  | Replied frame

type_synonym proxy_log = "proxy_event list"

text \<open>
  The proxy and its boundaries. \<open>dials\<close> says whether the operator's agent accepts this connection, and
  \<open>upstream\<close> answers a frame written to the operator's agent: whether
  the write succeeded, and the bytes the agent sends back before it closes or waits.
\<close>

record proxy =
  Pinned :: identity
  p_Session :: session_context
  has_upstream :: bool
  has_confirm :: bool
  has_audit :: bool
  sink :: sink_env
  clock :: "proxy_log \<Rightarrow> string"
  dials :: bool
  upstream :: "proxy_log \<Rightarrow> bool \<times> bytes"
  confirm :: "proxy_log \<Rightarrow> sign_request \<Rightarrow> bool"
  guest_accepts :: "proxy_log \<Rightarrow> bool"

record conn =
  log :: proxy_log
  unread :: bytes
  audit :: recorder

definition validate_proxy :: "proxy \<Rightarrow> bool" where
  "validate_proxy p \<longleftrightarrow> has_upstream p \<and> Blob (Pinned p) \<noteq> [] \<and> has_confirm p \<and> has_audit p"

text \<open>A step of a connection: \<open>None\<close> is an error, which ends it.\<close>

type_synonym 'a step = "conn \<Rightarrow> 'a option \<times> conn"

definition and_then :: "'a step \<Rightarrow> ('a \<Rightarrow> 'b step) \<Rightarrow> 'b step" where
  "and_then a f = (\<lambda>c. case a c of (None, c') \<Rightarrow> (None, c') | (Some x, c') \<Rightarrow> f x c')"

definition pure :: "'a \<Rightarrow> 'a step" where "pure x = (\<lambda>c. (Some x, c))"
definition failed :: "'a step" where "failed = (\<lambda>c. (None, c))"

definition of_option :: "'a option \<Rightarrow> 'a step" where
  "of_option r = (case r of None \<Rightarrow> failed | Some x \<Rightarrow> pure x)"

definition log_event :: "proxy_event \<Rightarrow> conn \<Rightarrow> conn" where
  "log_event e c = c\<lparr>log := log c @ [e]\<rparr>"

definition record_decision :: "proxy \<Rightarrow> string \<Rightarrow> string \<Rightarrow> bool \<Rightarrow> unit step" where
  "record_decision p request fp allowed = (\<lambda>c.
     let d = \<lparr>d_Time = clock p (log c), d_Request = request, d_Fingerprint = fp, d_Allowed = allowed\<rparr>;
         (ok, r) = json_record (sink p) d (audit c) in
     (if ok then Some () else None, log_event (Recorded d ok) (c\<lparr>audit := r\<rparr>)))"

definition round_trip :: "proxy \<Rightarrow> frame \<Rightarrow> frame step" where
  "round_trip p req = (\<lambda>c. case write_frame req of
       None \<Rightarrow> (None, c)
     | Some out \<Rightarrow> (let c1 = log_event (Sent req) c; (ok, answer) = upstream p (log c1) in
         if \<not> ok then (None, c1)
         else (case read_frame (unread c @ answer) of
             Inl e \<Rightarrow> (None, c1)
           | Inr (f, rest) \<Rightarrow> (Some f, c1\<lparr>unread := rest\<rparr>))))"

definition failure_frame :: frame where
  "failure_frame = \<lparr>f_typ = msgFailure, f_body = []\<rparr>"

definition refuse :: "proxy \<Rightarrow> string \<Rightarrow> string \<Rightarrow> frame step" where
  "refuse p request fp = and_then (record_decision p request fp False) (\<lambda>_. pure failure_frame)"

definition proxy_identities :: "proxy \<Rightarrow> frame step" where
  "proxy_identities p = (let fp = fingerprint (Blob (Pinned p)) in
     and_then (round_trip p \<lparr>f_typ = msgRequestIdentities, f_body = []\<rparr>) (\<lambda>answer.
       if f_typ answer \<noteq> msgIdentitiesAnswer then refuse p requestIdentities fp
       else and_then (of_option (parse_identities (f_body answer))) (\<lambda>ids.
         let kept = filter (\<lambda>i. Blob i = Blob (Pinned p)) ids in
         and_then (record_decision p requestIdentities fp (length kept = 1)) (\<lambda>_.
           pure \<lparr>f_typ = msgIdentitiesAnswer, f_body = encode_identities kept\<rparr>))))"

definition ask_operator :: "proxy \<Rightarrow> bool step" where
  "ask_operator p = (\<lambda>c. let req = \<lparr>sr_Identity = Pinned p, sr_Session = p_Session p\<rparr>;
       ok = confirm p (log c) req in (Some ok, log_event (Asked req ok) c))"

definition proxy_sign :: "proxy \<Rightarrow> frame \<Rightarrow> frame step" where
  "proxy_sign p req = and_then (of_option (sign_request_key (f_body req))) (\<lambda>blob.
     if blob \<noteq> Blob (Pinned p) then refuse p requestSign (fingerprint blob)
     else and_then (ask_operator p) (\<lambda>ok.
       if \<not> ok then refuse p requestSign (fingerprint (Blob (Pinned p)))
       else and_then (record_decision p requestSign (fingerprint (Blob (Pinned p))) True) (\<lambda>_.
         round_trip p req)))"

definition proxy_handle :: "proxy \<Rightarrow> frame \<Rightarrow> frame step" where
  "proxy_handle p req =
     (if f_typ req = msgRequestIdentities then proxy_identities p
      else if f_typ req = msgSignRequest then proxy_sign p req
      else if f_typ req = msgExtension then refuse p requestExtension []
      else refuse p requestOther [])"

text \<open>Writing an answer to the guest: a frame that is too long, or a closed connection, ends it.\<close>

definition reply :: "proxy \<Rightarrow> frame \<Rightarrow> unit step" where
  "reply p f = (\<lambda>c. case write_frame f of
       None \<Rightarrow> (None, c)
     | Some out \<Rightarrow> (if guest_accepts p (log c) then Some () else None, log_event (Replied f) c))"

text \<open>
  \<open>serveConn\<close> over everything the guest sends on one connection. Each frame takes at least five bytes
  of the input, so the input's length is enough fuel.
\<close>

fun serve_frames :: "nat \<Rightarrow> proxy \<Rightarrow> bytes \<Rightarrow> conn \<Rightarrow> conn" where
  "serve_frames 0 p input c = c"
| "serve_frames (Suc n) p input c = (case read_frame input of
       Inl e \<Rightarrow> c
     | Inr (req, rest) \<Rightarrow> (case and_then (proxy_handle p req) (reply p) c of
         (None, c') \<Rightarrow> c'
       | (Some _, c') \<Rightarrow> serve_frames n p rest c'))"

definition serve_conn :: "proxy \<Rightarrow> bytes \<Rightarrow> recorder \<Rightarrow> conn" where
  "serve_conn p input r =
     (let c = \<lparr>log = [], unread = [], audit = r\<rparr> in
      if \<not> validate_proxy p \<or> \<not> dials p then c else serve_frames (length input) p input c)"

section \<open>Pinning a key\<close>

text \<open>
  \<open>connect.go\<close>. The answer of the operator's agent to a list request is the bytes it sends back, \<open>None\<close>
  when it could not be dialled or written to.
\<close>

datatype pin_err =
    NothingPinned | NotQueried | NotListed | ListUnreadable | AgentHoldsNothing
  | NoMatch "string list" | ManyMatches "string list"

definition list_identities :: "bytes option \<Rightarrow> pin_err + identity list" where
  "list_identities agent = (case agent of
       None \<Rightarrow> Inl NotQueried
     | Some answer \<Rightarrow> (case read_frame answer of
         Inl e \<Rightarrow> Inl NotQueried
       | Inr (f, rest) \<Rightarrow>
           (if f_typ f \<noteq> msgIdentitiesAnswer then Inl NotListed
            else (case parse_identities (f_body f) of
                None \<Rightarrow> Inl ListUnreadable
              | Some ids \<Rightarrow> Inr ids))))"

definition fingerprints :: "identity list \<Rightarrow> string list" where
  "fingerprints ids = map (\<lambda>i. fingerprint (Blob i)) ids"

definition pin_identity :: "bytes option \<Rightarrow> string \<Rightarrow> pin_err + identity" where
  "pin_identity agent want =
     (if want = [] then Inl NothingPinned
      else (case list_identities agent of
          Inl e \<Rightarrow> Inl e
        | Inr ids \<Rightarrow>
            (if ids = [] then Inl AgentHoldsNothing
             else (case filter (\<lambda>i. fingerprint (Blob i) = want \<or> Comment i = want) ids of
                 [i] \<Rightarrow> Inr i
               | [] \<Rightarrow> Inl (NoMatch (fingerprints ids))
               | matched \<Rightarrow> Inl (ManyMatches (fingerprints matched))))))"

section \<open>The dialog\<close>

text \<open>
  \<open>askOperator\<close> of \<open>prompt_darwin.go\<close> over a runner that is given the environment and the timeout and
  answers with an exit code and its standard output, or not at all; \<open>prompt_other.go\<close> always denies.
\<close>

definition approvedAnswer :: string where "approvedAnswer = ''button returned:Allow''"

definition DefaultConfirmTimeout :: int where "DefaultConfirmTimeout = 120 * 1000000000"

type_synonym dialog_runner = "string list \<Rightarrow> int \<Rightarrow> (int \<times> string) option"

definition ask_dialog :: "dialog_runner \<Rightarrow> string list \<Rightarrow> int \<Rightarrow> string \<Rightarrow> bool" where
  "ask_dialog runner env timeout message = (case runner (with_prompt_message env message) timeout of
       None \<Rightarrow> False
     | Some (exit_code, out) \<Rightarrow> exit_code = 0 \<and> contains out approvedAnswer)"

definition dialog_confirm :: "dialog_runner \<Rightarrow> string list \<Rightarrow> int \<Rightarrow> sign_request \<Rightarrow> bool" where
  "dialog_confirm runner env timeout req =
     ask_dialog runner env (if timeout \<le> 0 then DefaultConfirmTimeout else timeout) (prompt_message req)"

end
