(* ===== verification/Agent_Wire_Facts.thy ===== *)
theory Agent_Wire_Facts
  imports Ssh_Agent
begin

text \<open>
  The wire format of \<open>internal/sshagent/protocol.go\<close>: what is written is read back, in both
  directions, within the protocol's bound on a frame.
\<close>

section \<open>Lengths on the wire\<close>

lemma take4_put_uint32 [simp]: "take 4 (put_uint32 w @ rest) = put_uint32 w"
  by simp

lemma drop4_put_uint32 [simp]: "drop 4 (put_uint32 w @ rest) = rest"
  by simp

lemma get_put_uint32_exact [simp]: "get_uint32 (put_uint32 w) = w"
  using get_put_uint32 [of w "[]"] by simp

lemma read_uint32_put [simp]: "read_uint32 (put_uint32 w @ rest) = Some (w, rest)"
  by (simp add: read_uint32_def)

lemma uint_of_length: "n < 2 ^ 32 \<Longrightarrow> uint (word_of_nat n :: 32 word) = int n"
  by (simp add: uint_nat unat_of_nat)

lemma unat_of_length: "n < 2 ^ 32 \<Longrightarrow> unat (word_of_nat n :: 32 word) = n"
  by (simp add: unat_of_nat)

section \<open>Frames\<close>

lemma write_frame_Some:
  "write_frame f = Some out \<longleftrightarrow> length (f_body f) + 1 \<le> 262144 \<and>
     out = put_uint32 (word_of_nat (length (f_body f) + 1)) @ f_typ f # f_body f"
  by (auto simp: write_frame_def maxFrame_def Let_def add.commute)

lemma read_written:
  assumes "write_frame f = Some out"
  shows "read_frame (out @ rest) = Inr (f, rest)"
proof -
  let ?n = "length (f_body f) + 1"
  have n: "?n \<le> 262144" and out: "out = put_uint32 (word_of_nat ?n) @ f_typ f # f_body f"
    using assms by (auto simp: write_frame_Some)
  have len: "uint (word_of_nat ?n :: 32 word) = int ?n" "unat (word_of_nat ?n :: 32 word) = ?n"
    using n by (auto intro!: uint_of_length unat_of_length simp del: of_nat_add of_nat_Suc)
  then have "(word_of_nat ?n :: 32 word) \<noteq> 0" by (metis Suc_eq_plus1 nat.distinct(1) unat_0)
  then show ?thesis
    using n len unfolding out read_frame_def read_full_def maxFrame_def
    by (simp add: Let_def del: of_nat_add of_nat_Suc)
qed

text \<open>a frame that is written is read back as it was, whatever follows it on the stream, and
  nothing of what follows is consumed.\<close>

theorem frame_roundtrip:
  assumes "write_frame f = Some out"
  shows "read_frame (out @ rest) = Inr (f, rest)"
  by (rule read_written [OF assms])

theorem frame_roundtrip_witness:
  "read_frame ([0, 0, 0, 2, 13, 7] @ [1]) = Inr (\<lparr>f_typ = 13, f_body = [7]\<rparr>, [1])"
  by (rule frame_roundtrip) (simp add: write_frame_def maxFrame_def put_uint32_def)

lemma read_full_Inr:
  "read_full n input = Inr (x, rest) \<longleftrightarrow> n \<le> length input \<and> x = take n input \<and> rest = drop n input"
  by (auto simp: read_full_def)

lemma read_frame_cases:
  assumes "read_frame input = Inr (f, rest)"
  obtains header after payload where "read_full 4 input = Inr (header, after)"
    and "get_uint32 header \<noteq> 0" and "uint (get_uint32 header) \<le> 262144"
    and "read_full (unat (get_uint32 header)) after = Inr (payload, rest)"
    and "f = \<lparr>f_typ = hd payload, f_body = tl payload\<rparr>"
proof (cases "read_full 4 input")
  case (Inr y)
  then show thesis
    using assms that
    by (cases y) (auto simp: read_frame_def maxFrame_def Let_def not_less split: if_splits sum.splits)
qed (use assms in \<open>simp add: read_frame_def\<close>)

lemma read_frame_Inr:
  assumes "read_frame input = Inr (f, rest)"
  obtains out where "write_frame f = Some out" and "input = out @ rest"
proof -
  from assms obtain hd4 after payload0 where H: "read_full 4 input = Inr (hd4, after)"
    and l: "get_uint32 hd4 \<noteq> 0" "uint (get_uint32 hd4) \<le> 262144"
    and P: "read_full (unat (get_uint32 hd4)) after = Inr (payload0, rest)"
    and f: "f = \<lparr>f_typ = hd payload0, f_body = tl payload0\<rparr>"
    by (rule read_frame_cases)
  define len where "len = get_uint32 hd4"
  have hd4: "hd4 = take 4 input" and h: "4 \<le> length input" and after: "after = drop 4 input"
    using H by (simp_all add: read_full_Inr)
  have p: "unat len \<le> length after" and r: "rest = drop (unat len) after"
    and payload0: "payload0 = take (unat len) after"
    using P by (simp_all add: read_full_Inr len_def)
  note l = l [folded len_def]
  define payload where "payload = take (unat len) after"
  have pl: "length payload = unat len" using p by (simp add: payload_def)
  moreover have "0 < unat len" using l(1) by (simp add: unat_gt_0)
  ultimately have ne: "payload \<noteq> []" by auto
  have same: "payload0 = payload" unfolding payload0 payload_def ..
  have out: "f_typ f # f_body f = payload" unfolding f same using ne by simp
  have body: "length (f_body f) + 1 = unat len"
    using arg_cong [OF out, of length] pl by (simp only: list.size One_nat_def)
  have "unat len \<le> 262144" using l(2) by (simp only: unat_eq_nat_uint nat_le_iff)
  then have "write_frame f = Some (put_uint32 len @ payload)"
    unfolding write_frame_Some body out by simp
  moreover have "put_uint32 len = take 4 input"
    using h by (simp add: len_def hd4 put_get_uint32)
  then have "input = (put_uint32 len @ payload) @ rest"
    unfolding payload_def r after by (metis append.assoc append_take_drop_id)
  ultimately show thesis by (rule that)
qed



lemma read_frame_length:
  assumes "read_frame input = Inr (f, rest)"
  shows "length (f_body f) + 1 \<le> 262144" and "length input = length (f_body f) + 5 + length rest"
  using assms by (auto elim!: read_frame_Inr simp: write_frame_Some)

section \<open>Strings and identities\<close>

lemma unat_mod_8: "unat (b :: byte) mod 256 = unat b"
proof -
  have "unat b < 2 ^ LENGTH(8)" by (rule unsigned_less)
  then show ?thesis by simp
qed

lemma bytes_of_text_of [simp]: "bytes_of (text_of b) = b"
  by (induction b) (auto simp: bytes_of_def text_of_def of_char_of unat_mod_8)

lemma text_of_bytes_of [simp]: "text_of (bytes_of s) = s"
  by (induction s) (auto simp: bytes_of_def text_of_def unat_of_nat)

lemma length_bytes_of [simp]: "length (bytes_of s) = length s"
  by (simp add: bytes_of_def)

lemma length_text_of [simp]: "length (text_of b) = length b"
  by (simp add: text_of_def)

definition string_bytes :: "bytes \<Rightarrow> bytes" where
  "string_bytes s = put_uint32 (word_of_nat (length s)) @ s"

lemma append_string_bytes: "append_string dst s = dst @ string_bytes s"
  by (simp add: append_string_def string_bytes_def)

lemma length_string_bytes [simp]: "length (string_bytes s) = 4 + length s"
  by (simp add: string_bytes_def)

lemma read_string_bytes: "length s < 2 ^ 32 \<Longrightarrow> read_string (string_bytes s @ rest) = Some (s, rest)"
  by (simp add: read_string_def string_bytes_def unat_of_length)

lemma read_string_Some:
  assumes "read_string b = Some (s, rest)"
  shows "b = string_bytes s @ rest"
proof -
  let ?n = "get_uint32 (take 4 b)"
  from assms have l: "4 \<le> length b" "unat ?n \<le> length (drop 4 b)"
    and s: "s = take (unat ?n) (drop 4 b)" and r: "rest = drop (unat ?n) (drop 4 b)"
    by (auto simp: read_string_def read_uint32_def split: if_splits option.splits)
  have "word_of_nat (length s) = ?n" using l s by simp
  then have "string_bytes s = take 4 b @ s"
    using l by (simp add: string_bytes_def put_get_uint32)
  moreover have "s @ rest = drop 4 b" unfolding s r by (rule append_take_drop_id)
  ultimately show ?thesis by (metis append.assoc append_take_drop_id)
qed

text \<open>The entries of an identities answer, after its count.\<close>

definition entry_bytes :: "identity \<Rightarrow> bytes" where
  "entry_bytes i = string_bytes (Blob i) @ string_bytes (bytes_of (Comment i))"

definition entry_ok :: "identity \<Rightarrow> bool" where
  "entry_ok i \<longleftrightarrow> length (Blob i) < 2 ^ 32 \<and> length (Comment i) < 2 ^ 32"

lemma encode_identities_concat:
  "encode_identities ids = put_uint32 (word_of_nat (length ids)) @ concat (map entry_bytes ids)"
proof -
  have "foldl (\<lambda>body i. append_string (append_string body (Blob i)) (bytes_of (Comment i))) b ids =
      b @ concat (map entry_bytes ids)" for b
    by (induction ids arbitrary: b) (simp_all add: append_string_bytes entry_bytes_def)
  then show ?thesis by (simp add: encode_identities_def)
qed

lemma parse_entries_encoded:
  "list_all entry_ok ids \<Longrightarrow> parse_entries (length ids) (concat (map entry_bytes ids) @ rest) = Some ids"
  by (induction ids) (simp_all add: entry_ok_def entry_bytes_def read_string_bytes)

lemma parse_entries_Some:
  "parse_entries n b = Some ids \<Longrightarrow> length ids = n \<and> (\<exists>rest. b = concat (map entry_bytes ids) @ rest)"
proof (induction n b arbitrary: ids rule: parse_entries.induct)
  case (2 n b)
  then obtain blob r1 comment r2 ids' where
    "read_string b = Some (blob, r1)" "read_string r1 = Some (comment, r2)"
    "parse_entries n r2 = Some ids'" and ids: "ids = \<lparr>Blob = blob, Comment = text_of comment\<rparr> # ids'"
    by (auto split: option.splits)
  moreover from this have "length ids' = n \<and> (\<exists>rest. r2 = concat (map entry_bytes ids') @ rest)"
    using 2(1) by simp
  ultimately show ?case
    by (auto dest!: read_string_Some simp: entry_bytes_def [of "\<lparr>Blob = blob, Comment = text_of comment\<rparr>"])
qed auto

lemma length_entries_ge: "8 * length ids \<le> length (concat (map entry_bytes ids))"
  by (induction ids) (simp_all add: entry_bytes_def)

lemma parse_encoded:
  assumes "write_frame \<lparr>f_typ = msgIdentitiesAnswer, f_body = encode_identities ids\<rparr> \<noteq> None"
  shows "parse_identities (encode_identities ids) = Some ids"
proof -
  let ?es = "concat (map entry_bytes ids)"
  from assms have size: "length (encode_identities ids) < 262144"
    by (auto simp: write_frame_def maxFrame_def Let_def split: if_splits)
  then have es: "length ?es < 262144" by (simp add: encode_identities_concat)
  then have n: "length ids < 2 ^ 32" using length_entries_ge [of ids] by simp
  have "length (entry_bytes i) \<le> length ?es" if "i \<in> set ids" for i
    using that by (induction ids) auto
  then have "list_all entry_ok ids"
    using es by (fastforce simp: list_all_iff entry_ok_def entry_bytes_def)
  with n show ?thesis
    using length_entries_ge [of ids] parse_entries_encoded [of ids "[]"]
    by (simp add: parse_identities_def encode_identities_concat uint_of_length unat_of_length)
qed

text \<open>the identities an agent is made to report are read back exactly as they were, blob and
  comment, as long as the answer fits a frame.\<close>

theorem identities_roundtrip:
  assumes "write_frame \<lparr>f_typ = msgIdentitiesAnswer, f_body = encode_identities ids\<rparr> \<noteq> None"
  shows "parse_identities (encode_identities ids) = Some ids"
  by (rule parse_encoded [OF assms])

theorem identities_roundtrip_witness:
  "parse_identities (encode_identities [\<lparr>Blob = [1, 2], Comment = ''me''\<rparr>]) =
     Some [\<lparr>Blob = [1, 2], Comment = ''me''\<rparr>]"
  by (rule identities_roundtrip)
    (simp add: write_frame_def maxFrame_def encode_identities_def append_string_def)

lemma parse_identities_length:
  assumes "parse_identities body = Some ids"
  shows "length (encode_identities ids) \<le> length body"
proof -
  from assms obtain n where "parse_entries n (drop 4 body) = Some ids" and "4 \<le> length body"
    by (auto simp: parse_identities_def read_uint32_def split: if_splits)
  then obtain rest where "drop 4 body = concat (map entry_bytes ids) @ rest"
    using parse_entries_Some by blast
  then have "length body - 4 = length (concat (map entry_bytes ids)) + length rest"
    by (metis length_append length_drop)
  then show ?thesis using \<open>4 \<le> length body\<close> by (simp add: encode_identities_concat)
qed

end
