(* ===== verification/Agent_Proxy_Facts.thy ===== *)
theory Agent_Proxy_Facts
  imports Agent_Wire_Facts
begin

text \<open>
  What the proxy of \<open>internal/sshagent/proxy.go\<close> guarantees on one connection: the decision log as an
  append-only store (the locale \<open>decision_log\<close>, interpreted on \<open>json_record\<close>), the order of approval,
  record and signature as an automaton every run follows, and what an identities answer holds.
\<close>

section \<open>The decision log\<close>

interpretation audit: decision_log "json_record env" Contents decision_line "sink_closed env" for env
  unfolding json_record_def [abs_def] by (rule append_line_log)

text \<open>the log is append-only and fails closed. Whatever sequence of decisions is recorded, the ones
  accepted come first, every one after the first refusal is refused, and the file holds the old
  contents, the whole lines of the accepted decisions in order, and at most a piece of the line that
  failed.\<close>

theorem decision_log_fails_closed:
  "\<exists>k n. k \<le> length ds \<and>
     fst (record_all (json_record env) ds r) = replicate k True @ replicate (length ds - k) False \<and>
     Contents (snd (record_all (json_record env) ds r)) = Contents r @ concat (map decision_line (take k ds)) @
       (if k < length ds then take n (decision_line (ds ! k)) else [])"
  using audit.rec_all_contents [of env ds r] by (metis prod.collapse)

section \<open>Approval, record, signature\<close>

text \<open>
  The state of one connection as far as a signature is concerned: nothing is under way, the operator
  has approved one signature, the approval is in the decision log, or the log is lost. Only the
  third state lets a sign request through to the operator's agent, and nothing leaves the last one.
\<close>

datatype gate = Idle | Approved | Cleared | Lost

inductive gate_step :: "proxy \<Rightarrow> gate \<Rightarrow> proxy_event \<Rightarrow> gate \<Rightarrow> bool" for p where
  List: "gate_step p Idle (Sent \<lparr>f_typ = msgRequestIdentities, f_body = []\<rparr>) Idle"
| Ask: "sr_Identity req = Pinned p \<Longrightarrow> gate_step p Idle (Asked req ok) (if ok then Approved else Idle)"
| Record: "d_Request d = requestSign \<longrightarrow> \<not> d_Allowed d \<Longrightarrow> gate_step p Idle (Recorded d True) Idle"
| Lose: "g = Idle \<or> g = Approved \<Longrightarrow> gate_step p g (Recorded d False) Lost"
| Clear: "d_Request d = requestSign \<Longrightarrow> d_Allowed d \<Longrightarrow> d_Fingerprint d = fingerprint (Blob (Pinned p)) \<Longrightarrow>
    gate_step p Approved (Recorded d True) Cleared"
| Sign: "f_typ f = msgSignRequest \<Longrightarrow> sign_request_key (f_body f) = Some (Blob (Pinned p)) \<Longrightarrow>
    gate_step p Cleared (Sent f) Idle"
| Reply: "gate_step p Idle (Replied f) Idle"

inductive_cases gate_SentE: "gate_step p g (Sent f) h"
inductive_cases gate_LostE: "gate_step p Lost e h"
inductive_cases gate_ClearedE: "gate_step p g e Cleared"
inductive_cases gate_ApprovedE: "gate_step p g e Approved"
inductive_simps gate_Asked: "gate_step p g (Asked req ok) h"
inductive_simps gate_Recorded: "gate_step p g (Recorded d ok) h"

inductive gate_run :: "proxy \<Rightarrow> proxy_log \<Rightarrow> gate \<Rightarrow> bool" for p where
  Start: "gate_run p [] Idle"
| Step: "gate_run p es g \<Longrightarrow> gate_step p g e h \<Longrightarrow> gate_run p (es @ [e]) h"

inductive_simps gate_run_Nil [simp]: "gate_run p [] g"
inductive_simps gate_run_snoc: "gate_run p (es @ [e]) h"

subsection \<open>Steps of a connection that move the gate\<close>

definition moves :: "proxy \<Rightarrow> gate \<Rightarrow> 'a step \<Rightarrow> ('a \<Rightarrow> gate) \<Rightarrow> bool" where
  "moves p g a h \<longleftrightarrow> (\<forall>c. gate_run p (log c) g \<longrightarrow>
     (case a c of (r, c') \<Rightarrow> (case r of None \<Rightarrow> \<exists>g'. gate_run p (log c') g'
        | Some x \<Rightarrow> gate_run p (log c') (h x))))"

named_theorems gate_intros \<open>rules that carry the gate through a step\<close>

lemma moves_and_then [gate_intros]:
  "moves p g a h \<Longrightarrow> (\<And>x. moves p (h x) (f x) k) \<Longrightarrow> moves p g (and_then a f) k"
  unfolding moves_def and_then_def by (fastforce split: prod.splits option.splits)

lemma moves_pure [gate_intros]: "moves p g (pure x) (\<lambda>_. g)"
  by (simp add: moves_def pure_def)

lemma moves_failed [gate_intros]: "moves p g failed h"
  by (auto simp: moves_def failed_def)

lemma moves_of_option [gate_intros]: "moves p g (of_option r) (\<lambda>_. g)"
  by (cases r) (auto simp: of_option_def moves_def pure_def failed_def)

lemma moves_if [gate_intros]:
  "(b \<Longrightarrow> moves p g a h) \<Longrightarrow> (\<not> b \<Longrightarrow> moves p g a' h) \<Longrightarrow> moves p g (if b then a else a') h"
  by simp

lemma log_log_event [simp]: "log (log_event e c) = log c @ [e]"
  by (simp add: log_event_def)

lemma moves_record_decision:
  assumes step: "\<And>t. gate_step p g (Recorded \<lparr>d_Time = t, d_Request = request, d_Fingerprint = fp,
      d_Allowed = allowed\<rparr> True) h" and "g = Idle \<or> g = Approved"
  shows "moves p g (record_decision p request fp allowed) (\<lambda>_. h)"
  unfolding moves_def
proof (intro allI impI)
  fix c :: conn assume run: "gate_run p (log c) g"
  let ?d = "\<lparr>d_Time = clock p (log c), d_Request = request, d_Fingerprint = fp, d_Allowed = allowed\<rparr>"
  obtain ok r where R: "json_record (sink p) ?d (audit c) = (ok, r)" by fastforce
  have "gate_run p (log c @ [Recorded ?d ok]) (if ok then h else Lost)"
    by (rule gate_run.Step [OF run]) (use step assms(2) in \<open>auto intro: gate_step.Lose\<close>)
  then show "case record_decision p request fp allowed c of (r, c') \<Rightarrow> (case r of
      None \<Rightarrow> \<exists>g'. gate_run p (log c') g' | Some x \<Rightarrow> gate_run p (log c') h)"
    using R by (auto simp: record_decision_def split: if_splits)
qed

lemma moves_record:
  "request = requestSign \<longrightarrow> \<not> allowed \<Longrightarrow> moves p Idle (record_decision p request fp allowed) (\<lambda>_. Idle)"
  by (rule moves_record_decision) (auto intro: gate_step.Record)

lemma moves_record_sign:
  "moves p Approved (record_decision p requestSign (fingerprint (Blob (Pinned p))) True) (\<lambda>_. Cleared)"
  by (rule moves_record_decision) (auto intro: gate_step.Clear)

lemma moves_round_trip:
  assumes "gate_step p g (Sent req) Idle"
  shows "moves p g (round_trip p req) (\<lambda>_. Idle)"
  using assms
  by (auto simp: moves_def round_trip_def Let_def split: option.splits prod.splits sum.splits
      intro: gate_run.Step)

lemma moves_refuse [gate_intros]: "moves p Idle (refuse p request fp) (\<lambda>_. Idle)"
  unfolding refuse_def
  by (rule moves_and_then [OF moves_record]) (simp_all add: moves_pure)

lemma moves_ask: "moves p Idle (ask_operator p) (\<lambda>ok. if ok then Approved else Idle)"
proof -
  let ?req = "\<lparr>sr_Identity = Pinned p, sr_Session = p_Session p\<rparr>"
  have "gate_run p (es @ [Asked ?req ok]) (if ok then Approved else Idle)" if "gate_run p es Idle" for es ok
    using that by (rule gate_run.Step) (rule gate_step.Ask, simp)
  then show ?thesis by (simp add: moves_def ask_operator_def Let_def)
qed

lemma moves_identities: "moves p Idle (proxy_identities p) (\<lambda>_. Idle)"
  unfolding proxy_identities_def Let_def
  by (intro moves_and_then [OF moves_round_trip] moves_and_then [OF moves_of_option] moves_if
      moves_and_then [OF moves_record] moves_refuse moves_pure gate_step.List)
    (simp add: requestIdentities_def requestSign_def)

lemma moves_sign:
  assumes "f_typ req = msgSignRequest"
  shows "moves p Idle (proxy_sign p req) (\<lambda>_. Idle)"
proof (cases "sign_request_key (f_body req)")
  case None
  then show ?thesis by (simp add: proxy_sign_def of_option_def and_then_def moves_def failed_def) blast
next
  case (Some blob)
  have key: "proxy_sign p req = (if blob \<noteq> Blob (Pinned p) then refuse p requestSign (fingerprint blob)
      else and_then (ask_operator p) (\<lambda>ok. if \<not> ok then refuse p requestSign (fingerprint (Blob (Pinned p)))
        else and_then (record_decision p requestSign (fingerprint (Blob (Pinned p))) True) (\<lambda>_. round_trip p req)))"
    using Some by (simp add: proxy_sign_def of_option_def and_then_def pure_def fun_eq_iff)
  have sent: "moves p Cleared (round_trip p req) (\<lambda>_. Idle)" if "blob = Blob (Pinned p)"
    using that Some assms by (intro moves_round_trip gate_step.Sign) simp_all
  show ?thesis
    unfolding key
    by (intro moves_if moves_refuse moves_and_then [OF moves_ask])
      (auto intro: moves_refuse moves_and_then [OF moves_record_sign] sent)
qed

lemma moves_handle: "moves p Idle (proxy_handle p req) (\<lambda>_. Idle)"
  unfolding proxy_handle_def by (intro moves_if moves_identities moves_sign moves_refuse)

lemma moves_reply: "moves p Idle (reply p f) (\<lambda>_. Idle)"
  by (auto simp: moves_def reply_def split: option.splits intro: gate_run.Step [OF _ gate_step.Reply])

lemma moves_turn: "moves p Idle (and_then (proxy_handle p req) (reply p)) (\<lambda>_. Idle)"
  by (rule moves_and_then [OF moves_handle]) (rule moves_reply)

lemma serve_frames_run:
  "gate_run p (log c) Idle \<Longrightarrow> \<exists>g. gate_run p (log (serve_frames n p input c)) g"
proof (induction n p input c rule: serve_frames.induct)
  case (2 n p input c)
  show ?case
  proof (cases "read_frame input")
    case (Inr y)
    obtain req rest where y: "y = (req, rest)" by fastforce
    obtain r c' where T: "and_then (proxy_handle p req) (reply p) c = (r, c')" by fastforce
    have "case r of None \<Rightarrow> \<exists>g. gate_run p (log c') g | Some _ \<Rightarrow> gate_run p (log c') Idle"
      using moves_turn [of p req] 2(2) T by (fastforce simp: moves_def)
    then show ?thesis
      using 2(1) [OF Inr y [symmetric] T [symmetric]] Inr y T by (auto split: option.splits)
  qed (use 2(2) in auto)
qed auto

lemma serve_conn_run: "\<exists>g. gate_run p (log (serve_conn p input r)) g"
  by (auto simp: serve_conn_def Let_def serve_frames_run)

text \<open>C12: whatever the guest sends, whatever the operator's agent answers and however the log behaves, the
  events of a connection are a run of the gate: an approval is asked for the pinned key only, a sign
  request reaches the operator's agent only out of the state \<open>Cleared\<close>, nothing but a list request is
  sent otherwise, and after a lost log nothing happens at all.\<close>

theorem serve_conn_follows_gate: "\<exists>g. gate_run p (log (serve_conn p input r)) g"
  by (rule serve_conn_run)

section \<open>What a run of the gate means\<close>

lemma run_Cleared:
  assumes "gate_run p es Cleared"
  obtains es0 req d where "es = es0 @ [Asked req True, Recorded d True]" and "sr_Identity req = Pinned p"
    and "d_Request d = requestSign" and "d_Allowed d" and "d_Fingerprint d = fingerprint (Blob (Pinned p))"
proof -
  from assms obtain es1 d where es1: "es = es1 @ [Recorded d True]" "gate_run p es1 Approved"
    and d: "d_Request d = requestSign" "d_Allowed d" "d_Fingerprint d = fingerprint (Blob (Pinned p))"
    by (cases rule: gate_run.cases) (auto elim: gate_ClearedE split: if_splits)
  from es1(2) obtain es0 req where "es1 = es0 @ [Asked req True]" "sr_Identity req = Pinned p"
    by (cases rule: gate_run.cases) (auto elim: gate_ApprovedE split: if_splits)
  with es1(1) d show thesis by (intro that) simp_all
qed

lemma run_prefix: "gate_run p (es @ fs) g \<Longrightarrow> \<exists>h. gate_run p es h"
  by (induction fs arbitrary: g rule: rev_induct) (auto simp: gate_run_snoc simp flip: append_assoc)

text \<open>C11: every frame the proxy writes to the operator's agent is either the request for the key list or
  a sign request for the pinned key, and a sign request is the third of three consecutive events: the
  operator approved this signature, the approval was recorded and synced, the frame was sent.\<close>

theorem signature_needs_recorded_approval:
  assumes "log (serve_conn p input r) = before @ Sent f # after"
  shows "f = \<lparr>f_typ = msgRequestIdentities, f_body = []\<rparr> \<or>
    (f_typ f = msgSignRequest \<and> sign_request_key (f_body f) = Some (Blob (Pinned p)) \<and>
     (\<exists>es req d. before = es @ [Asked req True, Recorded d True] \<and> sr_Identity req = Pinned p \<and>
        d_Request d = requestSign \<and> d_Allowed d \<and> d_Fingerprint d = fingerprint (Blob (Pinned p))))"
proof -
  have "before @ Sent f # after = (before @ [Sent f]) @ after" by simp
  then obtain h where "gate_run p (before @ [Sent f]) h"
    using serve_conn_run [of p input r] run_prefix assms by metis
  then obtain g where "gate_run p before g" "gate_step p g (Sent f) h"
    by (auto simp: gate_run_snoc)
  then show ?thesis by (auto elim!: gate_SentE elim: run_Cleared) 
qed

text \<open>A proxy whose agent answers nothing, an operator who approves, and one sign request.\<close>

definition demo_proxy :: proxy where
  "demo_proxy = \<lparr>Pinned = \<lparr>Blob = [7], Comment = ''me''\<rparr>,
     p_Session = \<lparr>ctx_ProjectID = ''p'', ctx_Host = ''h'', ctx_Branch = ''main'', ctx_Ahead = 1\<rparr>,
     has_upstream = True, has_confirm = True, has_audit = True,
     sink = \<lparr>has_writer = True, sink_writes = \<lambda>_ line. (length line, False), sink_syncs = \<lambda>_. True\<rparr>,
     clock = \<lambda>_. ''t'', dials = True, upstream = \<lambda>_. (False, []), confirm = \<lambda>_ _. True,
     guest_accepts = \<lambda>_. True\<rparr>"

definition demo_sign_frame :: frame where
  "demo_sign_frame = \<lparr>f_typ = 13, f_body = [0, 0, 0, 1, 7]\<rparr>"

definition demo_approval :: proxy_log where
  "demo_approval = [Asked \<lparr>sr_Identity = Pinned demo_proxy, sr_Session = p_Session demo_proxy\<rparr> True,
     Recorded \<lparr>d_Time = ''t'', d_Request = requestSign, d_Fingerprint = fingerprint [7], d_Allowed = True\<rparr> True]"

lemma demo_sign_log:
  "log (serve_conn demo_proxy [0, 0, 0, 6, 13, 0, 0, 0, 1, 7] \<lparr>Contents = [], Failed = False\<rparr>) =
     demo_approval @ Sent demo_sign_frame # []"
proof -
  have W: "write_frame demo_sign_frame = Some [0, 0, 0, 6, 13, 0, 0, 0, 1, 7]"
    by (simp add: write_frame_def maxFrame_def demo_sign_frame_def put_uint32_def)
  have "read_frame [0, 0, 0, 6, 13, 0, 0, 0, 1, 7] = Inr (demo_sign_frame, [])"
    using read_written [OF W, of "[]"] by simp
  moreover have "sign_request_key (f_body demo_sign_frame) = Some [7]"
    by (simp add: sign_request_key_def read_string_def read_uint32_def get_uint32_def demo_sign_frame_def
        numeral_eq_Suc)
  moreover have "f_typ demo_sign_frame = 13" by (simp add: demo_sign_frame_def)
  moreover note W
  ultimately show ?thesis
    by (auto simp: serve_conn_def validate_proxy_def demo_proxy_def demo_approval_def and_then_def
        proxy_handle_def proxy_sign_def of_option_def pure_def ask_operator_def record_decision_def
        json_record_def append_line_def round_trip_def msg_defs log_event_def Let_def)
qed

theorem signature_needs_recorded_approval_witness:
  "\<exists>es req d. demo_approval = es @ [Asked req True, Recorded d True] \<and> d_Request d = requestSign"
  using signature_needs_recorded_approval [OF demo_sign_log]
  by (auto simp: demo_sign_frame_def msg_defs)

section \<open>The file holds what happened\<close>

definition recorded :: "proxy_log \<Rightarrow> decision list" where
  "recorded es = concat (map (\<lambda>e. case e of Recorded d ok \<Rightarrow> (if ok then [d] else []) | _ \<Rightarrow> []) es)"

lemma recorded_append [simp]: "recorded (es @ fs) = recorded es @ recorded fs"
  by (simp add: recorded_def)

lemma recorded_Nil [simp]: "recorded [] = []"
  by (simp add: recorded_def)

lemma recorded_single [simp]:
  "recorded [Recorded d ok] = (if ok then [d] else [])" "recorded [Asked req b] = []"
  "recorded [Sent f] = []" "recorded [Replied f] = []"
  by (simp_all add: recorded_def)

definition lost :: "proxy_log \<Rightarrow> bool" where
  "lost es \<longleftrightarrow> list_ex (\<lambda>e. case e of Recorded d ok \<Rightarrow> \<not> ok | _ \<Rightarrow> False) es"

definition writes :: "'a step \<Rightarrow> bool" where
  "writes a \<longleftrightarrow> (\<forall>c r c'. a c = (r, c') \<longrightarrow> (\<exists>es tail. log c' = log c @ es \<and>
     Contents (audit c') = Contents (audit c) @ concat (map decision_line (recorded es)) @ tail \<and>
     (r \<noteq> None \<longrightarrow> tail = []) \<and> (tail \<noteq> [] \<longrightarrow> lost es)))"

named_theorems write_intros \<open>rules that carry the decision log through a step\<close>

lemma writesI:
  "(\<And>c r c'. a c = (r, c') \<Longrightarrow> \<exists>es tail. log c' = log c @ es \<and>
     Contents (audit c') = Contents (audit c) @ concat (map decision_line (recorded es)) @ tail \<and>
     (r \<noteq> None \<longrightarrow> tail = []) \<and> (tail \<noteq> [] \<longrightarrow> lost es)) \<Longrightarrow> writes a"
  by (simp add: writes_def)

lemma writes_quiet:
  assumes "\<And>c r c'. a c = (r, c') \<Longrightarrow> audit c' = audit c \<and> (\<exists>es. log c' = log c @ es \<and> recorded es = [])"
  shows "writes a"
  by (rule writesI) (use assms in fastforce)

lemma lost_append [simp]: "lost (es @ fs) \<longleftrightarrow> lost es \<or> lost fs"
  by (simp add: lost_def)

lemma writes_and_then [write_intros]:
  assumes "writes a" and "\<And>x. writes (f x)"
  shows "writes (and_then a f)"
proof (rule writesI)
  fix c r c' assume A: "and_then a f c = (r, c')"
  obtain r1 c1 where a: "a c = (r1, c1)" by fastforce
  obtain es tail where 1: "log c1 = log c @ es"
    "Contents (audit c1) = Contents (audit c) @ concat (map decision_line (recorded es)) @ tail"
    "r1 \<noteq> None \<longrightarrow> tail = []" "tail \<noteq> [] \<longrightarrow> lost es"
    using assms(1) a unfolding writes_def by blast
  show "\<exists>es tail. log c' = log c @ es \<and>
     Contents (audit c') = Contents (audit c) @ concat (map decision_line (recorded es)) @ tail \<and>
     (r \<noteq> None \<longrightarrow> tail = []) \<and> (tail \<noteq> [] \<longrightarrow> lost es)"
  proof (cases r1)
    case None
    then show ?thesis using A a 1 by (auto simp: and_then_def)
  next
    case (Some x)
    then have "f x c1 = (r, c')" using A a by (simp add: and_then_def)
    then obtain es2 tail2 where "log c' = log c1 @ es2"
      "Contents (audit c') = Contents (audit c1) @ concat (map decision_line (recorded es2)) @ tail2"
      "r \<noteq> None \<longrightarrow> tail2 = []" "tail2 \<noteq> [] \<longrightarrow> lost es2"
      using assms(2) [of x] unfolding writes_def by blast
    then show ?thesis using 1 Some by (intro exI [of _ "es @ es2"] exI [of _ tail2]) simp
  qed
qed

lemma writes_pure [write_intros]: "writes (pure x)"
  by (rule writes_quiet) (auto simp: pure_def)

lemma writes_of_option [write_intros]: "writes (of_option x)"
  by (rule writes_quiet) (auto simp: of_option_def pure_def failed_def split: option.splits)

lemma writes_if [write_intros]: "writes a \<Longrightarrow> writes b \<Longrightarrow> writes (if t then a else b)"
  by simp

lemma writes_record [write_intros]: "writes (record_decision p request fp allowed)"
proof (rule writesI)
  fix c r c' assume A: "record_decision p request fp allowed c = (r, c')"
  let ?d = "\<lparr>d_Time = clock p (log c), d_Request = request, d_Fingerprint = fp, d_Allowed = allowed\<rparr>"
  obtain ok w where R: "json_record (sink p) ?d (audit c) = (ok, w)" by fastforce
  have r: "r = (if ok then Some () else None)" and c': "log c' = log c @ [Recorded ?d ok]" "audit c' = w"
    using A R by (auto simp: record_decision_def log_event_def)
  show "\<exists>es tail. log c' = log c @ es \<and>
     Contents (audit c') = Contents (audit c) @ concat (map decision_line (recorded es)) @ tail \<and>
     (r \<noteq> None \<longrightarrow> tail = []) \<and> (tail \<noteq> [] \<longrightarrow> lost es)"
  proof (cases ok)
    case True
    with R r c' show ?thesis by (auto dest: audit.accepted)
  next
    case False
    with R have "json_record (sink p) ?d (audit c) = (False, w)" by simp
    then obtain n where "Contents w = Contents (audit c) @ take n (decision_line ?d)"
      using audit.refused by blast
    with False r c' show ?thesis
      by (intro exI [of _ "[Recorded ?d ok]"] exI [of _ "take n (decision_line ?d)"]) (simp add: lost_def)
  qed
qed

lemma writes_round_trip [write_intros]: "writes (round_trip p req)"
  by (rule writes_quiet)
    (auto simp: round_trip_def log_event_def Let_def split: option.splits prod.splits sum.splits if_splits)

lemma writes_refuse [write_intros]: "writes (refuse p request fp)"
  unfolding refuse_def by (intro write_intros)

lemma writes_ask [write_intros]: "writes (ask_operator p)"
  by (rule writes_quiet) (auto simp: ask_operator_def log_event_def Let_def)

lemma writes_reply [write_intros]: "writes (reply p f)"
  by (rule writes_quiet) (auto simp: reply_def log_event_def split: option.splits)

lemma writes_handle: "writes (proxy_handle p req)"
  unfolding proxy_handle_def proxy_identities_def proxy_sign_def Let_def by (intro write_intros)

lemma serve_frames_writes:
  "\<exists>es tail. log (serve_frames n p input c) = log c @ es \<and>
     Contents (audit (serve_frames n p input c)) =
       Contents (audit c) @ concat (map decision_line (recorded es)) @ tail \<and> (tail \<noteq> [] \<longrightarrow> lost es)"
proof (induction n p input c rule: serve_frames.induct)
  case (2 n p input c)
  show ?case
  proof (cases "read_frame input")
    case (Inr y)
    obtain req rest where y: "y = (req, rest)" by fastforce
    obtain r c1 where T: "and_then (proxy_handle p req) (reply p) c = (r, c1)" by fastforce
    have "writes (and_then (proxy_handle p req) (reply p))"
      by (intro write_intros writes_handle)
    then obtain es tail where 1: "log c1 = log c @ es"
      "Contents (audit c1) = Contents (audit c) @ concat (map decision_line (recorded es)) @ tail"
      "r \<noteq> None \<longrightarrow> tail = []" "tail \<noteq> [] \<longrightarrow> lost es"
      using T unfolding writes_def by blast
    show ?thesis
    proof (cases r)
      case None
      then show ?thesis using 1 Inr y T by auto
    next
      case (Some u)
      obtain es2 tail2 where "log (serve_frames n p rest c1) = log c1 @ es2"
        "Contents (audit (serve_frames n p rest c1)) =
           Contents (audit c1) @ concat (map decision_line (recorded es2)) @ tail2" "tail2 \<noteq> [] \<longrightarrow> lost es2"
        using 2 [OF Inr y [symmetric] T [symmetric] Some] by blast
      then show ?thesis
        using 1 Some Inr y T by (intro exI [of _ "es @ es2"] exI [of _ tail2]) simp
    qed
  qed auto
qed auto

text \<open>the file and the events agree: after a connection the decision log holds what it held before, then
  the line of every decision whose recording succeeded, in the order they were taken, and nothing
  else, unless a recording failed, in which case at most a piece of one line follows.\<close>

theorem decision_file_matches_events:
  "\<exists>tail. Contents (audit (serve_conn p input r)) =
     Contents r @ concat (map decision_line (recorded (log (serve_conn p input r)))) @ tail \<and>
     (lost (log (serve_conn p input r)) \<or> tail = [])"
proof (cases "validate_proxy p \<and> dials p")
  case True
  then show ?thesis
    using serve_frames_writes [of "length input" p input "\<lparr>log = [], unread = [], audit = r\<rparr>"]
    by (auto simp: serve_conn_def Let_def)
qed (auto simp: serve_conn_def Let_def)

section \<open>What the guest is told\<close>

text \<open>an identities answer can always be sent, and lists the pinned key only: whatever the operator's
  agent holds, every identity the guest can read out of the frame has the pinned blob.\<close>

theorem identities_answer_only_pinned:
  assumes "proxy_identities p c = (Some f, c')" and "f_typ f = msgIdentitiesAnswer"
  shows "write_frame f \<noteq> None \<and>
    (\<exists>ids. parse_identities (f_body f) = Some ids \<and> list_all (\<lambda>i. Blob i = Blob (Pinned p)) ids)"
proof -
  let ?req = "\<lparr>f_typ = msgRequestIdentities, f_body = []\<rparr>"
  from assms obtain answer c1 ids where A: "round_trip p ?req c = (Some answer, c1)"
    and P: "parse_identities (f_body answer) = Some ids"
    and f: "f = \<lparr>f_typ = msgIdentitiesAnswer, f_body = encode_identities (filter (\<lambda>i. Blob i = Blob (Pinned p)) ids)\<rparr>"
    by (auto simp: proxy_identities_def and_then_def of_option_def pure_def failed_def refuse_def
        failure_frame_def msg_defs Let_def split: option.splits prod.splits if_splits)
  let ?kept = "filter (\<lambda>i. Blob i = Blob (Pinned p)) ids"
  from A obtain input rest where "read_frame input = Inr (answer, rest)"
    by (auto simp: round_trip_def Let_def split: option.splits prod.splits sum.splits if_splits)
  then have "length (f_body answer) + 1 \<le> 262144" by (rule read_frame_length)
  moreover have "length (encode_identities ids) \<le> length (f_body answer)"
    by (rule parse_identities_length [OF P])
  moreover have "length (encode_identities (filter Q ids)) \<le> length (encode_identities ids)" for Q
    by (simp add: encode_identities_concat) (induction ids; simp)
  ultimately have "length (encode_identities ?kept) + 1 \<le> 262144" by (meson add_le_mono1 le_trans)
  then have w: "write_frame f \<noteq> None"
    using f by (simp add: write_frame_def maxFrame_def)
  then have "parse_identities (f_body f) = Some ?kept"
    using f parse_encoded by simp
  with w show ?thesis by (auto simp: list_all_iff)
qed

definition demo_answer :: bytes where
  "demo_answer = encode_identities [\<lparr>Blob = [9], Comment = ''x''\<rparr>, \<lparr>Blob = [7], Comment = ''me''\<rparr>]"

definition demo_list :: bytes where
  "demo_list = put_uint32 26 @ msgIdentitiesAnswer # demo_answer"

lemma demo_list_frame:
  "read_frame demo_list = Inr (\<lparr>f_typ = msgIdentitiesAnswer, f_body = demo_answer\<rparr>, [])"
proof -
  have "write_frame \<lparr>f_typ = msgIdentitiesAnswer, f_body = demo_answer\<rparr> = Some demo_list"
    by (simp add: write_frame_def maxFrame_def demo_answer_def demo_list_def encode_identities_def
        append_string_def)
  from read_written [OF this, of "[]"] show ?thesis by simp
qed

lemma demo_answer_parses:
  "parse_identities demo_answer = Some [\<lparr>Blob = [9], Comment = ''x''\<rparr>, \<lparr>Blob = [7], Comment = ''me''\<rparr>]"
  unfolding demo_answer_def
  by (rule parse_encoded) (simp add: write_frame_def maxFrame_def encode_identities_def append_string_def)

lemma demo_identities:
  "fst (proxy_identities (demo_proxy\<lparr>upstream := \<lambda>_. (True, demo_list)\<rparr>)
     \<lparr>log = [], unread = [], audit = \<lparr>Contents = [], Failed = False\<rparr>\<rparr>) =
   Some \<lparr>f_typ = msgIdentitiesAnswer, f_body = encode_identities [\<lparr>Blob = [7], Comment = ''me''\<rparr>]\<rparr>"
  by (simp add: proxy_identities_def and_then_def round_trip_def write_frame_def maxFrame_def Let_def
      demo_list_frame demo_answer_parses of_option_def pure_def record_decision_def json_record_def append_line_def
      demo_proxy_def log_event_def)

theorem identities_answer_only_pinned_witness:
  "\<exists>ids. parse_identities (encode_identities [\<lparr>Blob = [7], Comment = ''me''\<rparr>]) = Some ids \<and>
     list_all (\<lambda>i. Blob i = [7]) ids"
proof -
  let ?p = "demo_proxy\<lparr>upstream := \<lambda>_. (True, demo_list)\<rparr>"
  let ?c = "\<lparr>log = [], unread = [], audit = \<lparr>Contents = [], Failed = False\<rparr>\<rparr>"
  obtain c' where "proxy_identities ?p ?c =
      (Some \<lparr>f_typ = msgIdentitiesAnswer, f_body = encode_identities [\<lparr>Blob = [7], Comment = ''me''\<rparr>]\<rparr>, c')"
    using demo_identities by (metis prod.collapse)
  from identities_answer_only_pinned [OF this] show ?thesis by (simp add: demo_proxy_def)
qed

section \<open>Choosing the key and asking the operator\<close>

text \<open>the key a session is bound to is never chosen for the operator: a pin is one identity the agent
  itself listed, named by its fingerprint or comment, and no other identity of that list answers to
  the name.\<close>

theorem pin_is_unambiguous:
  assumes "pin_identity agent want = Inr i"
  shows "\<exists>ids before after. list_identities agent = Inr ids \<and> ids = before @ i # after \<and> want \<noteq> [] \<and>
    (fingerprint (Blob i) = want \<or> Comment i = want) \<and>
    list_all (\<lambda>j. fingerprint (Blob j) \<noteq> want \<and> Comment j \<noteq> want) (before @ after)"
proof -
  from assms obtain ids where "want \<noteq> []" "list_identities agent = Inr ids"
    and one: "filter (\<lambda>i. fingerprint (Blob i) = want \<or> Comment i = want) ids = [i]"
    by (auto simp: pin_identity_def split: if_splits sum.splits list.splits)
  moreover from filter_eq_ConsD [OF one] obtain before after where ids: "ids = before @ i # after"
    and before: "\<forall>j\<in>set before. \<not> (fingerprint (Blob j) = want \<or> Comment j = want)"
    and named: "fingerprint (Blob i) = want \<or> Comment i = want"
    and after: "[] = filter (\<lambda>i. fingerprint (Blob i) = want \<or> Comment i = want) after"
    by blast
  moreover have "list_all (\<lambda>j. fingerprint (Blob j) \<noteq> want \<and> Comment j \<noteq> want) (before @ after)"
    using before after [symmetric] by (simp add: list_all_iff filter_empty_conv) blast
  ultimately show ?thesis by blast
qed

lemma demo_pin: "pin_identity (Some demo_list) ''me'' = Inr \<lparr>Blob = [7], Comment = ''me''\<rparr>"
proof -
  have "fingerprint b \<noteq> ''me''" for b
    unfolding fingerprint_def by simp
  then show ?thesis
    by (simp add: pin_identity_def list_identities_def demo_list_frame demo_answer_parses)
qed

theorem pin_is_unambiguous_witness:
  "\<exists>ids before after. list_identities (Some demo_list) = Inr ids \<and>
     ids = before @ \<lparr>Blob = [7], Comment = ''me''\<rparr> # after"
  using pin_is_unambiguous [OF demo_pin] by blast

text \<open>the dialog reads one message only. The environment it runs in holds exactly one assignment of the
  prompt variable, the text of this request, whatever the operator's shell had exported, and every
  other variable is as it was.\<close>

theorem prompt_variable_is_ours:
  "filter (\<lambda>kv. has_prefix kv (promptEnvVar @ ''='')) (with_prompt_message env message) =
     [promptEnvVar @ ''='' @ message] \<and>
   filter (\<lambda>kv. \<not> has_prefix kv (promptEnvVar @ ''='')) (with_prompt_message env message) =
     filter (\<lambda>kv. \<not> has_prefix kv (promptEnvVar @ ''='')) env"
proof -
  have "has_prefix (promptEnvVar @ ''='' @ message) (promptEnvVar @ ''='')"
    using has_prefix_append [of "promptEnvVar @ ''=''" message] by simp
  then show ?thesis by (simp add: with_prompt_message_def Let_def)
qed

text \<open>The full text of the answer is looked for anywhere in the output, not compared with it.\<close>

lemma answer_with_more_text_approves:
  "ask_dialog (\<lambda>_ _. Some (0, ''button returned:Allow nothing'')) env timeout message"
  by (simp add: ask_dialog_def approvedAnswer_def has_prefix_def)

text \<open>An agent that lists the pinned key twice is reported as refused and answered all the same.\<close>

lemma duplicate_listing_recorded_as_refused:
  assumes "parse_identities (f_body answer) = Some [i, i]" and "Blob i = Blob (Pinned p)"
    and "f_typ answer = msgIdentitiesAnswer" and "round_trip p \<lparr>f_typ = msgRequestIdentities, f_body = []\<rparr> c = (Some answer, c1)"
    and "json_record (sink p) \<lparr>d_Time = clock p (log c1), d_Request = requestIdentities,
      d_Fingerprint = fingerprint (Blob (Pinned p)), d_Allowed = False\<rparr> (audit c1) = (True, r)"
  shows "fst (proxy_identities p c) = Some \<lparr>f_typ = msgIdentitiesAnswer, f_body = encode_identities [i, i]\<rparr>"
  using assms
  by (simp add: proxy_identities_def and_then_def of_option_def pure_def record_decision_def Let_def)

end
