(* ===== verification/Wizard.thy ===== *)
theory Wizard
  imports Torio_Prelude
begin

text \<open>
  First-run setup as a function of what a box can be proven to be: \<open>internal/tui/wizard/graph.go\<close>, with
  \<open>State\<close> and \<open>mapLimaStatus\<close> of \<open>internal/lima/status.go\<close>. The credential vocabulary is text in the code
  and stays text here, since any other text is read as unknown.
\<close>

section \<open>Facts and steps\<close>

datatype lima_state = StateNotFound | StateRunning | StateStopped | StateBroken | StateUnknownLima

definition map_lima_status :: "string \<Rightarrow> lima_state option" where
  "map_lima_status s =
     (if s = ''Running'' then Some StateRunning
      else if s = ''Stopped'' then Some StateStopped
      else if s = ''Broken'' then Some StateBroken
      else if s = ''Unknown'' then Some StateUnknownLima
      else None)"

datatype step_name =
    StepVMInit | StepVMStart | StepBoxUnusable | StepBootstrap | StepBackendLogin | StepBrainInit
  | StepProjectAdd | StepDone

definition CredentialPresent :: string where "CredentialPresent = ''present''"
definition CredentialAbsent :: string where "CredentialAbsent = ''absent''"
definition CredentialUnknown :: string where "CredentialUnknown = ''unknown''"
definition CredentialNotApplicable :: string where "CredentialNotApplicable = ''not-applicable''"

record facts =
  Box :: lima_state
  Bootstrapped :: bool
  Credential :: string
  BrainReady :: bool
  ProjectCount :: int

definition next_step :: "facts \<Rightarrow> step_name" where
  "next_step f = (case Box f of
       StateNotFound \<Rightarrow> StepVMInit
     | StateBroken \<Rightarrow> StepBoxUnusable
     | StateUnknownLima \<Rightarrow> StepBoxUnusable
     | StateStopped \<Rightarrow> StepVMStart
     | StateRunning \<Rightarrow>
         (if \<not> Bootstrapped f then StepBootstrap
          else if Credential f = CredentialAbsent then StepBackendLogin
          else if \<not> BrainReady f then StepBrainInit
          else if ProjectCount f = 0 then StepProjectAdd
          else StepDone))"

section \<open>The plan\<close>

datatype stage_state = StageDone | StageCurrent | StagePending

definition applicable :: "facts \<Rightarrow> step_name list" where
  "applicable f = [StepVMInit, StepVMStart, StepBootstrap] @
     (if Credential f \<noteq> CredentialNotApplicable then [StepBackendLogin] else []) @
     [StepBrainInit, StepProjectAdd]"

text \<open>The loop of \<open>Plan\<close>, with its flag \<open>passed\<close>.\<close>

fun plan_stages :: "step_name \<Rightarrow> bool \<Rightarrow> step_name list \<Rightarrow> (step_name \<times> stage_state) list" where
  "plan_stages current passed [] = []"
| "plan_stages current passed (s # ss) =
     (if s = current then (s, StageCurrent) # plan_stages current True ss
      else if \<not> passed then (s, StageDone) # plan_stages current passed ss
      else (s, StagePending) # plan_stages current passed ss)"

definition plan :: "facts \<Rightarrow> (step_name \<times> stage_state) list" where
  "plan f = plan_stages (next_step f) False (applicable f)"

section \<open>The copy\<close>

record description =
  Title :: string
  Detail :: string
  Command :: string

fun step_text :: "step_name \<Rightarrow> string" where
  "step_text StepVMInit = ''vm-init''"
| "step_text StepVMStart = ''vm-start''"
| "step_text StepBoxUnusable = ''box-unusable''"
| "step_text StepBootstrap = ''bootstrap''"
| "step_text StepBackendLogin = ''backend-login''"
| "step_text StepBrainInit = ''brain-init''"
| "step_text StepProjectAdd = ''project-add''"
| "step_text StepDone = ''done''"

fun describe :: "step_name \<Rightarrow> description" where
  "describe StepVMInit = \<lparr>Title = ''Create the box'',
     Detail = ''Lima builds an isolated virtual machine for this backend. Nothing on the host is mounted into it.'',
     Command = ''torio vm init''\<rparr>"
| "describe StepVMStart = \<lparr>Title = ''Start the box'',
     Detail = ''The box exists but is not running. Starting it is safe to repeat.'',
     Command = ''torio vm start''\<rparr>"
| "describe StepBoxUnusable = \<lparr>Title = ''This box cannot be used'',
     Detail = ''Lima reports a state Torio cannot work with. Inspect it with limactl before continuing; the wizard has no step that would repair it.'',
     Command = []\<rparr>"
| "describe StepBootstrap = \<lparr>Title = ''Bootstrap the guest'',
     Detail = ''Verifies the guest identity, its tools, and the backend at its pinned version, installing what is missing. This can take up to ten minutes on a fresh box.'',
     Command = ''torio vm bootstrap''\<rparr>"
| "describe StepBackendLogin = \<lparr>Title = ''Sign in to the backend'',
     Detail = ''The backend holds no credential yet. Torio hands you the real login session and returns here when it ends.'',
     Command = ''torio backend login''\<rparr>"
| "describe StepBrainInit = \<lparr>Title = ''Create the Second Brain'',
     Detail = ''Builds the Markdown vault on the guest, makes its first commit, and registers it as a project.'',
     Command = ''torio brain init''\<rparr>"
| "describe StepProjectAdd = \<lparr>Title = ''Add a project'',
     Detail = ''Registers a repository and materializes its checkout on the guest, so the agent has something to work on.'',
     Command = ''torio project add''\<rparr>"
| "describe StepDone = \<lparr>Title = ''Setup is complete'',
     Detail = ''Every step Torio can verify has passed. The dashboard shows this box from here on.'',
     Command = []\<rparr>"

section \<open>What the plan shows\<close>

lemma plan_stages_passed:
  "current \<notin> set ss \<Longrightarrow> plan_stages current True ss = map (\<lambda>s. (s, StagePending)) ss"
  by (induction ss) auto

lemma plan_stages_absent:
  "current \<notin> set ss \<Longrightarrow> plan_stages current False ss = map (\<lambda>s. (s, StageDone)) ss"
  by (induction ss) auto

lemma plan_stages_split:
  assumes "current \<notin> set before" and "current \<notin> set after"
  shows "plan_stages current False (before @ current # after) =
    map (\<lambda>s. (s, StageDone)) before @ (current, StageCurrent) # map (\<lambda>s. (s, StagePending)) after"
  using assms by (induction before) (auto simp: plan_stages_passed)

lemma applicable_distinct: "distinct (applicable f)"
  by (simp add: applicable_def)

lemma next_step_applicable:
  "next_step f \<in> {StepBoxUnusable, StepDone} \<or> next_step f \<in> set (applicable f)"
  by (auto simp: next_step_def applicable_def CredentialAbsent_def CredentialNotApplicable_def
      split: lima_state.splits)

text \<open>while a step is left, the plan is the backend's route cut at that step: everything before it reads
  done, it alone is current, and everything after it is pending.\<close>

theorem plan_cut_at_next_step:
  assumes "next_step f \<noteq> StepDone" and "next_step f \<noteq> StepBoxUnusable"
  shows "\<exists>before after. applicable f = before @ next_step f # after \<and>
    plan f = map (\<lambda>s. (s, StageDone)) before @ (next_step f, StageCurrent) #
      map (\<lambda>s. (s, StagePending)) after"
proof -
  from assms next_step_applicable [of f] obtain before after
    where route: "applicable f = before @ next_step f # after"
    by (auto dest: split_list)
  then have "next_step f \<notin> set before" "next_step f \<notin> set after"
    using applicable_distinct [of f] by auto
  then have "plan f = map (\<lambda>s. (s, StageDone)) before @ (next_step f, StageCurrent) #
      map (\<lambda>s. (s, StagePending)) after"
    unfolding plan_def route by (rule plan_stages_split)
  with route show ?thesis by blast
qed

definition demo_facts :: facts where
  "demo_facts = \<lparr>Box = StateRunning, Bootstrapped = True, Credential = ''absent'', BrainReady = True,
     ProjectCount = 0\<rparr>"

theorem plan_cut_at_next_step_witness:
  "\<exists>before after. applicable demo_facts = before @ StepBackendLogin # after"
proof -
  have "next_step demo_facts = StepBackendLogin"
    by (simp add: next_step_def demo_facts_def CredentialAbsent_def)
  with plan_cut_at_next_step [of demo_facts] show ?thesis by auto
qed

text \<open>a box Lima reports as broken, or cannot describe, reads as fully set up: no step is current and
  every stage of the plan, creating and starting the box included, is marked done.\<close>

theorem unusable_box_reads_as_done:
  "Box f \<in> {StateBroken, StateUnknownLima} \<Longrightarrow> plan f = map (\<lambda>s. (s, StageDone)) (applicable f)"
  unfolding plan_def by (rule plan_stages_absent) (auto simp: next_step_def applicable_def)

theorem unusable_box_reads_as_done_witness:
  "plan (demo_facts\<lparr>Box := StateBroken\<rparr>) =
     map (\<lambda>s. (s, StageDone)) [StepVMInit, StepVMStart, StepBootstrap, StepBackendLogin, StepBrainInit,
       StepProjectAdd]"
  by (subst unusable_box_reads_as_done)
    (simp_all add: applicable_def demo_facts_def CredentialNotApplicable_def)

text \<open>
  The requirement of each step, in the order of the route, and the reading of \<open>Next\<close> as the first step
  whose requirement does not hold.
\<close>

definition requirements :: "facts \<Rightarrow> (step_name \<times> bool) list" where
  "requirements f =
     [(StepVMInit, Box f \<noteq> StateNotFound),
      (StepBoxUnusable, Box f \<noteq> StateBroken \<and> Box f \<noteq> StateUnknownLima),
      (StepVMStart, Box f = StateRunning),
      (StepBootstrap, Bootstrapped f),
      (StepBackendLogin, Credential f \<noteq> CredentialAbsent),
      (StepBrainInit, BrainReady f),
      (StepProjectAdd, ProjectCount f \<noteq> 0)]"

text \<open>the next step is the first one, in dependency order, whose requirement is not met; setup is
  complete exactly when all are.\<close>

theorem next_step_is_first_unmet:
  "next_step f = (case filter (\<lambda>(s, met). \<not> met) (requirements f) of
     [] \<Rightarrow> StepDone | (s, met) # rest \<Rightarrow> s)"
  by (auto simp: next_step_def requirements_def split: lima_state.splits)

end
