(* ===== verification/Json.thy ===== *)
theory Json
  imports Torio_Prelude
begin

text \<open>
  Go's \<open>encoding/json\<close>, as far as the source uses it: the grammar its scanner accepts, the text a
  string literal stands for, what \<open>Marshal\<close> and \<open>MarshalIndent\<close> print, and the rules by which a value
  is decoded into a struct (names match up to case folding, \<open>null\<close> leaves a field alone, a repeated
  name decodes into what the first one left, a value of another kind is an error). A text is the
  bytes of the document.
\<close>

datatype json =
    JNull | JBool bool | JNum string | JStr string | JArr "json list" | JObj "(string \<times> json) list"

section \<open>White space and literals\<close>

definition json_space :: "char \<Rightarrow> bool" where
  "json_space c \<longleftrightarrow> c \<in> {CHR '' '', CHR 0x09, CHR 0x0A, CHR 0x0D}"

definition skip_space :: "string \<Rightarrow> string" where
  "skip_space s = dropWhile json_space s"

text \<open>The next character, when it is the expected one.\<close>

definition expect :: "char \<Rightarrow> string \<Rightarrow> string option" where
  "expect c s = (case skip_space s of [] \<Rightarrow> None | x # r \<Rightarrow> if x = c then Some r else None)"

definition dquote :: char where "dquote = CHR 0x22"
definition backslash :: char where "backslash = CHR 0x5C"

section \<open>String literals\<close>

definition hex_digit :: "nat \<Rightarrow> char" where
  "hex_digit n = ''0123456789abcdef'' ! (n mod 16)"

definition hex_value :: "char \<Rightarrow> nat option" where
  "hex_value c = (if is_digit c then Some (byte_of c - 48)
     else if between CHR ''a'' CHR ''f'' c then Some (byte_of c - 87)
     else if between CHR ''A'' CHR ''F'' c then Some (byte_of c - 55)
     else None)"

definition hex4 :: "string \<Rightarrow> nat option" where
  "hex4 s = (case s of
       a # b # c # d # r \<Rightarrow> (case (hex_value a, hex_value b, hex_value c, hex_value d) of
           (Some w, Some x, Some y, Some z) \<Rightarrow> Some (((w * 16 + x) * 16 + y) * 16 + z)
         | _ \<Rightarrow> None)
     | _ \<Rightarrow> None)"

text \<open>\<open>utf8.AppendRune\<close>: a surrogate or a value beyond the last rune becomes the replacement rune.\<close>

definition encode_rune :: "nat \<Rightarrow> string" where
  "encode_rune n = map char_of
     (if n < 0x80 then [n]
      else if n < 0x800 then [0xC0 + n div 0x40, 0x80 + n mod 0x40]
      else if (0xD800 \<le> n \<and> n \<le> 0xDFFF) \<or> n > 0x10FFFF then [0xEF, 0xBF, 0xBD]
      else if n < 0x10000 then [0xE0 + n div 0x1000, 0x80 + n div 0x40 mod 0x40, 0x80 + n mod 0x40]
      else [0xF0 + n div 0x40000, 0x80 + n div 0x1000 mod 0x40, 0x80 + n div 0x40 mod 0x40,
            0x80 + n mod 0x40])"

text \<open>What follows a backslash: the text it stands for, and how many characters it takes.\<close>

definition json_escape :: "string \<Rightarrow> (string \<times> nat) option" where
  "json_escape r = (case r of
       [] \<Rightarrow> None
     | c # r' \<Rightarrow>
         (if c = dquote \<or> c = backslash \<or> c = CHR ''/'' then Some ([c], 1)
          else if c = CHR ''b'' then Some ([CHR 0x08], 1)
          else if c = CHR ''f'' then Some ([CHR 0x0C], 1)
          else if c = CHR ''n'' then Some ([CHR 0x0A], 1)
          else if c = CHR ''r'' then Some ([CHR 0x0D], 1)
          else if c = CHR ''t'' then Some ([CHR 0x09], 1)
          else if c = CHR ''u'' then (case hex4 r' of
              None \<Rightarrow> None
            | Some hi \<Rightarrow>
                (if 0xD800 \<le> hi \<and> hi < 0xE000 then
                   (case (if take 2 (drop 4 r') = [backslash, CHR ''u''] then hex4 (drop 6 r') else None) of
                      Some lo \<Rightarrow>
                        (if hi < 0xDC00 \<and> 0xDC00 \<le> lo \<and> lo < 0xE000
                         then Some (encode_rune (0x10000 + (hi - 0xD800) * 0x400 + (lo - 0xDC00)), 11)
                         else Some (encode_rune rune_error, 5))
                    | None \<Rightarrow> Some (encode_rune rune_error, 5))
                 else Some (encode_rune hi, 5)))
          else None))"

text \<open>The body of a literal up to its closing quote: the text, and what follows.\<close>

function json_chars :: "string \<Rightarrow> (string \<times> string) option" where
  "json_chars [] = None"
| "json_chars (c # r) =
     (if c = dquote then Some ([], r)
      else if c = backslash then (case json_escape r of
          None \<Rightarrow> None
        | Some (out, n) \<Rightarrow> map_option (\<lambda>(s, rest). (out @ s, rest)) (json_chars (drop n r)))
      else if byte_of c < 0x20 then None
      else (let (rn, w) = decode_rune (c # r); k = max 1 w in
        map_option (\<lambda>(s, rest). ((if rn = rune_error \<and> w = 1 then encode_rune rune_error
             else take k (c # r)) @ s, rest)) (json_chars (drop k (c # r)))))"
  by pat_completeness auto
termination
  by (relation "measure length") auto

text \<open>How \<open>Marshal\<close> writes a rune inside a literal, with HTML escaping on as it is by default.\<close>

definition escape_rune :: "nat \<times> string \<Rightarrow> string" where
  "escape_rune rb = (case rb of (r, bs) \<Rightarrow>
     (if r < 0x80 then
        (if r = 0x22 \<or> r = 0x5C then backslash # bs
         else if r = 0x08 then [backslash, CHR ''b'']
         else if r = 0x0C then [backslash, CHR ''f'']
         else if r = 0x0A then [backslash, CHR ''n'']
         else if r = 0x0D then [backslash, CHR ''r'']
         else if r = 0x09 then [backslash, CHR ''t'']
         else if r < 0x20 \<or> r = 0x3C \<or> r = 0x3E \<or> r = 0x26
           then backslash # ''u00'' @ [hex_digit (r div 16), hex_digit r]
         else bs)
      else if r = rune_error \<and> length bs = 1 then backslash # ''ufffd''
      else if r = 0x2028 then backslash # ''u2028''
      else if r = 0x2029 then backslash # ''u2029''
      else bs))"

definition escape_text :: "string \<Rightarrow> string" where
  "escape_text s = concat (map escape_rune (rune_spans s))"

definition json_quote :: "string \<Rightarrow> string" where
  "json_quote s = dquote # escape_text s @ [dquote]"

section \<open>Values\<close>

text \<open>A number literal: the longest text of the number grammar.\<close>

definition digits :: "string \<Rightarrow> string \<times> string" where
  "digits s = (takeWhile is_digit s, dropWhile is_digit s)"

definition number_fraction :: "string \<Rightarrow> (string \<times> string) option" where
  "number_fraction s = (if has_prefix s ''.'' then
       (let (ds, r) = digits (tl s) in if ds = [] then None else Some (CHR ''.'' # ds, r))
     else Some ([], s))"

definition number_exponent :: "string \<Rightarrow> (string \<times> string) option" where
  "number_exponent s = (case s of
       [] \<Rightarrow> Some ([], s)
     | e # r \<Rightarrow>
         (if e = CHR ''e'' \<or> e = CHR ''E'' then
            (let sign = (if has_prefix r ''+'' \<or> has_prefix r ''-'' then take 1 r else []);
                 (ds, r') = digits (drop (length sign) r) in
             if ds = [] then None else Some (e # sign @ ds, r'))
          else Some ([], s)))"

definition json_number :: "string \<Rightarrow> (string \<times> string) option" where
  "json_number s = (let sign = (if has_prefix s ''-'' then ''-'' else []);
       u = drop (length sign) s; (ds, r) = digits u;
       whole = (if has_prefix u ''0'' then ''0'' else ds);
       r0 = drop (length whole) u in
     if whole = [] then None
     else (case number_fraction r0 of
         None \<Rightarrow> None
       | Some (frac, r1) \<Rightarrow> (case number_exponent r1 of
           None \<Rightarrow> None
         | Some (ex, r2) \<Rightarrow> Some (sign @ whole @ frac @ ex, r2))))"

definition maxNestingDepth :: nat where "maxNestingDepth = 10000"

text \<open>
  The value at the head of a text, and what follows it. The fuel bounds the number of values and
  separators, so the length of the text is enough; the second argument is the nesting depth, which
  the scanner bounds.
\<close>

fun json_value :: "nat \<Rightarrow> nat \<Rightarrow> string \<Rightarrow> (json \<times> string) option"
and json_items :: "nat \<Rightarrow> nat \<Rightarrow> string \<Rightarrow> (json list \<times> string) option"
and json_fields :: "nat \<Rightarrow> nat \<Rightarrow> string \<Rightarrow> ((string \<times> json) list \<times> string) option" where
  "json_value 0 d s = None"
| "json_value (Suc n) d s = (let t = skip_space s in
     case expect CHR ''{'' t of
       Some r \<Rightarrow>
         (if d \<ge> maxNestingDepth then None
          else (case expect CHR ''}'' r of
              Some r' \<Rightarrow> Some (JObj [], r')
            | None \<Rightarrow> map_option (\<lambda>(fs, r'). (JObj fs, r')) (json_fields n (Suc d) r)))
     | None \<Rightarrow> (case expect CHR ''['' t of
       Some r \<Rightarrow>
         (if d \<ge> maxNestingDepth then None
          else (case expect CHR '']'' r of
              Some r' \<Rightarrow> Some (JArr [], r')
            | None \<Rightarrow> map_option (\<lambda>(vs, r'). (JArr vs, r')) (json_items n (Suc d) r)))
     | None \<Rightarrow> (case expect dquote t of
       Some r \<Rightarrow> map_option (\<lambda>(s, r'). (JStr s, r')) (json_chars r)
     | None \<Rightarrow>
         (if has_prefix t ''true'' then Some (JBool True, drop 4 t)
          else if has_prefix t ''false'' then Some (JBool False, drop 5 t)
          else if has_prefix t ''null'' then Some (JNull, drop 4 t)
          else map_option (\<lambda>(num, r). (JNum num, r)) (json_number t)))))"
| "json_items 0 d s = None"
| "json_items (Suc n) d s = (case json_value n d s of
       None \<Rightarrow> None
     | Some (v, r) \<Rightarrow> (case expect CHR '','' r of
         Some r' \<Rightarrow> map_option (\<lambda>(vs, r''). (v # vs, r'')) (json_items n d r')
       | None \<Rightarrow> map_option (\<lambda>r'. ([v], r')) (expect CHR '']'' r)))"
| "json_fields 0 d s = None"
| "json_fields (Suc n) d s = (case expect dquote s of
       None \<Rightarrow> None
     | Some r0 \<Rightarrow> (case json_chars r0 of
         None \<Rightarrow> None
       | Some (k, r1) \<Rightarrow> (case expect CHR '':'' r1 of
           None \<Rightarrow> None
         | Some r2 \<Rightarrow> (case json_value n d r2 of
             None \<Rightarrow> None
           | Some (v, r3) \<Rightarrow> (case expect CHR '','' r3 of
               Some r4 \<Rightarrow> map_option (\<lambda>(fs, r5). ((k, v) # fs, r5)) (json_fields n d r4)
             | None \<Rightarrow> map_option (\<lambda>r4. ([(k, v)], r4)) (expect CHR ''}'' r3))))))"

text \<open>One document and nothing after it but white space.\<close>

definition json_document :: "string \<Rightarrow> json option" where
  "json_document s = (case json_value (2 * length s + 2) 0 s of
       None \<Rightarrow> None
     | Some (v, r) \<Rightarrow> if skip_space r = [] then Some v else None)"

section \<open>Printing\<close>

definition json_newline :: "nat \<Rightarrow> string" where
  "json_newline d = newline # replicate (2 * d) CHR '' ''"

text \<open>\<open>MarshalIndent(v, "", "  ")\<close>, at depth \<open>d\<close>.\<close>

fun print_value :: "nat \<Rightarrow> json \<Rightarrow> string"
and print_items :: "nat \<Rightarrow> json list \<Rightarrow> string"
and print_fields :: "nat \<Rightarrow> (string \<times> json) list \<Rightarrow> string" where
  "print_value d JNull = ''null''"
| "print_value d (JBool b) = (if b then ''true'' else ''false'')"
| "print_value d (JNum n) = n"
| "print_value d (JStr s) = json_quote s"
| "print_value d (JArr vs) = (if vs = [] then ''[]''
     else ''['' @ json_newline (Suc d) @ print_items (Suc d) vs @ json_newline d @ '']'')"
| "print_value d (JObj fs) = (if fs = [] then ''{}''
     else ''{'' @ json_newline (Suc d) @ print_fields (Suc d) fs @ json_newline d @ ''}'')"
| "print_items d [] = []"
| "print_items d (v # vs) = print_value d v @
     (if vs = [] then [] else '','' @ json_newline d @ print_items d vs)"
| "print_fields d [] = []"
| "print_fields d ((k, v) # fs) = json_quote k @ '': '' @ print_value d v @
     (if fs = [] then [] else '','' @ json_newline d @ print_fields d fs)"

section \<open>Decoding into a struct\<close>

text \<open>Names match when they fold to the same runes; two runes outside ASCII fold to a letter.\<close>

definition fold_rune :: "nat \<Rightarrow> nat" where
  "fold_rune r = (if 0x61 \<le> r \<and> r \<le> 0x7A then r - 32
     else if r = 0x17F then 0x53 else if r = 0x212A then 0x4B else r)"

definition fold_name :: "string \<Rightarrow> nat list" where
  "fold_name s = map fold_rune (runes s)"

definition names_field :: "string \<Rightarrow> string \<Rightarrow> bool" where
  "names_field key field \<longleftrightarrow> fold_name key = fold_name field"

text \<open>Decoding into a string and into a 64-bit integer that already holds a value.\<close>

definition into_string :: "json \<Rightarrow> string \<Rightarrow> string option" where
  "into_string j old = (case j of JStr s \<Rightarrow> Some s | JNull \<Rightarrow> Some old | _ \<Rightarrow> None)"

definition into_int64 :: "json \<Rightarrow> int \<Rightarrow> int option" where
  "into_int64 j old = (case j of JNum n \<Rightarrow> parse_int64 n | JNull \<Rightarrow> Some old | _ \<Rightarrow> None)"

text \<open>Decoding an object into a struct, field by field in the order of the text.\<close>

fun into_fields :: "(string \<Rightarrow> json \<Rightarrow> 'r \<Rightarrow> 'r option) \<Rightarrow> (string \<times> json) list \<Rightarrow> 'r \<Rightarrow> 'r option" where
  "into_fields f [] r = Some r"
| "into_fields f ((k, v) # fs) r = (case f k v r of None \<Rightarrow> None | Some r' \<Rightarrow> into_fields f fs r')"

definition into_struct :: "(string \<Rightarrow> json \<Rightarrow> 'r \<Rightarrow> 'r option) \<Rightarrow> json \<Rightarrow> 'r \<Rightarrow> 'r option" where
  "into_struct f j r = (case j of JObj fs \<Rightarrow> into_fields f fs r | JNull \<Rightarrow> Some r | _ \<Rightarrow> None)"

text \<open>
  A slice that is decoded into: the elements its memory holds and how many of them are in it, \<open>None\<close>
  for a nil slice. A repeated name decodes into the elements the first one left there.
\<close>

type_synonym 'a slice = "('a list \<times> nat) option"

definition slice_memory :: "'a slice \<Rightarrow> 'a list" where
  "slice_memory s = (case s of None \<Rightarrow> [] | Some (mem, n) \<Rightarrow> mem)"

definition slice_elems :: "'a slice \<Rightarrow> 'a list" where
  "slice_elems s = (case s of None \<Rightarrow> [] | Some (mem, n) \<Rightarrow> take n mem)"

fun into_items :: "'a \<Rightarrow> (json \<Rightarrow> 'a \<Rightarrow> 'a option) \<Rightarrow> json list \<Rightarrow> 'a list \<Rightarrow> 'a list option" where
  "into_items zero f [] mem = Some mem"
| "into_items zero f (j # js) mem = (case f j (case mem of [] \<Rightarrow> zero | x # _ \<Rightarrow> x) of
       None \<Rightarrow> None
     | Some y \<Rightarrow> map_option ((#) y) (into_items zero f js (drop 1 mem)))"

definition into_slice :: "'a \<Rightarrow> (json \<Rightarrow> 'a \<Rightarrow> 'a option) \<Rightarrow> json \<Rightarrow> 'a slice \<Rightarrow> 'a slice option" where
  "into_slice zero f j old = (case j of
       JNull \<Rightarrow> Some None
     | JArr [] \<Rightarrow> Some (Some ([], 0))
     | JArr js \<Rightarrow> map_option (\<lambda>mem. Some (mem, length js)) (into_items zero f js (slice_memory old))
     | _ \<Rightarrow> None)"

text \<open>\<open>decodeStrict\<close>: one document, nothing after it, no field the form does not have.\<close>

definition decode_strict :: "(string \<Rightarrow> json \<Rightarrow> 'r \<Rightarrow> 'r option) \<Rightarrow> string \<Rightarrow> 'r \<Rightarrow> 'r option" where
  "decode_strict f data zero = (case json_document data of
       None \<Rightarrow> None
     | Some j \<Rightarrow> into_struct f j zero)"

end
