(* ===== verification/Durations.thy ===== *)
theory Durations
  imports Torio_Prelude
begin

text \<open>
  Go's \<open>time.Duration\<close> as text: \<open>Duration.String\<close>, which the config document is written with, and
  \<open>time.ParseDuration\<close>, which it is read with. A duration is a signed 64-bit count of nanoseconds. The
  parser reads the integer part of a term in 64-bit arithmetic and its fraction in double precision,
  so the model has both: unsigned values with their overflow checks written out, and floats as exact
  quotients rounded to 53 bits.
\<close>

section \<open>Double precision\<close>

text \<open>
  A non-negative float is a quotient of naturals; an operation rounds the exact result to 53 significant
  bits, ties to even. The exponent is unbounded: a scale large enough to overflow in the source makes a
  fraction of less than one nanosecond here and there.
\<close>

type_synonym float = "nat \<times> nat"

fun bits :: "nat \<Rightarrow> nat" where
  "bits n = (if n = 0 then 0 else Suc (bits (n div 2)))"

declare bits.simps [simp del]

definition half_even :: "nat \<Rightarrow> nat \<Rightarrow> nat" where
  "half_even n d = (let q = n div d; r = n mod d in
     if 2 * r > d \<or> 2 * r = d \<and> odd q then Suc q else q)"

text \<open>\<open>n / d\<close> scaled by \<open>2 ^ j\<close> into the range of a 53-bit significand, rounded, and scaled back.\<close>

definition fl_shift :: "nat \<Rightarrow> nat \<Rightarrow> int" where
  "fl_shift n d = (let j = 53 + int (bits d) - int (bits n) in
     if n * 2 ^ nat j \<ge> 2 ^ 53 * (d * 2 ^ nat (- j)) then j - 1 else j)"

definition fl_round :: "nat \<Rightarrow> nat \<Rightarrow> float" where
  "fl_round n d = (if n = 0 then (0, 1) else
     (let j = fl_shift n d; q = half_even (n * 2 ^ nat j) (d * 2 ^ nat (- j)) in
      (q * 2 ^ nat (- j), 2 ^ nat j)))"

definition fl_of :: "nat \<Rightarrow> float" where "fl_of n = fl_round n 1"
definition fl_mul :: "float \<Rightarrow> float \<Rightarrow> float" where
  "fl_mul x y = fl_round (fst x * fst y) (snd x * snd y)"
definition fl_div :: "float \<Rightarrow> float \<Rightarrow> float" where
  "fl_div x y = fl_round (fst x * snd y) (snd x * fst y)"
definition fl_trunc :: "float \<Rightarrow> nat" where "fl_trunc x = fst x div snd x"

section \<open>Parsing\<close>

text \<open>\<open>leadingInt\<close>: \<open>None\<close> is the overflow error.\<close>

fun leading_int :: "nat \<Rightarrow> string \<Rightarrow> (nat \<times> string) option" where
  "leading_int x [] = Some (x, [])"
| "leading_int x (c # s) = (if \<not> is_digit c then Some (x, c # s)
     else if x > 2 ^ 63 div 10 then None
     else (let y = x * 10 + digit_val c in if y > 2 ^ 63 then None else leading_int y s))"

text \<open>\<open>leadingFraction\<close>, which stops accumulating when the digits overflow.\<close>

fun leading_fraction :: "bool \<Rightarrow> nat \<Rightarrow> float \<Rightarrow> string \<Rightarrow> nat \<times> float \<times> string" where
  "leading_fraction overflow x scale [] = (x, scale, [])"
| "leading_fraction overflow x scale (c # s) =
     (if \<not> is_digit c then (x, scale, c # s)
      else if overflow \<or> x > (2 ^ 63 - 1) div 10 then leading_fraction True x scale s
      else (let y = x * 10 + digit_val c in
        if y > 2 ^ 63 then leading_fraction True x scale s
        else leading_fraction False y (fl_mul scale (fl_of 10)) s))"

text \<open>The units, the micro sign in both of its encodings.\<close>

definition unit_map :: "(string \<times> nat) list" where
  "unit_map = [(''ns'', 1), (''us'', 1000), ([CHR 0xC2, CHR 0xB5, CHR ''s''], 1000),
     ([CHR 0xCE, CHR 0xBC, CHR ''s''], 1000), (''ms'', 1000000), (''s'', 1000000000),
     (''m'', 60 * 1000000000), (''h'', 3600 * 1000000000)]"

definition unit_char :: "char \<Rightarrow> bool" where
  "unit_char c \<longleftrightarrow> c \<noteq> CHR ''.'' \<and> \<not> is_digit c"

text \<open>One term, a number and its unit: its nanoseconds and the text after it.\<close>

definition parse_term :: "string \<Rightarrow> (nat \<times> string) option" where
  "parse_term s =
     (if s = [] \<or> \<not> (hd s = CHR ''.'' \<or> is_digit (hd s)) then None
      else (case leading_int 0 s of
          None \<Rightarrow> None
        | Some (v, s1) \<Rightarrow>
            (let pre = length s1 \<noteq> length s;
                 (f, scale, s2) = (if s1 \<noteq> [] \<and> hd s1 = CHR ''.'' then leading_fraction False 0 (fl_of 1) (tl s1)
                    else (0, fl_of 1, s1));
                 post = (s1 \<noteq> [] \<and> hd s1 = CHR ''.'' \<and> length s2 \<noteq> length (tl s1));
                 u = takeWhile unit_char s2; s3 = dropWhile unit_char s2 in
             if \<not> pre \<and> \<not> post then None
             else if u = [] then None
             else (case map_of unit_map u of
                 None \<Rightarrow> None
               | Some unit \<Rightarrow>
                   (if v > 2 ^ 63 div unit then None
                    else (let w = v * unit +
                        (if f > 0 then fl_trunc (fl_mul (fl_of f) (fl_div (fl_of unit) scale)) else 0) in
                      if w > 2 ^ 63 then None else Some (w, s3)))))))"

lemma leading_int_length: "leading_int x s = Some (v, r) \<Longrightarrow> length r \<le> length s"
  by (induction x s rule: leading_int.induct) (auto simp: Let_def split: if_splits)

lemma leading_fraction_length: "leading_fraction ov x sc s = (f, sc', r) \<Longrightarrow> length r \<le> length s"
  by (induction ov x sc s rule: leading_fraction.induct) (auto simp: Let_def split: if_splits)

lemma dropWhile_shorter: "takeWhile p s \<noteq> [] \<Longrightarrow> length (dropWhile p s) < length s"
  by (induction s) (auto simp: le_imp_less_Suc [OF length_dropWhile_le] split: if_splits)

lemma parse_term_shorter: "parse_term s = Some (w, r) \<Longrightarrow> length r < length s"
  by (auto simp: parse_term_def Let_def dest!: leading_int_length leading_fraction_length
      dropWhile_shorter split: if_splits option.splits prod.splits)

text \<open>The sum of the terms, in unsigned 64-bit arithmetic with the check after every addition.\<close>

function parse_terms :: "string \<Rightarrow> nat \<Rightarrow> nat option" where
  "parse_terms s d = (if s = [] then Some d
     else (case parse_term s of
         None \<Rightarrow> None
       | Some (v, r) \<Rightarrow> (let d' = (d + v) mod 2 ^ 64 in if d' > 2 ^ 63 then None else parse_terms r d')))"
  by pat_completeness auto
termination
  by (relation "measure (length \<circ> fst)") (auto simp: parse_term_shorter)

declare parse_terms.simps [simp del]

definition parse_duration :: "string \<Rightarrow> int option" where
  "parse_duration s = (let neg = has_prefix s ''-'';
       t = (if neg \<or> has_prefix s ''+'' then tl s else s) in
     if t = ''0'' then Some 0
     else if t = [] then None
     else (case parse_terms t 0 of
         None \<Rightarrow> None
       | Some d \<Rightarrow> (if neg then Some (- int d) else if d > 2 ^ 63 - 1 then None else Some (int d))))"

section \<open>Printing\<close>

text \<open>
  \<open>fmtFrac\<close>: the last \<open>prec\<close> digits of a value as a fraction without its trailing zeros, in front of what
  is printed already, and the value left.
\<close>

fun frac_digits :: "nat \<Rightarrow> nat \<Rightarrow> string \<Rightarrow> string \<times> nat" where
  "frac_digits 0 v buf = (buf, v)"
| "frac_digits (Suc i) v buf =
     frac_digits i (v div 10) (if buf \<noteq> [] \<or> v mod 10 \<noteq> 0 then digit_of v # buf else buf)"

definition fmt_frac :: "nat \<Rightarrow> nat \<Rightarrow> string \<times> nat" where
  "fmt_frac prec v = (let (ds, w) = frac_digits prec v [] in (if ds = [] then [] else CHR ''.'' # ds, w))"

definition show_seconds :: "nat \<Rightarrow> string" where
  "show_seconds u = (let (frac, secs) = fmt_frac 9 u; mins = secs div 60; hours = mins div 60 in
     (if mins = 0 then []
      else (if hours = 0 then [] else show_nat hours @ ''h'') @ show_nat (mins mod 60) @ ''m'') @
     show_nat (secs mod 60) @ frac @ ''s'')"

definition show_below_second :: "nat \<Rightarrow> string" where
  "show_below_second u =
     (if u = 0 then ''0s''
      else (let (prec, name) = (if u < 1000 then (0, ''ns'')
              else if u < 1000000 then (3, [CHR 0xC2, CHR 0xB5, CHR ''s'']) else (6, ''ms''));
            (frac, w) = fmt_frac prec u in
        show_nat w @ frac @ name))"

definition show_duration :: "int \<Rightarrow> string" where
  "show_duration d = (let u = nat (abs d) in
     (if d < 0 then ''-'' else []) @
     (if u < 1000000000 then show_below_second u else show_seconds u))"

end
