(* ===== verification/Config_Doc.thy ===== *)
theory Config_Doc
  imports Config Json Durations
begin

text \<open>
  The two documents as text: what \<open>parseFile\<close> and \<open>parseRegistry\<close> accept (\<open>internal/config/file.go\<close>,
  \<open>registry.go\<close>) and the bytes \<open>WriteFile\<close> and \<open>WriteRegistry\<close> marshal. A wire struct is a record whose
  slice field keeps the memory the decoder reuses; an error is the rule that was broken.
\<close>

datatype parse_err =
    SecretShaped
  | InvalidJSON
  | UnsupportedVersion string
  | NotTheSchema
  | InvalidDuration
  | InvalidTimeout settings_err
  | InvalidDocument config_err

section \<open>The wire forms\<close>

definition no_project :: project where
  "no_project = \<lparr>ID = [], DisplayName = [], Remote = []\<rparr>"

text \<open>\<open>projectJSON\<close>, decoded with unknown fields refused.\<close>

definition project_member :: "string \<Rightarrow> json \<Rightarrow> project \<Rightarrow> project option" where
  "project_member k v p =
     (if names_field k ''id'' then map_option (\<lambda>s. p\<lparr>ID := s\<rparr>) (into_string v (ID p))
      else if names_field k ''display_name'' then map_option (\<lambda>s. p\<lparr>DisplayName := s\<rparr>) (into_string v (DisplayName p))
      else if names_field k ''remote'' then map_option (\<lambda>s. p\<lparr>Remote := s\<rparr>) (into_string v (Remote p))
      else None)"

definition into_project :: "json \<Rightarrow> project \<Rightarrow> project option" where
  "into_project = into_struct project_member"

record fileJSON =
  fj_SchemaVersion :: string
  fj_DefaultTimeout :: string
  fj_Backend :: string
  fj_OperatorKey :: string
  fj_Projects :: "project slice"

definition no_fileJSON :: fileJSON where
  "no_fileJSON = \<lparr>fj_SchemaVersion = [], fj_DefaultTimeout = [], fj_Backend = [], fj_OperatorKey = [],
     fj_Projects = None\<rparr>"

text \<open>
  The fields each version of the config document has. \<open>fileJSONV2\<close> and \<open>fileJSONV3\<close> are the current form
  without the fields that came later, so their values are those of the current form with these empty.
\<close>

definition version_fields :: "string \<Rightarrow> string list" where
  "version_fields v =
     (if v = ''2'' then [''schema_version'', ''default_timeout'', ''projects'']
      else if v = ''3'' then [''schema_version'', ''default_timeout'', ''backend'', ''projects'']
      else [''schema_version'', ''default_timeout'', ''backend'', ''operator_key'', ''projects''])"

definition file_member :: "string list \<Rightarrow> string \<Rightarrow> json \<Rightarrow> fileJSON \<Rightarrow> fileJSON option" where
  "file_member known k v r =
     (if \<not> list_ex (names_field k) known then None
      else if names_field k ''schema_version'' then
        map_option (\<lambda>s. r\<lparr>fj_SchemaVersion := s\<rparr>) (into_string v (fj_SchemaVersion r))
      else if names_field k ''default_timeout'' then
        map_option (\<lambda>s. r\<lparr>fj_DefaultTimeout := s\<rparr>) (into_string v (fj_DefaultTimeout r))
      else if names_field k ''backend'' then map_option (\<lambda>s. r\<lparr>fj_Backend := s\<rparr>) (into_string v (fj_Backend r))
      else if names_field k ''operator_key'' then
        map_option (\<lambda>s. r\<lparr>fj_OperatorKey := s\<rparr>) (into_string v (fj_OperatorKey r))
      else map_option (\<lambda>ps. r\<lparr>fj_Projects := ps\<rparr>) (into_slice no_project into_project v (fj_Projects r)))"

record registryJSON =
  rj_SchemaVersion :: string
  rj_Projects :: "project slice"

definition no_registryJSON :: registryJSON where
  "no_registryJSON = \<lparr>rj_SchemaVersion = [], rj_Projects = None\<rparr>"

definition registry_member :: "string \<Rightarrow> json \<Rightarrow> registryJSON \<Rightarrow> registryJSON option" where
  "registry_member k v r =
     (if names_field k ''schema_version'' then
        map_option (\<lambda>s. r\<lparr>rj_SchemaVersion := s\<rparr>) (into_string v (rj_SchemaVersion r))
      else if names_field k ''projects'' then
        map_option (\<lambda>ps. r\<lparr>rj_Projects := ps\<rparr>) (into_slice no_project into_project v (rj_Projects r))
      else None)"

section \<open>Reading\<close>

text \<open>The probe: only the declared version, every other field skipped.\<close>

definition probe_member :: "string \<Rightarrow> json \<Rightarrow> string \<Rightarrow> string option" where
  "probe_member k v s = (if names_field k ''schema_version'' then into_string v s else Some s)"

definition probe_version :: "string \<Rightarrow> string option" where
  "probe_version data = (case json_document data of
       None \<Rightarrow> None
     | Some j \<Rightarrow> into_struct probe_member j [])"

definition set_timeout :: "config_file \<Rightarrow> string \<Rightarrow> parse_err + config_file" where
  "set_timeout f raw =
     (if raw = [] then Inr f
      else (case parse_duration raw of
          None \<Rightarrow> Inl InvalidDuration
        | Some d \<Rightarrow> (case settings_validate d of
            Some e \<Rightarrow> Inl (InvalidTimeout e)
          | None \<Rightarrow> Inr (f\<lparr>Timeout := d\<rparr>))))"

text \<open>\<open>parseFile\<close>: the document, and the version it declared.\<close>

definition parse_file :: "string \<Rightarrow> parse_err + config_file \<times> string" where
  "parse_file data =
     (if contains_secret_shape data then Inl SecretShaped
      else (case probe_version data of
          None \<Rightarrow> Inl InvalidJSON
        | Some v \<Rightarrow>
            (if \<not> readable_schema_version v then Inl (UnsupportedVersion v)
             else (case decode_strict (file_member (version_fields v)) data no_fileJSON of
                 None \<Rightarrow> Inl NotTheSchema
               | Some raw \<Rightarrow> (case set_timeout \<lparr>SchemaVersion = ConfigSchemaVersion, Timeout = 0,
                     Backend = fj_Backend raw, OperatorKey = fj_OperatorKey raw, Projects = []\<rparr>
                     (fj_DefaultTimeout raw) of
                   Inl e \<Rightarrow> Inl e
                 | Inr f0 \<Rightarrow> (let f = f0\<lparr>Projects := slice_elems (fj_Projects raw)\<rparr> in
                     case file_validate f of
                       Some e \<Rightarrow> Inl (InvalidDocument e)
                     | None \<Rightarrow> Inr (f, v)))))))"

definition readableRegistryVersions :: "string list" where
  "readableRegistryVersions = [''1'', ''2'']"

definition RegistrySchemaVersion :: string where "RegistrySchemaVersion = ''2''"

definition parse_registry :: "string \<Rightarrow> parse_err + project list" where
  "parse_registry data =
     (if contains_secret_shape data then Inl SecretShaped
      else (case probe_version data of
          None \<Rightarrow> Inl InvalidJSON
        | Some v \<Rightarrow>
            (if v \<notin> set readableRegistryVersions then Inl (UnsupportedVersion v)
             else (case decode_strict registry_member data no_registryJSON of
                 None \<Rightarrow> Inl NotTheSchema
               | Some raw \<Rightarrow> (let ps = slice_elems (rj_Projects raw) in
                   case validate_projects ps of
                     Some e \<Rightarrow> Inl (InvalidDocument e)
                   | None \<Rightarrow> Inr ps)))))"

section \<open>Writing\<close>

definition project_json :: "project \<Rightarrow> json" where
  "project_json p = JObj [(''id'', JStr (ID p)), (''display_name'', JStr (DisplayName p)), (''remote'', JStr (Remote p))]"

definition projects_json :: "project list \<Rightarrow> json" where
  "projects_json ps = JArr (map project_json ps)"

definition registry_json :: "project list \<Rightarrow> json" where
  "registry_json ps = JObj [(''schema_version'', JStr RegistrySchemaVersion), (''projects'', projects_json ps)]"

text \<open>The bytes of a registry whose entries are in order, with the final newline.\<close>

definition registry_text :: "project list \<Rightarrow> string" where
  "registry_text ps = print_value 0 (registry_json ps) @ [newline]"

text \<open>\<open>omitempty\<close>: an empty text is left out.\<close>

definition optional_member :: "string \<Rightarrow> string \<Rightarrow> (string \<times> json) list" where
  "optional_member k s = (if s = [] then [] else [(k, JStr s)])"

definition file_json :: "config_file \<Rightarrow> json" where
  "file_json f = JObj ([(''schema_version'', JStr (SchemaVersion f))] @
     optional_member ''default_timeout'' (if Timeout f \<noteq> 0 then show_duration (Timeout f) else []) @
     optional_member ''backend'' (Backend f) @
     optional_member ''operator_key'' (OperatorKey f) @
     [(''projects'', projects_json (Projects f))])"

definition file_text :: "config_file \<Rightarrow> string" where
  "file_text f = print_value 0 (file_json f) @ [newline]"

end
