(* ===== verification/Config_Store.thy ===== *)
theory Config_Store
  imports Config_Doc Projects "HOL-Library.Word"
begin

text \<open>
  The documents on disk: the trust rule (\<open>internal/config/trust.go\<close>, \<open>trust_darwinlinux.go\<close>), the crash-safe
  write (\<open>storage.go\<close>), the two write paths with their read back and the registry lock (\<open>file.go\<close>,
  \<open>registry.go\<close>, \<open>registry_lock.go\<close>). The file tree is a map from paths to objects; every system call may
  fail, and which ones do is part of the environment, as is what another process does between a rename
  and the read back. Go's \<open>MkdirAll\<close>, \<open>CreateTemp\<close>, \<open>Rename\<close> and the opens are modelled as far as the
  policy depends on them.
\<close>

unbundle bit_operations_syntax

section \<open>Objects and trust\<close>

datatype obj_type = objOther | objRegular | objDir | objSymlink

record fnode =
  n_type :: obj_type
  n_perm :: "32 word"
  n_uid :: "32 word"
  n_data :: string

type_synonym tree = "string \<Rightarrow> fnode option"

datatype wstep = MakeDir | CreateTemp | ChmodTemp | WriteTemp | SyncTemp | CloseTemp | RenameTemp

datatype store_err =
    NotExist
  | OpenFailed
  | WrongType
  | InsecurePermissions
  | WrongOwner
  | ReadFailed
  | Unparsable parse_err
  | ConfigMissing
  | StepFailed wstep
  | VersionNotCurrent string
  | BadDocument config_err
  | Refused config_err
  | NotThereOnReadBack
  | ReadBackDiffers
  | LockFailed

record fs_env =
  euid :: "32 word"
  open_ok :: "string \<Rightarrow> bool"
  read_ok :: "string \<Rightarrow> bool"
  step_ok :: "wstep \<Rightarrow> bool"
  written :: nat \<comment> \<open>how many bytes a failing write leaves behind\<close>
  temp_suffix :: string
  remove_ok :: bool
  lock_ok :: bool
  link_dir :: "string \<Rightarrow> bool" \<comment> \<open>whether a symlink leads to a directory\<close>
  meanwhile :: "tree \<Rightarrow> tree" \<comment> \<open>what others do before the read back\<close>

text \<open>\<open>verifyTrusted\<close>: \<open>None\<close> is a nil error. The mask is octal 077.\<close>

definition verify_trusted :: "obj_type \<Rightarrow> obj_type \<Rightarrow> 32 word \<Rightarrow> 32 word \<Rightarrow> 32 word \<Rightarrow> store_err option" where
  "verify_trusted want typ perm uid eu =
     (if typ \<noteq> want then Some WrongType
      else if perm AND 0x3F \<noteq> 0 then Some InsecurePermissions
      else if uid \<noteq> eu then Some WrongOwner
      else None)"

text \<open>\<open>fstatObj\<close>: the permission bits are the low nine.\<close>

definition fstat_perm :: "fnode \<Rightarrow> 32 word" where
  "fstat_perm n = n_perm n AND 0x1FF"

definition open_trusted_file :: "fs_env \<Rightarrow> tree \<Rightarrow> string \<Rightarrow> store_err + string" where
  "open_trusted_file env t path = (case t path of
       None \<Rightarrow> Inl NotExist
     | Some n \<Rightarrow>
         (if n_type n = objSymlink \<or> \<not> open_ok env path then Inl OpenFailed
          else (case verify_trusted objRegular (n_type n) (fstat_perm n) (n_uid n) (euid env) of
              Some e \<Rightarrow> Inl e
            | None \<Rightarrow> (if read_ok env path then Inr (n_data n) else Inl ReadFailed))))"

definition stat_trusted_dir :: "fs_env \<Rightarrow> tree \<Rightarrow> string \<Rightarrow> store_err option" where
  "stat_trusted_dir env t dir = (case t dir of
       None \<Rightarrow> Some NotExist
     | Some n \<Rightarrow>
         (if n_type n \<noteq> objDir \<or> \<not> open_ok env dir then Some OpenFailed
          else verify_trusted objDir (n_type n) (fstat_perm n) (n_uid n) (euid env)))"

definition stat_trusted_dir_if_exists :: "fs_env \<Rightarrow> tree \<Rightarrow> string \<Rightarrow> store_err option" where
  "stat_trusted_dir_if_exists env t dir = (case stat_trusted_dir env t dir of
       None \<Rightarrow> None | Some NotExist \<Rightarrow> None | Some e \<Rightarrow> Some e)"

section \<open>The crash-safe write\<close>

text \<open>\<open>os.MkdirAll\<close>: the directories on the way, outermost first.\<close>

definition dir_chain :: "string \<Rightarrow> string list" where
  "dir_chain d = map (\<lambda>i. take i d) (filter (\<lambda>i. i = length d \<or> d ! i = CHR ''/'') [1..<Suc (length d)])"

definition private_dir :: "fs_env \<Rightarrow> fnode" where
  "private_dir env = \<lparr>n_type = objDir, n_perm = 0x1C0, n_uid = euid env, n_data = []\<rparr>"

definition private_file :: "fs_env \<Rightarrow> string \<Rightarrow> fnode" where
  "private_file env data = \<lparr>n_type = objRegular, n_perm = 0x180, n_uid = euid env, n_data = data\<rparr>"

fun mkdirs :: "fs_env \<Rightarrow> string list \<Rightarrow> tree \<Rightarrow> bool \<times> tree" where
  "mkdirs env [] t = (True, t)"
| "mkdirs env (d # ds) t = (case t d of
       None \<Rightarrow> (if step_ok env MakeDir then mkdirs env ds (t(d \<mapsto> private_dir env)) else (False, t))
     | Some n \<Rightarrow> (if n_type n = objDir \<or> n_type n = objSymlink \<and> link_dir env d then mkdirs env ds t
                  else (False, t)))"

definition mkdir_all :: "fs_env \<Rightarrow> string \<Rightarrow> tree \<Rightarrow> bool \<times> tree" where
  "mkdir_all env dir t = mkdirs env (dir_chain dir) t"

definition temp_path :: "fs_env \<Rightarrow> string \<Rightarrow> string" where
  "temp_path env path = path_dir path @ ''/.tmp-'' @ path_base path @ ''-'' @ temp_suffix env"

text \<open>
  \<open>writeFilePrivate\<close>: the outcome, and every tree a reader can meet on the way, the last one being the
  one that is left. Removing the temporary file on a failure is itself allowed to fail.
\<close>

definition abandon :: "fs_env \<Rightarrow> string \<Rightarrow> wstep \<Rightarrow> tree list \<Rightarrow> tree \<Rightarrow> store_err option \<times> tree list" where
  "abandon env tmp stage seen t = (Some (StepFailed stage),
     seen @ [if remove_ok env then t(tmp := None) else t])"

definition write_steps :: "fs_env \<Rightarrow> string \<Rightarrow> string \<Rightarrow> tree \<Rightarrow> store_err option \<times> tree list" where
  "write_steps env path data t = (let (made, t1) = mkdir_all env (path_dir path) t; tmp = temp_path env path in
     if \<not> made then (Some (StepFailed MakeDir), [t, t1])
     else if \<not> step_ok env CreateTemp \<or> t1 tmp \<noteq> None then (Some (StepFailed CreateTemp), [t, t1])
     else (let t2 = t1(tmp \<mapsto> private_file env []); t3 = t1(tmp \<mapsto> private_file env data) in
       if \<not> step_ok env ChmodTemp then abandon env tmp ChmodTemp [t, t1, t2] t2
       else if \<not> step_ok env WriteTemp then
         (let t3' = t1(tmp \<mapsto> private_file env (take (written env) data)) in
          abandon env tmp WriteTemp [t, t1, t2, t3'] t3')
       else if \<not> step_ok env SyncTemp then abandon env tmp SyncTemp [t, t1, t2, t3] t3
       else if \<not> step_ok env CloseTemp then abandon env tmp CloseTemp [t, t1, t2, t3] t3
       else if \<not> step_ok env RenameTemp \<or> (case t3 path of Some n \<Rightarrow> n_type n = objDir | None \<Rightarrow> False) then
         abandon env tmp RenameTemp [t, t1, t2, t3] t3
       else (None, [t, t1, t2, t3, t3(path \<mapsto> private_file env data, tmp := None)])))"

definition write_file_private :: "fs_env \<Rightarrow> string \<Rightarrow> string \<Rightarrow> tree \<Rightarrow> store_err option \<times> tree" where
  "write_file_private env path data t = map_prod id last (write_steps env path data t)"

section \<open>Reading the documents\<close>

record paths =
  p_Instance :: string
  ConfigDir :: string
  RegistryFile :: string
  ConfigFile :: string
  RootConfigFile :: string
  explicitConfig :: bool

record runtime =
  r_File :: config_file
  ConfigLoaded :: bool
  DeclaredSchemaVersion :: string

definition zero_file :: config_file where
  "zero_file = \<lparr>SchemaVersion = [], Timeout = 0, Backend = [], OperatorKey = [], Projects = []\<rparr>"

definition first_run :: runtime where
  "first_run = \<lparr>r_File = zero_file, ConfigLoaded = False, DeclaredSchemaVersion = []\<rparr>"

text \<open>\<open>loadFrom\<close>.\<close>

definition load_from :: "fs_env \<Rightarrow> paths \<Rightarrow> tree \<Rightarrow> store_err + runtime" where
  "load_from env p t =
     (case (if explicitConfig p then None else stat_trusted_dir_if_exists env t (ConfigDir p)) of
       Some e \<Rightarrow> Inl e
     | None \<Rightarrow> (case open_trusted_file env t (ConfigFile p) of
         Inl NotExist \<Rightarrow> (if explicitConfig p then Inl ConfigMissing else Inr first_run)
       | Inl e \<Rightarrow> Inl e
       | Inr data \<Rightarrow> (case parse_file data of
           Inl e \<Rightarrow> Inl (Unparsable e)
         | Inr (f, v) \<Rightarrow> Inr \<lparr>r_File = f, ConfigLoaded = True, DeclaredSchemaVersion = v\<rparr>)))"

text \<open>\<open>loadRegistry\<close>: the entries, or \<open>None\<close> for a registry that is not there.\<close>

definition load_registry :: "fs_env \<Rightarrow> string \<Rightarrow> bool \<Rightarrow> tree \<Rightarrow> store_err + project list option" where
  "load_registry env path checkParent t =
     (case (if checkParent then stat_trusted_dir_if_exists env t (path_dir path) else None) of
       Some e \<Rightarrow> Inl e
     | None \<Rightarrow> (case open_trusted_file env t path of
         Inl NotExist \<Rightarrow> Inr None
       | Inl e \<Rightarrow> Inl e
       | Inr data \<Rightarrow> (case parse_registry data of
           Inl e \<Rightarrow> Inl (Unparsable e)
         | Inr ps \<Rightarrow> Inr (Some ps))))"

definition legacy_projects :: "fs_env \<Rightarrow> string \<Rightarrow> tree \<Rightarrow> store_err + project list" where
  "legacy_projects env path t = (case open_trusted_file env t path of
       Inl NotExist \<Rightarrow> Inr []
     | Inl e \<Rightarrow> Inl e
     | Inr data \<Rightarrow> (case parse_file data of
         Inl e \<Rightarrow> Inl (Unparsable e)
       | Inr (f, v) \<Rightarrow> Inr (Projects f)))"

definition resolve_registry :: "fs_env \<Rightarrow> paths \<Rightarrow> tree \<Rightarrow> store_err + project list" where
  "resolve_registry env p t = (case load_registry env (RegistryFile p) (\<not> explicitConfig p) t of
       Inl e \<Rightarrow> Inl e
     | Inr (Some ps) \<Rightarrow> Inr ps
     | Inr None \<Rightarrow> legacy_projects env (RootConfigFile p) t)"

section \<open>Writing the documents\<close>

text \<open>\<open>writeRegistry\<close> and \<open>verifyPersistedRegistry\<close>.\<close>

definition verify_registry :: "fs_env \<Rightarrow> string \<Rightarrow> project list \<Rightarrow> bool \<Rightarrow> tree \<Rightarrow> store_err option" where
  "verify_registry env path want checkParent t = (case load_registry env path checkParent t of
       Inl e \<Rightarrow> Some e
     | Inr None \<Rightarrow> Some NotThereOnReadBack
     | Inr (Some got) \<Rightarrow> (if got \<noteq> want then Some ReadBackDiffers else None))"

definition in_order :: "project list \<Rightarrow> project list" where
  "in_order ps = sort_key ID ps"

definition store_registry :: "fs_env \<Rightarrow> string \<Rightarrow> project list \<Rightarrow> bool \<Rightarrow> tree \<Rightarrow> store_err option \<times> tree" where
  "store_registry env path ps checkParent t = (let out = in_order ps in
     case validate_projects out of
       Some e \<Rightarrow> (Some (BadDocument e), t)
     | None \<Rightarrow>
         (case (if checkParent then stat_trusted_dir_if_exists env t (path_dir path) else None) of
           Some e \<Rightarrow> (Some e, t)
         | None \<Rightarrow> (case write_file_private env path (registry_text out) t of
             (Some e, t') \<Rightarrow> (Some e, t')
           | (None, t') \<Rightarrow> (let t'' = meanwhile env t' in (verify_registry env path out checkParent t'', t'')))))"

definition store_registry_for_paths :: "fs_env \<Rightarrow> paths \<Rightarrow> project list \<Rightarrow> tree \<Rightarrow> store_err option \<times> tree" where
  "store_registry_for_paths env p ps t = store_registry env (RegistryFile p) ps (\<not> explicitConfig p) t"

text \<open>\<open>WriteFile\<close> and \<open>verifyPersisted\<close>.\<close>

definition verify_file :: "fs_env \<Rightarrow> string \<Rightarrow> config_file \<Rightarrow> tree \<Rightarrow> store_err option" where
  "verify_file env path want t = (case open_trusted_file env t path of
       Inl e \<Rightarrow> Some e
     | Inr data \<Rightarrow> (case parse_file data of
         Inl e \<Rightarrow> Some (Unparsable e)
       | Inr (got, v) \<Rightarrow> (if got \<noteq> want then Some ReadBackDiffers else None)))"

definition store_file :: "fs_env \<Rightarrow> string \<Rightarrow> config_file \<Rightarrow> tree \<Rightarrow> store_err option \<times> tree" where
  "store_file env path f t =
     (if SchemaVersion f \<noteq> ConfigSchemaVersion then (Some (VersionNotCurrent (SchemaVersion f)), t)
      else (let out = f\<lparr>Projects := in_order (Projects f)\<rparr> in
        case file_validate out of
          Some e \<Rightarrow> (Some (BadDocument e), t)
        | None \<Rightarrow> (case stat_trusted_dir_if_exists env t (path_dir path) of
            Some e \<Rightarrow> (Some e, t)
          | None \<Rightarrow> (case write_file_private env path (file_text out) t of
              (Some e, t') \<Rightarrow> (Some e, t')
            | (None, t') \<Rightarrow> (let t'' = meanwhile env t' in (verify_file env path out t'', t''))))))"

section \<open>Updating under the lock\<close>

definition with_registry_lock :: "fs_env \<Rightarrow> string \<Rightarrow> (tree \<Rightarrow> store_err option \<times> tree) \<Rightarrow> tree \<Rightarrow>
    store_err option \<times> tree" where
  "with_registry_lock env path act t = (let dir = path_dir path in
     case stat_trusted_dir_if_exists env t dir of
       Some e \<Rightarrow> (Some e, t)
     | None \<Rightarrow> (let (made, t1) = mkdir_all env dir t in
         if \<not> made then (Some (StepFailed MakeDir), t1)
         else (case stat_trusted_dir_if_exists env t1 dir of
             Some e \<Rightarrow> (Some e, t1)
           | None \<Rightarrow> (if \<not> lock_ok env then (Some LockFailed, t1) else act t1))))"

definition store_update :: "fs_env \<Rightarrow> paths \<Rightarrow> (project list \<Rightarrow> config_err + project list) \<Rightarrow> tree \<Rightarrow>
    store_err option \<times> tree" where
  "store_update env p f = with_registry_lock env (RegistryFile p) (\<lambda>t.
     case resolve_registry env p t of
       Inl e \<Rightarrow> (Some e, t)
     | Inr ps \<Rightarrow> (case f ps of
         Inl e \<Rightarrow> (Some (Refused e), t)
       | Inr next \<Rightarrow> (if next = ps then (None, t) else store_registry env (RegistryFile p) next True t)))"

end
