(* ===== verification/Json_Facts.thy ===== *)
theory Json_Facts
  imports Json
begin

text \<open>
  What is printed is read back: string literals, values and whole documents. The lemmas follow the
  printer, one per kind of value.
\<close>

section \<open>Runes and the bytes they take\<close>

lemma decode4_cases:
  assumes "decode4 b0 b1 b2 b3 = (r, w)" and "\<not> (r = rune_error \<and> w \<le> 1)"
  obtains (one) "w = 1" "b0 < 0x80" "r = b0"
  | (two) "w = 2" "0x80 \<le> b0" "0x80 \<le> b1" "0x80 \<le> r" "\<And>x y. decode4 b0 b1 x y = (r, w)"
  | (three) "w = 3" "0x80 \<le> b0" "0x80 \<le> b1" "0x80 \<le> b2" "0x80 \<le> r" "\<And>y. decode4 b0 b1 b2 y = (r, w)"
  | (four) "w = 4" "0x80 \<le> b0" "0x80 \<le> b1" "0x80 \<le> b2" "0x80 \<le> b3" "0x80 \<le> r"
proof -
  define A where "A \<longleftrightarrow> cont 0xC2 0xDF b0 \<and> cont 0x80 0xBF b1"
  define B where "B \<longleftrightarrow> cont 0xE0 0xEF b0 \<and>
    cont (if b0 = 0xE0 then 0xA0 else 0x80) (if b0 = 0xED then 0x9F else 0xBF) b1 \<and> cont 0x80 0xBF b2"
  define C where "C \<longleftrightarrow> cont 0xF0 0xF4 b0 \<and>
    cont (if b0 = 0xF0 then 0x90 else 0x80) (if b0 = 0xF4 then 0x8F else 0xBF) b1 \<and>
    cont 0x80 0xBF b2 \<and> cont 0x80 0xBF b3"
  define r2 where "r2 = (b0 - 0xC0) * 0x40 + (b1 - 0x80)"
  define r3 where "r3 = (b0 - 0xE0) * 0x1000 + (b1 - 0x80) * 0x40 + (b2 - 0x80)"
  define r4 where "r4 = (b0 - 0xF0) * 0x40000 + (b1 - 0x80) * 0x1000 + (b2 - 0x80) * 0x40 + (b3 - 0x80)"
  have D: "decode4 b0 b1 b2 b3 = (if b0 < 0x80 then (b0, 1) else if A then (r2, 2) else if B then (r3, 3)
      else if C then (r4, 4) else (rune_error, 1))"
    unfolding decode4_def A_def B_def C_def r2_def r3_def r4_def ..
  show thesis
  proof (cases "b0 < 0x80")
    case True
    then have "(b0, 1) = (r, w)" using assms(1) D by (simp only: if_True)
    then show thesis using one True by blast
  next
    case F: False
    then have b0: "0x80 \<le> b0" by (simp only: not_less)
    show thesis
    proof (cases A)
      case True
      then have rw: "r = r2" "w = 2" using assms(1) D F by auto
      have b1: "0x80 \<le> b1" and any: "decode4 b0 b1 x y = (r, w)" for x y
        using True F rw unfolding A_def decode4_def r2_def by (simp_all add: cont_def)
      have "0x80 \<le> r2" using True unfolding A_def r2_def cont_def by linarith
      then show thesis using two rw b0 b1 any by blast
    next
      case nA: False
      show thesis
      proof (cases B)
        case True
        then have rw: "r = r3" "w = 3" using assms(1) D F nA by auto
        have b1: "0x80 \<le> b1" and b2: "0x80 \<le> b2"
          using True by (auto simp: B_def cont_def split: if_splits)
        have any: "decode4 b0 b1 b2 y = (r, w)" for y
          using True F nA rw unfolding A_def B_def decode4_def r3_def by simp
        have "0x80 \<le> r3"
        proof (cases "b0 = 0xE0")
          case True
          then have "0xA0 \<le> b1" using \<open>B\<close> unfolding B_def cont_def by simp
          then show ?thesis using b2 unfolding r3_def by linarith
        next
          case False
          then have "0xE1 \<le> b0" using \<open>B\<close> unfolding B_def cont_def by linarith
          then show ?thesis unfolding r3_def by linarith
        qed
        then show thesis using three rw b0 b1 b2 any by blast
      next
        case nB: False
        then have "C" using assms D F nA by (auto split: if_splits)
        then have rw: "r = r4" "w = 4" using assms(1) D F nA nB by auto
        have b1: "0x80 \<le> b1" and b2: "0x80 \<le> b2" and b3: "0x80 \<le> b3"
          using \<open>C\<close> by (auto simp: C_def cont_def split: if_splits)
        have "0x80 \<le> r4"
        proof (cases "b0 = 0xF0")
          case True
          then have "0x90 \<le> b1" using \<open>C\<close> unfolding C_def cont_def by simp
          then show ?thesis using b2 b3 unfolding r4_def by linarith
        next
          case False
          then have "0xF1 \<le> b0" using \<open>C\<close> unfolding C_def cont_def by linarith
          then show ?thesis unfolding r4_def by linarith
        qed
        then show thesis using four rw b0 b1 b2 b3 by blast
      qed
    qed
  qed
qed

lemma byte_at_pos: "0x80 \<le> byte_at s i \<Longrightarrow> i < length s"
  by (simp add: byte_at_def split: if_splits)

lemma byte_at_take: "i < w \<Longrightarrow> i < length s \<Longrightarrow> byte_at (take w s @ u) i = byte_at s i"
  by (auto simp: byte_at_def nth_append)

text \<open>A rune that decodes is decoded from its own bytes, whatever follows them.\<close>

lemma decode_rune_take:
  assumes "decode_rune s = (r, w)" and "\<not> (r = rune_error \<and> w \<le> 1)" and "s \<noteq> []"
  shows "decode_rune (take w s @ u) = (r, w)" and "1 \<le> w" and "w \<le> length s"
    and "r < 0x80 \<longleftrightarrow> byte_of (hd s) < 0x80" and "r < 0x80 \<Longrightarrow> w = 1 \<and> r = byte_of (hd s)"
proof -
  have D: "decode4 (byte_at s 0) (byte_at s 1) (byte_at s 2) (byte_at s 3) = (r, w)"
    using assms by (simp add: decode_rune_def)
  have h: "byte_at s 0 = byte_of (hd s)" using assms(3) by (simp add: byte_at_def hd_conv_nth)
  have "decode_rune (take w s @ u) = (r, w) \<and> 1 \<le> w \<and> w \<le> length s \<and>
      (r < 0x80 \<longleftrightarrow> byte_of (hd s) < 0x80) \<and> (r < 0x80 \<longrightarrow> w = 1 \<and> r = byte_of (hd s))"
    using D assms(2)
  proof (cases rule: decode4_cases)
    case one
    then show ?thesis
      using assms(3) h by (subst decode_rune_def) (auto simp: decode4_def byte_at_take Suc_le_eq)
  next
    case two
    then have "1 < length s" by (intro byte_at_pos) simp
    with two show ?thesis
      using assms(3) h by (subst decode_rune_def) (auto simp: byte_at_take)
  next
    case three
    then have "2 < length s" by (intro byte_at_pos) simp
    with three show ?thesis
      using assms(3) h by (subst decode_rune_def) (auto simp: byte_at_take)
  next
    case four
    then have "3 < length s" by (intro byte_at_pos) simp
    with four D show ?thesis
      using assms(3) h by (subst decode_rune_def) (auto simp: byte_at_take)
  qed
  then show "decode_rune (take w s @ u) = (r, w)" and "1 \<le> w" and "w \<le> length s"
    and "r < 0x80 \<longleftrightarrow> byte_of (hd s) < 0x80" and "r < 0x80 \<Longrightarrow> w = 1 \<and> r = byte_of (hd s)"
    by simp_all
qed

section \<open>String literals\<close>

lemma rune_spans_step:
  "s \<noteq> [] \<Longrightarrow> decode_rune s = (r, w) \<Longrightarrow>
     rune_spans s = (r, take (max 1 w) s) # rune_spans (drop (max 1 w) s)"
  by (subst rune_spans.simps) (simp add: Let_def)

lemma hex_value_digit [simp]: "hex_value (hex_digit n) = Some (n mod 16)"
proof -
  have "list_all (\<lambda>k. hex_value (''0123456789abcdef'' ! k) = Some k) [0..<16]" by code_simp
  moreover have "n mod 16 \<in> set [0..<16]" by simp
  ultimately show ?thesis by (simp only: list_all_iff hex_digit_def)
qed

lemma char_of_byte_of [simp]: "char_of (byte_of c) = c"
  by (simp add: byte_of_def)

lemma hex_value_zero [simp]: "hex_value CHR ''0'' = Some 0"
  by code_simp

lemma json_escape_hex:
  assumes "byte_of c < 0x80"
  shows "json_escape (''u00'' @ [hex_digit (byte_of c div 16), hex_digit (byte_of c)] @ u) = Some ([c], 5)"
proof -
  have "byte_of c div 16 mod 16 * 16 + byte_of c mod 16 = byte_of c"
    using assms by (simp add: mod_less)
  then have "hex4 (''00'' @ [hex_digit (byte_of c div 16), hex_digit (byte_of c)] @ u) = Some (byte_of c)"
    by (simp add: hex4_def)
  then show ?thesis
    using assms by (simp add: json_escape_def dquote_def backslash_def encode_rune_def)
qed

definition prepend :: "string \<Rightarrow> (string \<times> string) option \<Rightarrow> (string \<times> string) option" where
  "prepend t = map_option (\<lambda>(s, rest). (t @ s, rest))"

lemma json_chars_escape:
  "json_escape (e @ u) = Some (out, length e) \<Longrightarrow> json_chars (backslash # e @ u) = prepend out (json_chars u)"
  by (simp add: dquote_def backslash_def prepend_def)

lemma byte_of_char: "n < 256 \<Longrightarrow> byte_of (char_of n) = n"
  by (simp add: byte_of_def)

lemma char_byte: "byte_of c = n \<Longrightarrow> c = char_of n"
  by auto

lemma json_escape_short:
  assumes "byte_of c \<in> {0x22, 0x5C, 8, 9, 0xA, 0xC, 0xD}"
  shows "\<exists>x. escape_rune (byte_of c, [c]) = [backslash, x] \<and> json_escape (x # u) = Some ([c], 1)"
proof -
  have "c \<in> char_of ` {0x22, 0x5C, 8, 9, 0xA, 0xC, 0xD::nat}"
    using assms char_of_byte_of by (metis image_eqI)
  moreover have "char_of ` {0x22, 0x5C, 8, 9, 0xA, 0xC, 0xD::nat} =
      {dquote, backslash, CHR 0x08, CHR 0x09, CHR 0x0A, CHR 0x0C, CHR 0x0D}"
    by code_simp
  ultimately have "c \<in> {dquote, backslash, CHR 0x08, CHR 0x09, CHR 0x0A, CHR 0x0C, CHR 0x0D}" by blast
  then show ?thesis
    by (elim insertE emptyE)
      (simp_all add: escape_rune_def byte_of_def json_escape_def dquote_def backslash_def)
qed

lemma json_chars_ascii:
  assumes "byte_of c < 0x80"
  shows "json_chars (escape_rune (byte_of c, [c]) @ u) = prepend [c] (json_chars u)"
proof -
  have simple: "json_chars (backslash # x # u) = prepend out (json_chars u)"
    if "json_escape (x # u) = Some (out, 1)" for x out
    using json_chars_escape [of "[x]" u out] that by simp
  consider (short) "byte_of c \<in> {0x22, 0x5C, 8, 9, 0xA, 0xC, 0xD}"
    | (hex) "byte_of c \<notin> {0x22, 0x5C, 8, 9, 0xA, 0xC, 0xD}" "byte_of c < 0x20 \<or> byte_of c \<in> {0x3C, 0x3E, 0x26}"
    | (plain) "byte_of c \<notin> {0x22, 0x5C, 0x3C, 0x3E, 0x26}" "\<not> byte_of c < 0x20"
    by fastforce
  then show ?thesis
  proof cases
    case short
    then obtain x where "escape_rune (byte_of c, [c]) = [backslash, x]" "json_escape (x # u) = Some ([c], 1)"
      using json_escape_short by blast
    then show ?thesis using simple by simp
  next
    case hex
    then have "escape_rune (byte_of c, [c]) =
        backslash # (''u00'' @ [hex_digit (byte_of c div 16), hex_digit (byte_of c)])"
      using assms by (auto simp: escape_rune_def)
    then show ?thesis
      using json_chars_escape [of "''u00'' @ [hex_digit (byte_of c div 16), hex_digit (byte_of c)]" u "[c]"]
        json_escape_hex [OF assms, of u] by simp
  next
    case plain
    then have "c \<noteq> dquote" "c \<noteq> backslash" by (auto simp: dquote_def backslash_def byte_of_def)
    moreover have "escape_rune (byte_of c, [c]) = [c]" using plain assms by (auto simp: escape_rune_def)
    moreover have "decode_rune (c # u) = (byte_of c, 1)"
      using assms by (simp add: decode_rune_def decode4_def byte_at_def)
    ultimately show ?thesis using plain assms by (simp add: prepend_def rune_error_def)
  qed
qed

lemma decode_rune_width: "decode_rune s = (r, w) \<Longrightarrow> s \<noteq> [] \<Longrightarrow> 1 \<le> w"
  by (auto simp: decode_rune_def decode4_def split: if_splits)

lemma json_chars_high:
  assumes "decode_rune s = (r, w)" and "\<not> (r = rune_error \<and> w \<le> 1)" and "s \<noteq> []" and "\<not> r < 0x80"
  shows "json_chars (take w s @ u) = prepend (take w s) (json_chars u)"
proof -
  note D = decode_rune_take [OF assms(1-3)]
  obtain c t where ct: "take w s = c # t" and c: "c = hd s"
    using D(2,3) assms(3) by (cases s; cases w) auto
  have "\<not> byte_of c < 0x80" using D(4) assms(4) c by simp
  moreover from this have "c \<noteq> dquote" "c \<noteq> backslash"
    by (auto simp: dquote_def backslash_def byte_of_def)
  moreover have len: "length (take w s) = w" using D(3) by simp
  moreover have "decode_rune (c # t @ u) = (r, w)" using D(1) [of u] ct by simp
  moreover have "\<not> (r = rune_error \<and> w = Suc 0)" using assms(2) by auto
  moreover have "max (Suc 0) w = w" using D(2) by simp
  moreover have "take w (c # t @ u) = c # t" "drop w (c # t @ u) = u"
    using ct len by (metis append_Cons append_eq_conv_conj)+
  ultimately show ?thesis by (auto simp: ct prepend_def simp del: take_append drop_append)
qed

text \<open>The two line separators, the only runes outside ASCII that are escaped.\<close>

lemma separators:
  assumes "decode_rune s = (r, w)" and "s \<noteq> []" and "r = 0x2028 \<or> r = 0x2029"
  shows "take w s = encode_rune r"
proof -
  obtain b0 b1 b2 b3 where b: "b0 = byte_at s 0" "b1 = byte_at s 1" "b2 = byte_at s 2" "b3 = byte_at s 3" by blast
  have D: "decode4 b0 b1 b2 b3 = (r, w)" using assms(1,2) b by (simp add: decode_rune_def)
  define r2 where "r2 = (b0 - 0xC0) * 0x40 + (b1 - 0x80)"
  define r3 where "r3 = (b0 - 0xE0) * 0x1000 + (b1 - 0x80) * 0x40 + (b2 - 0x80)"
  define r4 where "r4 = (b0 - 0xF0) * 0x40000 + (b1 - 0x80) * 0x1000 + (b2 - 0x80) * 0x40 + (b3 - 0x80)"
  have two: "r2 < 0x2028" if "b0 \<le> 0xDF" "b1 \<le> 0xBF"
    using that unfolding r2_def by linarith
  have four: "0x2029 < r4" if "0xF0 \<le> b0" "b0 = 0xF0 \<longrightarrow> 0x90 \<le> b1"
    using that unfolding r4_def by (cases "b0 = 0xF0") linarith+
  have three: "b0 = 0xE2 \<and> b1 = 0x80 \<and> b2 = 0x80 + (r3 - 0x2000)"
    if "0xE0 \<le> b0" "b0 = 0xE0 \<longrightarrow> 0xA0 \<le> b1" "0x80 \<le> b1" "b1 \<le> 0xBF" "0x80 \<le> b2" "b2 \<le> 0xBF"
      "r3 = 0x2028 \<or> r3 = 0x2029"
  proof -
    have "b0 = 0xE2" using that unfolding r3_def by linarith
    moreover from this have "b1 = 0x80" using that unfolding r3_def by linarith
    ultimately show ?thesis using that unfolding r3_def by linarith
  qed
  have "(if b0 < 0x80 then (b0, 1) else if cont 0xC2 0xDF b0 \<and> cont 0x80 0xBF b1 then (r2, 2)
      else if cont 0xE0 0xEF b0 \<and> cont (if b0 = 0xE0 then 0xA0 else 0x80) (if b0 = 0xED then 0x9F else 0xBF) b1 \<and>
        cont 0x80 0xBF b2 then (r3, 3)
      else if cont 0xF0 0xF4 b0 \<and> cont (if b0 = 0xF0 then 0x90 else 0x80) (if b0 = 0xF4 then 0x8F else 0xBF) b1 \<and>
        cont 0x80 0xBF b2 \<and> cont 0x80 0xBF b3 then (r4, 4)
      else (rune_error, 1)) = (r, w)"
    using D unfolding decode4_def r2_def r3_def r4_def .
  then have "w = 3 \<and> b0 = 0xE2 \<and> b1 = 0x80 \<and> b2 = 0x80 + (r - 0x2000)"
    using two three four assms(3)
    by (simp add: cont_def rune_error_def split: if_splits)
  then have w: "w = 3" and e: "b0 = 0xE2" "b1 = 0x80" "b2 = 0x80 + (r - 0x2000)" by simp_all
  then have l: "2 < length s" using b(3) assms(3) by (intro byte_at_pos) auto
  then have "take 3 s = [s ! 0, s ! 1, s ! 2]"
    by (cases s; cases "tl s"; cases "tl (tl s)") (auto simp: numeral_3_eq_3)
  also have "\<dots> = map char_of [b0, b1, b2]"
    using l b assms(2) by (simp add: byte_at_def)
  also have "\<dots> = encode_rune r"
    using e assms(3) by (auto simp: encode_rune_def)
  finally show ?thesis using w by simp
qed

lemma json_chars_rune:
  assumes "decode_rune s = (r, w)" and "\<not> (r = rune_error \<and> w \<le> 1)" and "s \<noteq> []"
  shows "json_chars (escape_rune (r, take w s) @ u) = prepend (take w s) (json_chars u)"
proof -
  note D = decode_rune_take [OF assms]
  consider (ascii) "r < 0x80" | (sep) "r = 0x2028 \<or> r = 0x2029" | (high) "\<not> r < 0x80" "r \<noteq> 0x2028" "r \<noteq> 0x2029"
    by linarith
  then show ?thesis
  proof cases
    case ascii
    with D have "w = 1" "r = byte_of (hd s)" "byte_of (hd s) < 0x80" by auto
    moreover from this have "take w s = [hd s]" using assms(3) by (cases s) auto
    ultimately show ?thesis using json_chars_ascii [of "hd s" u] by simp
  next
    case sep
    then have e: "escape_rune (r, take w s) = backslash # (if r = 0x2028 then ''u2028'' else ''u2029'')"
      using D(2,3) assms(2) by (auto simp: escape_rune_def rune_error_def)
    have hex: "hex4 (''2028'' @ x) = Some 0x2028" "hex4 (''2029'' @ x) = Some 0x2029" for x
      by (simp_all add: hex4_def hex_value_def is_digit_def between_def byte_of_def)
    have "json_escape (''u2028'' @ u) = Some (encode_rune 0x2028, 5)"
      "json_escape (''u2029'' @ u) = Some (encode_rune 0x2029, 5)"
      using hex [of u] by (simp_all add: json_escape_def dquote_def backslash_def)
    then show ?thesis
      using sep separators [OF assms(1,3) sep] json_chars_escape [of "''u2028''" u "encode_rune 0x2028"]
        json_chars_escape [of "''u2029''" u "encode_rune 0x2029"]
      unfolding e by auto
  next
    case high
    then have "escape_rune (r, take w s) = take w s"
      using assms(2) D(3) by (auto simp: escape_rune_def)
    then show ?thesis using json_chars_high [OF assms high(1)] by simp
  qed
qed

lemma prepend_Some [simp]: "prepend t (Some (s, rest)) = Some (t @ s, rest)"
  by (simp add: prepend_def)

lemma json_chars_text:
  assumes "valid_utf8 s"
  shows "json_chars (escape_text s @ dquote # rest) = Some (s, rest)"
  using assms
proof (induction s rule: rune_spans.induct)
  case (1 s)
  show ?case
  proof (cases "s = []")
    case True
    then show ?thesis by (simp add: escape_text_def)
  next
    case False
    obtain r w where D: "decode_rune s = (r, w)" by fastforce
    have w: "1 \<le> w" using decode_rune_width [OF D False] .
    then have k: "max 1 w = w" by simp
    have spans: "rune_spans s = (r, take w s) # rune_spans (drop w s)"
      using rune_spans_step [OF False D] k by simp
    have ok: "\<not> (r = rune_error \<and> w \<le> 1)"
      using 1(2) spans False w by (cases s) (auto simp: valid_utf8_def)
    have "valid_utf8 (drop w s)" using 1(2) spans by (simp add: valid_utf8_def)
    then have "json_chars (escape_text (drop w s) @ dquote # rest) = Some (drop w s, rest)"
      using 1(1) False D k by auto
    then show ?thesis
      using json_chars_rune [OF D ok False, of "escape_text (drop w s) @ dquote # rest"] spans
      by (simp add: escape_text_def)
  qed
qed

section \<open>Values\<close>

text \<open>
  The values the program prints and reads back: every string is valid UTF-8, and a number is one
  the number grammar accepts.
\<close>

fun printable :: "json \<Rightarrow> bool" where
  "printable JNull = True"
| "printable (JBool b) = True"
| "printable (JNum n) = (n \<noteq> [] \<and> list_all is_digit n \<and> (hd n = CHR ''0'' \<longrightarrow> length n = 1))"
| "printable (JStr s) = valid_utf8 s"
| "printable (JArr vs) = list_all printable vs"
| "printable (JObj fs) = list_all (\<lambda>(k, v). valid_utf8 k \<and> printable v) fs"

fun depth :: "json \<Rightarrow> nat" where
  "depth (JArr vs) = Suc (foldr max (map depth vs) 0)"
| "depth (JObj fs) = Suc (foldr max (map (\<lambda>(k, v). depth v) fs) 0)"
| "depth _ = 0"

fun json_size :: "json \<Rightarrow> nat" where
  "json_size (JArr vs) = Suc (sum_list (map (\<lambda>v. Suc (json_size v)) vs))"
| "json_size (JObj fs) = Suc (sum_list (map (\<lambda>(k, v). Suc (json_size v)) fs))"
| "json_size _ = 1"

text \<open>What may follow a value: nothing that would continue a number.\<close>

definition ends_value :: "string \<Rightarrow> bool" where
  "ends_value rest \<longleftrightarrow> (case rest of [] \<Rightarrow> True
     | c # _ \<Rightarrow> \<not> is_digit c \<and> c \<notin> {CHR ''.'', CHR ''e'', CHR ''E''})"

lemma skip_space_blank: "json_space c \<Longrightarrow> skip_space (c # u) = skip_space u"
  by (simp add: skip_space_def)

lemma skip_space_blanks [simp]: "skip_space (replicate n CHR '' '' @ u) = skip_space u"
  by (induction n) (simp_all add: skip_space_blank json_space_def)

lemma skip_space_newline [simp]: "skip_space (json_newline d @ u) = skip_space u"
  by (simp add: json_newline_def skip_space_blank json_space_def newline_def)

lemma expect_newline [simp]: "expect c (json_newline d @ u) = expect c u"
  by (simp add: expect_def)

lemma ends_newline [simp]: "ends_value (json_newline d @ u)"
  by (simp add: ends_value_def json_newline_def is_digit_def between_def newline_def byte_of_def)

lemma skip_space_head: "\<not> json_space c \<Longrightarrow> skip_space (c # u) = c # u"
  by (simp add: skip_space_def)

lemma expect_head: "\<not> json_space c \<Longrightarrow> expect x (c # u) = (if c = x then Some u else None)"
  by (simp add: expect_def skip_space_head)

lemma digit_head: "is_digit c \<Longrightarrow> \<not> json_space c \<and> c \<noteq> dquote \<and> c \<notin> set ''{[]},:tfn''"
  by (auto simp: is_digit_def between_def json_space_def dquote_def byte_of_def)

lemma print_array: "vs \<noteq> [] \<Longrightarrow> print_value d (JArr vs) =
    CHR ''['' # json_newline (Suc d) @ print_items (Suc d) vs @ json_newline d @ '']''"
  by simp

lemma print_object: "fs \<noteq> [] \<Longrightarrow> print_value d (JObj fs) =
    CHR ''{'' # json_newline (Suc d) @ print_fields (Suc d) fs @ json_newline d @ ''}''"
  by simp

lemma print_head:
  assumes "printable v"
  shows "\<exists>c t. print_value d v = c # t \<and> \<not> json_space c \<and> c \<noteq> CHR '']''"
proof (cases v)
  case (JNum n)
  then show ?thesis using assms digit_head by (cases n) auto
qed (auto simp: json_space_def json_quote_def dquote_def)

section \<open>Reading a value back\<close>

lemma number_back:
  assumes "printable (JNum n)" and "ends_value rest"
  shows "json_number (n @ rest) = Some (n, rest)"
proof -
  obtain c t where n: "n = c # t" and c: "is_digit c" and t: "list_all is_digit t"
    using assms(1) by (cases n) auto
  have tw: "takeWhile is_digit (n @ rest) = n" "dropWhile is_digit (n @ rest) = rest"
    using assms by (cases rest; simp add: ends_value_def list_all_iff takeWhile_append dropWhile_append)+
  have nf: "number_fraction rest = Some ([], rest)" "number_exponent rest = Some ([], rest)"
    using assms(2) by (auto simp: ends_value_def number_fraction_def number_exponent_def has_prefix_def split: list.splits)
  have "c \<noteq> CHR ''-''" using c by (auto simp: is_digit_def between_def byte_of_def)
  then have sign: "\<not> has_prefix (n @ rest) ''-''" by (simp add: n has_prefix_def)
  have "n = ''0''" if "has_prefix (n @ rest) ''0''"
    using assms(1) n that by (auto simp: has_prefix_def)
  then show ?thesis
    using assms(1) by (auto simp: json_number_def digits_def Let_def sign tw nf)
qed

lemma value_number:
  assumes "printable (JNum n)" and "ends_value rest"
  shows "json_value (Suc m) d (n @ rest) = Some (JNum n, rest)"
proof -
  obtain c t where n: "n = c # t" and c: "is_digit c" using assms(1) by (cases n) auto
  note h = digit_head [OF c]
  show ?thesis
    using h number_back [OF assms] unfolding n
    by (simp add: skip_space_head expect_head has_prefix_def Let_def)
qed

lemma value_string:
  "valid_utf8 s \<Longrightarrow> json_value (Suc m) d (json_quote s @ rest) = Some (JStr s, rest)"
  by (simp add: json_quote_def skip_space_head expect_head json_space_def dquote_def
      json_chars_text [unfolded dquote_def] del: json_chars.simps)

lemma value_newline [simp]: "json_value n d (json_newline e @ s) = json_value n d s"
  by (cases n) simp_all

lemma items_newline [simp]: "json_items n d (json_newline e @ s) = json_items n d s"
  by (cases n) simp_all

lemma fields_newline [simp]: "json_fields n d (json_newline e @ s) = json_fields n d s"
  by (cases n) simp_all

lemma value_array:
  assumes "d < maxNestingDepth" and "expect CHR '']'' s = None"
  shows "json_value (Suc n) d (CHR ''['' # s) = map_option (\<lambda>(vs, r'). (JArr vs, r')) (json_items n (Suc d) s)"
  using assms by (simp add: skip_space_head expect_head json_space_def)

lemma value_object:
  assumes "d < maxNestingDepth" and "expect CHR ''}'' s = None"
  shows "json_value (Suc n) d (CHR ''{'' # s) = map_option (\<lambda>(fs, r'). (JObj fs, r')) (json_fields n (Suc d) s)"
  using assms by (simp add: skip_space_head expect_head json_space_def)

text \<open>What every part of a value may be followed by, and what the fuel has to be.\<close>

abbreviation items_depth :: "json list \<Rightarrow> nat" where
  "items_depth vs \<equiv> foldr max (map depth vs) 0"

abbreviation fields_depth :: "(string \<times> json) list \<Rightarrow> nat" where
  "fields_depth fs \<equiv> foldr max (map (\<lambda>(k, v). depth v) fs) 0"

abbreviation items_size :: "json list \<Rightarrow> nat" where
  "items_size vs \<equiv> sum_list (map (\<lambda>v. Suc (json_size v)) vs)"

abbreviation fields_size :: "(string \<times> json) list \<Rightarrow> nat" where
  "fields_size fs \<equiv> sum_list (map (\<lambda>(k, v). Suc (json_size v)) fs)"

lemma first_item: "printable v \<Longrightarrow> expect CHR '']'' (print_items e (v # vs) @ u) = None"
  using print_head [of v e] by (auto simp: expect_head)

lemma first_field: "expect CHR ''}'' (print_fields e ((k, v) # fs) @ u) = None"
  by (simp add: json_quote_def expect_head json_space_def dquote_def)

lemma print_back:
  shows "printable v \<Longrightarrow> d + depth v \<le> maxNestingDepth \<Longrightarrow> json_size v \<le> n \<Longrightarrow> ends_value rest \<Longrightarrow>
      json_value n d (print_value e v @ rest) = Some (v, rest)"
    and "vs \<noteq> [] \<Longrightarrow> list_all printable vs \<Longrightarrow> d + items_depth vs \<le> maxNestingDepth \<Longrightarrow> items_size vs \<le> n \<Longrightarrow>
      json_items n d (print_items e vs @ json_newline e' @ CHR '']'' # rest) = Some (vs, rest)"
    and "fs \<noteq> [] \<Longrightarrow> list_all (\<lambda>(k, v). valid_utf8 k \<and> printable v) fs \<Longrightarrow>
      d + fields_depth fs \<le> maxNestingDepth \<Longrightarrow> fields_size fs \<le> n \<Longrightarrow>
      json_fields n d (print_fields e fs @ json_newline e' @ CHR ''}'' # rest) = Some (fs, rest)"
proof (induction e v and e vs and e fs arbitrary: n d rest and n d rest e' and n d rest e'
    rule: print_value_print_items_print_fields.induct)
  case (1 e)
  then obtain m where "n = Suc m" by (cases n) auto
  then show ?case by (simp add: skip_space_head expect_head json_space_def dquote_def has_prefix_def)
next
  case (2 e b)
  then obtain m where "n = Suc m" by (cases n) auto
  then show ?case by (simp add: skip_space_head expect_head json_space_def dquote_def has_prefix_def)
next
  case (3 e num)
  then obtain m where "n = Suc m" by (cases n) auto
  with 3 show ?case using value_number by (simp del: json_value.simps printable.simps)
next
  case (4 e s)
  then obtain m where "n = Suc m" by (cases n) auto
  with 4 show ?case using value_string by (simp del: json_value.simps)
next
  case (5 e vs)
  then obtain m where n: "n = Suc m" by (cases n) auto
  show ?case
  proof (cases vs)
    case Nil
    with 5 n show ?thesis by (simp add: skip_space_head expect_head json_space_def)
  next
    case (Cons v ws)
    then have ne: "vs \<noteq> []" by simp
    have d: "d < maxNestingDepth" using 5(3) by simp
    have "json_items m (Suc d) (print_items (Suc e) vs @ json_newline e @ CHR '']'' # rest) = Some (vs, rest)"
      using 5 ne n by (intro 5(1)) auto
    then show ?thesis
      using first_item [of v "Suc e" ws] 5(2) Cons n
      by (simp add: print_array value_array [OF d] del: json_value.simps print_items.simps print_value.simps)
  qed
next
  case (6 e fs)
  then obtain m where n: "n = Suc m" by (cases n) auto
  show ?case
  proof (cases fs)
    case Nil
    with 6 n show ?thesis by (simp add: skip_space_head expect_head json_space_def)
  next
    case (Cons kv gs)
    then have ne: "fs \<noteq> []" by simp
    have d: "d < maxNestingDepth" using 6(3) by simp
    have "json_fields m (Suc d) (print_fields (Suc e) fs @ json_newline e @ CHR ''}'' # rest) = Some (fs, rest)"
      using 6 ne n by (intro 6(1)) auto
    then show ?thesis
      using first_field [of "Suc e" "fst kv" "snd kv" gs] Cons n
      by (simp add: print_object value_object [OF d] del: json_value.simps print_fields.simps print_value.simps)
  qed
next
  case (8 e v vs)
  then obtain m where n: "n = Suc m" by (cases n) auto
  have sep: "expect CHR '','' (CHR '','' # u) = Some u" "expect CHR '','' (CHR '']'' # u) = None"
    "expect CHR '']'' (CHR '']'' # u) = Some u" for u
    by (simp_all add: expect_head json_space_def)
  show ?case
  proof (cases "vs = []")
    case True
    have "json_value m d (print_value e v @ json_newline e' @ CHR '']'' # rest) =
        Some (v, json_newline e' @ CHR '']'' # rest)"
      using 8(4-6) True n by (intro 8(1)) auto
    then show ?thesis using True n by (simp add: sep)
  next
    case False
    let ?more = "print_items e vs @ json_newline e' @ CHR '']'' # rest"
    have "json_value m d (print_value e v @ CHR '','' # json_newline e @ ?more) =
        Some (v, CHR '','' # json_newline e @ ?more)"
      using 8(4-6) n by (intro 8(1)) (auto simp: ends_value_def is_digit_def between_def byte_of_def)
    moreover have "json_items m d ?more = Some (vs, rest)"
      using 8(4-6) False n by (intro 8(2)) auto
    ultimately show ?thesis using False n by (simp add: sep)
  qed
next
  case (10 e k v fs)
  then obtain m where n: "n = Suc m" by (cases n) auto
  have sep: "expect CHR '','' (CHR '','' # u) = Some u" "expect CHR '','' (CHR ''}'' # u) = None"
    "expect CHR ''}'' (CHR ''}'' # u) = Some u" "expect CHR '':'' (CHR '':'' # u) = Some u"
    "expect dquote (dquote # u) = Some u" for u
    by (simp_all add: expect_head json_space_def dquote_def)
  have blank: "json_value m d (CHR '' '' # u) = json_value m d u" for u
    by (cases m) (simp_all add: skip_space_blank json_space_def)
  have key: "json_chars (escape_text k @ dquote # u) = Some (k, u)" for u
    using 10(4) by (simp add: json_chars_text)
  show ?case
  proof (cases "fs = []")
    case True
    have "json_value m d (print_value e v @ json_newline e' @ CHR ''}'' # rest) =
        Some (v, json_newline e' @ CHR ''}'' # rest)"
      using 10(4-6) True n by (intro 10(1)) auto
    then show ?thesis using True n by (simp add: sep key blank json_quote_def)
  next
    case False
    let ?more = "print_fields e fs @ json_newline e' @ CHR ''}'' # rest"
    have "json_value m d (print_value e v @ CHR '','' # json_newline e @ ?more) =
        Some (v, CHR '','' # json_newline e @ ?more)"
      using 10(4-6) n by (intro 10(1)) (auto simp: ends_value_def is_digit_def between_def byte_of_def)
    moreover have "json_fields m d ?more = Some (fs, rest)"
      using 10(4-6) False n by (intro 10(2)) auto
    ultimately show ?thesis using False n by (simp add: sep key blank json_quote_def)
  qed
qed simp_all

text \<open>The text of a value is long enough to be its own fuel.\<close>

lemma size_bound:
  shows "printable v \<Longrightarrow> json_size v \<le> length (print_value e v)"
    and "list_all printable vs \<Longrightarrow> items_size vs \<le> Suc (length (print_items e vs))"
    and "list_all (\<lambda>(k, v). valid_utf8 k \<and> printable v) fs \<Longrightarrow>
      fields_size fs \<le> Suc (length (print_fields e fs))"
proof (induction e v and e vs and e fs rule: print_value_print_items_print_fields.induct)
  case (3 e num)
  then show ?case by (cases num) auto
qed (auto simp: json_newline_def json_quote_def)

lemma document_back:
  assumes "printable v" and "depth v \<le> maxNestingDepth" and "skip_space tail = []"
  shows "json_document (print_value e v @ tail) = Some v"
proof -
  have "json_size v \<le> 2 * length (print_value e v @ tail) + 2"
    using size_bound(1) [OF assms(1), of e] by simp
  moreover have "ends_value tail"
  proof (cases tail)
    case (Cons c t)
    then have "json_space c" using assms(3) by (auto simp: skip_space_def split: if_splits)
    then show ?thesis using Cons by (auto simp: ends_value_def json_space_def is_digit_def between_def byte_of_def)
  qed (simp add: ends_value_def)
  ultimately show ?thesis
    using print_back(1) [OF assms(1), of 0 "2 * length (print_value e v @ tail) + 2" tail e] assms(2,3)
    by (simp add: json_document_def del: json_value.simps)
qed

lemma ascii_utf8: "list_all (\<lambda>c. byte_of c < 0x80) s \<Longrightarrow> valid_utf8 s"
  by (induction s) (simp_all add: valid_utf8_def rune_spans_ascii rune_error_def)

end
