(* ===== verification/Json_Secrets.thy ===== *)
theory Json_Secrets
  imports Redact Json_Facts
begin

text \<open>
  Printing keeps a document free of secret shapes: the characters a printer adds (quotes, escapes,
  punctuation, indentation) neither start a shape nor join two parts of one. So the scan of a whole
  document finds nothing the scans of its texts did not find.
\<close>

section \<open>Characters that start or hold no shape\<close>

fun starts :: "char \<Rightarrow> re \<Rightarrow> bool" where
  "starts c (Lit p) = (p \<noteq> [] \<and> hd p = c)"
| "starts c (Cls p) = p c"
| "starts c (Run p lo hi) = p c"
| "starts c (Seq a b) = (starts c a \<or> nullable a \<and> starts c b)"
| "starts c (Alt a b) = (starts c a \<or> starts c b)"
| "starts c (Opt a) = starts c a"

lemma starts_lang: "m \<in> lang r \<Longrightarrow> m \<noteq> [] \<Longrightarrow> starts (hd m) r"
proof (induction r arbitrary: m)
  case (Run p lo hi)
  then show ?case by (cases m) auto
next
  case (Seq a b)
  then obtain u v where uv: "m = u @ v" "u \<in> lang a" "v \<in> lang b" by auto
  show ?case
  proof (cases "u = []")
    case True
    then show ?thesis using Seq uv nullable_lang by auto
  next
    case False
    then show ?thesis using Seq uv by simp
  qed
qed auto

lemma clean_skip:
  assumes "shape r" and "\<not> starts c r" and "clean r s"
  shows "clean r (c # s)"
proof -
  have "m \<notin> lang r" if "c # s = m @ b" for m b
    using that starts_lang [of m r] assms(1,2) shapeD(1) by (cases m) auto
  then show ?thesis using assms by (simp add: clean_Cons_iff)
qed

definition quiet :: "char \<Rightarrow> bool" where
  "quiet c \<longleftrightarrow> c \<in> set '' {}[],:u0123456789cefd'' \<union> {newline, dquote, backslash}"

lemma quiet_pattern: "p \<in> set secret_patterns \<Longrightarrow> quiet c \<Longrightarrow> \<not> starts c p"
  by (auto simp: secret_patterns_def pattern_defs class_defs quiet_def newline_def dquote_def backslash_def)

lemma clean_quiet:
  assumes "p \<in> set secret_patterns" and "list_all quiet u" and "clean p s"
  shows "clean p (u @ s)"
  using assms(2,3)
  by (induction u) (simp_all add: clean_skip pattern_shape [OF assms(1)] quiet_pattern [OF assms(1)])

lemma mark_pattern:
  "p \<in> set secret_patterns \<Longrightarrow> avoids dquote p \<and> avoids backslash p"
  by (auto simp: secret_patterns_def pattern_defs class_defs dquote_def backslash_def)

lemma clean_mark:
  assumes "p \<in> set secret_patterns" and "x = dquote \<or> x = backslash" and "clean p u" and "clean p v"
  shows "clean p (u @ x # v)"
proof (rule clean_sep)
  show "[] \<notin> lang p" using pattern_shape [OF assms(1)] by (auto simp: shape_def)
  show "x \<notin> set m" if "m \<in> lang p" for m
    using mark_pattern [OF assms(1)] avoids_lang that assms(2) by blast
qed (rule assms)+

section \<open>Printed texts\<close>

text \<open>No control character below the space: the ones the printer writes as a letter.\<close>

definition no_low :: "string \<Rightarrow> bool" where
  "no_low s \<longleftrightarrow> list_all (\<lambda>r. 0x20 \<le> r) (runes s)"

lemma escape_rune_shape:
  assumes "0x20 \<le> r" and "r < 0x80 \<longrightarrow> bs = [char_of r]"
  shows "escape_rune (r, bs) = bs \<or> escape_rune (r, bs) = backslash # bs \<or>
    (\<exists>w. escape_rune (r, bs) = backslash # w \<and> list_all quiet w)"
proof -
  have "list_all quiet (''u00'' @ [hex_digit (r div 16), hex_digit r])" if "r = 0x3C \<or> r = 0x3E \<or> r = 0x26"
    using that by (auto simp: hex_digit_def quiet_def)
  moreover have "list_all quiet ''ufffd'' \<and> list_all quiet ''u2028'' \<and> list_all quiet ''u2029''"
    by (simp add: quiet_def)
  ultimately show ?thesis using assms by (auto simp: escape_rune_def)
qed

lemma clean_escape:
  assumes "p \<in> set secret_patterns" and "no_low s" and "clean p (a @ s)"
  shows "clean p (a @ escape_text s)"
  using assms(2,3)
proof (induction s arbitrary: a rule: rune_spans.induct)
  case (1 s)
  show ?case
  proof (cases "s = []")
    case True
    with 1(3) show ?thesis by (simp add: escape_text_def)
  next
    case False
    obtain r w where D: "decode_rune s = (r, w)" by fastforce
    define k where "k = max 1 w"
    have spans: "rune_spans s = (r, take k s) # rune_spans (drop k s)"
      using rune_spans_step [OF False D] unfolding k_def .
    then have e: "escape_text s = escape_rune (r, take k s) @ escape_text (drop k s)"
      by (simp add: escape_text_def)
    have low: "0x20 \<le> r" "no_low (drop k s)" using 1(2) spans by (simp_all add: no_low_def runes_def)
    have IH: "clean p (a' @ drop k s) \<Longrightarrow> clean p (a' @ escape_text (drop k s))" for a'
      using 1(1) False D low(2) unfolding k_def by auto
    have s: "s = take k s @ drop k s" by simp
    have rest: "clean p (drop k s)" "clean p (take k s @ drop k s)" "clean p a"
      using 1(3) clean_append1 clean_append2 s by metis+
    have ascii: "r < 0x80 \<longrightarrow> take k s = [char_of r]"
    proof
      assume r: "r < 0x80"
      then have "w = 1 \<and> r = byte_of (hd s)"
        by (intro decode_rune_take(5) [OF D _ False]) (simp_all add: rune_error_def)
      then show "take k s = [char_of r]" using False by (cases s) (simp_all add: k_def)
    qed
    from escape_rune_shape [OF low(1) ascii]
    consider (same) "escape_rune (r, take k s) = take k s" | (mark) "escape_rune (r, take k s) = backslash # take k s"
      | (letters) u where "escape_rune (r, take k s) = backslash # u" "list_all quiet u" by blast
    then show ?thesis
    proof cases
      case same
      then show ?thesis using IH [of "a @ take k s"] 1(3) e by simp
    next
      case mark
      then show ?thesis using clean_mark [OF assms(1) _ rest(3)] IH [of "take k s"] rest(2) e by simp
    next
      case letters
      then show ?thesis using clean_mark [OF assms(1) _ rest(3)] clean_quiet [OF assms(1) letters(2)] IH [of "[]"] rest(1) e by simp
    qed
  qed
qed

text \<open>A document made of texts that carry no shape themselves.\<close>

fun clean_texts :: "re \<Rightarrow> json \<Rightarrow> bool" where
  "clean_texts p (JStr s) = (no_low s \<and> clean p s)"
| "clean_texts p (JArr vs) = list_all (clean_texts p) vs"
| "clean_texts p (JObj fs) = list_all (\<lambda>(k, v). no_low k \<and> clean p k \<and> clean_texts p v) fs"
| "clean_texts p v = False"

lemma clean_quote:
  assumes "p \<in> set secret_patterns" and "no_low s" and "clean p s" and "clean p rest"
  shows "clean p (json_quote s @ rest)"
proof -
  have "clean p (escape_text s)" using clean_escape [OF assms(1,2), of "[]"] assms(3) by simp
  then have "clean p (escape_text s @ dquote # rest)" using clean_mark [OF assms(1)] assms(4) by blast
  then show ?thesis using clean_quiet [OF assms(1), of "[dquote]"] by (simp add: json_quote_def quiet_def)
qed

lemma quiet_newline: "list_all quiet (json_newline d)"
  by (auto simp: json_newline_def list_all_iff quiet_def)

lemma quiet_punctuation: "list_all quiet ''{}[],: ''"
  by (simp add: quiet_def)

lemma clean_print:
  assumes "p \<in> set secret_patterns"
  shows "clean_texts p v \<Longrightarrow> clean p rest \<Longrightarrow> clean p (print_value d v @ rest)"
    and "list_all (clean_texts p) vs \<Longrightarrow> clean p rest \<Longrightarrow> clean p (print_items d vs @ rest)"
    and "list_all (\<lambda>(k, v). no_low k \<and> clean p k \<and> clean_texts p v) fs \<Longrightarrow> clean p rest \<Longrightarrow>
      clean p (print_fields d fs @ rest)"
proof (induction d v and d vs and d fs arbitrary: rest and rest and rest
    rule: print_value_print_items_print_fields.induct)
  case (4 d s)
  then show ?case using clean_quote [OF assms] by simp
next
  case (5 d vs)
  then show ?case
    using clean_quiet [OF assms, of "''[]''"] clean_quiet [OF assms, of "''['' @ json_newline (Suc d)"]
      clean_quiet [OF assms, of "json_newline d @ '']''"] quiet_newline quiet_punctuation by simp
next
  case (6 d fs)
  then show ?case
    using clean_quiet [OF assms, of "''{}''"] clean_quiet [OF assms, of "''{'' @ json_newline (Suc d)"]
      clean_quiet [OF assms, of "json_newline d @ ''}''"] quiet_newline quiet_punctuation by simp
next
  case (8 d v vs)
  then show ?case
    using clean_quiet [OF assms, of "'','' @ json_newline d"] quiet_newline quiet_punctuation by simp
next
  case (10 d k v fs)
  then show ?case
    using clean_quiet [OF assms, of "'','' @ json_newline d"] clean_quiet [OF assms, of "'': ''"]
      clean_quote [OF assms] quiet_newline quiet_punctuation by simp
qed simp_all

lemma printed_not_secret:
  assumes "\<And>p. p \<in> set secret_patterns \<Longrightarrow> clean_texts p v"
  shows "\<not> contains_secret_shape (print_value d v @ [newline])"
  unfolding not_secret_shape_iff
proof
  fix p assume p: "p \<in> set secret_patterns"
  have "clean p [newline]"
    using clean_quiet [OF p, of "[newline]" "[]"] clean_Nil [OF pattern_shape [OF p]] by (simp add: quiet_def)
  then show "clean p (print_value d v @ [newline])" by (rule clean_print(1) [OF p assms [OF p]])
qed

end
