(* ===== verification/Duration_Facts.thy ===== *)
theory Duration_Facts
  imports Durations
begin

text \<open>
  A printed duration is read back: the fraction of a printed duration has at most nine digits, so every
  float the parser computes is exact. The lemmas are one per part of a printed term.
\<close>

section \<open>Exact floats\<close>

lemma bits_bounds:
  assumes "0 < n"
  shows "n < 2 ^ bits n" and "2 ^ bits n \<le> 2 * n"
proof -
  have "0 < n \<longrightarrow> n < 2 ^ bits n \<and> 2 ^ bits n \<le> 2 * n"
  proof (induction n rule: bits.induct)
    case (1 n)
    have e: "0 < n \<Longrightarrow> bits n = Suc (bits (n div 2))" by (simp only: bits.simps [of n]) simp
    show ?case
    proof (cases "n < 2")
      case True
      then have "n = 0 \<or> n = 1" by linarith
      then show ?thesis using e by (auto simp: bits.simps [of 0])
    next
      case False
      then have "0 < n div 2" by linarith
      then have "n div 2 < 2 ^ bits (n div 2)" "2 ^ bits (n div 2) \<le> 2 * (n div 2)" using 1 False by auto
      then show ?thesis using e by auto
    qed
  qed
  then show "n < 2 ^ bits n" and "2 ^ bits n \<le> 2 * n" using assms by simp_all
qed

text \<open>The shift leaves a significand of at least 53 bits.\<close>

lemma fl_shift_large:
  assumes "0 < n" and "0 < d"
  shows "2 ^ 52 * (d * 2 ^ nat (- fl_shift n d)) \<le> n * 2 ^ nat (fl_shift n d)"
proof -
  define j where "j = 53 + int (bits d) - int (bits n)"
  note N = bits_bounds [OF assms(1)] and D = bits_bounds [OF assms(2)]
  have base: "2 ^ 52 * (d * 2 ^ nat (- j)) \<le> n * 2 ^ nat j"
  proof -
    have "bits n + nat j = 53 + bits d + nat (- j)" unfolding j_def by linarith
    then have p: "(2::nat) ^ bits n * 2 ^ nat j = 2 ^ 53 * 2 ^ bits d * 2 ^ nat (- j)"
      by (metis power_add)
    have "2 ^ 53 * (d * 2 ^ nat (- j)) \<le> 2 ^ 53 * (2 ^ bits d * 2 ^ nat (- j))"
      using D(1) by (intro mult_le_mono) auto
    also have "\<dots> = 2 ^ bits n * 2 ^ nat j" using p by (simp only: mult.assoc)
    also have "\<dots> \<le> (2 * n) * 2 ^ nat j" using N(2) by (rule mult_le_mono1)
    finally show ?thesis by simp
  qed
  show ?thesis
  proof (cases "n * 2 ^ nat j \<ge> 2 ^ 53 * (d * 2 ^ nat (- j))")
    case True
    then have s: "fl_shift n d = j - 1" by (simp add: fl_shift_def j_def Let_def)
    show ?thesis
    proof (cases "0 < j")
      case True': True
      then have "nat j = Suc (nat (j - 1))" "nat (- j) = 0" "nat (- (j - 1)) = 0" by linarith+
      then show ?thesis using True unfolding s by simp
    next
      case False
      then have "nat (- (j - 1)) = Suc (nat (- j))" "nat j = 0" "nat (j - 1) = 0" by linarith+
      then show ?thesis using True unfolding s by simp
    qed
  next
    case False
    then have "fl_shift n d = j" by (simp add: fl_shift_def j_def Let_def)
    then show ?thesis using base by simp
  qed
qed

text \<open>A float that is a natural number, exactly.\<close>

definition is_nat :: "float \<Rightarrow> nat \<Rightarrow> bool" where
  "is_nat x v \<longleftrightarrow> 0 < snd x \<and> fst x = v * snd x"

lemma fl_round_exact:
  assumes "v < 2 ^ 53" and "0 < d"
  shows "is_nat (fl_round (v * d) d) v"
proof (cases "v = 0")
  case True
  then show ?thesis by (simp add: is_nat_def fl_round_def)
next
  case False
  then have n: "0 < v * d" using assms(2) by simp
  define j where "j = fl_shift (v * d) d"
  have "0 \<le> j"
  proof (rule ccontr)
    assume "\<not> 0 \<le> j"
    then have j: "nat j = 0" "1 \<le> nat (- j)" by linarith+
    have "2 ^ 52 * (d * 2 ^ nat (- j)) \<le> v * d"
      using fl_shift_large [OF n assms(2)] j unfolding j_def by simp
    then have "2 ^ 52 * 2 ^ nat (- j) \<le> v" using assms(2) by (simp add: ac_simps)
    moreover have "(2::nat) ^ 1 \<le> 2 ^ nat (- j)" using j(2) by (intro power_increasing) simp_all
    ultimately show False using assms(1) by simp
  qed
  then have "nat (- j) = 0" by simp
  moreover have "half_even (v * d * 2 ^ nat j) d = v * 2 ^ nat j"
    using assms(2) by (simp add: half_even_def Let_def mult.commute mult.left_commute)
  ultimately show ?thesis
    using n by (simp add: fl_round_def Let_def is_nat_def flip: j_def)
qed

lemma fl_of_exact: "v < 2 ^ 53 \<Longrightarrow> is_nat (fl_of v) v"
  using fl_round_exact [of v 1] by (simp add: fl_of_def)

lemma fl_mul_exact:
  assumes "is_nat x a" and "is_nat y b" and "a * b < 2 ^ 53"
  shows "is_nat (fl_mul x y) (a * b)"
proof -
  have "fst x * fst y = (a * b) * (snd x * snd y)" using assms(1,2) by (simp add: is_nat_def)
  moreover have "0 < snd x * snd y" using assms(1,2) by (simp add: is_nat_def)
  ultimately show ?thesis using fl_round_exact [OF assms(3)] by (simp only: fl_mul_def)
qed

lemma fl_div_exact:
  assumes "is_nat x (a * b)" and "is_nat y b" and "0 < b" and "a < 2 ^ 53"
  shows "is_nat (fl_div x y) a"
proof -
  have "fst x * snd y = a * (snd x * fst y)" using assms(1,2) by (simp add: is_nat_def)
  moreover have "0 < snd x * fst y" using assms(1-3) by (simp add: is_nat_def)
  ultimately show ?thesis using fl_round_exact [OF assms(4)] by (simp only: fl_div_def)
qed

lemma fl_trunc_exact: "is_nat x v \<Longrightarrow> fl_trunc x = v"
  by (simp add: is_nat_def fl_trunc_def)

section \<open>Digits\<close>

definition no_digit :: "string \<Rightarrow> bool" where
  "no_digit s \<longleftrightarrow> s = [] \<or> \<not> is_digit (hd s)"

lemma leading_int_stop: "no_digit rest \<Longrightarrow> leading_int x rest = Some (x, rest)"
  by (cases rest) (auto simp: no_digit_def)

lemma leading_int_digits:
  assumes "list_all is_digit ds" and "no_digit rest" and "x * 10 ^ length ds + digits_val ds \<le> 2 ^ 63"
  shows "leading_int x (ds @ rest) = Some (x * 10 ^ length ds + digits_val ds, rest)"
  using assms
proof (induction ds arbitrary: x)
  case Nil
  then show ?case by (simp add: leading_int_stop)
next
  case (Cons c ds)
  define y where "y = x * 10 + digit_val c"
  have e: "x * 10 ^ length (c # ds) + digits_val (c # ds) = y * 10 ^ length ds + digits_val ds"
    by (simp add: digits_val_Cons y_def algebra_simps)
  have "y * 1 \<le> y * 10 ^ length ds" by (intro mult_le_mono2) simp
  then have y: "y \<le> 2 ^ 63" using Cons.prems(3) e by linarith
  then have "x * 10 \<le> 2 ^ 63" unfolding y_def by linarith
  then have x: "x \<le> 2 ^ 63 div 10" by (simp add: less_eq_div_iff_mult_less_eq)
  have "leading_int y (ds @ rest) = Some (y * 10 ^ length ds + digits_val ds, rest)"
    using Cons e by simp
  then show ?case
    using Cons.prems(1) x y e by (simp add: Let_def y_def)
qed

lemma leading_fraction_stop: "no_digit rest \<Longrightarrow> leading_fraction ov x sc rest = (x, sc, rest)"
  by (cases rest) (auto simp: no_digit_def)

lemma leading_fraction_digits:
  assumes "list_all is_digit ds" and "no_digit rest" and "x < 10 ^ k" and "is_nat sc (10 ^ k)"
    and "k + length ds \<le> 9"
  obtains sc' where "leading_fraction False x sc (ds @ rest) = (x * 10 ^ length ds + digits_val ds, sc', rest)"
    and "is_nat sc' (10 ^ (k + length ds))"
proof -
  have "\<exists>sc'. leading_fraction False x sc (ds @ rest) = (x * 10 ^ length ds + digits_val ds, sc', rest) \<and>
      is_nat sc' (10 ^ (k + length ds))"
    using assms
  proof (induction ds arbitrary: x sc k)
    case Nil
    then show ?case by (simp add: leading_fraction_stop)
  next
    case (Cons c ds)
    define y where "y = x * 10 + digit_val c"
    have c: "digit_val c < 10" using Cons.prems(1) digit_val_less by simp
    have k: "(10::nat) ^ Suc k \<le> 10 ^ 9" using Cons.prems(5) by (intro power_increasing) simp_all
    have y: "y < 10 ^ Suc k" using Cons.prems(3) c unfolding y_def by simp
    have "10 ^ k * 10 < (2::nat) ^ 53" using k by simp
    then have "is_nat (fl_mul sc (fl_of 10)) (10 ^ k * 10)"
      using Cons.prems(4) by (intro fl_mul_exact fl_of_exact) simp_all
    then have sc: "is_nat (fl_mul sc (fl_of 10)) (10 ^ Suc k)" by (simp add: mult.commute)
    have e: "x * 10 ^ length (c # ds) + digits_val (c # ds) = y * 10 ^ length ds + digits_val ds"
      by (simp add: digits_val_Cons y_def algebra_simps)
    obtain sc' where "leading_fraction False y (fl_mul sc (fl_of 10)) (ds @ rest) =
        (y * 10 ^ length ds + digits_val ds, sc', rest)" and "is_nat sc' (10 ^ (Suc k + length ds))"
      using Cons.IH [OF _ _ y sc] Cons.prems by auto
    moreover have "\<not> x > (2 ^ 63 - 1) div 10" "\<not> y > 2 ^ 63" using y k unfolding y_def by simp_all
    ultimately show ?case using Cons.prems(1) e by (simp add: Let_def y_def)
  qed
  then show thesis using that by blast
qed

section \<open>Fractions\<close>

lemma digit_of_split: "digits_val (digit_of v # buf) = (v mod 10) * 10 ^ length buf + digits_val buf"
  using digit_of_digit [of v] by (simp add: digits_val_Cons)

lemma frac_digits_result:
  assumes "list_all is_digit buf" and "frac_digits i v buf = (ds, w)" and "length buf \<le> j"
  shows "list_all is_digit ds" and "w = v div 10 ^ i" and "length ds \<le> i + j"
    and "digits_val ds * 10 ^ (i + j - length ds) = (v mod 10 ^ i) * 10 ^ j + digits_val buf * 10 ^ (j - length buf)"
proof -
  have "list_all is_digit ds \<and> w = v div 10 ^ i \<and> length ds \<le> i + j \<and>
      digits_val ds * 10 ^ (i + j - length ds) = (v mod 10 ^ i) * 10 ^ j + digits_val buf * 10 ^ (j - length buf)"
    using assms
  proof (induction i v buf arbitrary: j rule: frac_digits.induct)
    case (2 i v buf)
    define buf' where "buf' = (if buf \<noteq> [] \<or> v mod 10 \<noteq> 0 then digit_of v # buf else buf)"
    have d: "list_all is_digit buf'" and l: "length buf' \<le> Suc j"
      using 2(2,4) digit_of_digit [of v] by (auto simp: buf'_def)
    have val: "digits_val buf' * 10 ^ (Suc j - length buf') = (v mod 10) * 10 ^ j + digits_val buf * 10 ^ (j - length buf)"
    proof (cases "buf \<noteq> [] \<or> v mod 10 \<noteq> 0")
      case True
      have "(10::nat) ^ length buf * 10 ^ (j - length buf) = 10 ^ j"
        using 2(4) by (simp flip: power_add)
      then have "(v mod 10) * 10 ^ length buf * 10 ^ (j - length buf) = (v mod 10) * 10 ^ j" by (metis mult.assoc)
      then show ?thesis using True by (simp add: buf'_def digit_of_split add_mult_distrib)
    qed (simp add: buf'_def)
    have "frac_digits i (v div 10) buf' = (ds, w)" using 2(3) by (simp add: buf'_def)
    then have IH: "list_all is_digit ds \<and> w = v div 10 div 10 ^ i \<and> length ds \<le> i + Suc j \<and>
        digits_val ds * 10 ^ (i + Suc j - length ds) =
          (v div 10 mod 10 ^ i) * 10 ^ Suc j + digits_val buf' * 10 ^ (Suc j - length buf')"
      using 2(1) d l unfolding buf'_def by blast
    have "v mod 10 ^ Suc i = (v div 10 mod 10 ^ i) * 10 + v mod 10"
      using mod_mult2_eq [of v 10 "10 ^ i"] by (simp add: mult.commute)
    then have "(v mod 10 ^ Suc i) * 10 ^ j = (v div 10 mod 10 ^ i) * 10 ^ Suc j + (v mod 10) * 10 ^ j"
      by (simp add: add_mult_distrib)
    then show ?case using IH val by (simp add: div_mult2_eq mult.commute)
  qed auto
  then show "list_all is_digit ds" and "w = v div 10 ^ i" and "length ds \<le> i + j"
    and "digits_val ds * 10 ^ (i + j - length ds) = (v mod 10 ^ i) * 10 ^ j + digits_val buf * 10 ^ (j - length buf)"
    by simp_all
qed

lemma fmt_frac_result:
  assumes "fmt_frac prec v = (frac, w)"
  obtains ds where "frac = (if ds = [] then [] else CHR ''.'' # ds)" and "list_all is_digit ds"
    and "w = v div 10 ^ prec" and "length ds \<le> prec"
    and "digits_val ds * 10 ^ (prec - length ds) = v mod 10 ^ prec"
proof -
  obtain ds w' where e: "frac_digits prec v [] = (ds, w')" by fastforce
  then have "frac = (if ds = [] then [] else CHR ''.'' # ds)" "w = w'"
    using assms by (auto simp: fmt_frac_def)
  then show thesis
    using that frac_digits_result [of "[]" prec v ds w' 0] e by simp
qed

text \<open>The fraction of a value does not depend on its whole part.\<close>

lemma frac_digits_mod:
  "u mod 10 ^ i = v mod 10 ^ i \<Longrightarrow> fst (frac_digits i u buf) = fst (frac_digits i v buf)"
proof (induction i arbitrary: u v buf)
  case (Suc i)
  have "u mod 10 = v mod 10" using Suc.prems by (metis dvd_triv_left mod_mod_cancel power_Suc)
  moreover have "u div 10 mod 10 ^ i = v div 10 mod 10 ^ i"
    using Suc.prems by (metis div_mult_mod_eq mod_mult2_eq power_Suc nonzero_mult_div_cancel_left add_right_imp_eq mult_cancel1 zero_neq_numeral calculation)
  ultimately show ?case using Suc.IH [of "u div 10" "v div 10"] by (simp add: digit_of_def)
qed simp

lemma fmt_frac_mod:
  assumes "fmt_frac i u = (frac, w)" and "u mod 10 ^ i = v mod 10 ^ i"
  shows "fmt_frac i v = (frac, v div 10 ^ i)"
proof -
  obtain ds w1 where a: "frac_digits i u [] = (ds, w1)" by fastforce
  obtain es w2 where b: "frac_digits i v [] = (es, w2)" by fastforce
  have "ds = es" using frac_digits_mod [OF assms(2), of "[]"] a b by simp
  moreover have "w2 = v div 10 ^ i" using frac_digits_result(2) [of "[]" i v es w2 0] b by simp
  ultimately show ?thesis using assms(1) a b by (auto simp: fmt_frac_def)
qed

section \<open>Terms\<close>

text \<open>A printed term: a number with an optional fraction, and a unit.\<close>

lemma parse_term_printed:
  assumes unit: "map_of unit_map u = Some (a * 10 ^ length ds)" "u \<noteq> []" "list_all unit_char u"
    and rest: "rest = [] \<or> is_digit (hd rest)" and ds: "list_all is_digit ds" "length ds \<le> 9"
    and small: "a * 10 ^ length ds \<le> 3600 * 10 ^ 9" "0 < a"
    and sum: "n * (a * 10 ^ length ds) + digits_val ds * a \<le> 2 ^ 63"
  shows "parse_term (show_nat n @ (if ds = [] then [] else CHR ''.'' # ds) @ u @ rest) =
    Some (n * (a * 10 ^ length ds) + digits_val ds * a, rest)"
proof -
  define U where "U = a * 10 ^ length ds"
  note N = show_nat_digits [of n]
  have U: "0 < U" "U < 2 ^ 53" using small unfolding U_def by simp_all
  obtain c u' where u: "u = c # u'" "unit_char c" using unit(2,3) by (cases u) auto
  then have nd: "no_digit (u @ rest)" "hd (u @ rest) \<noteq> CHR ''.''" by (auto simp: no_digit_def unit_char_def)
  have span: "takeWhile unit_char (u @ rest) = u" "dropWhile unit_char (u @ rest) = rest"
    using unit(3) rest by (induction u) (cases rest; auto simp: unit_char_def)+
  let ?tail = "(if ds = [] then [] else CHR ''.'' # ds) @ u @ rest"
  have "n * 1 \<le> n * U" using U(1) by (intro mult_le_mono2) simp
  then have n: "n \<le> 2 ^ 63" using sum unfolding U_def by linarith
  have "no_digit ?tail" using nd by (simp add: no_digit_def is_digit_def between_def byte_of_def)
  then have int: "leading_int 0 (show_nat n @ ?tail) = Some (n, ?tail)"
    using leading_int_digits [of "show_nat n" ?tail 0] N n by simp
  obtain sc where frac: "leading_fraction False 0 (fl_of 1) (ds @ u @ rest) = (digits_val ds, sc, u @ rest)"
    and sc: "is_nat sc (10 ^ length ds)"
    using leading_fraction_digits [OF ds(1) nd(1), of 0 0 "fl_of 1"] fl_of_exact [of 1] ds(2) by auto
  have nU: "n \<le> 2 ^ 63 div U" using sum U(1) unfolding U_def by (simp add: less_eq_div_iff_mult_less_eq)
  have fraction: "fl_trunc (fl_mul (fl_of (digits_val ds)) (fl_div (fl_of U) sc)) = digits_val ds * a"
  proof -
    have f: "digits_val ds < 10 ^ length ds" using digits_val_less [OF ds(1)] .
    have p: "(10::nat) ^ length ds \<le> 10 ^ 9" using ds(2) by (intro power_increasing) simp_all
    have "is_nat (fl_of (digits_val ds)) (digits_val ds)" using f p by (intro fl_of_exact) simp
    moreover have "a * 1 \<le> U" unfolding U_def by (intro mult_le_mono2) simp
    then have "a < 2 ^ 53" using U(2) by linarith
    then have "is_nat (fl_div (fl_of U) sc) a"
      using fl_div_exact [of "fl_of U" a "10 ^ length ds" sc] fl_of_exact [OF U(2)] sc by (simp add: U_def)
    moreover have "digits_val ds * a \<le> 10 ^ length ds * a" using f by (intro mult_le_mono1) simp
    then have "digits_val ds * a < 2 ^ 53" using U(2) unfolding U_def mult.commute [of a] by (rule le_less_trans)
    ultimately show ?thesis by (intro fl_trunc_exact fl_mul_exact)
  qed
  have head: "is_digit (hd (show_nat n @ ?tail))" using N by (cases "show_nat n") auto
  have pre: "length ?tail \<noteq> length (show_nat n @ ?tail)" using N by simp
  have start: "show_nat n @ ?tail \<noteq> []" using N by simp
  have map: "map_of unit_map u = Some U" using unit(1) unfolding U_def .
  have s2: "(if ?tail \<noteq> [] \<and> hd ?tail = CHR ''.'' then leading_fraction False 0 (fl_of 1) (tl ?tail)
      else (0, fl_of 1, ?tail)) = (digits_val ds, if ds = [] then fl_of 1 else sc, u @ rest)"
    using frac nd(2) by (cases "ds = []") auto
  have w: "n * U + (if digits_val ds > 0 then fl_trunc (fl_mul (fl_of (digits_val ds))
      (fl_div (fl_of U) (if ds = [] then fl_of 1 else sc))) else 0) = n * U + digits_val ds * a"
    using fraction by (cases "ds = []") auto
  have "parse_term (show_nat n @ ?tail) = Some (n * U + digits_val ds * a, rest)"
    unfolding parse_term_def int option.case prod.case Let_def s2 span map w
    using head pre start nU sum unit(2) by (simp add: U_def)
  then show ?thesis unfolding U_def .
qed

text \<open>A unit with a fraction of as many digits as it has zeros, and a whole number of minutes or hours.\<close>

lemma parse_term_fraction:
  assumes "fmt_frac prec v = (frac, w)" and "map_of unit_map u = Some (10 ^ prec)" and "u \<noteq> []"
    and "list_all unit_char u" and "prec \<le> 9" and "v \<le> 2 ^ 63"
  shows "parse_term (show_nat w @ frac @ u) = Some (v, [])"
proof -
  obtain ds where ds: "frac = (if ds = [] then [] else CHR ''.'' # ds)" "list_all is_digit ds"
    "w = v div 10 ^ prec" "length ds \<le> prec" "digits_val ds * 10 ^ (prec - length ds) = v mod 10 ^ prec"
    using fmt_frac_result [OF assms(1)] by blast
  define a :: nat where "a = 10 ^ (prec - length ds)"
  have a: "a * 10 ^ length ds = 10 ^ prec" using ds(4) unfolding a_def by (simp flip: power_add)
  have p: "(10::nat) ^ prec \<le> 10 ^ 9" using assms(5) by (intro power_increasing) simp_all
  have v: "w * (a * 10 ^ length ds) + digits_val ds * a = v"
    unfolding a ds(3) using ds(5) unfolding a_def by (simp only: div_mult_mod_eq)
  show ?thesis
    using parse_term_printed [of u a ds "[]" w] assms(2-6) ds p a v unfolding a_def by simp
qed

lemma parse_term_whole:
  assumes "u \<in> {''m'', ''h''}" and "unit = (if u = ''m'' then 60 else 3600) * 10 ^ 9"
    and "n * unit \<le> 2 ^ 63" and "rest \<noteq> []" and "is_digit (hd rest)"
  shows "parse_term (show_nat n @ u @ rest) = Some (n * unit, rest)"
  using parse_term_printed [of u unit "[]" rest n] assms
  by (auto simp: unit_map_def unit_char_def is_digit_def between_def byte_of_def)

section \<open>Durations\<close>

lemma parse_terms_step:
  assumes "parse_term s = Some (v, r)" and "d + v \<le> 2 ^ 63"
  shows "parse_terms s d = parse_terms r (d + v)"
proof -
  have "s \<noteq> []" using assms(1) by (auto simp: parse_term_def)
  moreover have "(d + v) mod 2 ^ 64 = d + v" using assms(2) by (intro mod_less) simp
  ultimately show ?thesis using assms by (subst parse_terms.simps) (simp add: Let_def)
qed

lemma parse_terms_end [simp]: "parse_terms [] d = Some d"
  by (subst parse_terms.simps) simp

lemma parse_duration_terms:
  assumes "t \<noteq> []" and "is_digit (hd t)" and "last t = CHR ''s''" and "parse_terms t 0 = Some d" and "d < 2 ^ 63"
  shows "parse_duration t = Some (int d)"
proof -
  have "\<not> has_prefix t ''-''" "\<not> has_prefix t ''+''"
    using assms(1,2) by (cases t; auto simp: has_prefix_def is_digit_def between_def byte_of_def)+
  moreover have "t \<noteq> ''0''" using assms(3) by auto
  ultimately show ?thesis using assms by (simp add: parse_duration_def Let_def)
qed

lemma show_nat_head [simp]: "show_nat n @ r \<noteq> []" "is_digit (hd (show_nat n @ r))"
  using show_nat_digits [of n] by (cases "show_nat n"; auto)+

text \<open>The units a fraction is printed with.\<close>

lemma fraction_units:
  "map_of unit_map ''ns'' = Some (10 ^ 0)" "map_of unit_map [CHR 0xC2, CHR 0xB5, CHR ''s''] = Some (10 ^ 3)"
  "map_of unit_map ''ms'' = Some (10 ^ 6)" "map_of unit_map ''s'' = Some (10 ^ 9)"
  "list_all unit_char ''ns''" "list_all unit_char [CHR 0xC2, CHR 0xB5, CHR ''s'']"
  "list_all unit_char ''ms''" "list_all unit_char ''s''"
  by (simp_all add: unit_map_def unit_char_def is_digit_def between_def byte_of_def)

lemma show_below_second_parts:
  assumes "u < 10 ^ 9"
  obtains prec name frac w where "show_below_second u = show_nat w @ frac @ name" and "fmt_frac prec u = (frac, w)"
    and "map_of unit_map name = Some (10 ^ prec)" and "list_all unit_char name" and "prec \<le> 9"
    and "name \<noteq> []" and "last name = CHR ''s''"
proof -
  consider "u = 0" | "0 < u" "u < 1000" | "1000 \<le> u" "u < 1000000" | "1000000 \<le> u" by linarith
  then show thesis
  proof cases
    case 1
    have "fmt_frac 9 0 = ([], 0)" by code_simp
    moreover have "show_nat 0 = ''0''" by (subst show_nat.simps) (simp add: digit_of_def)
    ultimately show thesis using 1 that [of 0 "[]" "''s''" 9] fraction_units by (simp add: show_below_second_def)
  next
    case 2
    then show thesis using that [of _ _ "''ns''" 0] fraction_units
      by (cases "fmt_frac 0 u") (simp add: show_below_second_def)
  next
    case 3
    then show thesis using that [of _ _ "[CHR 0xC2, CHR 0xB5, CHR ''s'']" 3] fraction_units
      by (cases "fmt_frac 3 u") (simp add: show_below_second_def)
  next
    case 4
    then show thesis using that [of _ _ "''ms''" 6] fraction_units
      by (cases "fmt_frac 6 u") (simp add: show_below_second_def)
  qed
qed

lemma parse_below_second:
  assumes "u < 10 ^ 9"
  shows "parse_duration (show_below_second u) = Some (int u)"
proof -
  obtain prec name frac w where e: "show_below_second u = show_nat w @ frac @ name"
    and f: "fmt_frac prec u = (frac, w)" "map_of unit_map name = Some (10 ^ prec)"
    and n: "name \<noteq> []" "list_all unit_char name" "prec \<le> 9" and l: "last name = CHR ''s''"
    using show_below_second_parts [OF assms] by metis
  have "parse_term (show_nat w @ frac @ name) = Some (u, [])"
    using assms by (intro parse_term_fraction [OF f n]) simp
  then have "parse_terms (show_nat w @ frac @ name) 0 = Some u"
    using assms by (subst parse_terms_step) auto
  then show ?thesis
    unfolding e using assms n(1) l by (intro parse_duration_terms) auto
qed

lemma parse_seconds:
  assumes "u < 2 ^ 63"
  shows "parse_duration (show_seconds u) = Some (int u)"
proof -
  obtain frac secs where f: "fmt_frac 9 u = (frac, secs)" by fastforce
  define mins where "mins = secs div 60"
  define hours where "hours = mins div 60"
  define under where "under = (secs mod 60) * 10 ^ 9 + u mod 10 ^ 9"
  have secs: "secs = u div 10 ^ 9" using fmt_frac_result [OF f] by blast
  have under: "under < 60 * 10 ^ 9"
  proof -
    have "secs mod 60 \<le> 59" "u mod 10 ^ 9 < 10 ^ 9" by simp_all
    then show ?thesis unfolding under_def by simp
  qed
  have split: "u = secs * 10 ^ 9 + u mod 10 ^ 9" "secs = mins * 60 + secs mod 60" "mins = hours * 60 + mins mod 60"
    unfolding secs mins_def hours_def by (simp_all only: div_mult_mod_eq)
  have parts: "u = hours * (3600 * 10 ^ 9) + (mins mod 60) * (60 * 10 ^ 9) + under"
    using split unfolding under_def by simp
  let ?s = "show_nat (secs mod 60) @ frac @ ''s''"
  let ?m = "show_nat (mins mod 60) @ ''m'' @ ?s"
  let ?h = "show_nat hours @ ''h'' @ ?m"
  have last_term: "parse_term ?s = Some (under, [])"
  proof -
    have "fmt_frac 9 under = (frac, secs mod 60)"
      using fmt_frac_mod [OF f, of under] unfolding under_def secs by simp
    then show ?thesis by (rule parse_term_fraction) (use fraction_units under in simp_all)
  qed
  have min_term: "parse_term ?m = Some ((mins mod 60) * (60 * 10 ^ 9), ?s)"
    by (rule parse_term_whole) simp_all
  have hour_term: "parse_term ?h = Some (hours * (3600 * 10 ^ 9), ?m)"
    using parts assms by (intro parse_term_whole) simp_all
  have printed: "show_seconds u = (if mins = 0 then ?s else if hours = 0 then ?m else ?h)"
    by (auto simp: show_seconds_def f Let_def mins_def hours_def)
  have s: "parse_terms ?s d = Some (d + under)" if "d + under \<le> 2 ^ 63" for d
    using parse_terms_step [OF last_term that] by simp
  have m: "parse_terms ?m d = Some (d + (mins mod 60) * (60 * 10 ^ 9) + under)"
    if "d + (mins mod 60) * (60 * 10 ^ 9) + under \<le> 2 ^ 63" for d
    using parse_terms_step [OF min_term, of d] s [OF that] that by simp
  have h: "parse_terms ?h 0 = Some u"
    using parse_terms_step [OF hour_term, of 0] m [of "hours * (3600 * 10 ^ 9)"] parts assms by simp
  have "hours = 0" "mins mod 60 = 0" if "mins = 0" using that unfolding hours_def by simp_all
  then have "parse_terms (show_seconds u) 0 = Some u"
    using s [of 0] m [of 0] h parts assms unfolding printed by auto
  then show ?thesis using assms by (intro parse_duration_terms) (auto simp: printed)
qed

lemma duration_back:
  assumes "0 \<le> d" and "d < 2 ^ 63"
  shows "parse_duration (show_duration d) = Some d"
  using assms parse_below_second [of "nat d"] parse_seconds [of "nat d"]
  by (auto simp: show_duration_def Let_def)

end
