(* ===== verification/Config_Doc_Facts.thy ===== *)
theory Config_Doc_Facts
  imports Config_Doc Config_Facts Json_Secrets Duration_Facts
begin

text \<open>
  What the documents promise: a written registry or config document reads back as itself, whatever it
  holds, and no document that is read breaks a rule. The lemmas follow the text inwards: the characters
  of every field, the decoder on the printed value, the secret scan over the printed text.
\<close>

section \<open>Field names\<close>

text \<open>Distinct field names of the two schemas never match each other.\<close>

lemma fold_name_ascii:
  "list_all (\<lambda>c. byte_of c < 0x80) s \<Longrightarrow> fold_name s = map (\<lambda>c. fold_rune (byte_of c)) s"
  by (induction s) (simp_all add: fold_name_def runes_def rune_spans_ascii)

lemma field_names [simp]:
  "names_field ''id'' ''id''" "names_field ''display_name'' ''display_name''" "names_field ''remote'' ''remote''"
  "\<not> names_field ''display_name'' ''id''" "\<not> names_field ''remote'' ''id''" "\<not> names_field ''remote'' ''display_name''"
  "names_field ''schema_version'' ''schema_version''" "names_field ''projects'' ''projects''"
  "names_field ''default_timeout'' ''default_timeout''" "names_field ''backend'' ''backend''"
  "names_field ''operator_key'' ''operator_key''"
  "\<not> names_field ''projects'' ''schema_version''" "\<not> names_field ''default_timeout'' ''schema_version''"
  "\<not> names_field ''backend'' ''schema_version''" "\<not> names_field ''operator_key'' ''schema_version''"
  "\<not> names_field ''backend'' ''default_timeout''" "\<not> names_field ''operator_key'' ''default_timeout''"
  "\<not> names_field ''projects'' ''default_timeout''" "\<not> names_field ''operator_key'' ''backend''"
  "\<not> names_field ''projects'' ''backend''" "\<not> names_field ''projects'' ''operator_key''"
  by (simp_all add: names_field_def fold_name_ascii fold_rune_def byte_of_def)

section \<open>Fields that are valid UTF-8\<close>

lemma lower_digit_dash_ascii: "lower_digit_dash c \<Longrightarrow> byte_of c < 0x80"
  by (auto simp: lower_digit_dash_def lower_digit_def is_lower_def is_digit_def between_def byte_of_def)

lemma id_utf8: "validate_project_id pid = None \<Longrightarrow> valid_utf8 pid"
  unfolding validate_project_id_None
  by (rule ascii_utf8) (auto simp: list_all_iff dest!: lower_digit_dash_ascii)

lemma name_utf8: "validate_display_name s = None \<Longrightarrow> valid_utf8 s"
  by (auto simp: validate_display_name_def split: if_splits)

lemma remote_utf8: "validate_remote s = None \<Longrightarrow> valid_utf8 s"
  by (auto simp: validate_remote_def valid_utf8_def split: if_splits)

lemma backend_utf8: "full_match backendNamePattern s \<Longrightarrow> valid_utf8 s"
  unfolding backendNamePattern_def full_match_lang slug_lang
  by (rule ascii_utf8) (auto simp: list_all_iff dest!: lower_digit_dash_ascii)

section \<open>The decoder on a printed registry\<close>

lemma into_project_back [simp]: "into_project (project_json p) q = Some p"
  by (simp add: into_project_def project_json_def into_struct_def project_member_def into_string_def)

lemma into_projects_back:
  "into_items no_project into_project (map project_json ps) [] = Some ps"
  by (induction ps) simp_all

lemma into_slice_back:
  obtains s where "into_slice no_project into_project (projects_json ps) None = Some s" and "slice_elems s = ps"
proof (cases ps)
  case Nil
  then show thesis using that [of "Some ([], 0)"]
    by (simp add: projects_json_def into_slice_def slice_elems_def)
next
  case (Cons p qs)
  then have "into_slice no_project into_project (projects_json ps) None = Some (Some (ps, length ps))"
    using into_projects_back [of ps] by (simp add: projects_json_def into_slice_def slice_memory_def)
  then show thesis using that by (simp add: slice_elems_def)
qed

lemma printable_project: "project_validate p = None \<Longrightarrow> printable (project_json p)"
  by (simp add: project_json_def project_validate_None id_utf8 name_utf8 remote_utf8 ascii_utf8 byte_of_def)

lemma printable_projects:
  "list_all (\<lambda>p. project_validate p = None) ps \<Longrightarrow> printable (projects_json ps)"
  by (simp add: projects_json_def list_all_iff printable_project)

lemma depth_projects: "depth (projects_json ps) \<le> 2"
  by (induction ps) (simp_all add: projects_json_def project_json_def)

lemma registry_document:
  assumes "list_all (\<lambda>p. project_validate p = None) ps"
  shows "json_document (registry_text ps) = Some (registry_json ps)"
  unfolding registry_text_def
proof (rule document_back)
  show "printable (registry_json ps)"
    using printable_projects [OF assms] by (simp add: registry_json_def RegistrySchemaVersion_def ascii_utf8 byte_of_def)
  show "depth (registry_json ps) \<le> maxNestingDepth"
    using depth_projects [of ps] by (simp add: registry_json_def maxNestingDepth_def)
  show "skip_space [newline] = []" by (simp add: skip_space_def json_space_def newline_def)
qed

section \<open>The secret scan over a printed registry\<close>

lemma no_control_low: "\<not> has_control_rune s \<Longrightarrow> no_low s"
  by (auto simp: has_control_rune_def no_low_def list_ex_iff list_all_iff is_control_def)

lemma no_low_ascii: "list_all (\<lambda>c. 0x20 \<le> byte_of c \<and> byte_of c < 0x80) s \<Longrightarrow> no_low s"
  by (induction s) (simp_all add: no_low_def runes_def rune_spans_ascii)

lemma lower_digit_dash_printable: "lower_digit_dash c \<Longrightarrow> 0x20 \<le> byte_of c \<and> byte_of c < 0x80"
  by (auto simp: lower_digit_dash_def lower_digit_def is_lower_def is_digit_def between_def byte_of_def)

lemma id_low: "validate_project_id pid = None \<Longrightarrow> no_low pid"
  unfolding validate_project_id_None
  by (rule no_low_ascii) (auto simp: list_all_iff dest!: lower_digit_dash_printable)

lemma name_low: "validate_display_name s = None \<Longrightarrow> no_low s"
  by (auto simp: validate_display_name_def no_control_low split: if_splits)

lemma remote_low: "validate_remote s = None \<Longrightarrow> no_low s"
  by (auto simp: validate_remote_def no_control_low split: if_splits) (simp add: no_low_def runes_def)

lemma project_no_secret:
  assumes "project_validate p = None"
  shows "\<not> contains_secret_shape (ID p)" "\<not> contains_secret_shape (DisplayName p)" "\<not> contains_secret_shape (Remote p)"
proof -
  have "redact_string [] = []" by (simp add: redact_string_def secret_patterns_def)
  then have "\<not> contains_secret_shape []" by (simp add: contains_secret_shape_def)
  then show "\<not> contains_secret_shape (ID p)" "\<not> contains_secret_shape (DisplayName p)" "\<not> contains_secret_shape (Remote p)"
    using assms unfolding project_validate_None
    by (auto simp: validate_project_id_None validate_display_name_def validate_remote_def split: if_splits)
qed

text \<open>No shape has fewer than fifteen characters, so no short text carries one.\<close>

fun min_length :: "re \<Rightarrow> nat" where
  "min_length (Lit p) = length p"
| "min_length (Cls p) = 1"
| "min_length (Run p lo hi) = lo"
| "min_length (Seq a b) = min_length a + min_length b"
| "min_length (Alt a b) = min (min_length a) (min_length b)"
| "min_length (Opt a) = 0"

lemma min_length_lang: "m \<in> lang r \<Longrightarrow> min_length r \<le> length m"
  by (induction r arbitrary: m) (auto simp: add_mono min.coboundedI1 min.coboundedI2)

lemma short_clean: "p \<in> set secret_patterns \<Longrightarrow> length s < 15 \<Longrightarrow> clean p s"
proof -
  assume p: "p \<in> set secret_patterns" and s: "length s < 15"
  have "15 \<le> min_length p" using p by (auto simp: secret_patterns_def pattern_defs)
  then show "clean p s" using s min_length_lang [of _ p] unfolding clean_def by fastforce
qed

text \<open>The field names of the documents.\<close>

definition start_char :: "char \<Rightarrow> bool" where
  "start_char c \<longleftrightarrow> c \<in> set ''sgxA-bB''"

lemma fold_case_b: "fold_case CHR ''b'' c \<Longrightarrow> c = CHR ''b'' \<or> c = CHR ''B''"
proof -
  assume b: "fold_case CHR ''b'' c"
  show ?thesis
  proof (cases "is_upper c")
    case True
    then have "byte_of c + 32 < 256" by (simp add: is_upper_def between_def byte_of_def)
    then have "byte_of (to_lower_char c) = byte_of c + 32" using True by (simp add: to_lower_char_def byte_of_def)
    then have "byte_of c = byte_of CHR ''B''" using b by (simp add: fold_case_def byte_of_def)
    then show ?thesis by simp
  qed (use b in \<open>simp add: fold_case_def to_lower_char_def\<close>)
qed

lemma start_char_pattern: "p \<in> set secret_patterns \<Longrightarrow> starts c p \<Longrightarrow> start_char c"
  by (auto simp: secret_patterns_def pattern_defs c_in_def start_char_def dest: fold_case_b)

lemma clean_nonstart:
  assumes "p \<in> set secret_patterns" and "list_all (\<lambda>c. \<not> start_char c) u" and "clean p s"
  shows "clean p (u @ s)"
  using assms(2,3) start_char_pattern [OF assms(1)]
  by (induction u) (auto intro!: clean_skip pattern_shape [OF assms(1)])

lemma timeout_key_quiet: "list_all (\<lambda>c. \<not> start_char c) ''default_timeout''"
  by (simp add: start_char_def)

lemma keys_clean:
  assumes "p \<in> set secret_patterns"
    and "k \<in> {''id'', ''display_name'', ''remote'', ''schema_version'', ''projects'', ''default_timeout'', ''backend'',
      ''operator_key'', ''2'', ''4''}"
  shows "no_low k \<and> clean p k"
proof
  show "no_low k" using assms(2) by (auto intro!: no_low_ascii simp: byte_of_def)
  have "clean p (''default_timeout'' @ [])"
    using clean_nonstart [OF assms(1), of "''default_timeout''" "[]"] timeout_key_quiet short_clean [OF assms(1), of "[]"] by simp
  then show "clean p k" using assms short_clean [OF assms(1), of k] by auto
qed

lemma project_clean:
  assumes "p \<in> set secret_patterns" and "project_validate e = None"
  shows "clean_texts p (project_json e)"
  using assms(2) project_no_secret [OF assms(2)] assms(1) keys_clean [OF assms(1)]
  by (simp add: project_json_def project_validate_None id_low name_low remote_low not_secret_shape_iff)

lemma registry_clean:
  assumes "list_all (\<lambda>p. project_validate p = None) ps"
  shows "\<not> contains_secret_shape (registry_text ps)"
  unfolding registry_text_def
proof (rule printed_not_secret)
  fix p assume p: "p \<in> set secret_patterns"
  have "list_all (clean_texts p) (map project_json ps)"
    using assms project_clean [OF p] by (simp add: list_all_iff)
  then show "clean_texts p (registry_json ps)"
    using keys_clean [OF p] by (simp add: registry_json_def projects_json_def RegistrySchemaVersion_def)
qed

section \<open>The registry read back\<close>

lemma registry_back:
  assumes "validate_projects ps = None"
  shows "parse_registry (registry_text ps) = Inr ps"
proof -
  have v: "list_all (\<lambda>p. project_validate p = None) ps" using assms by (simp add: validate_projects_None)
  note D = registry_document [OF v]
  obtain s where s: "into_slice no_project into_project (projects_json ps) None = Some s" "slice_elems s = ps"
    by (rule into_slice_back)
  have "probe_version (registry_text ps) = Some RegistrySchemaVersion"
    using D by (simp add: probe_version_def registry_json_def into_struct_def probe_member_def into_string_def)
  moreover have "decode_strict registry_member (registry_text ps) no_registryJSON =
      Some \<lparr>rj_SchemaVersion = RegistrySchemaVersion, rj_Projects = s\<rparr>"
    using D s by (simp add: decode_strict_def registry_json_def into_struct_def registry_member_def into_string_def
        no_registryJSON_def)
  ultimately show ?thesis
    using assms s registry_clean [OF v]
    by (simp add: parse_registry_def readableRegistryVersions_def RegistrySchemaVersion_def)
qed

section \<open>The config document read back\<close>

lemma set_timeout_back:
  assumes "t = 0 \<or> settings_validate t = None" and "Timeout f = 0"
  shows "set_timeout f (if t \<noteq> 0 then show_duration t else []) = Inr (f\<lparr>Timeout := t\<rparr>)"
proof (cases "t = 0")
  case True
  then show ?thesis using assms(2) by (simp add: set_timeout_def)
next
  case False
  then have v: "settings_validate t = None" using assms(1) by simp
  then have "0 \<le> t" "t < 2 ^ 63" by (simp_all add: settings_validate_None MaxTimeout_def second_def)
  then have b: "parse_duration (show_duration t) = Some t" by (rule duration_back)
  then have "show_duration t \<noteq> []" by (auto simp: parse_duration_def has_prefix_def)
  then show ?thesis using b v False by (simp add: set_timeout_def)
qed

lemma ascii_append: "list_all (\<lambda>c. byte_of c < 0x80) a \<Longrightarrow> valid_utf8 (a @ s) = valid_utf8 s"
  by (induction a) (simp_all add: valid_utf8_def rune_spans_ascii rune_error_def)

lemma digit_ascii: "is_digit c \<Longrightarrow> byte_of c < 0x80"
  by (simp add: is_digit_def between_def byte_of_def)

lemma show_nat_utf8 [simp]: "valid_utf8 (show_nat n @ s) = valid_utf8 s"
  using show_nat_digits [of n] by (intro ascii_append) (auto simp: list_all_iff digit_ascii)

lemma frac_utf8: "fmt_frac i v = (frac, w) \<Longrightarrow> valid_utf8 (frac @ s) = valid_utf8 s"
  by (erule fmt_frac_result, rule ascii_append) (auto simp: list_all_iff dest: digit_ascii, simp add: byte_of_def)

lemma micro_utf8: "valid_utf8 [CHR 0xC2, CHR 0xB5, CHR ''s'']"
proof -
  have "decode_rune [CHR 0xC2, CHR 0xB5, CHR ''s''] = (0xB5, 2)"
    by (simp add: decode_rune_def decode4_def cont_def byte_at_def byte_of_def)
  then have "rune_spans [CHR 0xC2, CHR 0xB5, CHR ''s''] = (0xB5, [CHR 0xC2, CHR 0xB5]) # rune_spans ''s''"
    using rune_spans_step [of "[CHR 0xC2, CHR 0xB5, CHR ''s'']"] by (simp add: numeral_2_eq_2)
  then show ?thesis by (simp add: valid_utf8_def rune_spans_ascii rune_error_def byte_of_def)
qed

lemma unit_utf8 [simp]:
  "valid_utf8 ''ns''" "valid_utf8 [CHR 0xC2, CHR 0xB5, CHR ''s'']" "valid_utf8 ''ms''" "valid_utf8 ''s''" "valid_utf8 ''0s''"
  "valid_utf8 (CHR ''m'' # s) = valid_utf8 s" "valid_utf8 (CHR ''h'' # s) = valid_utf8 s" "valid_utf8 (CHR ''-'' # s) = valid_utf8 s"
  using ascii_append [of "''m''" s] ascii_append [of "''h''" s] ascii_append [of "''-''" s]
  by (simp_all add: ascii_utf8 byte_of_def micro_utf8)

lemma duration_utf8: "valid_utf8 (show_duration t)"
proof -
  have "valid_utf8 (show_below_second u)" "valid_utf8 (show_seconds u)" for u
    using frac_utf8
    by (auto simp: show_below_second_def show_seconds_def Let_def split: prod.splits)
  then show ?thesis by (simp add: show_duration_def Let_def)
qed

lemma file_document:
  assumes "file_validate f = None" and "SchemaVersion f = ConfigSchemaVersion" and "valid_utf8 (OperatorKey f)"
  shows "json_document (file_text f) = Some (file_json f)"
  unfolding file_text_def
proof (rule document_back)
  have "list_all (\<lambda>p. project_validate p = None) (Projects f)" "Backend f \<noteq> [] \<Longrightarrow> valid_utf8 (Backend f)"
    using assms(1) backend_utf8 by (auto simp: file_validate_None header_ok_def validate_projects_None)
  then show "printable (file_json f)"
    using printable_projects assms(2,3) duration_utf8
    by (auto simp: file_json_def optional_member_def ConfigSchemaVersion_def ascii_utf8 byte_of_def)
  show "depth (file_json f) \<le> maxNestingDepth"
    using depth_projects [of "Projects f"] by (simp add: file_json_def optional_member_def maxNestingDepth_def)
  show "skip_space [newline] = []" by (simp add: skip_space_def json_space_def newline_def)
qed

lemma into_fields_append:
  "into_fields m (fs @ gs) r = (case into_fields m fs r of None \<Rightarrow> None | Some r' \<Rightarrow> into_fields m gs r')"
  by (induction m fs r rule: into_fields.induct) (simp_all split: option.split)

definition all_members :: "string list" where
  "all_members = version_fields ConfigSchemaVersion"

lemma members_optional:
  "into_fields (file_member all_members) (optional_member ''default_timeout'' s) r =
     Some (if s = [] then r else r\<lparr>fj_DefaultTimeout := s\<rparr>)"
  "into_fields (file_member all_members) (optional_member ''backend'' s) r = Some (if s = [] then r else r\<lparr>fj_Backend := s\<rparr>)"
  "into_fields (file_member all_members) (optional_member ''operator_key'' s) r =
     Some (if s = [] then r else r\<lparr>fj_OperatorKey := s\<rparr>)"
  by (simp_all add: optional_member_def file_member_def into_string_def all_members_def version_fields_def ConfigSchemaVersion_def)

lemma members_fixed:
  "file_member all_members ''schema_version'' (JStr s) r = Some (r\<lparr>fj_SchemaVersion := s\<rparr>)"
  "file_member all_members ''projects'' j r =
     map_option (\<lambda>ps. r\<lparr>fj_Projects := ps\<rparr>) (into_slice no_project into_project j (fj_Projects r))"
  by (simp_all add: file_member_def into_string_def all_members_def version_fields_def ConfigSchemaVersion_def)

lemma file_members_back:
  assumes "json_document (file_text f) = Some (file_json f)"
  obtains s where "decode_strict (file_member (version_fields ConfigSchemaVersion)) (file_text f) no_fileJSON =
      Some \<lparr>fj_SchemaVersion = SchemaVersion f,
        fj_DefaultTimeout = (if Timeout f \<noteq> 0 then show_duration (Timeout f) else []),
        fj_Backend = Backend f, fj_OperatorKey = OperatorKey f, fj_Projects = s\<rparr>"
    and "slice_elems s = Projects f"
proof -
  obtain s where s: "into_slice no_project into_project (projects_json (Projects f)) None = Some s" "slice_elems s = Projects f"
    by (rule into_slice_back)
  define t where "t = (if Timeout f \<noteq> 0 then show_duration (Timeout f) else [])"
  show thesis
  proof (rule that [OF _ s(2)])
    show "decode_strict (file_member (version_fields ConfigSchemaVersion)) (file_text f) no_fileJSON =
      Some \<lparr>fj_SchemaVersion = SchemaVersion f,
        fj_DefaultTimeout = (if Timeout f \<noteq> 0 then show_duration (Timeout f) else []),
        fj_Backend = Backend f, fj_OperatorKey = OperatorKey f, fj_Projects = s\<rparr>"
      using assms s(1) unfolding file_json_def t_def [symmetric] all_members_def [symmetric]
      by (auto simp: decode_strict_def into_struct_def into_fields_append members_optional members_fixed no_fileJSON_def)
  qed
qed

lemma file_back:
  assumes "file_validate f = None" and "SchemaVersion f = ConfigSchemaVersion" and "valid_utf8 (OperatorKey f)"
    and "\<not> contains_secret_shape (file_text f)"
  shows "parse_file (file_text f) = Inr (f, ConfigSchemaVersion)"
proof -
  note D = file_document [OF assms(1-3)]
  have T: "Timeout f = 0 \<or> settings_validate (Timeout f) = None"
    using assms(1) by (simp add: file_validate_None header_ok_def)
  have probe: "probe_version (file_text f) = Some ConfigSchemaVersion"
    using D assms(2) by (simp add: probe_version_def file_json_def into_struct_def probe_member_def into_string_def
        optional_member_def)
  obtain s where m: "decode_strict (file_member (version_fields ConfigSchemaVersion)) (file_text f) no_fileJSON =
      Some \<lparr>fj_SchemaVersion = SchemaVersion f,
        fj_DefaultTimeout = (if Timeout f \<noteq> 0 then show_duration (Timeout f) else []),
        fj_Backend = Backend f, fj_OperatorKey = OperatorKey f, fj_Projects = s\<rparr>"
    and s: "slice_elems s = Projects f"
    by (rule file_members_back [OF D])
  define g where "g = \<lparr>SchemaVersion = ConfigSchemaVersion, Timeout = 0, Backend = Backend f,
    OperatorKey = OperatorKey f, Projects = []\<rparr>"
  have t: "set_timeout g (if Timeout f \<noteq> 0 then show_duration (Timeout f) else []) = Inr (g\<lparr>Timeout := Timeout f\<rparr>)"
    by (rule set_timeout_back [OF T]) (simp add: g_def)
  have "g\<lparr>Timeout := Timeout f, Projects := Projects f\<rparr> = f" using assms(2) by (simp add: g_def)
  then show ?thesis
    using assms(1,4) probe m s t by (simp add: parse_file_def Let_def flip: g_def)
qed

section \<open>What reading guarantees\<close>

lemma set_timeout_Inr:
  "set_timeout f raw = Inr g \<Longrightarrow> \<exists>t. g = f\<lparr>Timeout := t\<rparr>"
  by (auto simp: set_timeout_def split: if_splits option.splits) (metis config_file.surjective config_file.update_convs(2))

lemma parse_file_Inr:
  assumes "parse_file data = Inr (f, v)"
  shows "file_validate f = None" and "SchemaVersion f = ConfigSchemaVersion" and "readable_schema_version v"
    and "\<not> contains_secret_shape data" and "probe_version data = Some v"
    and "\<exists>raw. decode_strict (file_member (version_fields v)) data no_fileJSON = Some raw \<and>
      Backend f = fj_Backend raw \<and> OperatorKey f = fj_OperatorKey raw"
  using assms
  by (auto simp: parse_file_def Let_def split: if_splits option.splits sum.splits dest!: set_timeout_Inr)

lemma parse_registry_Inr:
  assumes "parse_registry data = Inr ps"
  shows "validate_projects ps = None" and "\<not> contains_secret_shape data"
  using assms by (auto simp: parse_registry_def Let_def split: if_splits option.splits)

text \<open>A member a version does not have is never set.\<close>

lemma members_keep:
  assumes "into_fields (file_member known) fs r = Some r'"
  shows "\<forall>k. \<not> (list_ex (names_field k) known \<and> names_field k ''backend'') \<Longrightarrow> fj_Backend r' = fj_Backend r"
    and "\<forall>k. \<not> (list_ex (names_field k) known \<and> names_field k ''operator_key'') \<Longrightarrow> fj_OperatorKey r' = fj_OperatorKey r"
  using assms
  by (induction fs arbitrary: r; fastforce simp: file_member_def split: option.splits if_splits)+

end
