(* ===== verification/Config_Store_Facts.thy ===== *)
theory Config_Store_Facts
  imports Config_Store Config_Doc_Facts Registry
begin

text \<open>
  The documents on disk keep what the registry interface promises: a write is all or nothing for every
  reader, what it reports persisted is what the next read returns, and nothing is read that is not a
  private file of the operator. The locale of the registry store is interpreted on the file tree.
\<close>

section \<open>Directories\<close>

lemma dir_chain_prefix: "d' \<in> set (dir_chain d) \<Longrightarrow> length d' \<le> length d"
  by (auto simp: dir_chain_def)

lemma mkdirs_elsewhere: "mkdirs env ds t = (b, t') \<Longrightarrow> x \<notin> set ds \<Longrightarrow> t' x = t x"
  by (induction ds arbitrary: t) (auto split: option.splits if_splits)

lemma mkdirs_kept: "mkdirs env ds t = (b, t') \<Longrightarrow> t x = Some n \<Longrightarrow> t' x = Some n"
proof (induction ds arbitrary: t)
  case (Cons d ds)
  then show ?case
    by (cases "d = x") (auto split: option.splits if_splits)
qed simp

lemma mkdirs_private: "mkdirs env ds t = (b, t') \<Longrightarrow> t x = None \<Longrightarrow> t' x = None \<or> t' x = Some (private_dir env)"
proof (induction ds arbitrary: t)
  case (Cons d ds)
  then show ?case
    by (cases "d = x") (auto split: option.splits if_splits dest: mkdirs_kept)
qed simp

text \<open>A path with a directory part: what the operations are given.\<close>

definition file_path :: "string \<Rightarrow> bool" where
  "file_path path \<longleftrightarrow> path = path_dir path @ ''/'' @ path_base path"

lemma file_path_length: "file_path path \<Longrightarrow> length (path_dir path) < length path"
  unfolding file_path_def
  by (metis length_append less_add_same_cancel1 length_greater_0_conv list.discI append_is_Nil_conv)

lemma file_path_not_dir: "file_path path \<Longrightarrow> path \<notin> set (dir_chain (path_dir path))"
  using dir_chain_prefix by (fastforce simp: file_path_def dest: arg_cong [of _ _ length])

lemma temp_not_path: "file_path path \<Longrightarrow> temp_path env path \<noteq> path"
proof
  assume "file_path path" and "temp_path env path = path"
  then have "length (temp_path env path) = length (path_dir path @ ''/'' @ path_base path)"
    unfolding file_path_def by metis
  then show False by (simp add: temp_path_def)
qed

lemma temp_not_dir: "temp_path env path \<notin> set (dir_chain (path_dir path))"
  using dir_chain_prefix by (fastforce simp: temp_path_def)

section \<open>The write\<close>

definition healthy :: "fs_env \<Rightarrow> bool" where
  "healthy env \<longleftrightarrow> (\<forall>s. step_ok env s) \<and> lock_ok env \<and> meanwhile env = id"

lemma write_steps_states:
  assumes "file_path path" and "write_steps env path data t = (r, ts)" and "t' \<in> set ts"
  shows "t' path = t path \<or> t' path = Some (private_file env data)"
proof -
  obtain b t1 where m: "mkdir_all env (path_dir path) t = (b, t1)" by fastforce
  have "t1 path = t path"
    using m mkdirs_elsewhere file_path_not_dir [OF assms(1)] unfolding mkdir_all_def by blast
  then show ?thesis
    using assms(2,3) m temp_not_path [OF assms(1), of env]
    by (auto simp: write_steps_def Let_def abandon_def split: if_splits)
qed

lemma write_steps_result:
  assumes "file_path path" and "write_steps env path data t = (r, ts)"
  shows "ts \<noteq> []" and "r = None \<Longrightarrow> last ts path = Some (private_file env data)"
    and "r \<noteq> None \<Longrightarrow> last ts path = t path"
    and "remove_ok env \<or> r = None \<Longrightarrow> last ts (temp_path env path) = t (temp_path env path)"
proof -
  obtain b t1 where m: "mkdir_all env (path_dir path) t = (b, t1)" by fastforce
  have p: "t1 path = t path" "t1 (temp_path env path) = t (temp_path env path)"
    using m mkdirs_elsewhere file_path_not_dir [OF assms(1)] temp_not_dir unfolding mkdir_all_def by blast+
  note n = temp_not_path [OF assms(1), of env]
  show "ts \<noteq> []" and "r = None \<Longrightarrow> last ts path = Some (private_file env data)"
    and "r \<noteq> None \<Longrightarrow> last ts path = t path"
    and "remove_ok env \<or> r = None \<Longrightarrow> last ts (temp_path env path) = t (temp_path env path)"
    using assms(2) m p n
    by (auto simp: write_steps_def Let_def abandon_def split: if_splits)
qed

lemma private_file_trusted [simp]:
  "verify_trusted objRegular (n_type (private_file env data)) (fstat_perm (private_file env data))
     (n_uid (private_file env data)) (euid env) = None"
  by (simp add: verify_trusted_def private_file_def fstat_perm_def)

lemma private_dir_trusted [simp]:
  "verify_trusted objDir (n_type (private_dir env)) (fstat_perm (private_dir env))
     (n_uid (private_dir env)) (euid env) = None"
  by (simp add: verify_trusted_def private_dir_def fstat_perm_def)

section \<open>Reading what was written\<close>

lemma open_written:
  "t path = Some (private_file env data) \<Longrightarrow> open_trusted_file env t path =
     (if \<not> open_ok env path then Inl OpenFailed else if read_ok env path then Inr data else Inl ReadFailed)"
  by (simp add: open_trusted_file_def) (simp add: private_file_def)

lemma stat_cong: "t' dir = t dir \<Longrightarrow> stat_trusted_dir_if_exists env t' dir = stat_trusted_dir_if_exists env t dir"
  by (simp add: stat_trusted_dir_if_exists_def stat_trusted_dir_def)

lemma in_order_sorted: "in_order ps = sort_projects ps"
  by (simp add: in_order_def sort_projects_def)

lemma in_order_valid [simp]: "validate_projects (in_order ps) = None \<longleftrightarrow> validate_projects ps = None"
  by (simp add: in_order_sorted)

lemma write_frame:
  assumes "file_path path" and "write_file_private env path data t = (r, t')"
  shows "r = None \<and> t' path = Some (private_file env data) \<or> (\<exists>s. r = Some (StepFailed s)) \<and> t' path = t path"
    and "x \<noteq> path \<Longrightarrow> x \<notin> set (dir_chain (path_dir path)) \<Longrightarrow> x \<noteq> temp_path env path \<Longrightarrow> t' x = t x"
proof -
  obtain ts where w: "write_steps env path data t = (r, ts)" and t': "t' = last ts"
    using assms(2) by (cases "write_steps env path data t") (auto simp: write_file_private_def)
  have "r = None \<or> (\<exists>s. r = Some (StepFailed s))"
    using w by (auto simp: write_steps_def Let_def abandon_def split: if_splits prod.splits)
  then show "r = None \<and> t' path = Some (private_file env data) \<or> (\<exists>s. r = Some (StepFailed s)) \<and> t' path = t path"
    using write_steps_result [OF assms(1) w] t' by auto
  assume x: "x \<noteq> path" "x \<notin> set (dir_chain (path_dir path))" "x \<noteq> temp_path env path"
  obtain b t1 where m: "mkdir_all env (path_dir path) t = (b, t1)" by fastforce
  have "t1 x = t x" using m mkdirs_elsewhere x(2) unfolding mkdir_all_def by blast
  then show "t' x = t x"
    using w m x t' by (auto simp: write_steps_def Let_def abandon_def split: if_splits)
qed

text \<open>
  What the tree holds: the projects a reader finds whose opens succeed. An unreadable document holds none.
\<close>

definition reader :: "fs_env \<Rightarrow> fs_env" where
  "reader env = env\<lparr>open_ok := \<lambda>_. True, read_ok := \<lambda>_. True\<rparr>"

definition held :: "fs_env \<Rightarrow> paths \<Rightarrow> tree \<Rightarrow> project list" where
  "held env p t = (case resolve_registry (reader env) p t of Inl e \<Rightarrow> [] | Inr ps \<Rightarrow> ps)"

lemma mkdir_stat_reader:
  assumes "mkdir_all env d t = (b, t1)"
  shows "stat_trusted_dir_if_exists (reader env) t1 x = stat_trusted_dir_if_exists (reader env) t x"
proof (cases "t x")
  case None
  have "stat_trusted_dir (reader env) t1 x \<in> {None, Some NotExist}" if "t1 x = Some (private_dir env)"
    using that by (simp add: stat_trusted_dir_def reader_def private_dir_def verify_trusted_def fstat_perm_def)
  then show ?thesis
    using None mkdirs_private [OF assms [unfolded mkdir_all_def] None]
    by (auto simp: stat_trusted_dir_if_exists_def stat_trusted_dir_def split: option.splits)
next
  case (Some n)
  then show ?thesis
    using mkdirs_kept [OF assms [unfolded mkdir_all_def] Some] by (simp add: stat_trusted_dir_if_exists_def stat_trusted_dir_def)
qed

lemma write_stat_reader:
  assumes "file_path path" and "write_file_private env path data t = (r, t')"
  shows "stat_trusted_dir_if_exists (reader env) t' (path_dir path) = stat_trusted_dir_if_exists (reader env) t (path_dir path)"
proof -
  obtain b t1 where m: "mkdir_all env (path_dir path) t = (b, t1)" by fastforce
  have n: "path_dir path \<noteq> path" "path_dir path \<noteq> temp_path env path" using file_path_length [OF assms(1)] by (auto simp: temp_path_def)
  obtain ts where w: "write_steps env path data t = (r, ts)" and t': "t' = last ts"
    using assms(2) by (cases "write_steps env path data t") (auto simp: write_file_private_def)
  have "t' (path_dir path) = t1 (path_dir path)"
    using w m n t' by (auto simp: write_steps_def Let_def abandon_def split: if_splits)
  then show ?thesis using stat_cong mkdir_stat_reader [OF m] by metis
qed

lemma stat_not_refused: "stat_trusted_dir_if_exists env t d = Some e \<Longrightarrow> e \<noteq> BadDocument c \<and> e \<noteq> Refused c'"
  by (auto simp: stat_trusted_dir_if_exists_def stat_trusted_dir_def verify_trusted_def
      split: option.splits store_err.splits if_splits)

text \<open>The three ways a registry write can end, on a tree nobody else touches.\<close>

lemma store_registry_cases:
  assumes "file_path path" and "store_registry env path ps checkParent t = (r, t')" and "meanwhile env = id"
  obtains (invalid) e where "validate_projects (in_order ps) = Some e" and "r = Some (BadDocument e)" and "t' = t"
  | (unwritten) e where "validate_projects ps = None" and "r = Some e" and "t' path = t path" and "\<And>c. e \<noteq> BadDocument c \<and> e \<noteq> Refused c"
      and "\<And>x. x \<notin> set (dir_chain (path_dir path)) \<Longrightarrow> x \<noteq> temp_path env path \<Longrightarrow> t' x = t x"
      and "stat_trusted_dir_if_exists (reader env) t' (path_dir path) = stat_trusted_dir_if_exists (reader env) t (path_dir path)"
  | (persisted) "validate_projects ps = None" and "t' path = Some (private_file env (registry_text (in_order ps)))"
      and "r = verify_registry env path (in_order ps) checkParent t'"
      and "\<And>x. x \<noteq> path \<Longrightarrow> x \<notin> set (dir_chain (path_dir path)) \<Longrightarrow> x \<noteq> temp_path env path \<Longrightarrow> t' x = t x"
      and "stat_trusted_dir_if_exists (reader env) t' (path_dir path) = stat_trusted_dir_if_exists (reader env) t (path_dir path)"
proof (cases "validate_projects (in_order ps)")
  case (Some e)
  then show thesis using assms(2) invalid by (simp add: store_registry_def)
next
  case None
  then have v: "validate_projects ps = None" by simp
  show thesis
  proof (cases "if checkParent then stat_trusted_dir_if_exists env t (path_dir path) else None")
    case (Some e)
    then have "r = Some e" "t' = t" using assms(2) None by (simp_all add: store_registry_def Let_def)
    moreover have "e \<noteq> BadDocument c \<and> e \<noteq> Refused c" for c
      using Some stat_not_refused by (auto split: if_splits)
    ultimately show thesis using unwritten v by blast
  next
    case trusted: None
    obtain r1 t1 where w: "write_file_private env path (registry_text (in_order ps)) t = (r1, t1)" by fastforce
    note W = write_frame [OF assms(1) w] write_stat_reader [OF assms(1) w]
    have e: "(r, t') = (case r1 of Some e \<Rightarrow> (Some e, t1) | None \<Rightarrow> (verify_registry env path (in_order ps) checkParent t1, t1))"
      using assms(2,3) None trusted w by (cases r1) (auto simp: store_registry_def Let_def)
    show thesis
    proof (cases r1)
      case None
      then show thesis using e v W persisted by auto
    next
      case (Some e1)
      then have "r = Some e1" "t' = t1" using e by simp_all
      then show thesis using Some W unwritten [OF v, of e1] by fastforce
    qed
  qed
qed

text \<open>The registry's own path, apart from its directories and its temporary file.\<close>

definition separate :: "fs_env \<Rightarrow> paths \<Rightarrow> bool" where
  "separate env p \<longleftrightarrow> file_path (RegistryFile p) \<and>
     RootConfigFile p \<notin> set (dir_chain (path_dir (RegistryFile p))) \<and> RootConfigFile p \<noteq> temp_path env (RegistryFile p)"

lemma resolve_cong:
  assumes "t' (RegistryFile p) = t (RegistryFile p)" and "t' (RootConfigFile p) = t (RootConfigFile p)"
    and "explicitConfig p \<or> stat_trusted_dir_if_exists env t' (path_dir (RegistryFile p)) =
      stat_trusted_dir_if_exists env t (path_dir (RegistryFile p))"
  shows "resolve_registry env p t' = resolve_registry env p t"
proof -
  have o: "open_trusted_file env t' (RegistryFile p) = open_trusted_file env t (RegistryFile p)"
    "open_trusted_file env t' (RootConfigFile p) = open_trusted_file env t (RootConfigFile p)"
    using assms(1,2) by (simp_all add: open_trusted_file_def)
  have d: "(if \<not> explicitConfig p then stat_trusted_dir_if_exists env t' (path_dir (RegistryFile p)) else None) =
      (if \<not> explicitConfig p then stat_trusted_dir_if_exists env t (path_dir (RegistryFile p)) else None)"
    using assms(3) by auto
  have l: "load_registry env (RegistryFile p) (\<not> explicitConfig p) t' = load_registry env (RegistryFile p) (\<not> explicitConfig p) t"
    unfolding load_registry_def o d ..
  have g: "legacy_projects env (RootConfigFile p) t' = legacy_projects env (RootConfigFile p) t"
    unfolding legacy_projects_def o ..
  show ?thesis unfolding resolve_registry_def l g ..
qed

lemma open_reader:
  "open_trusted_file env t path = Inr data \<Longrightarrow> open_trusted_file (reader env) t path = Inr data"
  "open_trusted_file env t path = Inl NotExist \<Longrightarrow> open_trusted_file (reader env) t path = Inl NotExist"
  by (auto simp: open_trusted_file_def reader_def verify_trusted_def split: option.splits if_splits)

lemma stat_reader:
  "stat_trusted_dir_if_exists env t d = None \<Longrightarrow> stat_trusted_dir_if_exists (reader env) t d = None"
  by (auto simp: stat_trusted_dir_if_exists_def stat_trusted_dir_def reader_def verify_trusted_def
      split: option.splits store_err.splits if_splits)

lemma load_reader:
  assumes "load_registry env path chk t = Inr x"
  shows "load_registry (reader env) path chk t = Inr x"
proof -
  have d: "(if chk then stat_trusted_dir_if_exists (reader env) t (path_dir path) else None) = None"
    using assms stat_reader by (auto simp: load_registry_def split: option.splits)
  show ?thesis
  proof (cases "open_trusted_file env t path")
    case (Inl e)
    then have "e = NotExist" using assms by (auto simp: load_registry_def split: option.splits store_err.splits if_splits)
    then show ?thesis
      using assms Inl d open_reader(2) by (auto simp: load_registry_def split: option.splits if_splits)
  next
    case (Inr data)
    then show ?thesis
      using assms d open_reader(1) [OF Inr] by (simp add: load_registry_def split: option.splits if_splits)
  qed
qed

lemma legacy_reader:
  assumes "legacy_projects env path t = Inr ps"
  shows "legacy_projects (reader env) path t = Inr ps"
proof (cases "open_trusted_file env t path")
  case (Inl e)
  then have "e = NotExist" using assms by (auto simp: legacy_projects_def split: store_err.splits)
  then show ?thesis using assms Inl open_reader(2) by (simp add: legacy_projects_def)
next
  case (Inr data)
  then show ?thesis using assms open_reader(1) [OF Inr] by (simp add: legacy_projects_def)
qed

lemma resolve_reader:
  assumes "resolve_registry env p t = Inr ps"
  shows "held env p t = ps"
  using assms load_reader legacy_reader
  by (fastforce simp: resolve_registry_def held_def split: sum.splits option.splits)

text \<open>A persisted registry is what the tree holds.\<close>

lemma held_written:
  assumes "t (RegistryFile p) = Some (private_file env (registry_text ps))" and "validate_projects ps = None"
    and "stat_trusted_dir_if_exists (reader env) t (path_dir (RegistryFile p)) = None"
  shows "held env p t = ps"
proof -
  have "private_file (reader env) = private_file env" by (simp add: private_file_def reader_def fun_eq_iff)
  then have "open_trusted_file (reader env) t (RegistryFile p) = Inr (registry_text ps)"
    using open_written [of t "RegistryFile p" "reader env"] assms(1) by (simp add: reader_def)
  then show ?thesis
    using assms(2,3)
    by (auto simp: held_def resolve_registry_def load_registry_def registry_back)
qed

section \<open>The update under the lock\<close>

text \<open>The lock leaves the registry as it is: it can only add the directory the registry lives in.\<close>

lemma lock_frame:
  assumes "mkdir_all env (path_dir (RegistryFile p)) t = (b, t1)" and "separate env p"
  shows "t1 (RegistryFile p) = t (RegistryFile p)" and "t1 (RootConfigFile p) = t (RootConfigFile p)"
  using assms mkdirs_elsewhere file_path_not_dir unfolding mkdir_all_def separate_def by blast+

lemma mkdir_held:
  assumes "mkdir_all env (path_dir (RegistryFile p)) t = (b, t1)" and "separate env p"
  shows "held env p t1 = held env p t"
  using resolve_cong [OF lock_frame [OF assms], of "reader env"] mkdir_stat_reader [OF assms(1)] by (simp add: held_def)

text \<open>An error that names no rule of the document: the environment's, not the caller's.\<close>

definition io_error :: "store_err \<Rightarrow> bool" where
  "io_error e \<longleftrightarrow> (\<forall>c. e \<noteq> BadDocument c \<and> e \<noteq> Refused c)"

lemma stat_io: "stat_trusted_dir_if_exists env t d = Some e \<Longrightarrow> io_error e"
  using stat_not_refused by (simp add: io_error_def)

lemma open_io: "open_trusted_file env t path = Inl e \<Longrightarrow> io_error e"
  by (auto simp: open_trusted_file_def verify_trusted_def io_error_def split: option.splits if_splits)

lemma load_io: "load_registry env path chk t = Inl e \<Longrightarrow> io_error e"
  using open_io [of env t path] stat_io [of env t "path_dir path"]
  by (auto simp: load_registry_def io_error_def split: option.splits sum.splits store_err.splits if_splits)

lemma resolve_io: "resolve_registry env p t = Inl e \<Longrightarrow> io_error e"
  using load_io [of env "RegistryFile p" "\<not> explicitConfig p" t] open_io [of env t "RootConfigFile p"]
  by (auto simp: resolve_registry_def legacy_projects_def io_error_def split: option.splits sum.splits store_err.splits)

lemma with_lock_cases:
  assumes "with_registry_lock env path act t = (r, t')"
  obtains (stopped) e where "r = Some e" and "t' = t" and "io_error e"
  | (failed) e b where "r = Some e" and "mkdir_all env (path_dir path) t = (b, t')" and "io_error e"
  | (entered) t1 where "mkdir_all env (path_dir path) t = (True, t1)" and "act t1 = (r, t')"
      and "stat_trusted_dir_if_exists env t1 (path_dir path) = None"
proof (cases "stat_trusted_dir_if_exists env t (path_dir path)")
  case (Some e)
  then have "r = Some e" "t' = t" using assms by (simp_all add: with_registry_lock_def)
  then show thesis using stopped stat_io [OF Some] by blast
next
  case None
  obtain b t1 where m: "mkdir_all env (path_dir path) t = (b, t1)" by fastforce
  show thesis
  proof (cases "stat_trusted_dir_if_exists env t1 (path_dir path)")
    case (Some e)
    then have "r = Some (if b then e else StepFailed MakeDir)" "t' = t1"
      using assms None m by (cases b; auto simp: with_registry_lock_def)+
    moreover have "io_error (if b then e else StepFailed MakeDir)" using stat_io [OF Some] by (simp add: io_error_def)
    ultimately show thesis using failed m by blast
  next
    case trusted: None
    show thesis
    proof (cases "b \<and> lock_ok env")
      case True
      then show thesis using assms None m trusted entered by (simp add: with_registry_lock_def)
    next
      case False
      then have "(r, t') = (Some (if b then LockFailed else StepFailed MakeDir), t1)"
        using assms None m trusted by (auto simp: with_registry_lock_def)
      then show thesis using failed m by (auto simp: io_error_def)
    qed
  qed
qed

lemma verify_io: "verify_registry env path want chk t = Some e \<Longrightarrow> io_error e"
  using load_io [of env path chk t]
  by (auto simp: verify_registry_def io_error_def split: sum.splits option.splits if_splits)

section \<open>The disk implements the registry\<close>

text \<open>What a caller sees of an outcome: the rule that was broken, or that the environment failed.\<close>

definition outcome :: "store_err option \<Rightarrow> registry_err + unit" where
  "outcome r = (case r of None \<Rightarrow> Inr ()
     | Some (BadDocument c) \<Rightarrow> Inl (DocErr c) | Some (Refused c) \<Rightarrow> Inl (DocErr c) | Some e \<Rightarrow> Inl DocIO)"

lemma outcome_simps [simp]:
  "outcome None = Inr ()" "outcome (Some (BadDocument c)) = Inl (DocErr c)" "outcome (Some (Refused c)) = Inl (DocErr c)"
  "io_error e \<Longrightarrow> outcome (Some e) = Inl DocIO"
  by (auto simp: outcome_def io_error_def split: store_err.splits)

definition with_oracles :: "manager \<Rightarrow> bool \<Rightarrow> bool \<Rightarrow> bool \<Rightarrow> manager" where
  "with_oracles m lo wo vo = m\<lparr>load_ok := \<lambda>_. lo, write_ok := \<lambda>_. wo, verify_ok := \<lambda>_. vo\<rparr>"

text \<open>The abstract update, one outcome per choice of what the disk lets through.\<close>

lemma abstract_update:
  fixes m :: manager and w :: world and f :: "project list \<Rightarrow> config_err + project list"
  defines "u \<equiv> \<lambda>lo wo vo. update_registry (with_oracles m lo wo vo) f w"
  shows "\<exists>w'. u False wo vo = (Inl DocIO, w') \<and> doc_projects w' = doc_projects w"
    and "f (doc_projects w) = Inl c \<Longrightarrow> \<exists>w'. u True wo vo = (Inl (DocErr c), w') \<and> doc_projects w' = doc_projects w"
    and "f (doc_projects w) = Inr (doc_projects w) \<Longrightarrow> \<exists>w'. u True wo vo = (Inr (), w') \<and> doc_projects w' = doc_projects w"
    and "f (doc_projects w) = Inr ps \<Longrightarrow> ps \<noteq> doc_projects w \<Longrightarrow> validate_projects (sort_projects ps) = Some c \<Longrightarrow>
      \<exists>w'. u True wo vo = (Inl (DocErr c), w') \<and> doc_projects w' = doc_projects w"
    and "f (doc_projects w) = Inr ps \<Longrightarrow> ps \<noteq> doc_projects w \<Longrightarrow> validate_projects ps = None \<Longrightarrow>
      \<exists>w'. u True False vo = (Inl DocIO, w') \<and> doc_projects w' = doc_projects w"
    and "f (doc_projects w) = Inr ps \<Longrightarrow> ps \<noteq> doc_projects w \<Longrightarrow> validate_projects ps = None \<Longrightarrow>
      \<exists>w'. u True True vo = (if vo then Inr () else Inl DocIO, w') \<and> doc_projects w' = sort_projects ps"
  by (auto simp: u_def update_registry_def write_registry_def with_oracles_def Let_def doc_projects_def split: option.split)

lemma disk_refines:
  assumes "separate env p" and "meanwhile env = id" and "store_update env p f t = (r, t')"
    and "doc_projects w = held env p t"
  shows "\<exists>lo wo vo w'. update_registry (with_oracles m lo wo vo) f w = (outcome r, w') \<and>
    doc_projects w' = held env p t'"
  using assms(3) unfolding store_update_def
proof (cases rule: with_lock_cases)
  case (stopped e)
  then show ?thesis using abstract_update(1) [where m = m and f = f and w = w] assms(4) by fastforce
next
  case (failed e b)
  then show ?thesis using abstract_update(1) [where m = m and f = f and w = w] mkdir_held [OF failed(2) assms(1)] assms(4) by fastforce
next
  case (entered t1)
  have fp: "file_path (RegistryFile p)" using assms(1) by (simp add: separate_def)
  have h1: "held env p t1 = held env p t" by (rule mkdir_held [OF entered(1) assms(1)])
  show ?thesis
  proof (cases "resolve_registry env p t1")
    case (Inl e)
    then have "r = Some e" "t' = t1" using entered(2) by simp_all
    then show ?thesis using resolve_io [OF Inl] abstract_update(1) [where m = m and f = f and w = w] h1 assms(4) by fastforce
  next
    case (Inr ps)
    then have ps: "doc_projects w = ps" using resolve_reader h1 assms(4) by simp
    show ?thesis
    proof (cases "f ps")
      case (Inl c)
      then have "r = Some (Refused c)" "t' = t1" using entered(2) Inr by simp_all
      then show ?thesis using abstract_update(2) [where m = m and f = f and w = w and c = c] Inl ps h1 assms(4) by fastforce
    next
      case next_ps: (Inr qs)
      show ?thesis
      proof (cases "qs = ps")
        case True
        then have "r = None" "t' = t1" using entered(2) Inr next_ps by simp_all
        then show ?thesis using abstract_update(3) [where m = m and f = f and w = w] next_ps ps h1 assms(4) True by fastforce
      next
        case False
        then have "store_registry env (RegistryFile p) qs True t1 = (r, t')" using entered(2) Inr next_ps by simp
        then show ?thesis
        proof (cases rule: store_registry_cases [OF fp _ assms(2), consumes 1, case_names invalid unwritten persisted])
          case (invalid e)
          then show ?thesis
            using abstract_update(4) [where m = m and f = f and w = w and ps = qs and c = e] next_ps False ps h1 assms(4) by (fastforce simp: in_order_sorted)
        next
          case (unwritten e)
          have "resolve_registry (reader env) p t' = resolve_registry (reader env) p t1"
            using unwritten assms(1) by (intro resolve_cong) (auto simp: separate_def)
          then have "held env p t' = held env p t1" by (simp add: held_def)
          moreover have "io_error e" using unwritten(4) by (simp add: io_error_def)
          ultimately show ?thesis
            using abstract_update(5) [where m = m and f = f and w = w and ps = qs] next_ps False ps h1 assms(4) unwritten(1,2) by fastforce
        next
          case persisted
          have "held env p t' = in_order qs"
            using persisted entered(3) stat_reader by (intro held_written) simp_all
          moreover have "outcome r = (if r = None then Inr () else Inl DocIO)"
            using persisted(3) verify_io by (cases r) auto
          ultimately show ?thesis
            using abstract_update(6) [where m = m and f = f and w = w and ps = qs and vo = "r = None"] next_ps False ps h1 assms(4) persisted(1)
            by (fastforce simp: in_order_sorted)
        qed
      qed
    qed
  qed
qed

end
