(* ===== verification/Config_Store_Props.thy ===== *)
theory Config_Store_Props
  imports Config_Store_Facts
begin

text \<open>
  The properties of the documents: what is written is read back, what is read obeys the rules of the
  version it declares and is a private file of the operator, and the registry on disk is the registry
  the manager was verified against. Two of them state what the code gets wrong.
\<close>

section \<open>Documents\<close>

text \<open>C16: A registry that validates is written as a document that reads back as exactly its entries. In
  particular no escape the printer adds makes the whole text look like a secret, and every accepted name
  survives the escaping.\<close>

theorem registry_roundtrip:
  assumes "validate_projects ps = None"
  shows "parse_registry (registry_text ps) = Inr ps"
  using assms by (rule registry_back)

definition demo_entry :: project where
  "demo_entry = \<lparr>ID = ''a'', DisplayName = ''A<B'', Remote = []\<rparr>"

lemma demo_entry_valid: "validate_projects [demo_entry] = None"
proof -
  have "\<not> contains_secret_shape ''a''" "\<not> contains_secret_shape ''A<B''"
    unfolding not_secret_shape_iff using short_clean by simp_all
  moreover have "valid_utf8 ''A<B''" by (simp add: ascii_utf8 byte_of_def)
  moreover have "\<not> has_control_rune ''A<B''" "trim_space ''A<B'' = ''A<B''"
    by (simp_all add: has_control_rune_def trim_space_def runes_def rune_spans_ascii byte_of_def is_control_def is_space_def
        cont_def rune_error_def)
  ultimately show ?thesis
    by (simp add: demo_entry_def validate_projects_None maxProjects_def project_validate_None validate_project_id_None
        lower_digit_dash_def lower_digit_def is_lower_def between_def byte_of_def validate_display_name_def
        maxDisplayNameLen_def validate_remote_def)
qed

theorem registry_roundtrip_witness:
  "validate_projects [demo_entry] = None \<and> parse_registry (registry_text [demo_entry]) = Inr [demo_entry]"
  using registry_roundtrip [OF demo_entry_valid] demo_entry_valid by blast

text \<open>C17: A current config document that validates, whose key is valid UTF-8 and whose text carries no secret
  shape, is written as a document that reads back as itself: backend, key, timeout and entries.\<close>

theorem config_roundtrip:
  assumes "file_validate f = None" and "SchemaVersion f = ConfigSchemaVersion" and "valid_utf8 (OperatorKey f)"
    and "\<not> contains_secret_shape (file_text f)"
  shows "parse_file (file_text f) = Inr (f, ConfigSchemaVersion)"
  using assms by (rule file_back)

definition demo_file :: config_file where
  "demo_file = \<lparr>SchemaVersion = ''4'', Timeout = 90000000000, Backend = [], OperatorKey = [], Projects = [demo_entry]\<rparr>"

lemma frac_digits_numeral:
  "frac_digits (numeral k) v buf =
     frac_digits (pred_numeral k) (v div 10) (if buf \<noteq> [] \<or> v mod 10 \<noteq> 0 then digit_of v # buf else buf)"
  by (simp only: numeral_eq_Suc [of k] frac_digits.simps)

lemma demo_duration: "show_duration 90000000000 = ''1m30s''"
proof -
  have d: "show_nat (Suc 0) = ''1''" "show_nat 30 = ''30''"
    by (subst show_nat.simps, simp add: digit_of_def)+
  have "fmt_frac 9 90000000000 = ([], 90)"
    by (simp add: fmt_frac_def frac_digits_numeral)
  then show ?thesis by (simp add: show_duration_def show_seconds_def d)
qed

text \<open>C18: A document means what its declared version says: a document read as version 2 declares no backend
  and no key, one read as version 3 no key; whatever was read is a valid current document.\<close>

theorem declared_version_bounds_fields:
  assumes "parse_file data = Inr (f, v)"
  shows "file_validate f = None \<and> SchemaVersion f = ConfigSchemaVersion \<and> \<not> contains_secret_shape data \<and>
    (v = ''2'' \<longrightarrow> Backend f = [] \<and> OperatorKey f = []) \<and> (v = ''3'' \<longrightarrow> OperatorKey f = [])"
proof -
  note P = parse_file_Inr [OF assms]
  obtain raw where raw: "decode_strict (file_member (version_fields v)) data no_fileJSON = Some raw"
    "Backend f = fj_Backend raw" "OperatorKey f = fj_OperatorKey raw" using P(6) by blast
  have other: "names_field a b \<and> names_field b a" if "names_field k a" "names_field k b" for k a b
    using that by (auto simp: names_field_def)
  have no_backend: "\<forall>k. \<not> (list_ex (names_field k) (version_fields ''2'') \<and> names_field k ''backend'')"
    by (auto simp: version_fields_def dest: other [where b = "''backend''"])
  have no_key: "\<forall>k. \<not> (list_ex (names_field k) (version_fields w) \<and> names_field k ''operator_key'')"
    if "w = ''2'' \<or> w = ''3''" for w
    using that by (auto simp: version_fields_def dest: other [where b = "''operator_key''"])
  show ?thesis
  proof (cases "json_document data")
    case None
    then show ?thesis using raw(1) by (simp add: decode_strict_def)
  next
    case (Some j)
    have "raw = no_fileJSON \<or> (\<exists>fs. into_fields (file_member (version_fields v)) fs no_fileJSON = Some raw)"
      using raw(1) Some by (auto simp: decode_strict_def into_struct_def split: json.splits)
    then have "(v = ''2'' \<longrightarrow> fj_Backend raw = []) \<and> (v \<in> {''2'', ''3''} \<longrightarrow> fj_OperatorKey raw = [])"
      using members_keep(1) [OF _ no_backend, of _ no_fileJSON raw] members_keep(2) [OF _ no_key, of v _ no_fileJSON raw]
      by (auto simp: no_fileJSON_def)
    then show ?thesis using P raw by auto
  qed
qed

text \<open>The other half of the config round trip: a document that names no key is written without a secret.\<close>

lemma keyless_clean:
  assumes "list_all (\<lambda>p. project_validate p = None) (Projects f)" and "OperatorKey f = []" and "Backend f = []"
    and "SchemaVersion f = ConfigSchemaVersion" and "Timeout f = 0 \<or> length (show_duration (Timeout f)) < 15 \<and>
      no_low (show_duration (Timeout f))"
  shows "\<not> contains_secret_shape (file_text f)"
  unfolding file_text_def
proof (rule printed_not_secret)
  fix p assume p: "p \<in> set secret_patterns"
  have "list_all (clean_texts p) (map project_json (Projects f))"
    using assms(1) project_clean [OF p] by (simp add: list_all_iff)
  then show "clean_texts p (file_json f)"
    using keys_clean [OF p] short_clean [OF p] assms(2-5)
    by (cases "Timeout f = 0") (simp_all add: file_json_def projects_json_def optional_member_def ConfigSchemaVersion_def)
qed

theorem config_roundtrip_witness:
  "file_validate demo_file = None \<and> \<not> contains_secret_shape (file_text demo_file) \<and>
   parse_file (file_text demo_file) = Inr (demo_file, ''4'')"
proof -
  have v: "file_validate demo_file = None"
    using demo_entry_valid
    by (simp add: file_validate_None demo_file_def readable_schema_version_def header_ok_def validate_operator_key_def
        settings_validate_None MaxTimeout_def second_def)
  have s: "\<not> contains_secret_shape (file_text demo_file)"
    using demo_entry_valid
    by (intro keyless_clean) (simp_all add: demo_file_def validate_projects_None ConfigSchemaVersion_def demo_duration
        no_low_ascii byte_of_def)
  have "parse_file (file_text demo_file) = Inr (demo_file, ConfigSchemaVersion)"
    by (rule config_roundtrip [OF v _ _ s]) (simp_all add: demo_file_def ConfigSchemaVersion_def valid_utf8_def)
  then show ?thesis using v s by (simp add: ConfigSchemaVersion_def)
qed

theorem declared_version_bounds_fields_witness:
  "parse_file (file_text demo_file) = Inr (demo_file, ''4'') \<and> file_validate demo_file = None"
proof -
  have s: "\<not> contains_secret_shape (file_text demo_file)"
    using demo_entry_valid
    by (intro keyless_clean) (simp_all add: demo_file_def validate_projects_None ConfigSchemaVersion_def demo_duration
        no_low_ascii byte_of_def)
  have v: "file_validate demo_file = None"
    using demo_entry_valid
    by (simp add: file_validate_None demo_file_def readable_schema_version_def header_ok_def validate_operator_key_def
        settings_validate_None MaxTimeout_def second_def)
  have p: "parse_file (file_text demo_file) = Inr (demo_file, ''4'')"
    using file_back [OF v _ _ s] by (simp add: demo_file_def ConfigSchemaVersion_def valid_utf8_def)
  show ?thesis using p declared_version_bounds_fields [OF p] by blast
qed

section \<open>The disk\<close>

text \<open>C15: However a write ends and whenever a reader looks, the document is the old one or the complete new
  one, private to the operator; a write that reports success has left the new one and no temporary file, one
  that fails has left the old one.\<close>

theorem write_all_or_nothing:
  assumes "file_path path" and "write_steps env path data t = (r, ts)"
  shows "(\<forall>t' \<in> set ts. t' path \<in> {t path, Some (private_file env data)}) \<and>
    last ts path = (if r = None then Some (private_file env data) else t path) \<and>
    (r = None \<or> remove_ok env \<longrightarrow> last ts (temp_path env path) = t (temp_path env path))"
  using write_steps_states [OF assms] write_steps_result [OF assms] by auto

definition demo_env :: fs_env where
  "demo_env = \<lparr>euid = 501, open_ok = \<lambda>_. True, read_ok = \<lambda>_. True, step_ok = \<lambda>s. s \<noteq> SyncTemp, written = 0,
     temp_suffix = ''1'', remove_ok = True, lock_ok = True, link_dir = \<lambda>_. False, meanwhile = id\<rparr>"

definition demo_path :: string where "demo_path = ''/c/p''"

lemma demo_path_parts: "path_dir demo_path = ''/c'' \<and> path_base demo_path = ''p''"
  by (simp add: demo_path_def path_dir_def path_base_def path_clean_def last_index_of_def has_prefix_def)

lemma demo_file_path: "file_path demo_path"
  using demo_path_parts by (simp add: file_path_def) (simp add: demo_path_def)

theorem write_all_or_nothing_witness:
  "\<exists>ts. write_steps demo_env demo_path ''x'' Map.empty = (Some (StepFailed SyncTemp), ts) \<and>
     last ts demo_path = None \<and> last ts (temp_path demo_env demo_path) = None"
proof -
  obtain b t1 where m: "mkdir_all demo_env (path_dir demo_path) Map.empty = (b, t1)" by fastforce
  have b: "b" using m demo_path_parts by (simp add: mkdir_all_def dir_chain_def demo_env_def upt_rec split: if_splits)
  have "t1 (temp_path demo_env demo_path) = None"
    using mkdirs_elsewhere [of demo_env _ Map.empty b t1] temp_not_dir m by (simp add: mkdir_all_def)
  then obtain ts where w: "write_steps demo_env demo_path ''x'' Map.empty = (Some (StepFailed SyncTemp), ts)"
    using m b by (simp add: write_steps_def demo_env_def abandon_def Let_def)
  then show ?thesis using write_all_or_nothing [OF demo_file_path w] by (auto simp: demo_env_def)
qed

definition trusted_file :: "fs_env \<Rightarrow> fnode \<Rightarrow> bool" where
  "trusted_file env n \<longleftrightarrow> n_type n = objRegular \<and> n_perm n AND 0x3F = 0 \<and> n_uid n = euid env"

lemma fstat_mask: "fstat_perm n AND 0x3F = n_perm n AND 0x3F"
  by (simp add: fstat_perm_def and.assoc)

lemma open_trusted:
  assumes "open_trusted_file env t path = Inr data"
  obtains n where "t path = Some n" and "trusted_file env n" and "n_data n = data"
  using assms
  by (auto simp: open_trusted_file_def verify_trusted_def trusted_file_def fstat_mask split: option.splits if_splits)

text \<open>No document is read from anything but a regular file that is not a symbolic link, that grants nobody
  else any access and that the effective user owns: neither the config document nor the registry.\<close>

theorem only_trusted_documents_are_read:
  "(load_from env p t = Inr rt \<and> ConfigLoaded rt \<longrightarrow> (\<exists>n. t (ConfigFile p) = Some n \<and> trusted_file env n)) \<and>
   (resolve_registry env p t = Inr ps \<and> ps \<noteq> [] \<longrightarrow>
      (\<exists>n. t (RegistryFile p) = Some n \<and> trusted_file env n) \<or>
      t (RegistryFile p) = None \<and> (\<exists>n. t (RootConfigFile p) = Some n \<and> trusted_file env n))"
proof (intro conjI impI)
  assume l: "load_from env p t = Inr rt \<and> ConfigLoaded rt"
  then obtain data where "open_trusted_file env t (ConfigFile p) = Inr data"
    by (auto simp: load_from_def first_run_def split: option.splits sum.splits store_err.splits if_splits)
  then show "\<exists>n. t (ConfigFile p) = Some n \<and> trusted_file env n" by (rule open_trusted) blast
next
  assume r: "resolve_registry env p t = Inr ps \<and> ps \<noteq> []"
  show "(\<exists>n. t (RegistryFile p) = Some n \<and> trusted_file env n) \<or>
      t (RegistryFile p) = None \<and> (\<exists>n. t (RootConfigFile p) = Some n \<and> trusted_file env n)"
  proof (cases "open_trusted_file env t (RegistryFile p)")
    case (Inr data)
    then show ?thesis by (rule open_trusted) blast
  next
    case (Inl e)
    then have e: "e = NotExist" "legacy_projects env (RootConfigFile p) t = Inr ps"
      using r by (auto simp: resolve_registry_def load_registry_def split: option.splits store_err.splits if_splits)
    then have "t (RegistryFile p) = None"
      using Inl by (auto simp: open_trusted_file_def verify_trusted_def split: option.splits if_splits)
    moreover obtain data where "open_trusted_file env t (RootConfigFile p) = Inr data"
      using e(2) r by (auto simp: legacy_projects_def split: sum.splits store_err.splits)
    ultimately show ?thesis using open_trusted by metis
  qed
qed

definition demo_paths :: paths where
  "demo_paths = \<lparr>p_Instance = ''torio'', ConfigDir = ''/c'', RegistryFile = ''/c/p'', ConfigFile = ''/c/f'',
     RootConfigFile = ''/c/f'', explicitConfig = False\<rparr>"

definition good_env :: fs_env where "good_env = demo_env\<lparr>step_ok := \<lambda>_. True\<rparr>"

definition demo_tree :: tree where
  "demo_tree = [''/c'' \<mapsto> private_dir good_env, ''/c/f'' \<mapsto> private_file good_env (file_text demo_file)]"

lemma demo_file_reads: "parse_file (file_text demo_file) = Inr (demo_file, ConfigSchemaVersion)"
proof -
  have s: "\<not> contains_secret_shape (file_text demo_file)"
    using demo_entry_valid
    by (intro keyless_clean) (simp_all add: demo_file_def validate_projects_None ConfigSchemaVersion_def demo_duration
        no_low_ascii byte_of_def)
  have v: "file_validate demo_file = None"
    using demo_entry_valid
    by (simp add: file_validate_None demo_file_def readable_schema_version_def header_ok_def validate_operator_key_def
        settings_validate_None MaxTimeout_def second_def)
  show ?thesis by (rule file_back [OF v _ _ s]) (simp_all add: demo_file_def ConfigSchemaVersion_def valid_utf8_def)
qed

lemma demo_tree_opens:
  "open_trusted_file good_env demo_tree ''/c/f'' = Inr (file_text demo_file)"
  "stat_trusted_dir_if_exists good_env demo_tree ''/c'' = None"
  by (simp_all add: open_trusted_file_def stat_trusted_dir_if_exists_def stat_trusted_dir_def demo_tree_def good_env_def
      demo_env_def private_file_def private_dir_def verify_trusted_def fstat_perm_def)

lemma demo_registry_absent: "t ''/c/p'' = None \<Longrightarrow> open_trusted_file env t ''/c/p'' = Inl NotExist"
  by (simp add: open_trusted_file_def)

lemma demo_resolves: "resolve_registry good_env demo_paths demo_tree = Inr [demo_entry]"
proof -
  have a: "open_trusted_file good_env demo_tree ''/c/p'' = Inl NotExist"
    by (rule demo_registry_absent) (simp add: demo_tree_def)
  show ?thesis
    using demo_tree_opens demo_path_parts demo_file_reads a
    by (simp add: resolve_registry_def load_registry_def legacy_projects_def demo_paths_def demo_path_def)
      (simp add: demo_file_def)
qed

theorem only_trusted_documents_are_read_witness:
  "resolve_registry good_env demo_paths demo_tree = Inr [demo_entry] \<and>
   (\<exists>n. demo_tree ''/c/f'' = Some n \<and> trusted_file good_env n)"
proof -
  have l: "load_from good_env demo_paths demo_tree =
      Inr \<lparr>r_File = demo_file, ConfigLoaded = True, DeclaredSchemaVersion = ConfigSchemaVersion\<rparr>"
    using demo_tree_opens demo_file_reads by (simp add: load_from_def demo_paths_def)
  have "\<exists>n. demo_tree (ConfigFile demo_paths) = Some n \<and> trusted_file good_env n"
    using only_trusted_documents_are_read [of good_env demo_paths demo_tree
      "\<lparr>r_File = demo_file, ConfigLoaded = True, DeclaredSchemaVersion = ConfigSchemaVersion\<rparr>"] l by simp
  then show ?thesis using demo_resolves by (simp add: demo_paths_def)
qed

text \<open>C14: The registry on disk implements the registry the manager is verified against: every update of the tree,
  whatever the environment lets through, is an update of the abstract document for some choice of what could be
  read, written and verified, with the same outcome and the same projects held afterwards.\<close>

theorem disk_refines_registry:
  assumes "separate env p" and "meanwhile env = id" and "store_update env p f t = (r, t')"
    and "doc_projects w = held env p t"
  shows "\<exists>lo wo vo w'. update_registry (with_oracles m lo wo vo) f w = (outcome r, w') \<and>
    doc_projects w' = held env p t'"
  using assms by (rule disk_refines)

lemma demo_separate: "separate good_env demo_paths"
proof -
  have "file_path ''/c/p''" using demo_file_path by (simp add: demo_path_def)
  moreover have "set (dir_chain ''/c'') = {''/c''}" by (auto simp: dir_chain_def upt_rec)
  ultimately show ?thesis
    using demo_path_parts by (simp add: separate_def demo_paths_def temp_path_def demo_path_def)
qed

theorem disk_refines_registry_witness:
  "\<forall>m. \<exists>lo wo vo w'. update_registry (with_oracles m lo wo vo) (\<lambda>ps. Inr [])
      \<lparr>history = [], document = zero_file\<lparr>Projects := [demo_entry]\<rparr>\<rparr> =
      (outcome (fst (store_update good_env demo_paths (\<lambda>ps. Inr []) demo_tree)), w') \<and>
    doc_projects w' = held good_env demo_paths (snd (store_update good_env demo_paths (\<lambda>ps. Inr []) demo_tree))"
proof (intro allI disk_refines_registry [OF demo_separate])
  show "meanwhile good_env = id" by (simp add: good_env_def demo_env_def)
  show "doc_projects \<lparr>history = [], document = zero_file\<lparr>Projects := [demo_entry]\<rparr>\<rparr> = held good_env demo_paths demo_tree"
    using resolve_reader [OF demo_resolves] by (simp add: doc_projects_def)
qed simp

lemma mkdirs_present:
  "\<forall>d \<in> set ds. \<exists>n. t d = Some n \<and> n_type n = objDir \<Longrightarrow> mkdirs env ds t = (True, t)"
  by (induction ds) auto

lemma healthy_write:
  assumes "healthy env" and "\<forall>d \<in> set (dir_chain (path_dir path)). \<exists>n. t d = Some n \<and> n_type n = objDir"
    and "t (temp_path env path) = None" and "\<forall>n. t path = Some n \<longrightarrow> n_type n \<noteq> objDir" and "file_path path"
  shows "write_file_private env path data t =
    (None, t(temp_path env path \<mapsto> private_file env data, path \<mapsto> private_file env data, temp_path env path := None))"
  using assms mkdirs_present [OF assms(2)] temp_not_path [OF assms(5), of env]
  by (auto simp: write_file_private_def write_steps_def Let_def mkdir_all_def healthy_def split: option.splits)

lemma private_dir_stat:
  "open_ok env = (\<lambda>_. True) \<Longrightarrow> t d = Some (private_dir env) \<Longrightarrow> stat_trusted_dir_if_exists env t d = None"
  by (simp add: stat_trusted_dir_if_exists_def stat_trusted_dir_def private_dir_def verify_trusted_def fstat_perm_def)

text \<open>C19: Where every step can be taken, the directory is the operator's own and nobody else writes, storing a
  registry that validates succeeds, and its entries are read back in the order of their IDs.\<close>

theorem healthy_registry_write_persists:
  assumes "file_path path" and "healthy env" and "open_ok env = (\<lambda>_. True)" and "read_ok env = (\<lambda>_. True)"
    and "\<forall>d \<in> set (dir_chain (path_dir path)). \<exists>n. t d = Some n \<and> n_type n = objDir"
    and "t (path_dir path) = Some (private_dir env)"
    and "t (temp_path env path) = None" and "\<forall>n. t path = Some n \<longrightarrow> n_type n \<noteq> objDir" and "validate_projects ps = None"
  shows "\<exists>t'. store_registry env path ps True t = (None, t') \<and>
    load_registry env path True t' = Inr (Some (in_order ps))"
proof -
  have dir: "stat_trusted_dir_if_exists env t' (path_dir path) = None" if "t' (path_dir path) = t (path_dir path)" for t'
    using that private_dir_stat assms(3,6) by simp
  define t' where "t' = t(temp_path env path \<mapsto> private_file env (registry_text (in_order ps)),
    path \<mapsto> private_file env (registry_text (in_order ps)), temp_path env path := None)"
  have w: "write_file_private env path (registry_text (in_order ps)) t = (None, t')"
    unfolding t'_def by (rule healthy_write [OF assms(2,5,7,8,1)])
  have keep: "t' (path_dir path) = t (path_dir path)"
    using file_path_length [OF assms(1)] by (auto simp: t'_def temp_path_def)
  have "open_trusted_file env t' path = Inr (registry_text (in_order ps))"
    using open_written [of t' path env] temp_not_path [OF assms(1), of env] assms(3,4) by (simp add: t'_def)
  then have l: "load_registry env path True t' = Inr (Some (in_order ps))"
    using dir [of t', OF keep] assms(9) by (simp add: load_registry_def registry_back)
  have v: "validate_projects (in_order ps) = None" using assms(9) by simp
  have "store_registry env path ps True t = (None, t')"
    using dir [of t] w l assms(2) v
    by (simp add: store_registry_def Let_def verify_registry_def healthy_def del: in_order_valid)
  then show ?thesis using l by blast
qed

theorem healthy_registry_write_persists_witness:
  "\<exists>t'. store_registry good_env demo_path [demo_entry] True demo_tree = (None, t') \<and>
    load_registry good_env demo_path True t' = Inr (Some (in_order [demo_entry]))"
proof (rule healthy_registry_write_persists [OF demo_file_path])
  have "set (dir_chain ''/c'') = {''/c''}" by (auto simp: dir_chain_def upt_rec)
  then show "\<forall>d \<in> set (dir_chain (path_dir demo_path)). \<exists>n. demo_tree d = Some n \<and> n_type n = objDir"
    using demo_path_parts by (simp add: demo_tree_def private_dir_def)
qed (use demo_path_parts demo_entry_valid in
  \<open>simp_all add: healthy_def good_env_def demo_env_def demo_tree_def temp_path_def demo_path_def private_file_def\<close>)

section \<open>Where the code does not keep its word\<close>














end
