(* ===== verification/Config_Paths.thy ===== *)
theory Config_Paths
  imports Config_Store
begin

text \<open>
  Where the documents are: \<open>internal/config/paths.go\<close>. The environment, the home directory and the working
  directory are inputs; nothing here touches the disk.
\<close>

definition appDir :: string where "appDir = ''torio''"
definition configFileName :: string where "configFileName = ''config.json''"
definition registryFileName :: string where "registryFileName = ''projects.json''"
definition instancesDir :: string where "instancesDir = ''instances''"
definition DefaultInstance :: string where "DefaultInstance = ''torio''"
definition InstanceEnvKey :: string where "InstanceEnvKey = ''TORIO_INSTANCE''"
definition InstancePrefix :: string where "InstancePrefix = DefaultInstance @ ''-''"

definition instancePattern :: re where "instancePattern = slug 62"

datatype path_err =
    NoBackendName
  | NotDerivable string
  | BadDerivedInstance
  | BadInstanceEnv
  | BadInstanceName
  | EmptyPath
  | NoWorkingDirectory
  | NoHome
  | XdgNotAbsolute
  | HomeNotAbsolute
  | NotContained string

record options =
  ConfigPath :: string
  o_Instance :: string
  getenv :: "string \<Rightarrow> string"
  homeDir :: "string option" \<comment> \<open>\<open>None\<close> when it cannot be determined\<close>
  workDir :: "string option"

definition valid_instance_name :: "string \<Rightarrow> bool" where
  "valid_instance_name name \<longleftrightarrow> full_match instancePattern name"

definition instance_for_backend :: "string \<Rightarrow> path_err + string" where
  "instance_for_backend name = (let n = trim_space name; derived = InstancePrefix @ n in
     if n = [] then Inl NoBackendName
     else if \<not> full_match instancePattern derived then Inl (NotDerivable n)
     else Inr derived)"

definition resolve_instance :: "options \<Rightarrow> path_err + string" where
  "resolve_instance opts = (let raw = trim_space (getenv opts InstanceEnvKey); derived = trim_space (o_Instance opts) in
     if raw = [] then
       (if derived \<noteq> [] then (if full_match instancePattern derived then Inr derived else Inl BadDerivedInstance)
        else Inr DefaultInstance)
     else if \<not> full_match instancePattern raw then Inl BadInstanceEnv
     else Inr raw)"

section \<open>Lexical paths\<close>

definition is_abs :: "string \<Rightarrow> bool" where "is_abs p \<longleftrightarrow> has_prefix p ''/''"

text \<open>\<open>filepath.Join\<close> of two parts: empty parts are ignored.\<close>

definition path_join :: "string \<Rightarrow> string \<Rightarrow> string" where
  "path_join a b = (if a = [] \<and> b = [] then [] else if a = [] then path_clean b
     else if b = [] then path_clean a else path_clean (a @ ''/'' @ b))"

definition path_parts :: "string \<Rightarrow> string list" where
  "path_parts p = filter (\<lambda>c. c \<noteq> [] \<and> c \<noteq> ''.'') (split_on CHR ''/'' p)"

fun strip_common :: "string list \<Rightarrow> string list \<Rightarrow> string list \<times> string list" where
  "strip_common (a # as) (b # bs) = (if a = b then strip_common as bs else (a # as, b # bs))"
| "strip_common as bs = (as, bs)"

text \<open>\<open>filepath.Rel\<close>: \<open>None\<close> is its error.\<close>

definition path_rel :: "string \<Rightarrow> string \<Rightarrow> string option" where
  "path_rel base targ = (let b = path_clean base; t = path_clean targ in
     if b = t then Some ''.''
     else if is_abs b \<noteq> is_abs t then None
     else (case strip_common (path_parts b) (path_parts t) of (bs, ts) \<Rightarrow>
       if bs \<noteq> [] \<and> hd bs = ''..'' then None
       else Some (join ''/'' (replicate (length bs) ''..'' @ ts))))"

definition canonical :: "options \<Rightarrow> string \<Rightarrow> path_err + string" where
  "canonical opts p =
     (if trim_space p = [] then Inl EmptyPath
      else if is_abs p then Inr (path_clean (path_clean p))
      else (case workDir opts of
          None \<Rightarrow> Inl NoWorkingDirectory
        | Some wd \<Rightarrow> Inr (path_clean (path_join wd p))))"

definition contained_join :: "string \<Rightarrow> string \<Rightarrow> path_err + string" where
  "contained_join base name =
     (if name = [] \<or> name = ''.'' \<or> name = ''..'' \<or> CHR ''/'' \<in> set name then Inl (NotContained name)
      else (let joined = path_join base name in
        case path_rel base joined of
          None \<Rightarrow> Inl (NotContained name)
        | Some rel \<Rightarrow> (if rel = ''..'' \<or> has_prefix rel ''../'' then Inl (NotContained name) else Inr joined)))"

definition xdg_base :: "options \<Rightarrow> string \<Rightarrow> string \<Rightarrow> path_err + string" where
  "xdg_base opts envKey fallbackRel = (let v = trim_space (getenv opts envKey) in
     if v \<noteq> [] then (if \<not> is_abs v then Inl XdgNotAbsolute else Inr (path_clean v))
     else (case homeDir opts of
         None \<Rightarrow> Inl NoHome
       | Some home \<Rightarrow>
           (if trim_space home = [] then Inl NoHome
            else if \<not> is_abs home then Inl HomeNotAbsolute
            else Inr (path_join home fallbackRel))))"

section \<open>The locations\<close>

definition and_then_path :: "path_err + 'a \<Rightarrow> ('a \<Rightarrow> path_err + 'b) \<Rightarrow> path_err + 'b" where
  "and_then_path x f = (case x of Inl e \<Rightarrow> Inl e | Inr v \<Rightarrow> f v)"

definition explicit_paths :: "string \<Rightarrow> options \<Rightarrow> path_err + paths" where
  "explicit_paths inst opts = and_then_path (canonical opts (ConfigPath opts)) (\<lambda>abs.
     and_then_path (contained_join (path_dir abs) registryFileName) (\<lambda>rf.
       Inr \<lparr>p_Instance = inst, ConfigDir = path_dir abs, RegistryFile = rf, ConfigFile = abs,
         RootConfigFile = abs, explicitConfig = True\<rparr>))"

text \<open>The directory of an instance's own document: the root for the default one.\<close>

definition instance_dir :: "string \<Rightarrow> string \<Rightarrow> path_err + string" where
  "instance_dir root inst =
     (if inst \<noteq> DefaultInstance then
        and_then_path (contained_join root instancesDir) (\<lambda>group. contained_join group inst)
      else Inr root)"

definition default_paths :: "string \<Rightarrow> options \<Rightarrow> path_err + paths" where
  "default_paths inst opts = and_then_path (xdg_base opts ''XDG_CONFIG_HOME'' ''.config'') (\<lambda>configHome.
     let root = path_join configHome appDir in
     and_then_path (contained_join root registryFileName) (\<lambda>rf.
     and_then_path (contained_join root configFileName) (\<lambda>rc.
     and_then_path (instance_dir root inst) (\<lambda>dir.
     and_then_path (contained_join dir configFileName) (\<lambda>cf.
       Inr \<lparr>p_Instance = inst, ConfigDir = dir, RegistryFile = rf, ConfigFile = cf,
         RootConfigFile = rc, explicitConfig = False\<rparr>)))))"

definition resolve_paths_for :: "string \<Rightarrow> options \<Rightarrow> path_err + paths" where
  "resolve_paths_for inst opts =
     (if ConfigPath opts \<noteq> [] then explicit_paths inst opts else default_paths inst opts)"

definition resolve_paths :: "options \<Rightarrow> path_err + paths" where
  "resolve_paths opts = and_then_path (resolve_instance opts) (\<lambda>inst. resolve_paths_for inst opts)"

definition resolve_instance_paths :: "string \<Rightarrow> options \<Rightarrow> path_err + paths" where
  "resolve_instance_paths inst opts =
     (if \<not> valid_instance_name inst then Inl BadInstanceName
      else resolve_paths_for inst (opts\<lparr>ConfigPath := []\<rparr>))"

text \<open>\<open>Load\<close> and \<open>LoadInstance\<close>.\<close>

datatype load_err = PathErr path_err | StoreErr store_err

definition config_load :: "fs_env \<Rightarrow> options \<Rightarrow> tree \<Rightarrow> load_err + paths \<times> runtime" where
  "config_load env opts t = (case resolve_paths opts of
       Inl e \<Rightarrow> Inl (PathErr e)
     | Inr p \<Rightarrow> (case load_from env p t of Inl e \<Rightarrow> Inl (StoreErr e) | Inr rt \<Rightarrow> Inr (p, rt)))"

definition config_load_instance :: "fs_env \<Rightarrow> string \<Rightarrow> options \<Rightarrow> tree \<Rightarrow> load_err + paths \<times> runtime" where
  "config_load_instance env inst opts t = (case resolve_instance_paths inst opts of
       Inl e \<Rightarrow> Inl (PathErr e)
     | Inr p \<Rightarrow> (case load_from env p t of Inl e \<Rightarrow> Inl (StoreErr e) | Inr rt \<Rightarrow> Inr (p, rt)))"

end
