(* ===== verification/Config_Paths_Facts.thy ===== *)
theory Config_Paths_Facts
  imports Config_Paths Config_Store_Facts Path_Facts
begin

text \<open>
  The locations: joins with plain names never leave the config root, every instance shares the one
  registry and owns its own document, and the resolved paths are such that the write path of the
  registry touches nothing else.
\<close>

lemma path_parts_child:
  assumes "plain_name n"
  shows "path_parts (root @ ''/'' @ n) = path_parts root @ [n]"
  using assms split_on_snoc [of "CHR ''/''" n root] by (simp add: path_parts_def plain_name_def)

lemma strip_common_append [simp]: "strip_common xs (xs @ [n]) = ([], [n])"
  by (induction xs) simp_all

lemma plain_not_up: "plain_name n \<Longrightarrow> \<not> has_prefix n ''../''"
  by (auto simp: plain_name_def has_prefix_def) (metis in_set_takeD list.set_intros)

lemma contained_join_child:
  assumes "clean_root root" and "plain_name n"
  shows "contained_join root n = Inr (root @ ''/'' @ n)"
proof -
  have abs: "is_abs root" "is_abs (root @ ''/'' @ n)" "root \<noteq> []"
    using assms(1) by (auto simp: clean_root_def is_abs_def has_prefix_def) (cases root; simp)+
  have "path_join root n = root @ ''/'' @ n"
    using child_path(1) [OF assms] abs(3) assms(2) by (simp add: path_join_def plain_name_def)
  moreover have "path_rel root (root @ ''/'' @ n) = Some n"
    using child_path(1) [OF assms] assms abs
    by (simp add: path_rel_def path_parts_child [OF assms(2), simplified] clean_root_def)
  ultimately show ?thesis
    using assms(2) plain_not_up [OF assms(2)] by (simp add: contained_join_def plain_name_def)
qed

lemma plain_names [simp]:
  "plain_name appDir" "plain_name registryFileName" "plain_name configFileName" "plain_name instancesDir"
  by (simp_all add: plain_name_def appDir_def registryFileName_def configFileName_def instancesDir_def)

lemma instance_plain: "full_match instancePattern i \<Longrightarrow> plain_name i"
proof -
  assume m: "full_match instancePattern i"
  then have "i \<noteq> []" "list_all lower_digit_dash i"
    unfolding instancePattern_def full_match_lang slug_lang by simp_all
  then show ?thesis using lower_digit_dash_not by (fastforce simp: plain_name_def list_all_iff)
qed

text \<open>The config root: an absolute, clean directory that is not the top.\<close>

lemma abs_append: "is_abs h \<Longrightarrow> is_abs (h @ t)"
  by (cases h) (simp_all add: is_abs_def has_prefix_def)

lemma abs_join: "is_abs h \<Longrightarrow> \<exists>q. is_abs q \<and> path_join h fb = path_clean q"
  using abs_append [of h "''/'' @ fb"]
  by (intro exI [of _ "if fb = [] then h else h @ ''/'' @ fb"]) (auto simp: path_join_def is_abs_def has_prefix_def)

lemma xdg_base_clean:
  assumes "xdg_base opts k fb = Inr home"
  shows "\<exists>q. is_abs q \<and> home = path_clean q"
proof (cases "trim_space (getenv opts k) = []")
  case False
  then show ?thesis using assms by (auto simp: xdg_base_def Let_def split: if_splits)
next
  case True
  then obtain h where "homeDir opts = Some h" "is_abs h" "home = path_join h fb"
    using assms by (auto simp: xdg_base_def split: option.splits if_splits)
  then show ?thesis using abs_join by blast
qed

lemma config_root:
  assumes "xdg_base opts k fb = Inr home"
  shows "clean_root (path_join home appDir)"
proof -
  obtain q where q: "has_prefix q ''/''" "home = path_clean q"
    using xdg_base_clean [OF assms] by (auto simp: is_abs_def)
  from clean_abs_cases [OF q(1)] show ?thesis
  proof
    assume "path_clean q = ''/''"
    then show ?thesis
      using q(2) child_of_top [OF plain_names(1)] clean_root_top [OF plain_names(1)]
      by (simp add: path_join_def appDir_def)
  next
    assume r: "clean_root (path_clean q)"
    then have "path_join home appDir = home @ ''/'' @ appDir"
      using q(2) child_path(1) [OF r plain_names(1)]
      by (auto simp: path_join_def clean_root_def has_prefix_def appDir_def)
    then show ?thesis using child_path(4) [OF r, of appDir] q(2) by simp
  qed
qed

text \<open>The default locations, in full: the root's documents, and the instance's own one.\<close>

definition own_dir :: "string \<Rightarrow> string \<Rightarrow> string" where
  "own_dir root inst =
     (if inst = DefaultInstance then root else root @ ''/'' @ instancesDir @ ''/'' @ inst)"

lemma own_dir_inject: "own_dir root i = own_dir root j \<longleftrightarrow> i = j"
  using append_eq_conv_conj [of root] by (auto simp: own_dir_def)

lemma own_dir_root: "own_dir root i = root \<longleftrightarrow> i = DefaultInstance"
  by (simp add: own_dir_def)

lemma default_paths_eq:
  assumes "xdg_base opts ''XDG_CONFIG_HOME'' ''.config'' = Inr home" and "full_match instancePattern inst"
  defines "root \<equiv> path_join home appDir"
  shows "default_paths inst opts = Inr \<lparr>p_Instance = inst, ConfigDir = own_dir root inst,
    RegistryFile = root @ ''/'' @ registryFileName, ConfigFile = own_dir root inst @ ''/'' @ configFileName,
    RootConfigFile = root @ ''/'' @ configFileName, explicitConfig = False\<rparr>"
proof -
  have r: "clean_root root" using config_root [OF assms(1)] by (simp add: root_def)
  have g: "clean_root (root @ ''/'' @ instancesDir)" using child_path(4) [OF r] by simp
  have own: "instance_dir root inst = Inr (own_dir root inst) \<and> clean_root (own_dir root inst)"
    using r contained_join_child [OF r, of instancesDir] contained_join_child [OF g instance_plain [OF assms(2)]]
      child_path(4) [OF g instance_plain [OF assms(2)]]
    by (simp add: instance_dir_def own_dir_def and_then_path_def)
  then have "contained_join (own_dir root inst) configFileName = Inr (own_dir root inst @ ''/'' @ configFileName)"
    using contained_join_child by simp
  then show ?thesis
    using own contained_join_child [OF r, of registryFileName] contained_join_child [OF r, of configFileName] assms(1)
    by (simp add: default_paths_def and_then_path_def root_def [symmetric])
qed

section \<open>What resolution gives\<close>

lemma resolved_default:
  assumes "resolve_paths_for inst opts = Inr p" and "\<not> explicitConfig p" and "full_match instancePattern inst"
  obtains home where "xdg_base opts ''XDG_CONFIG_HOME'' ''.config'' = Inr home" and "default_paths inst opts = Inr p"
proof -
  have "default_paths inst opts = Inr p"
    using assms(1,2)
    by (auto simp: resolve_paths_for_def explicit_paths_def and_then_path_def split: if_splits sum.splits)
  moreover from this obtain home where "xdg_base opts ''XDG_CONFIG_HOME'' ''.config'' = Inr home"
    by (auto simp: default_paths_def and_then_path_def split: sum.splits)
  ultimately show thesis by (rule that [rotated])
qed

lemma resolve_instance_valid:
  assumes "resolve_instance opts = Inr inst"
  shows "full_match instancePattern inst"
proof -
  have "full_match instancePattern DefaultInstance" by code_simp
  then show ?thesis using assms by (auto simp: resolve_instance_def Let_def split: if_splits)
qed

lemma root_config_elsewhere:
  assumes "clean_root root"
  shows "root @ ''/'' @ configFileName \<notin> set (dir_chain root)"
  using dir_chain_prefix by (fastforce dest: arg_cong [of _ _ length])

text \<open>
  The paths a command resolves without an explicit document are such that writing the registry touches
  nothing the registry is read from but the registry's own document: the root document is no directory on
  the way to it and is not its temporary file.
\<close>

lemma resolved_paths_separate:
  assumes "resolve_paths opts = Inr p" and "\<not> explicitConfig p"
  shows "separate env p"
proof -
  obtain inst where i: "resolve_instance opts = Inr inst" "resolve_paths_for inst opts = Inr p"
    using assms(1) by (auto simp: resolve_paths_def and_then_path_def split: sum.splits)
  note m = resolve_instance_valid [OF i(1)]
  obtain home where h: "xdg_base opts ''XDG_CONFIG_HOME'' ''.config'' = Inr home" "default_paths inst opts = Inr p"
    using resolved_default [OF i(2) assms(2) m] .
  note r = config_root [OF h(1)]
  then show ?thesis
    using h(2) default_paths_eq [OF h(1) m] child_path(2,3) [OF r plain_names(2)] root_config_elsewhere [OF r]
    by (auto simp: separate_def file_path_def temp_path_def configFileName_def registryFileName_def)
qed

text \<open>C23: Whatever the environment selects, all instances share the one registry and the one root document, and
  no two of them share a document: two different instances own different files, and only the default
  instance's file is the root document.
\<close>

theorem instances_share_registry_only:
  assumes "resolve_instance_paths i opts = Inr p" and "resolve_instance_paths j opts = Inr q"
  shows "RegistryFile p = RegistryFile q \<and> RootConfigFile p = RootConfigFile q \<and>
    (ConfigFile p = ConfigFile q \<longleftrightarrow> i = j) \<and> (ConfigFile p = RootConfigFile p \<longleftrightarrow> i = DefaultInstance)"
proof -
  have m: "full_match instancePattern i" "full_match instancePattern j"
    and d: "default_paths i (opts\<lparr>ConfigPath := []\<rparr>) = Inr p" "default_paths j (opts\<lparr>ConfigPath := []\<rparr>) = Inr q"
    using assms
    by (auto simp: resolve_instance_paths_def valid_instance_name_def resolve_paths_for_def split: if_splits)
  obtain home where h: "xdg_base (opts\<lparr>ConfigPath := []\<rparr>) ''XDG_CONFIG_HOME'' ''.config'' = Inr home"
    using d(1) by (auto simp: default_paths_def and_then_path_def split: sum.splits)
  show ?thesis
    using d default_paths_eq [OF h m(1)] default_paths_eq [OF h m(2)] by (auto simp: own_dir_inject own_dir_root)
qed

section \<open>Concrete instances\<close>

definition demo_options :: options where
  "demo_options = \<lparr>ConfigPath = [], o_Instance = ''torio-claude'', getenv = (\<lambda>_. []), homeDir = Some ''/home/d'', workDir = None\<rparr>"

definition inst_paths :: "string \<Rightarrow> string \<Rightarrow> paths" where
  "inst_paths inst dir = \<lparr>p_Instance = inst, ConfigDir = dir,
     RegistryFile = ''/home/d/.config/torio/projects.json'', ConfigFile = dir @ ''/config.json'',
     RootConfigFile = ''/home/d/.config/torio/config.json'', explicitConfig = False\<rparr>"

lemma demo_instances: "full_match instancePattern ''torio-claude''" "full_match instancePattern ''torio''"
  unfolding instancePattern_def full_match_lang slug_lang
  by (simp_all add: lower_digit_dash_def lower_digit_def char_class_defs)

lemma demo_trim: "trim_space [] = []" "trim_space ''torio-claude'' = ''torio-claude''" "trim_space ''/home/d'' = ''/home/d''"
  by (simp_all add: trim_space_def Let_def rune_spans_ascii byte_of_def is_space_def cont_def)

lemma demo_home: "xdg_base demo_options ''XDG_CONFIG_HOME'' ''.config'' = Inr ''/home/d/.config''"
    "path_join ''/home/d/.config'' appDir = ''/home/d/.config/torio''"
  by (simp_all add: xdg_base_def demo_options_def demo_trim is_abs_def path_join_def path_clean_def has_prefix_def
      appDir_def)

lemma demo_selected: "resolve_instance demo_options = Inr ''torio-claude''"
  using demo_instances(1) by (simp add: resolve_instance_def demo_options_def demo_trim)

lemma inst_resolved:
  "resolve_paths demo_options = Inr (inst_paths ''torio-claude'' ''/home/d/.config/torio/instances/torio-claude'')"
  "resolve_instance_paths ''torio-claude'' demo_options =
     Inr (inst_paths ''torio-claude'' ''/home/d/.config/torio/instances/torio-claude'')"
  "resolve_instance_paths ''torio'' demo_options = Inr (inst_paths ''torio'' ''/home/d/.config/torio'')"
proof -
  note eqs = resolve_paths_def and_then_path_def resolve_instance_paths_def resolve_paths_for_def valid_instance_name_def
    own_dir_def inst_paths_def DefaultInstance_def instancesDir_def registryFileName_def configFileName_def
  have o: "ConfigPath demo_options = []" "demo_options\<lparr>ConfigPath := []\<rparr> = demo_options"
    by (simp_all add: demo_options_def)
  note own = default_paths_eq [OF demo_home(1) demo_instances(1), unfolded demo_home(2)]
    default_paths_eq [OF demo_home(1) demo_instances(2), unfolded demo_home(2)]
  show "resolve_paths demo_options = Inr (inst_paths ''torio-claude'' ''/home/d/.config/torio/instances/torio-claude'')"
    "resolve_instance_paths ''torio-claude'' demo_options =
       Inr (inst_paths ''torio-claude'' ''/home/d/.config/torio/instances/torio-claude'')"
    "resolve_instance_paths ''torio'' demo_options = Inr (inst_paths ''torio'' ''/home/d/.config/torio'')"
    using own by (simp_all add: demo_selected demo_instances o eqs)
qed

theorem instances_share_registry_only_witness:
  "ConfigFile (inst_paths ''torio-claude'' ''/home/d/.config/torio/instances/torio-claude'') \<noteq>
     ConfigFile (inst_paths ''torio'' ''/home/d/.config/torio'')"
  using instances_share_registry_only [OF inst_resolved(2,3)] by simp

end
