(* ===== verification/File_Registry.thy ===== *)
theory File_Registry
  imports Config_Paths_Facts Config_Store_Props
begin

text \<open>
  The registry the manager is given in production, \<open>FileRegistry\<close> of \<open>internal/projects/projects.go\<close>: the
  paths are resolved, the documents are read and written there. Its update is the abstract one of theory
  \<open>Registry\<close>, which every result about the manager rests on.
\<close>

definition file_registry_load :: "fs_env \<Rightarrow> options \<Rightarrow> tree \<Rightarrow> load_err + config_file" where
  "file_registry_load env opts t = (case config_load env opts t of
       Inl e \<Rightarrow> Inl e
     | Inr (p, rt) \<Rightarrow> (case resolve_registry env p t of
         Inl e \<Rightarrow> Inl (StoreErr e)
       | Inr ps \<Rightarrow> Inr ((r_File rt)\<lparr>Projects := ps\<rparr>)))"

definition file_registry_save :: "fs_env \<Rightarrow> options \<Rightarrow> config_file \<Rightarrow> tree \<Rightarrow> load_err option \<times> tree" where
  "file_registry_save env opts f t = (case resolve_paths opts of
       Inl e \<Rightarrow> (Some (PathErr e), t)
     | Inr p \<Rightarrow> map_prod (map_option StoreErr) id (store_registry_for_paths env p (Projects f) t))"

definition file_registry_update :: "fs_env \<Rightarrow> options \<Rightarrow> (config_file \<Rightarrow> config_err + config_file) \<Rightarrow> tree \<Rightarrow>
    load_err option \<times> tree" where
  "file_registry_update env opts f t = (case resolve_paths opts of
       Inl e \<Rightarrow> (Some (PathErr e), t)
     | Inr p \<Rightarrow> map_prod (map_option StoreErr) id
         (store_update env p (\<lambda>ps. map_sum id Projects (f (bare_file ps))) t))"

definition load_outcome :: "load_err option \<Rightarrow> registry_err + unit" where
  "load_outcome r = (case r of None \<Rightarrow> Inr () | Some (StoreErr e) \<Rightarrow> outcome (Some e) | Some (PathErr e) \<Rightarrow> Inl DocIO)"

text \<open>C22: Whatever the environment and the home directory are, an update through the production registry is an
  update of the abstract registry the manager is verified against, for some answer of the lock, the write and
  the read back: same outcome, and the registry read from the disk afterwards is the abstract document. Paths
  given explicitly are the exception: the theorem speaks of resolved ones.\<close>

theorem file_registry_update_refines:
  assumes "resolve_paths opts = Inr p" and "\<not> explicitConfig p" and "meanwhile env = id"
    and "file_registry_update env opts f t = (r, t')" and "doc_projects w = held env p t"
  shows "\<exists>lo wo vo w'. registry_update (with_oracles m lo wo vo) f w = (load_outcome r, w') \<and>
    doc_projects w' = held env p t'"
proof -
  obtain s where s: "store_update env p (\<lambda>ps. map_sum id Projects (f (bare_file ps))) t = (s, t')" "r = map_option StoreErr s"
    using assms(1,4) by (auto simp: file_registry_update_def map_prod_def split: prod.splits)
  have "load_outcome r = outcome s" by (cases s) (simp_all add: s(2) load_outcome_def)
  then show ?thesis
    using disk_refines [OF resolved_paths_separate [OF assms(1,2)] assms(3) s(1) assms(5)]
    by (simp add: registry_update_def)
qed

abbreviation first_add :: "config_file \<Rightarrow> config_err + config_file" where
  "first_add f \<equiv> Inr (f\<lparr>Projects := [demo_entry]\<rparr>)"

theorem file_registry_update_refines_witness:
  "\<forall>m. \<exists>lo wo vo w'. registry_update (with_oracles m lo wo vo) first_add \<lparr>history = [], document = zero_file\<rparr> =
      (load_outcome (fst (file_registry_update good_env demo_options first_add Map.empty)), w') \<and>
    doc_projects w' = held good_env (inst_paths ''torio-claude'' ''/home/d/.config/torio/instances/torio-claude'')
      (snd (file_registry_update good_env demo_options first_add Map.empty))"
proof (intro allI file_registry_update_refines [OF inst_resolved(1)])
  show "meanwhile good_env = id" by (simp add: good_env_def demo_env_def)
  show "doc_projects \<lparr>history = [], document = zero_file\<rparr> =
      held good_env (inst_paths ''torio-claude'' ''/home/d/.config/torio/instances/torio-claude'') Map.empty"
    by (simp add: doc_projects_def held_def resolve_registry_def load_registry_def stat_trusted_dir_if_exists_def
        stat_trusted_dir_def open_trusted_file_def legacy_projects_def zero_file_def)
qed (simp_all add: inst_paths_def)

text \<open>A malformed \<open>TORIO_INSTANCE\<close> stops the invocation: nothing is read or written for any other instance.\<close>

lemma malformed_instance_stops:
  assumes "trim_space (getenv opts InstanceEnvKey) \<noteq> []"
    and "\<not> valid_instance_name (trim_space (getenv opts InstanceEnvKey))"
  shows "file_registry_update env opts f t = (Some (PathErr BadInstanceEnv), t)"
    and "file_registry_load env opts t = Inl (PathErr BadInstanceEnv)"
    and "file_registry_save env opts g t = (Some (PathErr BadInstanceEnv), t)"
  using assms
  by (simp_all add: file_registry_update_def file_registry_load_def file_registry_save_def config_load_def resolve_paths_def
      resolve_instance_def valid_instance_name_def and_then_path_def)

end
