(* ===== verification/Float_Text.thy ===== *)
theory Float_Text
  imports Torio_Prelude Durations
begin

text \<open>
  \<open>strconv.ParseFloat\<close>: decimal and hexadecimal floating-point texts with their underscores, read to the
  nearest double. The special names (\<open>inf\<close>, \<open>nan\<close>) and overflow to an infinity are not values here.
\<close>

definition float_sign :: "string \<Rightarrow> bool \<times> string" where
  "float_sign s = (if has_prefix s ''-'' then (True, drop 1 s)
     else if has_prefix s ''+'' then (False, drop 1 s) else (False, s))"

definition float_hex :: "string \<Rightarrow> bool" where
  "float_hex s \<longleftrightarrow> 2 < length s \<and> (has_prefix s ''0x'' \<or> has_prefix s ''0X'')"

definition lower_ascii :: "char \<Rightarrow> char" where
  "lower_ascii c = (if between CHR ''A'' CHR ''Z'' c then char_of ((of_char c :: nat) + 32) else c)"

definition float_digit :: "bool \<Rightarrow> char \<Rightarrow> nat option" where
  "float_digit hex c = (if is_digit c then Some (digit_val c)
     else if hex \<and> between CHR ''a'' CHR ''f'' (lower_ascii c)
       then Some (of_char (lower_ascii c) - of_char CHR ''a'' + 10) else None)"

text \<open>The mantissa: its digits as one number, whether there was any, how many stood after the dot.\<close>

fun float_mantissa :: "bool \<Rightarrow> bool \<Rightarrow> nat \<times> bool \<times> nat \<Rightarrow> string \<Rightarrow> (nat \<times> bool \<times> nat) \<times> string" where
  "float_mantissa hex dot (n, any_digit, frac) [] = ((n, any_digit, frac), [])"
| "float_mantissa hex dot (n, any_digit, frac) (c # s) =
     (if c = CHR ''_'' then float_mantissa hex dot (n, any_digit, frac) s
      else if c = CHR ''.'' then
        (if dot then ((n, any_digit, frac), c # s) else float_mantissa hex True (n, any_digit, frac) s)
      else (case float_digit hex c of
          None \<Rightarrow> ((n, any_digit, frac), c # s)
        | Some d \<Rightarrow> float_mantissa hex dot (n * (if hex then 16 else 10) + d, True, if dot then Suc frac else frac) s))"

text \<open>The digits of the exponent stop counting when they exceed ten thousand.\<close>

fun exponent_digits :: "nat \<Rightarrow> string \<Rightarrow> nat \<times> string" where
  "exponent_digits e [] = (e, [])"
| "exponent_digits e (c # s) =
     (if c = CHR ''_'' then exponent_digits e s
      else if is_digit c then exponent_digits (if e < 10000 then e * 10 + digit_val c else e) s
      else (e, c # s))"

definition float_exponent :: "bool \<Rightarrow> string \<Rightarrow> (int \<times> string) option" where
  "float_exponent hex s = (case s of
       c # s1 \<Rightarrow>
         (if lower_ascii c \<noteq> (if hex then CHR ''p'' else CHR ''e'') then (if hex then None else Some (0, s))
          else if s1 = [] then None
          else (case float_sign s1 of (neg, s2) \<Rightarrow>
            (case s2 of
               [] \<Rightarrow> None
             | d # _ \<Rightarrow> (if \<not> is_digit d then None
                 else (case exponent_digits 0 s2 of (e, rest) \<Rightarrow> Some (if neg then - int e else int e, rest))))))
     | [] \<Rightarrow> (if hex then None else Some (0, [])))"

text \<open>\<open>underscoreOK\<close>: an underscore stands between digits, the prefix counting as one.\<close>

fun underscores_go :: "bool \<Rightarrow> char \<Rightarrow> string \<Rightarrow> bool" where
  "underscores_go hex saw [] \<longleftrightarrow> saw \<noteq> CHR ''_''"
| "underscores_go hex saw (c # s) \<longleftrightarrow>
     (if is_digit c \<or> hex \<and> between CHR ''a'' CHR ''f'' (lower_ascii c) then underscores_go hex CHR ''0'' s
      else if c = CHR ''_'' then saw = CHR ''0'' \<and> underscores_go hex CHR ''_'' s
      else saw \<noteq> CHR ''_'' \<and> underscores_go hex CHR ''!'' s)"

definition underscores_ok :: "string \<Rightarrow> bool" where
  "underscores_ok s = (let t = snd (float_sign s);
       based = (has_prefix t ''0'' \<and> (case drop 1 t of [] \<Rightarrow> False | c # _ \<Rightarrow> lower_ascii c \<in> set ''box'')) in
     if based then underscores_go (lower_ascii (hd (drop 1 t)) = CHR ''x'') CHR ''0'' (drop 2 t)
     else underscores_go False CHR ''^'' t)"

text \<open>The sign and the exact value as a quotient of naturals, before it is rounded.\<close>

definition float_value :: "bool \<Rightarrow> nat \<Rightarrow> nat \<Rightarrow> int \<Rightarrow> float" where
  "float_value hex n frac e =
     (if hex then (let k = e - 4 * int frac in (n * 2 ^ nat k, 2 ^ nat (- k)))
      else (let k = e - int frac in (n * 10 ^ nat k, 10 ^ nat (- k))))"

definition float_text :: "string \<Rightarrow> (bool \<times> float) option" where
  "float_text s = (case float_sign s of (neg, t) \<Rightarrow> (let hex = float_hex t in
     case float_mantissa hex False (0, False, 0) (if hex then drop 2 t else t) of
       ((n, any_digit, frac), rest) \<Rightarrow>
         (if \<not> any_digit then None
          else (case float_exponent hex rest of
              None \<Rightarrow> None
            | Some (e, left) \<Rightarrow>
                (if left \<noteq> [] \<or> CHR ''_'' \<in> set s \<and> \<not> underscores_ok s then None
                 else Some (neg, float_value hex n frac e))))))"

end
