(* ===== verification/Status.thy ===== *)
theory Status
  imports Json Float_Text Projects
begin

text \<open>
  The status report (\<open>internal/status\<close>): the facts a poll reads from the guest (\<open>facts.go\<close>), the waiting
  marker the hooks of a backend write (\<open>marker.go\<close>) and the report's fields (\<open>report.go\<close>). All of it is
  pure; the poll itself is theory \<open>Poller\<close>. Times are seconds since 1970; the only clock is the guest's.
\<close>

section \<open>The report\<close>

datatype field_state = NotApplicable | Unknown | Known

record backend_field =
  bf_State :: field_state
  bf_Name :: string

record session_entry =
  s_PID :: int
  s_StartedAt :: string
  s_AgeSeconds :: int

record session_field =
  sf_State :: field_state
  Sessions :: "session_entry list"

record wait_entry =
  w_SessionID :: string
  w_PID :: int
  w_AgeSeconds :: int

record waiting_field =
  wf_State :: field_state
  Waiting :: bool
  Waits :: "wait_entry list"

record progress_field =
  pf_State :: field_state
  pf_At :: string
  pf_AgeSeconds :: int

record instance_report =
  r_Name :: string
  r_Box :: string
  r_Backend :: backend_field
  r_Session :: session_field
  r_Waiting :: waiting_field
  r_Progress :: progress_field

definition unknown_session :: session_field where
  "unknown_session = \<lparr>sf_State = Unknown, Sessions = []\<rparr>"

definition unknown_waiting :: waiting_field where
  "unknown_waiting = \<lparr>wf_State = Unknown, Waiting = False, Waits = []\<rparr>"

definition unknown_progress :: progress_field where
  "unknown_progress = \<lparr>pf_State = Unknown, pf_At = [], pf_AgeSeconds = 0\<rparr>"

section \<open>Time\<close>

text \<open>\<open>time.Duration\<close> counts nanoseconds in 64 bits: a difference of times saturates.\<close>

definition sub_seconds :: "int \<Rightarrow> int \<Rightarrow> int" where
  "sub_seconds a b = (let d = (a - b) * 1000000000 in
     if d > 2 ^ 63 - 1 then (2 ^ 63 - 1) div 1000000000
     else if d < - (2 ^ 63) then - (2 ^ 63 div 1000000000) else a - b)"

text \<open>\<open>Format(time.RFC3339)\<close> of a time in UTC.\<close>

definition civil_of_days :: "int \<Rightarrow> int \<times> int \<times> int" where
  "civil_of_days days = (let z = days + 719468; era = z div 146097; doe = z mod 146097;
       yoe = (doe - doe div 1460 + doe div 36524 - doe div 146096) div 365;
       doy = doe - (365 * yoe + yoe div 4 - yoe div 100); mp = (5 * doy + 2) div 153;
       d = doy - (153 * mp + 2) div 5 + 1; m = (if mp < 10 then mp + 3 else mp - 9) in
     (yoe + era * 400 + (if m \<le> 2 then 1 else 0), m, d))"

definition padded :: "nat \<Rightarrow> int \<Rightarrow> string" where
  "padded w n = (let ds = show_int n in replicate (w - length ds) CHR ''0'' @ ds)"

definition format_rfc3339 :: "int \<Rightarrow> string" where
  "format_rfc3339 t = (case civil_of_days (t div 86400) of (y, m, d) \<Rightarrow> (let s = t mod 86400 in
     padded 4 y @ ''-'' @ padded 2 m @ ''-'' @ padded 2 d @ ''T'' @ padded 2 (s div 3600) @ '':'' @
     padded 2 (s div 60 mod 60) @ '':'' @ padded 2 (s mod 60) @ ''Z''))"

section \<open>Facts\<close>

definition maxUnixRFC3339 :: int where "maxUnixRFC3339 = 253402300799"

definition parse_guest_now :: "string \<Rightarrow> int option" where
  "parse_guest_now out = (case parse_int64 (trim_space out) of
       None \<Rightarrow> None
     | Some secs \<Rightarrow> (if secs < 0 \<or> secs > maxUnixRFC3339 then None else Some secs))"

record process =
  pid :: int
  elapsed :: int \<comment> \<open>in seconds\<close>
  proc_name :: string

definition process_argv :: "string \<Rightarrow> string list" where
  "process_argv user = [''ps'', ''-o'', ''pid=,etimes=,comm='', ''-u'', user]"

definition maxElapsedSeconds :: int where "maxElapsedSeconds = (2 ^ 63 - 1) div 1000000000"

fun parse_process :: "string list \<Rightarrow> process option" where
  "parse_process (f0 # f1 # f2 # rest) = (case parse_int64 f0 of
       None \<Rightarrow> None
     | Some n \<Rightarrow> (if n \<le> 0 then None else (case parse_int64 f1 of
           None \<Rightarrow> None
         | Some secs \<Rightarrow> (if secs < 0 \<or> secs > maxElapsedSeconds then None
             else Some \<lparr>pid = n, elapsed = secs, proc_name = trim_space (join '' '' (f2 # rest))\<rparr>))))"
| "parse_process _ = None"

fun parse_process_lines :: "string list \<Rightarrow> process list option" where
  "parse_process_lines [] = Some []"
| "parse_process_lines (line # ls) =
     (if trim_space line = [] then parse_process_lines ls
      else (case parse_process (str_fields line) of
          None \<Rightarrow> None
        | Some p \<Rightarrow> map_option ((#) p) (parse_process_lines ls)))"

definition parse_processes :: "string \<Rightarrow> process list option" where
  "parse_processes out = parse_process_lines (split_lines out)"

definition pathFactFormat :: string where
  "pathFactFormat = ''%p|%u|%m|%T@'' @ [newline]"

record stat_entry =
  st_path :: string
  st_owner :: string
  st_mode :: string
  st_mtime :: int

text \<open>The fact's time: a float between 0 and the last representable second, cut to its seconds. A negative
  text is accepted when it rounds to (negative) zero.\<close>

definition parse_mtime :: "string \<Rightarrow> int option" where
  "parse_mtime s = (case float_text s of
       None \<Rightarrow> None
     | Some (neg, n, d) \<Rightarrow>
         (if neg \<and> n * 2 ^ 1075 > d then None
          else (let x = fl_round n d in
            if int (fst x) > maxUnixRFC3339 * int (snd x) then None else Some (int (fl_trunc x)))))"

text \<open>\<open>None\<close> is unreadable output, \<open>Some None\<close> the proven absence of the file.\<close>

definition parse_path_fact :: "string \<Rightarrow> string \<Rightarrow> stat_entry option option" where
  "parse_path_fact out want = (let line = trim_space out in
     if line = [] then Some None
     else if newline \<in> set line then None
     else (case split_on CHR ''|'' line of
         [p, owner, mode, mtime] \<Rightarrow>
           (if p \<noteq> want then None
            else map_option (\<lambda>t. Some \<lparr>st_path = p, st_owner = owner, st_mode = mode, st_mtime = t\<rparr>) (parse_mtime mtime))
       | _ \<Rightarrow> None))"

text \<open>\<open>strconv.ParseInt(mode, 8, 32)\<close>.\<close>

definition parse_octal32 :: "string \<Rightarrow> int option" where
  "parse_octal32 s = (case float_sign s of (neg, ds) \<Rightarrow>
     (if ds = [] \<or> \<not> list_all (between CHR ''0'' CHR ''7'') ds then None
      else (let v = int (foldl (\<lambda>n c. n * 8 + digit_val c) 0 ds) in
        if neg then (if v \<le> 2 ^ 31 then Some (- v) else None)
        else if v < 2 ^ 31 then Some v else None)))"

definition writable_beyond_owner :: "string \<Rightarrow> bool" where
  "writable_beyond_owner mode = (case parse_octal32 mode of
       None \<Rightarrow> True
     | Some m \<Rightarrow> and m 18 \<noteq> 0)" \<comment> \<open>\<open>0o022\<close>\<close>

definition sessions_named :: "string \<Rightarrow> process list \<Rightarrow> int \<Rightarrow> session_field" where
  "sessions_named name live now = \<lparr>sf_State = Known, Sessions = map (\<lambda>p.
       \<lparr>s_PID = pid p, s_StartedAt = format_rfc3339 (now - elapsed p), s_AgeSeconds = elapsed p\<rparr>)
     (filter (\<lambda>p. proc_name p = name) live)\<rparr>"

fun newest_mtime :: "string list \<Rightarrow> (string \<Rightarrow> stat_entry option) \<Rightarrow> int option \<Rightarrow> int option" where
  "newest_mtime [] entries newest = newest"
| "newest_mtime (p # ps) entries newest = (case entries p of
       None \<Rightarrow> newest_mtime ps entries newest
     | Some e \<Rightarrow> newest_mtime ps entries (case newest of
           None \<Rightarrow> Some (st_mtime e)
         | Some t \<Rightarrow> if st_mtime e > t then Some (st_mtime e) else Some t))"

definition newest_progress :: "string list \<Rightarrow> (string \<Rightarrow> stat_entry option) \<Rightarrow> int \<Rightarrow> progress_field" where
  "newest_progress paths entries now = (case newest_mtime paths entries None of
       None \<Rightarrow> unknown_progress
     | Some newest \<Rightarrow> (let age = sub_seconds now newest in
         if age < 0 then unknown_progress
         else \<lparr>pf_State = Known, pf_At = format_rfc3339 newest, pf_AgeSeconds = age\<rparr>))"

definition path_fact_argv :: "string \<Rightarrow> string list" where
  "path_fact_argv p = [''find'', path_dir p, ''-maxdepth'', ''1'', ''-name'', path_base p, ''-type'', ''f'',
     ''-printf'', pathFactFormat]"

section \<open>The waiting marker\<close>

definition MarkerFileName :: string where "MarkerFileName = ''.torio-waiting.json''"
definition MarkerSchemaVersion :: string where "MarkerSchemaVersion = ''2''"
definition MaxMarkerWaits :: nat where "MaxMarkerWaits = 64"
definition MarkerTTL :: int where "MarkerTTL = 3600"

record marker_wait =
  m_SessionID :: string
  m_PID :: int
  m_SinceUnix :: int

record marker_doc =
  m_SchemaVersion :: string
  m_Waits :: "marker_wait slice"

definition no_marker_wait :: marker_wait where
  "no_marker_wait = \<lparr>m_SessionID = [], m_PID = 0, m_SinceUnix = 0\<rparr>"

definition marker_wait_member :: "string \<Rightarrow> json \<Rightarrow> marker_wait \<Rightarrow> marker_wait option" where
  "marker_wait_member k v w =
     (if names_field k ''session_id'' then map_option (\<lambda>s. w\<lparr>m_SessionID := s\<rparr>) (into_string v (m_SessionID w))
      else if names_field k ''pid'' then map_option (\<lambda>n. w\<lparr>m_PID := n\<rparr>) (into_int64 v (m_PID w))
      else if names_field k ''since_unix'' then map_option (\<lambda>n. w\<lparr>m_SinceUnix := n\<rparr>) (into_int64 v (m_SinceUnix w))
      else None)"

definition marker_member :: "string \<Rightarrow> json \<Rightarrow> marker_doc \<Rightarrow> marker_doc option" where
  "marker_member k v d =
     (if names_field k ''schema_version'' then
        map_option (\<lambda>s. d\<lparr>m_SchemaVersion := s\<rparr>) (into_string v (m_SchemaVersion d))
      else if names_field k ''waits'' then
        map_option (\<lambda>ws. d\<lparr>m_Waits := ws\<rparr>) (into_slice no_marker_wait (into_struct marker_wait_member) v (m_Waits d))
      else None)"

definition valid_session_id :: "string \<Rightarrow> bool" where
  "valid_session_id s \<longleftrightarrow> s \<noteq> [] \<and> length s \<le> 128 \<and> list_all (\<lambda>c. is_alnum c \<or> c = CHR ''-'' \<or> c = CHR ''_'') s"

fun marker_waits_ok :: "string set \<Rightarrow> marker_wait list \<Rightarrow> bool" where
  "marker_waits_ok seen [] = True"
| "marker_waits_ok seen (w # ws) \<longleftrightarrow> valid_session_id (m_SessionID w) \<and> m_SessionID w \<notin> seen \<and>
     0 < m_PID w \<and> 0 < m_SinceUnix w \<and> marker_waits_ok (insert (m_SessionID w) seen) ws"

definition decode_marker :: "string \<Rightarrow> marker_wait list option" where
  "decode_marker data = (case decode_strict marker_member data \<lparr>m_SchemaVersion = [], m_Waits = None\<rparr> of
       None \<Rightarrow> None
     | Some doc \<Rightarrow> (let ws = slice_elems (m_Waits doc) in
         if m_SchemaVersion doc \<noteq> MarkerSchemaVersion \<or> m_Waits doc = None \<or> length ws > MaxMarkerWaits \<or>
           \<not> marker_waits_ok {} ws
         then None else Some ws))"

definition marker_trusted :: "stat_entry \<Rightarrow> string \<Rightarrow> bool" where
  "marker_trusted e owner \<longleftrightarrow> st_owner e = owner \<and> \<not> writable_beyond_owner (st_mode e)"

text \<open>The start of each live process, by its pid; a later session of the list wins.\<close>

definition live_since :: "session_entry list \<Rightarrow> int \<Rightarrow> int \<Rightarrow> int option" where
  "live_since ss now = map_of (rev (map (\<lambda>s. (s_PID s, now - s_AgeSeconds s)) ss))"

fun rank_waits :: "(int \<Rightarrow> int option) \<Rightarrow> int \<Rightarrow> marker_wait list \<Rightarrow> wait_entry list \<times> bool" where
  "rank_waits live now [] = ([], False)"
| "rank_waits live now (m # ms) = (case rank_waits live now ms of (ws, expired) \<Rightarrow>
     (case live (m_PID m) of
       None \<Rightarrow> (ws, expired)
     | Some started \<Rightarrow>
         (if m_SinceUnix m < started then (ws, expired)
          else (let age = now - m_SinceUnix m in
            if age < 0 \<or> age > MarkerTTL then (ws, True)
            else (\<lparr>w_SessionID = m_SessionID m, w_PID = m_PID m, w_AgeSeconds = age\<rparr> # ws, expired)))))"

definition waiting_from_marker :: "marker_wait list \<Rightarrow> session_entry list \<Rightarrow> int \<Rightarrow> waiting_field" where
  "waiting_from_marker doc ss now = (case rank_waits (live_since ss now) now doc of (waits, expired) \<Rightarrow>
     (if waits = [] then
        (if expired then unknown_waiting else \<lparr>wf_State = Known, Waiting = False, Waits = []\<rparr>)
      else \<lparr>wf_State = Known, Waiting = True, Waits = waits\<rparr>))"

end
