(* ===== verification/Poller.thy ===== *)
theory Poller
  imports Status Guest
begin

text \<open>
  The poll of \<open>internal/status/poller.go\<close>, with the declarations of the two backends it asks about. A poll
  is a function of its collaborators: what Lima enumerated, what each box's document resolves to, and the
  guests, each answering a command as a function of everything asked so far. What was asked and what was
  diagnosed is logged in order.
\<close>

section \<open>What a backend declares\<close>

record backend_identity =
  id_Name :: string
  id_GuestUser :: string
  id_Home :: string
  id_ProfilePath :: string
  id_BrainPath :: string
  id_WorkspacePath :: string

record status_spec =
  SessionProcess :: string
  ProgressPaths :: "string list"
  WaitingMarker :: bool

record backend =
  be_Identity :: backend_identity
  be_Status :: "status_spec option"

definition claude_identity :: backend_identity where
  "claude_identity = \<lparr>id_Name = ''claude-code'', id_GuestUser = ''claude'', id_Home = ''/home/claude'',
     id_ProfilePath = ''/home/claude/.claude'', id_BrainPath = ''/home/claude/brain'',
     id_WorkspacePath = ''/home/claude/projects''\<rparr>"

definition claude_status :: status_spec where
  "claude_status = \<lparr>SessionProcess = path_base ''/usr/local/bin/claude'', ProgressPaths = [], WaitingMarker = True\<rparr>"

definition codex_identity :: backend_identity where
  "codex_identity = \<lparr>id_Name = ''codex'', id_GuestUser = ''codex'', id_Home = ''/home/codex'',
     id_ProfilePath = ''/home/codex/.codex'', id_BrainPath = ''/home/codex/brain'',
     id_WorkspacePath = ''/home/codex/projects''\<rparr>"

definition codex_status :: status_spec where
  "codex_status = \<lparr>SessionProcess = path_base ''/usr/local/bin/codex'', ProgressPaths = [], WaitingMarker = True\<rparr>"

section \<open>The poll's collaborators\<close>

record box =
  box_Name :: string
  box_State :: string
  box_Running :: bool

datatype diagnosis =
    NotAnswered run_err
  | UnreadableRecord
  | BadClock
  | BadProcesses
  | BadPathFact
  | UntrustedMarker
  | BadMarker
  | NotResolved

record resolution =
  res_Backend :: "backend option"
  res_Name :: string

type_synonym questions = "(string \<times> string list) list"

record poll_log =
  asked :: questions
  diagnosed :: "(string \<times> string \<times> diagnosis) list"

record poller =
  p_Instances :: "guest_err + box list"
  p_Transport :: "questions \<Rightarrow> string \<Rightarrow> string list \<Rightarrow> guest_err + result"
  p_Resolve :: "string \<Rightarrow> resolution"

definition no_log :: poll_log where "no_log = \<lparr>asked = [], diagnosed = []\<rparr>"

definition diagnose :: "string \<Rightarrow> string \<Rightarrow> diagnosis \<Rightarrow> poll_log \<Rightarrow> poll_log" where
  "diagnose inst what e l = l\<lparr>diagnosed := diagnosed l @ [(inst, what, e)]\<rparr>"

definition ask :: "poller \<Rightarrow> string \<Rightarrow> string list \<Rightarrow> poll_log \<Rightarrow> (run_err + result) \<times> poll_log" where
  "ask p inst argv l = (let l' = l\<lparr>asked := asked l @ [(inst, argv)]\<rparr> in
     case p_Transport p (asked l) inst argv of
       Inl e \<Rightarrow> (Inl (RunGuest e), l')
     | Inr res \<Rightarrow> (if StdoutTruncated res \<or> StderrTruncated res then (Inl RunTruncated, l') else (Inr res, l')))"

section \<open>One box\<close>

text \<open>\<open>Poller.run\<close>: the standard output of a command that answered with exit zero.\<close>

definition poll_run :: "poller \<Rightarrow> string \<Rightarrow> string \<Rightarrow> string \<Rightarrow> string list \<Rightarrow> poll_log \<Rightarrow> string option \<times> poll_log" where
  "poll_run p inst what user argv l = (case ask p inst (user_exec_as user argv) l of
       (Inl e, l') \<Rightarrow> (None, diagnose inst what (NotAnswered e) l')
     | (Inr res, l') \<Rightarrow> (if ExitCode res \<noteq> 0 then (None, diagnose inst what UnreadableRecord l')
         else (Some (Stdout res), l')))"

definition no_sessions :: session_field where
  "no_sessions = \<lparr>sf_State = NotApplicable, Sessions = []\<rparr>"

definition no_progress :: progress_field where
  "no_progress = \<lparr>pf_State = NotApplicable, pf_At = [], pf_AgeSeconds = 0\<rparr>"

definition poll_sessions :: "poller \<Rightarrow> string \<Rightarrow> string \<Rightarrow> status_spec \<Rightarrow> int \<Rightarrow> poll_log \<Rightarrow> session_field \<times> poll_log" where
  "poll_sessions p inst user spec now l =
     (if SessionProcess spec = [] then (no_sessions, l)
      else (case poll_run p inst ''processes'' user (process_argv user) l of
          (None, l') \<Rightarrow> (unknown_session, l')
        | (Some out, l') \<Rightarrow> (case parse_processes out of
            None \<Rightarrow> (unknown_session, diagnose inst ''processes'' BadProcesses l')
          | Some live \<Rightarrow> (sessions_named (SessionProcess spec) live now, l'))))"

definition marker_path_for :: "backend_identity \<Rightarrow> string" where
  "marker_path_for ident = id_Home ident @ ''/'' @ MarkerFileName"

text \<open>The loop over the exact names; \<open>None\<close> is the early return that leaves progress unknown.\<close>

fun read_paths :: "poller \<Rightarrow> string \<Rightarrow> string \<Rightarrow> string list \<Rightarrow> (string \<Rightarrow> stat_entry option) \<Rightarrow> poll_log \<Rightarrow>
    (string \<Rightarrow> stat_entry option) option \<times> poll_log" where
  "read_paths p inst user [] entries l = (Some entries, l)"
| "read_paths p inst user (f # fs) entries l = (case poll_run p inst ''paths'' user (path_fact_argv f) l of
       (None, l') \<Rightarrow> (None, l')
     | (Some out, l') \<Rightarrow> (case parse_path_fact out f of
         None \<Rightarrow> (None, diagnose inst ''paths'' BadPathFact l')
       | Some None \<Rightarrow> read_paths p inst user fs entries l'
       | Some (Some e) \<Rightarrow> read_paths p inst user fs (entries(f \<mapsto> e)) l'))"

definition fact_paths :: "backend_identity \<Rightarrow> status_spec \<Rightarrow> string list" where
  "fact_paths ident spec = ProgressPaths spec @ (if WaitingMarker spec then [marker_path_for ident] else [])"

definition poll_paths :: "poller \<Rightarrow> string \<Rightarrow> string \<Rightarrow> backend_identity \<Rightarrow> status_spec \<Rightarrow> int \<Rightarrow> poll_log \<Rightarrow>
    (progress_field \<times> stat_entry option) \<times> poll_log" where
  "poll_paths p inst user ident spec now l =
     (if fact_paths ident spec = [] then ((no_progress, None), l)
      else (case read_paths p inst user (fact_paths ident spec) Map.empty l of
          (None, l') \<Rightarrow> ((unknown_progress, None), l')
        | (Some entries, l') \<Rightarrow>
            (let marker = (if WaitingMarker spec then entries (marker_path_for ident) else None) in
             if ProgressPaths spec = [] then ((no_progress, marker), l')
             else ((newest_progress (ProgressPaths spec) entries now, marker), l'))))"

definition poll_waiting :: "poller \<Rightarrow> string \<Rightarrow> string \<Rightarrow> status_spec \<Rightarrow> session_field \<Rightarrow> stat_entry option \<Rightarrow> int \<Rightarrow>
    poll_log \<Rightarrow> waiting_field \<times> poll_log" where
  "poll_waiting p inst user spec session marker now l =
     (if \<not> WaitingMarker spec then (unknown_waiting, l)
      else if sf_State session \<noteq> Known then (unknown_waiting, l)
      else (case marker of
          None \<Rightarrow> (unknown_waiting, diagnose inst ''waiting'' UnreadableRecord l)
        | Some e \<Rightarrow>
            (if \<not> marker_trusted e user then (unknown_waiting, diagnose inst ''waiting'' UntrustedMarker l)
             else (case poll_run p inst ''waiting'' user [''cat'', ''--'', st_path e] l of
                 (None, l') \<Rightarrow> (unknown_waiting, l')
               | (Some out, l') \<Rightarrow> (case decode_marker out of
                   None \<Rightarrow> (unknown_waiting, diagnose inst ''waiting'' BadMarker l')
                 | Some doc \<Rightarrow> (waiting_from_marker doc (Sessions session) now, l'))))))"

definition poll_probe :: "poller \<Rightarrow> string \<Rightarrow> backend_identity \<Rightarrow> status_spec \<Rightarrow> poll_log \<Rightarrow>
    (session_field \<times> waiting_field \<times> progress_field) \<times> poll_log" where
  "poll_probe p inst ident spec l = (let user = id_GuestUser ident; unproven = (unknown_session, unknown_waiting, unknown_progress) in
     case poll_run p inst ''clock'' user [''date'', ''+%s''] l of
       (None, l') \<Rightarrow> (unproven, l')
     | (Some out, l1) \<Rightarrow> (case parse_guest_now out of
         None \<Rightarrow> (unproven, diagnose inst ''clock'' BadClock l1)
       | Some now \<Rightarrow>
           (case poll_sessions p inst user spec now l1 of (session, l2) \<Rightarrow>
           (case poll_paths p inst user ident spec now l2 of ((progress, marker), l3) \<Rightarrow>
           (case poll_waiting p inst user spec session marker now l3 of (waiting, l4) \<Rightarrow>
             ((session, waiting, progress), l4))))))"

definition unknown_instance :: "box \<Rightarrow> instance_report" where
  "unknown_instance b = \<lparr>r_Name = box_Name b, r_Box = box_State b, r_Backend = \<lparr>bf_State = Unknown, bf_Name = []\<rparr>,
     r_Session = unknown_session, r_Waiting = unknown_waiting, r_Progress = unknown_progress\<rparr>"

definition host_facts :: "box \<Rightarrow> instance_report" where
  "host_facts b = (if box_State b = ''stopped'' then
       (unknown_instance b)\<lparr>r_Session := \<lparr>sf_State = Known, Sessions = []\<rparr>,
         r_Waiting := \<lparr>wf_State = Known, Waiting = False, Waits = []\<rparr>\<rparr>
     else unknown_instance b)"

definition poll_instance :: "poller \<Rightarrow> box \<Rightarrow> poll_log \<Rightarrow> instance_report \<times> poll_log" where
  "poll_instance p b l = (let inst = host_facts b; res = p_Resolve p (box_Name b) in
     case (if res_Name res = [] then None else res_Backend res) of
       None \<Rightarrow> (inst, diagnose (box_Name b) ''backend'' NotResolved l)
     | Some be \<Rightarrow> (let inst1 = inst\<lparr>r_Backend := \<lparr>bf_State = Known, bf_Name = res_Name res\<rparr>\<rparr> in
         if box_State b = ''stopped'' then (inst1, l)
         else (case be_Status be of
             None \<Rightarrow> (inst1\<lparr>r_Session := no_sessions,
                 r_Waiting := \<lparr>wf_State = NotApplicable, Waiting = False, Waits = []\<rparr>, r_Progress := no_progress\<rparr>, l)
           | Some spec \<Rightarrow>
               (if \<not> box_Running b then (inst1, l)
                else (case poll_probe p (box_Name b) (be_Identity be) spec l of ((session, waiting, progress), l') \<Rightarrow>
                  (inst1\<lparr>r_Session := session, r_Waiting := waiting, r_Progress := progress\<rparr>, l'))))))"

fun poll_boxes :: "poller \<Rightarrow> box list \<Rightarrow> poll_log \<Rightarrow> instance_report list \<times> poll_log" where
  "poll_boxes p [] l = ([], l)"
| "poll_boxes p (b # bs) l = (case poll_instance p b l of (r, l') \<Rightarrow>
     (case poll_boxes p bs l' of (rs, l'') \<Rightarrow> (r # rs, l'')))"

definition poll :: "poller \<Rightarrow> (guest_err + instance_report list) \<times> poll_log" where
  "poll p = (case p_Instances p of
       Inl e \<Rightarrow> (Inl e, no_log)
     | Inr boxes \<Rightarrow> (case poll_boxes p boxes no_log of (rs, l) \<Rightarrow> (Inr rs, l)))"

end
