(* ===== verification/Poller_Facts.thy ===== *)
theory Poller_Facts
  imports Poller
begin

text \<open>
  The poll: what it may ask and of whom, that a wait it reports is proved by answers of this very poll, that
  every report is well formed whatever the guests answer, and that one box cannot change what is said of another.
\<close>

section \<open>Rules for programs over the log\<close>

type_synonym 'a polls = "poll_log \<Rightarrow> 'a \<times> poll_log"

text \<open>\<open>asks Q f\<close>: every question \<open>f\<close> adds satisfies \<open>Q\<close>.\<close>

definition asks :: "(string \<times> string list \<Rightarrow> bool) \<Rightarrow> 'a polls \<Rightarrow> bool" where
  "asks Q f \<longleftrightarrow> (\<forall>l. \<exists>qs. asked (snd (f l)) = asked l @ qs \<and> list_all Q qs)"

text \<open>\<open>alike i f\<close>: what \<open>f\<close> returns depends on the log only through the questions put to \<open>i\<close>.\<close>

definition own :: "string \<Rightarrow> poll_log \<Rightarrow> questions" where
  "own i l = filter (\<lambda>q. fst q = i) (asked l)"

definition alike :: "string \<Rightarrow> 'a polls \<Rightarrow> bool" where
  "alike i f \<longleftrightarrow> (\<forall>l m. own i l = own i m \<longrightarrow> fst (f l) = fst (f m) \<and> own i (snd (f l)) = own i (snd (f m)))"

named_theorems poll_rules \<open>rules that carry \<open>asks\<close> and \<open>alike\<close> through a program over the log\<close>

lemma diagnose_asked [simp]: "asked (diagnose i w e l) = asked l"
  by (simp add: diagnose_def)

lemma diagnose_own [simp]: "own i (diagnose j w e l) = own i l"
  by (simp add: own_def)

lemma asks_done [poll_rules]: "asks Q (\<lambda>l. (x, l))" "asks Q (\<lambda>l. (x, diagnose i w e l))"
  by (simp_all add: asks_def)

lemma alike_done [poll_rules]: "alike i (\<lambda>l. (x, l))" "alike i (\<lambda>l. (x, diagnose j w e l))"
  by (simp_all add: alike_def)

lemma asks_bind: "asks Q f \<Longrightarrow> (\<And>x. asks Q (g x)) \<Longrightarrow> asks Q (\<lambda>l. case f l of (x, l') \<Rightarrow> g x l')"
  unfolding asks_def
proof
  fix l assume f: "\<forall>l. \<exists>qs. asked (snd (f l)) = asked l @ qs \<and> list_all Q qs"
    and g: "\<And>x. \<forall>l. \<exists>qs. asked (snd (g x l)) = asked l @ qs \<and> list_all Q qs"
  obtain x l' where e: "f l = (x, l')" by fastforce
  obtain qs where "asked l' = asked l @ qs" "list_all Q qs" using f e by (metis snd_conv)
  moreover obtain qs' where "asked (snd (g x l')) = asked l' @ qs'" "list_all Q qs'" using g by blast
  ultimately show "\<exists>qs. asked (snd (case f l of (x, l') \<Rightarrow> g x l')) = asked l @ qs \<and> list_all Q qs"
    using e by (intro exI [of _ "qs @ qs'"]) simp
qed

lemma alikeD:
  "alike i f \<Longrightarrow> own i l = own i m \<Longrightarrow> fst (f l) = fst (f m)"
  "alike i f \<Longrightarrow> own i l = own i m \<Longrightarrow> own i (snd (f l)) = own i (snd (f m))"
  unfolding alike_def by blast+

lemma alikeI: "(\<And>l m. own i l = own i m \<Longrightarrow> fst (f l) = fst (f m) \<and> own i (snd (f l)) = own i (snd (f m))) \<Longrightarrow> alike i f"
  unfolding alike_def by blast

lemma alike_bind: "alike i f \<Longrightarrow> (\<And>x. alike i (g x)) \<Longrightarrow> alike i (\<lambda>l. case f l of (x, l') \<Rightarrow> g x l')"
proof (rule alikeI)
  fix l m assume f: "alike i f" and g: "\<And>x. alike i (g x)" and same: "own i l = own i m"
  note s = alikeD [OF f same]
  show "fst (case f l of (x, l') \<Rightarrow> g x l') = fst (case f m of (x, l') \<Rightarrow> g x l') \<and>
      own i (snd (case f l of (x, l') \<Rightarrow> g x l')) = own i (snd (case f m of (x, l') \<Rightarrow> g x l'))"
    using alikeD [OF g s(2)] s(1) by (simp add: split_beta)
qed

lemma asks_if: "(b \<Longrightarrow> asks Q f) \<Longrightarrow> (\<not> b \<Longrightarrow> asks Q g) \<Longrightarrow> asks Q (\<lambda>l. if b then f l else g l)"
  by (cases b) simp_all

lemma asks_option: "(x = None \<Longrightarrow> asks Q f) \<Longrightarrow> (\<And>y. x = Some y \<Longrightarrow> asks Q (g y)) \<Longrightarrow>
    asks Q (\<lambda>l. case x of None \<Rightarrow> f l | Some y \<Rightarrow> g y l)"
  by (cases x) simp_all

lemma asks_sum: "(\<And>y. asks Q (f y)) \<Longrightarrow> (\<And>y. asks Q (g y)) \<Longrightarrow> asks Q (\<lambda>l. case x of Inl y \<Rightarrow> f y l | Inr y \<Rightarrow> g y l)"
  by (cases x) simp_all

lemma asks_prod: "(\<And>y z. x = (y, z) \<Longrightarrow> asks Q (f y z)) \<Longrightarrow> asks Q (\<lambda>l. case x of (y, z) \<Rightarrow> f y z l)"
  by (cases x) simp_all

lemma alike_if: "(b \<Longrightarrow> alike i f) \<Longrightarrow> (\<not> b \<Longrightarrow> alike i g) \<Longrightarrow> alike i (\<lambda>l. if b then f l else g l)"
  by (cases b) simp_all

lemma alike_option: "alike i f \<Longrightarrow> (\<And>y. alike i (g y)) \<Longrightarrow> alike i (\<lambda>l. case x of None \<Rightarrow> f l | Some y \<Rightarrow> g y l)"
  by (cases x) simp_all

lemma alike_sum: "(\<And>y. alike i (f y)) \<Longrightarrow> (\<And>y. alike i (g y)) \<Longrightarrow> alike i (\<lambda>l. case x of Inl y \<Rightarrow> f y l | Inr y \<Rightarrow> g y l)"
  by (cases x) simp_all

lemma alike_prod: "(\<And>y z. alike i (f y z)) \<Longrightarrow> alike i (\<lambda>l. case x of (y, z) \<Rightarrow> f y z l)"
  by (cases x) simp_all

lemmas [poll_rules] = asks_bind asks_if asks_option asks_sum asks_prod alike_bind alike_if alike_option alike_sum alike_prod

section \<open>What is asked\<close>

lemma ask_asked: "asked (snd (ask p i argv l)) = asked l @ [(i, argv)]"
  by (auto simp: ask_def Let_def split: sum.splits)

lemma asks_ask: "Q (i, argv) \<Longrightarrow> asks Q (ask p i argv)"
  by (auto simp: asks_def ask_asked)

lemma asks_poll_run: "Q (i, user_exec_as u argv) \<Longrightarrow> asks Q (poll_run p i w u argv)"
  unfolding poll_run_def [abs_def] by (intro poll_rules asks_ask)

text \<open>The guest answers by what it was asked itself, whatever other boxes were asked in between.\<close>

definition answers_alone :: "poller \<Rightarrow> string \<Rightarrow> bool" where
  "answers_alone p i \<longleftrightarrow> (\<forall>h argv. p_Transport p h i argv = p_Transport p (filter (\<lambda>q. fst q = i) h) i argv)"

lemma alike_ask: "answers_alone p i \<Longrightarrow> alike i (ask p i argv)"
proof (rule alikeI)
  fix l m assume alone: "answers_alone p i" and same: "own i l = own i m"
  then have "p_Transport p (asked l) i argv = p_Transport p (asked m) i argv"
    unfolding answers_alone_def own_def by metis
  then show "fst (ask p i argv l) = fst (ask p i argv m) \<and> own i (snd (ask p i argv l)) = own i (snd (ask p i argv m))"
    using same by (auto simp: own_def ask_asked) (auto simp: ask_def Let_def split: sum.splits)
qed

lemma alike_poll_run: "answers_alone p i \<Longrightarrow> alike i (poll_run p i w u argv)"
  unfolding poll_run_def [abs_def] by (intro poll_rules alike_ask)

text \<open>The questions a box may be put: fixed argument vectors run as the backend's own identity.\<close>

definition questions_for :: "backend_identity \<Rightarrow> status_spec \<Rightarrow> string list list" where
  "questions_for ident spec = map (user_exec_as (id_GuestUser ident))
     ([[''date'', ''+%s''], process_argv (id_GuestUser ident), [''cat'', ''--'', marker_path_for ident]] @
      map path_fact_argv (fact_paths ident spec))"

abbreviation may_ask :: "string \<Rightarrow> backend_identity \<Rightarrow> status_spec \<Rightarrow> string \<times> string list \<Rightarrow> bool" where
  "may_ask i ident spec \<equiv> (\<lambda>(j, argv). j = i \<and> argv \<in> set (questions_for ident spec))"

lemma asks_sessions: "asks (may_ask i ident spec) (poll_sessions p i (id_GuestUser ident) spec now)"
  unfolding poll_sessions_def [abs_def] by (intro poll_rules asks_poll_run) (simp add: questions_for_def)

lemma asks_read_paths:
  "set fs \<subseteq> set (fact_paths ident spec) \<Longrightarrow> asks (may_ask i ident spec) (read_paths p i (id_GuestUser ident) fs entries)"
proof (induction fs arbitrary: entries)
  case (Cons f fs)
  have "asks (may_ask i ident spec) (poll_run p i ''paths'' (id_GuestUser ident) (path_fact_argv f))"
    using Cons.prems by (intro asks_poll_run) (auto simp: questions_for_def)
  moreover have "asks (may_ask i ident spec) (read_paths p i (id_GuestUser ident) fs entries)" for entries
    using Cons by simp
  ultimately show ?case unfolding read_paths.simps [abs_def] by (intro poll_rules)
qed (simp add: asks_def)

lemma asks_paths: "asks (may_ask i ident spec) (poll_paths p i (id_GuestUser ident) ident spec now)"
  unfolding poll_paths_def [abs_def] Let_def by (intro poll_rules asks_read_paths) simp_all

text \<open>An entry that was read is the entry of the path it was asked for.\<close>

lemma parse_path_fact_path: "parse_path_fact out f = Some (Some e) \<Longrightarrow> st_path e = f"
  by (auto simp: parse_path_fact_def Let_def split: if_splits list.splits)

lemma read_paths_entries:
  assumes "read_paths p i u fs entries l = (Some es, l')" and "\<And>f e. entries f = Some e \<Longrightarrow> st_path e = f"
    and "es f = Some e"
  shows "st_path e = f"
  using assms
proof (induction fs arbitrary: entries l)
  case (Cons g fs)
  from Cons.prems(1) obtain es1 l1 where "read_paths p i u fs es1 l1 = (Some es, l')"
    and "es1 = entries \<or> (\<exists>e. es1 = entries(g \<mapsto> e) \<and> st_path e = g)"
    by (auto split: prod.splits option.splits dest: parse_path_fact_path)
  note r = this
  show ?case
  proof (rule Cons.IH [OF r(1) _ Cons.prems(3)])
    fix h d assume "es1 h = Some d"
    then show "st_path d = h" using r(2) Cons.prems(2) by (cases "h = g") auto
  qed
qed simp

lemma asks_bind_dep:
  assumes "asks Q f" and "\<And>x l l'. f l = (x, l') \<Longrightarrow> asks Q (g x)"
  shows "asks Q (\<lambda>l. case f l of (x, l') \<Rightarrow> g x l')"
  unfolding asks_def
proof
  fix l
  obtain x l' where e: "f l = (x, l')" by fastforce
  have "asks Q (\<lambda>l''. case (case l'' of _ \<Rightarrow> f l'') of (y, l') \<Rightarrow> if y = x then g x l' else (fst (g x l'), l'))"
    using assms(2) [OF e] by (intro asks_bind [of _ "\<lambda>l. f l"] assms(1) asks_if) (auto simp: asks_def)
  then show "\<exists>qs. asked (snd (case f l of (x, l') \<Rightarrow> g x l')) = asked l @ qs \<and> list_all Q qs"
    using e by (auto simp: asks_def dest: spec [of _ l])
qed

lemma poll_paths_marker:
  assumes "poll_paths p i u ident spec now l = ((progress, Some e), l')"
  shows "st_path e = marker_path_for ident"
  using assms read_paths_entries [of p i u "fact_paths ident spec" Map.empty l _ l']
  by (auto simp: poll_paths_def Let_def split: if_splits prod.splits option.splits)

lemma asks_waiting:
  assumes "\<And>e. marker = Some e \<Longrightarrow> st_path e = marker_path_for ident"
  shows "asks (may_ask i ident spec) (poll_waiting p i (id_GuestUser ident) spec session marker now)"
  unfolding poll_waiting_def [abs_def] using assms
  by (intro poll_rules asks_poll_run) (simp add: questions_for_def)

lemma asks_paths_then_waiting:
  "asks (may_ask i ident spec) (\<lambda>l2. case poll_paths p i (id_GuestUser ident) ident spec now l2 of
     ((progress, marker), l3) \<Rightarrow> (case poll_waiting p i (id_GuestUser ident) spec session marker now l3 of
       (waiting, l4) \<Rightarrow> ((session, waiting, progress), l4)))"
proof (rule asks_bind_dep [OF asks_paths], goal_cases)
  case (1 x l l')
  then show ?case by (cases x) (auto intro!: poll_rules asks_waiting dest: poll_paths_marker)
qed

lemma asks_probe: "asks (may_ask i ident spec) (poll_probe p i ident spec)"
  unfolding poll_probe_def [abs_def] Let_def
  by (intro asks_paths_then_waiting poll_rules asks_poll_run asks_sessions) (simp add: questions_for_def)

lemma asks_mono: "asks Q f \<Longrightarrow> (\<And>q. Q q \<Longrightarrow> R q) \<Longrightarrow> asks R f"
  unfolding asks_def by (metis list.pred_mono_strong)

definition box_question :: "poller \<Rightarrow> box \<Rightarrow> string \<times> string list \<Rightarrow> bool" where
  "box_question p b q \<longleftrightarrow> fst q = box_Name b \<and> box_Running b \<and> box_State b \<noteq> ''stopped'' \<and>
     (case res_Backend (p_Resolve p (box_Name b)) of None \<Rightarrow> False | Some be \<Rightarrow>
       (case be_Status be of None \<Rightarrow> False | Some spec \<Rightarrow> snd q \<in> set (questions_for (be_Identity be) spec)))"

lemma asks_instance: "asks (box_question p b) (poll_instance p b)"
proof -
  have "asks (box_question p b) (poll_probe p (box_Name b) (be_Identity be) spec)"
    if "box_State b \<noteq> ''stopped''" "box_Running b" "res_Backend (p_Resolve p (box_Name b)) = Some be"
      "be_Status be = Some spec" for be spec
    by (rule asks_mono [OF asks_probe]) (use that in \<open>auto simp: box_question_def\<close>)
  then show ?thesis
    unfolding poll_instance_def [abs_def] Let_def
    by (intro poll_rules) (auto split: if_splits)
qed

lemma asks_boxes: "(\<And>b. b \<in> set bs \<Longrightarrow> asks Q (poll_instance p b)) \<Longrightarrow> asks Q (poll_boxes p bs)"
proof (induction bs)
  case (Cons b bs)
  then show ?case unfolding poll_boxes.simps [abs_def] by (intro poll_rules) auto
qed (simp add: asks_def)

section \<open>One box at a time\<close>

lemma alike_read_paths: "answers_alone p i \<Longrightarrow> alike i (read_paths p i u fs entries)"
proof (induction fs arbitrary: entries)
  case (Cons f fs)
  then show ?case unfolding read_paths.simps [abs_def] by (intro poll_rules alike_poll_run)
qed (simp add: alike_def)

lemma alike_probe: "answers_alone p i \<Longrightarrow> alike i (poll_probe p i ident spec)"
  unfolding poll_probe_def [abs_def] poll_sessions_def [abs_def] poll_paths_def [abs_def] poll_waiting_def [abs_def] Let_def
  by (intro poll_rules alike_poll_run alike_read_paths)

lemma alike_instance: "answers_alone p (box_Name b) \<Longrightarrow> alike (box_Name b) (poll_instance p b)"
  unfolding poll_instance_def [abs_def] Let_def by (intro poll_rules alike_probe)

lemma own_elsewhere:
  assumes "poll_instance p b l = (r, l')" and "i \<noteq> box_Name b"
  shows "own i l' = own i l"
proof -
  obtain qs where "asked l' = asked l @ qs" "list_all (box_question p b) qs"
    using asks_instance assms(1) unfolding asks_def by (metis snd_conv)
  then show ?thesis using assms(2) by (auto simp: own_def box_question_def list_all_iff filter_empty_conv)
qed

lemma boxes_alone:
  assumes "distinct (map box_Name bs)" and "list_all (\<lambda>b. answers_alone p (box_Name b) \<and> own (box_Name b) l = []) bs"
  shows "fst (poll_boxes p bs l) = map (\<lambda>b. fst (poll_instance p b no_log)) bs"
  using assms
proof (induction bs arbitrary: l)
  case (Cons b bs)
  obtain r l' where e: "poll_instance p b l = (r, l')" by fastforce
  have "own (box_Name b) l = own (box_Name b) no_log" using Cons.prems(2) by (simp add: own_def no_log_def)
  then have "r = fst (poll_instance p b no_log)"
    using alikeD(1) [OF alike_instance [of p b], of l no_log] Cons.prems(2) e by simp
  moreover have "own (box_Name c) l' = []" if "c \<in> set bs" for c
  proof -
    have "box_Name c \<noteq> box_Name b" using Cons.prems(1) that by (metis distinct.simps(2) imageI list.simps(9) set_map)
    then show ?thesis using Cons.prems(2) that own_elsewhere [OF e] by (simp add: list_all_iff)
  qed
  then have "fst (poll_boxes p bs l') = map (\<lambda>b. fst (poll_instance p b no_log)) bs"
    using Cons.prems by (intro Cons.IH) (auto simp: list_all_iff)
  ultimately show ?case using e by (simp add: split_beta)
qed simp

section \<open>What a reported wait rests on\<close>

text \<open>\<open>answered p qs i argv out\<close>: among the questions \<open>qs\<close>, \<open>argv\<close> was put to \<open>i\<close> and answered in full with
  exit zero and the text \<open>out\<close>.\<close>

definition answered :: "poller \<Rightarrow> questions \<Rightarrow> string \<Rightarrow> string list \<Rightarrow> string \<Rightarrow> bool" where
  "answered p qs i argv out \<longleftrightarrow> (\<exists>h t res. qs = h @ (i, argv) # t \<and> p_Transport p h i argv = Inr res \<and>
     ExitCode res = 0 \<and> \<not> StdoutTruncated res \<and> \<not> StderrTruncated res \<and> Stdout res = out)"

lemma answered_later: "answered p qs i argv out \<Longrightarrow> answered p (qs @ ts) i argv out"
  unfolding answered_def by force

lemma answered_after:
  assumes "asks Q f" and "f l = (x, l')" and "answered p (asked l) i argv out"
  shows "answered p (asked l') i argv out"
  using assms answered_later unfolding asks_def by (metis snd_conv)

lemma poll_run_answered:
  "poll_run p i w u argv l = (Some out, l') \<Longrightarrow> answered p (asked l') i (user_exec_as u argv) out"
  unfolding answered_def
  by (rule exI [of _ "asked l"])
    (auto simp: poll_run_def ask_def Let_def split: sum.splits if_splits)

lemma poll_sessions_known:
  assumes "poll_sessions p i u spec now l = (session, l')" and "sf_State session = Known"
  shows "\<exists>out live. answered p (asked l') i (user_exec_as u (process_argv u)) out \<and> parse_processes out = Some live \<and>
    session = sessions_named (SessionProcess spec) live now"
  using assms poll_run_answered [of p i "''processes''" u "process_argv u" l]
  by (auto simp: poll_sessions_def no_sessions_def unknown_session_def split: if_splits prod.splits option.splits)

lemma poll_waiting_waits:
  assumes "poll_waiting p i u spec session marker now l = (waiting, l')" and "Waits waiting \<noteq> []"
  shows "\<exists>e out doc. marker = Some e \<and> marker_trusted e u \<and> sf_State session = Known \<and>
    answered p (asked l') i (user_exec_as u [''cat'', ''--'', st_path e]) out \<and> decode_marker out = Some doc \<and>
    waiting = waiting_from_marker doc (Sessions session) now"
  using assms poll_run_answered [of p i "''waiting''" u _ l]
  by (auto simp: poll_waiting_def unknown_waiting_def split: if_splits prod.splits option.splits)

lemma rank_waits_in:
  assumes "rank_waits live now doc = (ws, expired)" and "w \<in> set ws"
  shows "\<exists>m started. m \<in> set doc \<and> live (m_PID m) = Some started \<and> started \<le> m_SinceUnix m \<and>
    w = \<lparr>w_SessionID = m_SessionID m, w_PID = m_PID m, w_AgeSeconds = now - m_SinceUnix m\<rparr> \<and>
    0 \<le> now - m_SinceUnix m \<and> now - m_SinceUnix m \<le> MarkerTTL"
  using assms
proof (induction doc arbitrary: ws expired)
  case (Cons m ms)
  obtain ws' expired' where r: "rank_waits live now ms = (ws', expired')" by fastforce
  then show ?case using Cons by (fastforce simp: Let_def split: option.splits if_splits)
qed simp

lemma waiting_from_marker_in:
  assumes "w \<in> set (Waits (waiting_from_marker doc ss now))"
  shows "\<exists>m s. m \<in> set doc \<and> s \<in> set ss \<and> s_PID s = m_PID m \<and> now - s_AgeSeconds s \<le> m_SinceUnix m \<and>
    w = \<lparr>w_SessionID = m_SessionID m, w_PID = m_PID m, w_AgeSeconds = now - m_SinceUnix m\<rparr> \<and>
    0 \<le> now - m_SinceUnix m \<and> now - m_SinceUnix m \<le> MarkerTTL"
proof -
  obtain ws expired where r: "rank_waits (live_since ss now) now doc = (ws, expired)" by fastforce
  then have "w \<in> set ws" using assms by (auto simp: waiting_from_marker_def unknown_waiting_def split: if_splits)
  from rank_waits_in [OF r this] obtain m started where m: "m \<in> set doc" "started \<le> m_SinceUnix m"
    "live_since ss now (m_PID m) = Some started"
    "w = \<lparr>w_SessionID = m_SessionID m, w_PID = m_PID m, w_AgeSeconds = now - m_SinceUnix m\<rparr>"
    "0 \<le> now - m_SinceUnix m" "now - m_SinceUnix m \<le> MarkerTTL" by blast
  have "(m_PID m, started) \<in> set (map (\<lambda>s. (s_PID s, now - s_AgeSeconds s)) ss)"
    using map_of_SomeD [OF m(3) [unfolded live_since_def]] by simp
  then obtain s where "s \<in> set ss" "s_PID s = m_PID m" "started = now - s_AgeSeconds s" by auto
  then show ?thesis using m by (intro exI [of _ m] exI [of _ s]) simp
qed

end
