(* ===== verification/Status_Facts.thy ===== *)
theory Status_Facts
  imports Status Json_Facts
begin

text \<open>
  The pure half of a poll: what the parsers accept, what the decoded marker promises, and that every field of
  the report is an identifier, an enumerated value or a number.
\<close>

section \<open>Numbers and times\<close>

lemma show_int_nonneg: "0 \<le> n \<Longrightarrow> show_int n = show_nat (nat n)"
  by (simp add: show_int_def)

lemma show_nat_no_zero: "0 < n \<Longrightarrow> hd (show_nat n) \<noteq> CHR ''0''"
proof (induction n rule: show_nat.induct)
  case (1 n)
  have e: "show_nat n = (if n < 10 then [digit_of n] else show_nat (n div 10) @ [digit_of n])"
    by (rule show_nat.simps)
  show ?case
  proof (cases "n < 10")
    case True
    then have "n \<in> {1, 2, 3, 4, 5, 6, 7, 8, 9}" using 1(2) by auto
    then show ?thesis unfolding e using True by (auto simp: digit_of_def)
  next
    case False
    then have "hd (show_nat (n div 10)) \<noteq> CHR ''0''" by (intro 1(1)) auto
    then show ?thesis unfolding e using False show_nat_digits by simp
  qed
qed

lemma parse_show_int: "0 \<le> n \<Longrightarrow> n < 2 ^ 63 \<Longrightarrow> parse_int64 (show_int n) = Some n"
proof -
  assume n: "0 \<le> n" "n < 2 ^ 63"
  obtain c s where s: "show_nat (nat n) = c # s" "is_digit c"
    using show_nat_digits [of "nat n"] by (cases "show_nat (nat n)") auto
  then have "c \<noteq> CHR ''-''" "c \<noteq> CHR ''+''" by (auto simp: char_class_defs)
  then show ?thesis
    using n s show_nat_digits [of "nat n"] by (simp add: parse_int64_def show_int_nonneg has_prefix_def)
qed

definition time_char :: "char \<Rightarrow> bool" where
  "time_char c \<longleftrightarrow> is_digit c \<or> c \<in> set ''-:TZ''"

lemma padded_chars: "list_all time_char (padded w n)"
  using show_nat_digits
  by (auto simp: padded_def Let_def show_int_def time_char_def list_all_iff) (auto simp: char_class_defs)

lemma rfc3339_chars: "list_all time_char (format_rfc3339 t)"
proof -
  obtain y m d where "civil_of_days (t div 86400) = (y, m, d)" by (cases "civil_of_days (t div 86400)")
  then show ?thesis using padded_chars by (simp add: format_rfc3339_def Let_def time_char_def)
qed

lemma rfc3339_nonempty: "format_rfc3339 t \<noteq> []"
  by (simp add: format_rfc3339_def Let_def split: prod.split)

section \<open>Processes\<close>

lemma parse_process_bounds: "parse_process fs = Some q \<Longrightarrow> 0 < pid q \<and> 0 \<le> elapsed q \<and> elapsed q \<le> maxElapsedSeconds"
  by (cases fs rule: parse_process.cases) (auto split: option.splits if_splits)

lemma parse_processes_bounds:
  assumes "parse_processes out = Some live"
  shows "\<forall>q \<in> set live. 0 < pid q \<and> 0 \<le> elapsed q \<and> elapsed q \<le> maxElapsedSeconds"
proof -
  have "parse_process_lines ls = Some live \<Longrightarrow> ?thesis" for ls
    by (induction ls arbitrary: live) (auto split: if_splits option.splits dest: parse_process_bounds)
  then show ?thesis using assms by (simp add: parse_processes_def)
qed

section \<open>The marker\<close>

lemma marker_waits_ok_iff:
  "marker_waits_ok seen ws \<longleftrightarrow> list_all (\<lambda>w. valid_session_id (m_SessionID w) \<and> 0 < m_PID w \<and> 0 < m_SinceUnix w) ws \<and>
     distinct (map m_SessionID ws) \<and> m_SessionID ` set ws \<inter> seen = {}"
  by (induction ws arbitrary: seen) auto

lemma decode_marker_Some:
  assumes "decode_marker data = Some ws"
  shows "length ws \<le> 64" and "distinct (map m_SessionID ws)"
    and "list_all (\<lambda>w. valid_session_id (m_SessionID w) \<and> 0 < m_PID w \<and> 0 < m_SinceUnix w) ws"
proof -
  have "length ws \<le> MaxMarkerWaits" "marker_waits_ok {} ws"
    using assms by (auto simp: decode_marker_def Let_def split: option.splits if_splits)
  then show "length ws \<le> 64" "distinct (map m_SessionID ws)"
    "list_all (\<lambda>w. valid_session_id (m_SessionID w) \<and> 0 < m_PID w \<and> 0 < m_SinceUnix w) ws"
    by (simp_all add: marker_waits_ok_iff MaxMarkerWaits_def)
qed

text \<open>The document of the contract, as a hook writes it.\<close>

definition marker_wait_json :: "marker_wait \<Rightarrow> json" where
  "marker_wait_json w = JObj [(''session_id'', JStr (m_SessionID w)), (''pid'', JNum (show_int (m_PID w))),
     (''since_unix'', JNum (show_int (m_SinceUnix w)))]"

definition marker_text :: "marker_wait list \<Rightarrow> string" where
  "marker_text ws = print_value 0 (JObj [(''schema_version'', JStr MarkerSchemaVersion),
     (''waits'', JArr (map marker_wait_json ws))])"

lemma marker_names [simp]:
  "names_field ''schema_version'' ''schema_version''" "names_field ''waits'' ''waits''"
  "\<not> names_field ''waits'' ''schema_version''" "names_field ''session_id'' ''session_id''"
  "names_field ''pid'' ''pid''" "names_field ''since_unix'' ''since_unix''" "\<not> names_field ''pid'' ''session_id''"
  "\<not> names_field ''since_unix'' ''session_id''" "\<not> names_field ''since_unix'' ''pid''"
  by (simp_all add: names_field_def fold_name_def runes_def ascii_spans fold_rune_def byte_of_def)

definition encodable :: "marker_wait \<Rightarrow> bool" where
  "encodable w \<longleftrightarrow> valid_session_id (m_SessionID w) \<and> 0 < m_PID w \<and> m_PID w < 2 ^ 63 \<and> 0 < m_SinceUnix w \<and> m_SinceUnix w < 2 ^ 63"

lemma into_marker_wait: "encodable w \<Longrightarrow> into_struct marker_wait_member (marker_wait_json w) x = Some w"
  by (simp add: marker_wait_json_def into_struct_def marker_wait_member_def into_string_def into_int64_def
      parse_show_int encodable_def)

lemma into_marker_waits:
  "list_all encodable ws \<Longrightarrow> into_items no_marker_wait (into_struct marker_wait_member) (map marker_wait_json ws) mem =
     Some (ws @ drop (length ws) mem)"
  by (induction ws arbitrary: mem) (simp_all add: into_marker_wait drop_Suc tl_drop)

lemma session_id_utf8: "valid_session_id s \<Longrightarrow> valid_utf8 s"
  by (rule ascii_utf8) (auto simp: valid_session_id_def list_all_iff char_class_defs)

lemma printable_number: "0 < n \<Longrightarrow> printable (JNum (show_int n))"
  using show_nat_digits [of "nat n"] show_nat_no_zero [of "nat n"] by (simp add: show_int_def)

lemma printable_marker: "list_all encodable ws \<Longrightarrow> list_all printable (map marker_wait_json ws)"
  by (induction ws)
    (simp_all add: marker_wait_json_def encodable_def session_id_utf8 printable_number ascii_utf8 byte_of_def
      del: printable.simps(3))

lemma marker_back:
  assumes "list_all encodable ws" and "distinct (map m_SessionID ws)" and "length ws \<le> 64"
  shows "decode_marker (marker_text ws) = Some ws"
proof -
  let ?j = "JObj [(''schema_version'', JStr MarkerSchemaVersion), (''waits'', JArr (map marker_wait_json ws))]"
  have "printable ?j" using printable_marker [OF assms(1)] by (simp add: ascii_utf8 MarkerSchemaVersion_def byte_of_def)
  moreover have "depth ?j \<le> maxNestingDepth"
  proof -
    have "foldr max (map depth (map marker_wait_json ws)) 0 \<le> 1"
      by (induction ws) (simp_all add: marker_wait_json_def)
    then show ?thesis by (simp add: maxNestingDepth_def)
  qed
  ultimately have doc: "json_document (marker_text ws) = Some ?j"
    using document_back [of ?j "[]" 0] by (simp add: marker_text_def skip_space_def)
  obtain s where s: "into_slice no_marker_wait (into_struct marker_wait_member) (JArr (map marker_wait_json ws)) None = Some s"
    "slice_elems s = ws" "s \<noteq> None"
    using into_marker_waits [OF assms(1), of "[]"]
    by (cases ws) (simp_all add: into_slice_def slice_elems_def slice_memory_def)
  then have "into_struct marker_member ?j \<lparr>m_SchemaVersion = [], m_Waits = None\<rparr> =
      Some \<lparr>m_SchemaVersion = MarkerSchemaVersion, m_Waits = s\<rparr>"
    by (simp add: into_struct_def marker_member_def into_string_def)
  then show ?thesis
    using doc s assms
    by (auto simp: decode_marker_def decode_strict_def Let_def marker_waits_ok_iff MaxMarkerWaits_def encodable_def
        list_all_iff)
qed

end
