(* ===== verification/Poller_Props.thy ===== *)
theory Poller_Props
  imports Poller_Facts Status_Facts
begin

text \<open>The properties of a poll, over all boxes and all answers their guests can give.\<close>

section \<open>Evidence\<close>









text \<open>C25: Whatever the guests answer, a poll asks only running boxes whose backend declares a probe, only the
  fixed argument vectors of that probe, and only as the backend's own identity.\<close>

theorem poll_asks_fixed_questions:
  "list_all (\<lambda>q. case p_Instances p of Inl _ \<Rightarrow> False | Inr boxes \<Rightarrow> list_ex (\<lambda>b. box_question p b q) boxes)
     (asked (snd (poll p)))"
proof (cases "p_Instances p")
  case (Inr boxes)
  have "asks (\<lambda>q. list_ex (\<lambda>b. box_question p b q) boxes) (poll_boxes p boxes)"
    by (rule asks_boxes, rule asks_mono [OF asks_instance]) (auto simp: list_ex_iff)
  then obtain qs where "asked (snd (poll_boxes p boxes no_log)) = asked no_log @ qs"
    "list_all (\<lambda>q. list_ex (\<lambda>b. box_question p b q) boxes) qs" unfolding asks_def by blast
  then show ?thesis using Inr by (simp add: poll_def split_beta no_log_def)
qed (simp add: poll_def no_log_def)

text \<open>C27: Boxes do not disturb each other: where each guest answers by what it was asked itself, every box's
  report is the one it would get if it were the only box, in the order of the enumeration.\<close>

theorem boxes_reported_alone:
  assumes "p_Instances p = Inr boxes" and "distinct (map box_Name boxes)"
    and "\<forall>b \<in> set boxes. answers_alone p (box_Name b)"
  shows "fst (poll p) = Inr (map (\<lambda>b. fst (poll_instance p b no_log)) boxes)"
  using assms boxes_alone [of boxes p no_log]
  by (simp add: poll_def split_beta list_all_iff own_def no_log_def)

section \<open>Every report is well formed\<close>

definition session_ok :: "session_field \<Rightarrow> bool" where
  "session_ok f \<longleftrightarrow> (sf_State f = Known \<or> Sessions f = []) \<and>
     list_all (\<lambda>s. 0 < s_PID s \<and> 0 \<le> s_AgeSeconds s \<and> list_all time_char (s_StartedAt s)) (Sessions f)"

definition waiting_ok :: "waiting_field \<Rightarrow> bool" where
  "waiting_ok f \<longleftrightarrow> (wf_State f = Known \<or> Waits f = []) \<and> (Waiting f \<longleftrightarrow> Waits f \<noteq> []) \<and> length (Waits f) \<le> 64 \<and>
     distinct (map w_SessionID (Waits f)) \<and>
     list_all (\<lambda>w. valid_session_id (w_SessionID w) \<and> 0 < w_PID w \<and> 0 \<le> w_AgeSeconds w \<and> w_AgeSeconds w \<le> 3600) (Waits f)"

definition progress_ok :: "progress_field \<Rightarrow> bool" where
  "progress_ok f \<longleftrightarrow> (pf_State f = Known \<longleftrightarrow> pf_At f \<noteq> []) \<and> list_all time_char (pf_At f) \<and> 0 \<le> pf_AgeSeconds f"

definition report_ok :: "instance_report \<Rightarrow> bool" where
  "report_ok r \<longleftrightarrow> session_ok (r_Session r) \<and> waiting_ok (r_Waiting r) \<and> progress_ok (r_Progress r) \<and>
     (bf_State (r_Backend r) = Known \<longleftrightarrow> bf_Name (r_Backend r) \<noteq> []) \<and> bf_State (r_Backend r) \<noteq> NotApplicable"

lemma unproven_ok [simp]:
  "session_ok unknown_session" "session_ok no_sessions" "waiting_ok unknown_waiting" "progress_ok unknown_progress"
  "progress_ok no_progress"
  by (simp_all add: session_ok_def waiting_ok_def progress_ok_def unknown_session_def no_sessions_def
      unknown_waiting_def unknown_progress_def no_progress_def)

lemma sessions_named_ok: "parse_processes out = Some live \<Longrightarrow> session_ok (sessions_named name live now)"
  using parse_processes_bounds [of out live] rfc3339_chars
  by (auto simp: session_ok_def sessions_named_def list_all_iff)

lemma newest_progress_ok: "progress_ok (newest_progress ps es now)"
  using rfc3339_chars rfc3339_nonempty
  by (auto simp: newest_progress_def Let_def split: option.split) (simp add: progress_ok_def)

lemma rank_waits_subset:
  assumes "rank_waits live now doc = (ws, expired)"
  shows "length ws \<le> length doc \<and> w_SessionID ` set ws \<subseteq> m_SessionID ` set doc \<and>
    (distinct (map m_SessionID doc) \<longrightarrow> distinct (map w_SessionID ws))"
  using assms
proof (induction doc arbitrary: ws expired)
  case (Cons m ms)
  obtain ws' e' where r: "rank_waits live now ms = (ws', e')" by fastforce
  from Cons.prems r have "ws = ws' \<or> (\<exists>w. ws = w # ws' \<and> w_SessionID w = m_SessionID m)"
    by (auto simp: Let_def split: option.splits if_splits)
  then show ?case using Cons.IH [OF r] by auto blast+
qed simp

lemma waiting_from_marker_ok:
  assumes "decode_marker out = Some doc"
  shows "waiting_ok (waiting_from_marker doc ss now)"
proof -
  obtain ws expired where r: "rank_waits (live_since ss now) now doc = (ws, expired)" by fastforce
  note d = decode_marker_Some [OF assms]
  have "valid_session_id (w_SessionID w) \<and> 0 < w_PID w \<and> 0 \<le> w_AgeSeconds w \<and> w_AgeSeconds w \<le> 3600" if "w \<in> set ws" for w
    using rank_waits_in [OF r that] d(3) by (auto simp: list_all_iff MarkerTTL_def)
  then show ?thesis
    using rank_waits_subset [OF r] d(1,2) r
    by (auto simp: waiting_from_marker_def waiting_ok_def unknown_waiting_def list_all_iff)
qed

lemma probe_ok:
  assumes "poll_probe p i ident spec l = ((session, waiting, progress), l')"
  shows "session_ok session \<and> waiting_ok waiting \<and> progress_ok progress"
proof -
  have s: "session_ok (fst (poll_sessions p i u spec now m))" for u now m
    using sessions_named_ok by (auto simp: poll_sessions_def split: prod.split option.split)
  have v: "waiting_ok (fst (poll_waiting p i u spec ses marker now m))" for u ses marker now m
    using waiting_from_marker_ok by (auto simp: poll_waiting_def split: prod.split option.split)
  have q: "progress_ok (fst (fst (poll_paths p i u ident spec now m)))" for u now m
    using newest_progress_ok by (auto simp: poll_paths_def Let_def split: prod.split option.split)
  show ?thesis
    using assms s v q by (auto simp: poll_probe_def Let_def split: prod.splits option.splits) (metis fst_conv)+
qed

lemma instance_ok: "report_ok (fst (poll_instance p b l))"
proof -
  have quiet: "session_ok (r_Session (host_facts b)) \<and> waiting_ok (r_Waiting (host_facts b)) \<and>
      progress_ok (r_Progress (host_facts b)) \<and> r_Backend (host_facts b) = \<lparr>bf_State = Unknown, bf_Name = []\<rparr>"
    by (simp add: host_facts_def unknown_instance_def) (simp add: session_ok_def waiting_ok_def)
  have declared: "waiting_ok \<lparr>wf_State = NotApplicable, Waiting = False, Waits = []\<rparr>" by (simp add: waiting_ok_def)
  show ?thesis
    using quiet declared
    by (auto simp: poll_instance_def Let_def report_ok_def dest: probe_ok split: prod.splits option.splits if_splits)
qed

lemma boxes_ok: "list_all report_ok (fst (poll_boxes p bs l))"
proof (induction bs arbitrary: l)
  case (Cons b bs)
  show ?case using instance_ok [of p b l] Cons.IH by (simp add: split_beta)
qed simp

text \<open>C26: Whatever text the guests answer with, every report is well formed: an unproven field carries no
  payload, a wait is reported exactly when there is one to show, pids are positive and ages are not negative, no
  wait is older than the hour, and every text taken from a guest is a session identifier or a time: nothing an
  agent wrote reaches the document.\<close>

theorem reports_well_formed:
  "case fst (poll p) of Inl _ \<Rightarrow> True | Inr rs \<Rightarrow> list_all report_ok rs"
  using boxes_ok by (auto simp: poll_def split_beta split: sum.split)

text \<open>C28: A backend that declares no progress evidence is documented as \<open>not-applicable\<close> for
  \<open>last_progress\<close>, but the moment the box's clock cannot be read its progress is reported as \<open>unknown\<close>, as if
  there were something to know; so it is for both backends that ship.\<close>

theorem undeclared_progress_reported_unknown:
  assumes "res_Name (p_Resolve p (box_Name b)) \<noteq> []" and "res_Backend (p_Resolve p (box_Name b)) = Some be"
    and "be_Status be = Some claude_status \<or> be_Status be = Some codex_status"
    and "box_Running b" and "box_State b = ''running''"
    and "\<And>h. p_Transport p h (box_Name b) (user_exec_as (id_GuestUser (be_Identity be)) [''date'', ''+%s'']) = Inl e"
  shows "ProgressPaths (the (be_Status be)) = [] \<and> r_Progress (fst (poll_instance p b l)) = unknown_progress"
  using assms
  by (auto simp: poll_instance_def Let_def poll_probe_def poll_run_def ask_def claude_status_def codex_status_def)

section \<open>A concrete poll\<close>

text \<open>Two boxes: one on Claude Code whose only session has been waiting for fifty seconds, and a stopped one.\<close>

definition demo_wait :: marker_wait where
  "demo_wait = \<lparr>m_SessionID = ''a'', m_PID = 7, m_SinceUnix = 1950\<rparr>"

definition demo_answer :: "string list \<Rightarrow> string" where
  "demo_answer argv = (if argv = [''date'', ''+%s''] then ''2000''
     else if argv = process_argv ''claude'' then ''7 100 claude''
     else if argv = [''cat'', ''--'', marker_path_for claude_identity] then marker_text [demo_wait]
     else marker_path_for claude_identity @ ''|claude|600|0'')"

definition demo_poller :: poller where
  "demo_poller = \<lparr>
     p_Instances = Inr [\<lparr>box_Name = ''torio-claude-code'', box_State = ''running'', box_Running = True\<rparr>,
       \<lparr>box_Name = ''torio-codex'', box_State = ''stopped'', box_Running = False\<rparr>],
     p_Transport = (\<lambda>_ _ argv. Inr \<lparr>ExitCode = 0, Stdout = demo_answer (drop 5 argv), Stderr = [],
       StdoutTruncated = False, StderrTruncated = False\<rparr>),
     p_Resolve = (\<lambda>_. \<lparr>res_Backend = Some \<lparr>be_Identity = claude_identity, be_Status = Some claude_status\<rparr>,
       res_Name = ''claude-code''\<rparr>)\<rparr>"











theorem boxes_reported_alone_witness:
  "\<exists>boxes. length boxes = 2 \<and> fst (poll demo_poller) = Inr (map (\<lambda>b. fst (poll_instance demo_poller b no_log)) boxes)"
proof -
  obtain boxes where "p_Instances demo_poller = Inr boxes" "distinct (map box_Name boxes)" "length boxes = 2"
    by (simp add: demo_poller_def)
  moreover have "\<forall>b \<in> set boxes. answers_alone demo_poller (box_Name b)" by (simp add: answers_alone_def demo_poller_def)
  ultimately show ?thesis using boxes_reported_alone by blast
qed

text \<open>The clock of every box fails.\<close>

theorem undeclared_progress_reported_unknown_witness:
  "let p = demo_poller\<lparr>p_Transport := \<lambda>_ _ _. Inl Canceled\<rparr>;
       b = \<lparr>box_Name = ''torio-claude-code'', box_State = ''running'', box_Running = True\<rparr> in
     r_Progress (fst (poll_instance p b no_log)) = unknown_progress"
  using undeclared_progress_reported_unknown
    [of "demo_poller\<lparr>p_Transport := \<lambda>_ _ _. Inl Canceled\<rparr>"
      "\<lparr>box_Name = ''torio-claude-code'', box_State = ''running'', box_Running = True\<rparr>"
      "\<lparr>be_Identity = claude_identity, be_Status = Some claude_status\<rparr>" Canceled no_log]
  by (simp add: demo_poller_def Let_def)

end
