(* ===== verification/Digests.thy ===== *)
theory Digests
  imports Json Sha256
begin

text \<open>
  \<open>hex.EncodeToString\<close> of a SHA-256 sum, the form in which the program compares contents: the policy digest,
  the transfer manifest and the installed skill.
\<close>

definition hex_string :: "bytes \<Rightarrow> string" where
  "hex_string bs = concat (map (\<lambda>b. [hex_digit (unat b div 16), hex_digit (unat b)]) bs)"

definition sha256_hex :: "string \<Rightarrow> string" where
  "sha256_hex s = hex_string (sha256 (map (\<lambda>c. word_of_nat (byte_of c)) s))"

definition is_hex :: "char \<Rightarrow> bool" where
  "is_hex c \<longleftrightarrow> is_digit c \<or> between CHR ''a'' CHR ''f'' c"

lemma hex_digit_is_hex: "is_hex (hex_digit n)"
proof -
  have "n mod 16 < 16" by simp
  moreover have "list_all (\<lambda>k. is_hex (''0123456789abcdef'' ! k)) [0..<16]" by code_simp
  ultimately show ?thesis unfolding hex_digit_def list_all_iff by simp
qed

lemma hex_string_hex: "list_all is_hex (hex_string bs)"
  by (induction bs) (simp_all add: hex_string_def hex_digit_is_hex)

lemma hex_string_length [simp]: "length (hex_string bs) = 2 * length bs"
  by (induction bs) (simp_all add: hex_string_def)

lemma round_step_length: "length (round_step st kw) = length st"
  by (simp add: round_step_def Let_def split: list.split)

lemma compress_length: "length (compress st block) = length st"
proof -
  have "length (foldl round_step st xs) = length st" for xs
    by (induction xs arbitrary: st) (simp_all add: round_step_length)
  then show ?thesis by (simp add: compress_def)
qed

lemma compress_blocks_length: "length (compress_blocks n st ws) = length st"
  by (induction n st ws rule: compress_blocks.induct) (simp_all add: compress_length)

lemma sha256_length: "length (sha256 m) = 32"
proof -
  have "length (concat (map put_uint32 ws)) = 4 * length ws" for ws
    by (induction ws) (simp_all add: put_uint32_def)
  moreover have "length initial_state = 8"
  proof -
    let ?prime = "\<lambda>n :: int. list_all (\<lambda>k. n mod k \<noteq> 0) [2..17] \<or> n \<in> {2, 3, 5, 7, 11, 13, 17}"
    have u: "[2..311 :: int] = [2..17] @ [18..311]" using upto_split1 [of 2 18 311] by simp
    have seven: "length (filter ?prime [2..17]) = 7" by code_simp
    have "filter ?prime [18..311] \<noteq> []"
    proof -
      have "?prime 19" "19 \<in> set [18..311 :: int]" by (code_simp, simp)
      then show ?thesis unfolding filter_empty_conv by blast
    qed
    then have "0 < length (filter ?prime [18..311])" by (rule length_greater_0_conv [THEN iffD2])
    moreover have "length small_primes = 7 + length (filter ?prime [18..311])"
      unfolding small_primes_def u filter_append length_append seven by (rule refl)
    ultimately have "8 \<le> length small_primes" by linarith
    then show ?thesis by (simp add: initial_state_def)
  qed
  ultimately show ?thesis by (simp add: sha256_def Let_def compress_blocks_length)
qed

lemma sha256_hex_length: "length (sha256_hex s) = 64"
  by (simp add: sha256_hex_def sha256_length)

lemma sha256_hex_hex: "list_all is_hex (sha256_hex s)"
  by (simp add: sha256_hex_def hex_string_hex)

end
