(* ===== verification/Policy.thy ===== *)
theory Policy
  imports Config Digests
begin

text \<open>
  The MCP policy (\<open>internal/lima/mcppolicydoc.go\<close>): one JSON document per service, decoded strictly, reduced
  to the set of tools granted. A Go map is an association list with distinct keys; nothing that is reported
  depends on its order.
\<close>

definition policyFileExt :: string where "policyFileExt = ''.json''"
definition maxServices :: nat where "maxServices = 32"
definition maxToolsPerService :: nat where "maxToolsPerService = 256"
definition maxDocumentBytes :: nat where "maxDocumentBytes = 262144"
definition MaxServiceNameLen :: nat where "MaxServiceNameLen = 32"
definition maxUpstreamLen :: nat where "maxUpstreamLen = 512"
definition maxToolNameLen :: nat where "maxToolNameLen = 128"
definition PolicySchemaVersion :: string where "PolicySchemaVersion = ''1''"

definition servicePattern :: re where "servicePattern = slug 30"

definition toolPattern :: re where
  "toolPattern = Seq (Cls is_alnum) (Opt (Seq (Run (alnum_or ''._-'') 0 (Some 126)) (Cls is_alnum)))"

definition upstreamHostPattern :: re where
  "upstreamHostPattern = Seq (Cls is_alnum) (Opt (Seq (Run (alnum_or ''.-'') 0 (Some 252)) (Cls is_alnum)))"

definition upstreamPortPattern :: re where "upstreamPortPattern = Run is_digit 1 (Some 5)"

datatype policy_err =
    ServiceNameEmpty | ServiceNameTooLong | ServiceNameNotSlug
  | EndpointEmpty | EndpointTooLong | EndpointControl | EndpointUnparsable | EndpointScheme | EndpointUser
  | EndpointQuery | EndpointFragment | EndpointHost | EndpointPort
  | PolicyInvalidJSON | PolicyVersion | PolicyNotTheSchema
  | ServiceNotTheStem | ToolsNotDeclared | TooManyTools | ToolName | ToolTwice | ToolUnclassified
  | TooManyServices | NotAPolicyFile | DocumentTooLarge

definition validate_service_name :: "string \<Rightarrow> policy_err option" where
  "validate_service_name name =
     (if name = [] then Some ServiceNameEmpty
      else if length name > MaxServiceNameLen then Some ServiceNameTooLong
      else if \<not> full_match servicePattern name then Some ServiceNameNotSlug
      else None)"

section \<open>The endpoint\<close>

text \<open>
  \<open>url.Parse\<close> of an absolute URL, as far as \<open>validateUpstreamEndpoint\<close> reads it. \<open>None\<close> is a parse error.
  A text whose first colon is not the end of a scheme has no scheme; one without a slash after the scheme is
  opaque and names no host.
\<close>

record endpoint_url =
  e_scheme :: string
  e_user :: bool
  e_query :: bool
  e_fragment :: string
  e_hostport :: string

text \<open>\<open>getScheme\<close>: the scheme and the rest; a leading colon is an error.\<close>

fun scheme_go :: "string \<Rightarrow> string \<Rightarrow> (string \<times> string) option" where
  "scheme_go acc [] = Some ([], rev acc)"
| "scheme_go acc (c # s) =
     (if is_lower c \<or> is_upper c then scheme_go (c # acc) s
      else if is_digit c \<or> c \<in> set ''+-.'' then
        (if acc = [] then Some ([], c # s) else scheme_go (c # acc) s)
      else if c = CHR '':'' then (if acc = [] then None else Some (rev acc, s))
      else Some ([], rev acc @ c # s))"

fun percent_ok :: "string \<Rightarrow> bool" where
  "percent_ok (c # s) = (if c = CHR ''%'' then
     (case s of a # b # r \<Rightarrow> hex_value a \<noteq> None \<and> hex_value b \<noteq> None \<and> percent_ok r | _ \<Rightarrow> False) else percent_ok s)"
| "percent_ok [] = True"

text \<open>The host: a percent escape stands for a byte outside ASCII or is \<open>%25\<close>; ASCII is limited to what a host holds.\<close>

definition host_char :: "char \<Rightarrow> bool" where
  "host_char c \<longleftrightarrow> byte_of c \<ge> 0x80 \<or> is_alnum c \<or> c \<in> set ''-_.~!$&()*+,;=:[]<>'' \<or> c = CHR 0x27 \<or> c = CHR 0x22"

fun unescape_host :: "string \<Rightarrow> string option" where
  "unescape_host [] = Some []"
| "unescape_host (c # s) =
     (if c = CHR ''%'' then
        (case s of
           a # b # r \<Rightarrow> (case (hex_value a, hex_value b) of
               (Some x, Some y) \<Rightarrow>
                 (if x < 8 \<and> \<not> (x = 2 \<and> y = 5) then None
                  else map_option ((#) (char_of (16 * x + y))) (unescape_host r))
             | _ \<Rightarrow> None)
         | _ \<Rightarrow> None)
      else if \<not> host_char c then None
      else map_option ((#) c) (unescape_host s))"

definition valid_optional_port :: "string \<Rightarrow> bool" where
  "valid_optional_port s \<longleftrightarrow> s = [] \<or> (hd s = CHR '':'' \<and> list_all is_digit (tl s))"

text \<open>
  \<open>parseHost\<close>. What stands in brackets must be an IPv6 literal, whose colons \<open>upstreamHostPattern\<close> refuses:
  the literal itself is not read here, so a bracketed host is carried as it stands.
\<close>

definition parse_host :: "string \<Rightarrow> string option" where
  "parse_host host =
     (if has_prefix host ''['' then
        (case last_index_of CHR '']'' host of
           None \<Rightarrow> None
         | Some i \<Rightarrow> if valid_optional_port (drop (Suc i) host) then Some host else None)
      else (case last_index_of CHR '':'' host of
          None \<Rightarrow> unescape_host host
        | Some i \<Rightarrow> if valid_optional_port (drop i host) \<and> CHR '':'' \<notin> set (take i host)
                    then unescape_host host else None))"

definition userinfo_ok :: "string \<Rightarrow> bool" where
  "userinfo_ok s \<longleftrightarrow> list_all (\<lambda>c. is_alnum c \<or> c \<in> set ''-._:~!$&()*+,;=%@'' \<or> c = CHR 0x27) s \<and> percent_ok s"

definition endpoint_parse :: "string \<Rightarrow> endpoint_url option" where
  "endpoint_parse raw = (let (u, frag) = split_at (index_of CHR ''#'' raw) raw in
     if u = ''*'' then Some \<lparr>e_scheme = [], e_user = False, e_query = False, e_fragment = frag, e_hostport = []\<rparr>
     else (case scheme_go [] u of
       None \<Rightarrow> None
     | Some (scheme, rest0) \<Rightarrow>
         (let (rest, _) = split_at (index_of CHR ''?'' rest0) rest0; query = CHR ''?'' \<in> set rest0;
              sch = map to_lower_char scheme;
              plain = \<lparr>e_scheme = sch, e_user = False, e_query = query, e_fragment = frag, e_hostport = []\<rparr> in
          if \<not> percent_ok frag then None
          else if \<not> has_prefix rest ''/'' then
            (if scheme \<noteq> [] then Some plain
             else if CHR '':'' \<in> set (fst (split_at (index_of CHR ''/'' rest) rest)) then None
             else if percent_ok rest then Some plain else None)
          else if has_prefix rest ''//'' \<and> (scheme \<noteq> [] \<or> \<not> has_prefix rest ''///'') then
            (let after = drop 2 rest;
                 (authority, path) = (case index_of CHR ''/'' after of
                     None \<Rightarrow> (after, []) | Some i \<Rightarrow> (take i after, drop i after));
                 user_at = last_index_of CHR ''@'' authority;
                 hostport = (case user_at of None \<Rightarrow> authority | Some i \<Rightarrow> drop (Suc i) authority) in
             case parse_host hostport of
               None \<Rightarrow> None
             | Some h \<Rightarrow> if percent_ok path \<and> (case user_at of None \<Rightarrow> True | Some i \<Rightarrow> userinfo_ok (take i authority)) then Some (plain\<lparr>e_user := (user_at \<noteq> None), e_hostport := h\<rparr>) else None)
          else if percent_ok rest then Some plain else None)))"

text \<open>\<open>Hostname()\<close> and \<open>Port()\<close>.\<close>

definition endpoint_host_port :: "string \<Rightarrow> string \<times> string" where
  "endpoint_host_port hp = (case last_index_of CHR '':'' hp of
         None \<Rightarrow> (hp, [])
       | Some i \<Rightarrow> if valid_optional_port (drop i hp) then (take i hp, drop (Suc i) hp) else (hp, []))"

definition validate_upstream_endpoint :: "string \<Rightarrow> policy_err option" where
  "validate_upstream_endpoint endpoint =
     (if endpoint = [] then Some EndpointEmpty
      else if length endpoint > maxUpstreamLen then Some EndpointTooLong
      else if list_ex (\<lambda>r. r < 0x20 \<or> r = 0x7F) (runes endpoint) then Some EndpointControl
      else (case endpoint_parse endpoint of
          None \<Rightarrow> Some EndpointUnparsable
        | Some u \<Rightarrow>
            (if e_scheme u \<noteq> ''https'' \<and> e_scheme u \<noteq> ''http'' then Some EndpointScheme
             else if e_user u then Some EndpointUser
             else if e_query u then Some EndpointQuery
             else if e_fragment u \<noteq> [] then Some EndpointFragment
             else (let (host, port) = endpoint_host_port (e_hostport u) in
               if \<not> full_match upstreamHostPattern host then Some EndpointHost
               else if port \<noteq> [] \<and> \<not> full_match upstreamPortPattern port then Some EndpointPort
               else None))))"

section \<open>The wire form\<close>

text \<open>A pointer that is decoded into: \<open>None\<close> is nil, and \<open>null\<close> makes it nil again.\<close>

definition into_pointer :: "'a \<Rightarrow> (json \<Rightarrow> 'a \<Rightarrow> 'a option) \<Rightarrow> json \<Rightarrow> 'a option \<Rightarrow> 'a option option" where
  "into_pointer zero f j old = (if j = JNull then Some None
     else map_option Some (f j (case old of None \<Rightarrow> zero | Some x \<Rightarrow> x)))"

definition into_bool :: "json \<Rightarrow> bool \<Rightarrow> bool option" where
  "into_bool j old = (case j of JBool b \<Rightarrow> Some b | JNull \<Rightarrow> Some old | _ \<Rightarrow> None)"

record toolJSON =
  tj_Name :: string
  tj_Writes :: "bool option"

record documentJSON =
  dj_SchemaVersion :: string
  dj_Service :: string
  dj_UpstreamEndpoint :: string
  dj_Tools :: "toolJSON slice option"

definition no_toolJSON :: toolJSON where "no_toolJSON = \<lparr>tj_Name = [], tj_Writes = None\<rparr>"

definition tool_member :: "string \<Rightarrow> json \<Rightarrow> toolJSON \<Rightarrow> toolJSON option" where
  "tool_member k v t =
     (if names_field k ''name'' then map_option (\<lambda>s. t\<lparr>tj_Name := s\<rparr>) (into_string v (tj_Name t))
      else if names_field k ''writes'' then
        map_option (\<lambda>w. t\<lparr>tj_Writes := w\<rparr>) (into_pointer False into_bool v (tj_Writes t))
      else None)"

definition document_member :: "string \<Rightarrow> json \<Rightarrow> documentJSON \<Rightarrow> documentJSON option" where
  "document_member k v d =
     (if names_field k ''schema_version'' then
        map_option (\<lambda>s. d\<lparr>dj_SchemaVersion := s\<rparr>) (into_string v (dj_SchemaVersion d))
      else if names_field k ''service'' then map_option (\<lambda>s. d\<lparr>dj_Service := s\<rparr>) (into_string v (dj_Service d))
      else if names_field k ''upstream_endpoint'' then
        map_option (\<lambda>s. d\<lparr>dj_UpstreamEndpoint := s\<rparr>) (into_string v (dj_UpstreamEndpoint d))
      else if names_field k ''tools'' then
        map_option (\<lambda>ts. d\<lparr>dj_Tools := ts\<rparr>)
          (into_pointer None (into_slice no_toolJSON (into_struct tool_member)) v (dj_Tools d))
      else None)"

definition no_documentJSON :: documentJSON where
  "no_documentJSON = \<lparr>dj_SchemaVersion = [], dj_Service = [], dj_UpstreamEndpoint = [], dj_Tools = None\<rparr>"

section \<open>Documents and the set\<close>

record service =
  upstreamEndpoint :: string
  tools :: "(string \<times> bool) list"

type_synonym policy_set = "(string \<times> service) list"

fun collect_tools :: "(string \<times> bool) list \<Rightarrow> toolJSON list \<Rightarrow> policy_err + (string \<times> bool) list" where
  "collect_tools acc [] = Inr acc"
| "collect_tools acc (t # ts) =
     (if length (tj_Name t) > maxToolNameLen \<or> \<not> full_match toolPattern (tj_Name t) then Inl ToolName
      else if map_of acc (tj_Name t) \<noteq> None then Inl ToolTwice
      else (case tj_Writes t of
          None \<Rightarrow> Inl ToolUnclassified
        | Some w \<Rightarrow> collect_tools (acc @ [(tj_Name t, w)]) ts))"

definition policy_probe :: "string \<Rightarrow> json \<Rightarrow> string \<Rightarrow> string option" where
  "policy_probe k v s = (if names_field k ''schema_version'' then into_string v s else Some s)"

definition parse_document :: "string \<Rightarrow> string \<Rightarrow> policy_err + service" where
  "parse_document data stem = (case (case json_document data of None \<Rightarrow> None | Some j \<Rightarrow> into_struct policy_probe j []) of
       None \<Rightarrow> Inl PolicyInvalidJSON
     | Some v \<Rightarrow>
         (if v \<noteq> PolicySchemaVersion then Inl PolicyVersion
          else (case decode_strict document_member data no_documentJSON of
              None \<Rightarrow> Inl PolicyNotTheSchema
            | Some raw \<Rightarrow> (case validate_service_name stem of
                Some e \<Rightarrow> Inl e
              | None \<Rightarrow>
                  (if dj_Service raw \<noteq> stem then Inl ServiceNotTheStem
                   else (case validate_upstream_endpoint (dj_UpstreamEndpoint raw) of
                       Some e \<Rightarrow> Inl e
                     | None \<Rightarrow> (case dj_Tools raw of
                         None \<Rightarrow> Inl ToolsNotDeclared
                       | Some ts \<Rightarrow>
                           (if length (slice_elems ts) > maxToolsPerService then Inl TooManyTools
                            else map_sum id (\<lambda>found. \<lparr>upstreamEndpoint = dj_UpstreamEndpoint raw, tools = found\<rparr>)
                              (collect_tools [] (slice_elems ts))))))))))"

text \<open>The documents of a directory by file name, taken in the order of the names.\<close>

fun parse_each :: "(string \<times> string) list \<Rightarrow> policy_err + policy_set" where
  "parse_each [] = Inr []"
| "parse_each ((name, data) # docs) =
     (if \<not> has_suffix name policyFileExt then Inl NotAPolicyFile
      else if length data > maxDocumentBytes then Inl DocumentTooLarge
      else (let stem = trim_suffix name policyFileExt in
        case parse_document data stem of
          Inl e \<Rightarrow> Inl e
        | Inr svc \<Rightarrow> map_sum id ((#) (stem, svc)) (parse_each docs)))"

definition parse_documents :: "(string \<times> string) list \<Rightarrow> policy_err + policy_set" where
  "parse_documents documents = (if length documents > maxServices then Inl TooManyServices
     else parse_each (sort_key fst documents))"

section \<open>The grant\<close>

record tool_grant =
  g_Name :: string
  g_Writes :: bool

record service_grant =
  sg_Name :: string
  sg_UpstreamEndpoint :: string
  sg_Tools :: "tool_grant list"
  sg_WriteTools :: nat

definition grant_of :: "string \<times> service \<Rightarrow> service_grant" where
  "grant_of ns = (let ts = map (\<lambda>(t, w). \<lparr>g_Name = t, g_Writes = w\<rparr>) (tools (snd ns)) in
     \<lparr>sg_Name = fst ns, sg_UpstreamEndpoint = upstreamEndpoint (snd ns), sg_Tools = sort_key g_Name ts,
      sg_WriteTools = length (filter g_Writes ts)\<rparr>)"

definition grants :: "policy_set \<Rightarrow> service_grant list" where
  "grants s = sort_key sg_Name (map grant_of s)"

text \<open>\<open>json.Marshal\<close>, without white space.\<close>

fun compact :: "json \<Rightarrow> string" and compact_items :: "json list \<Rightarrow> string"
  and compact_fields :: "(string \<times> json) list \<Rightarrow> string" where
  "compact JNull = ''null''"
| "compact (JBool b) = (if b then ''true'' else ''false'')"
| "compact (JNum n) = n"
| "compact (JStr s) = json_quote s"
| "compact (JArr vs) = ''['' @ compact_items vs @ '']''"
| "compact (JObj fs) = ''{'' @ compact_fields fs @ ''}''"
| "compact_items [] = []"
| "compact_items (v # vs) = compact v @ (if vs = [] then [] else '','' @ compact_items vs)"
| "compact_fields [] = []"
| "compact_fields ((k, v) # fs) = json_quote k @ '':'' @ compact v @ (if fs = [] then [] else '','' @ compact_fields fs)"

definition tool_grant_json :: "tool_grant \<Rightarrow> json" where
  "tool_grant_json t = JObj [(''Name'', JStr (g_Name t)), (''Writes'', JBool (g_Writes t))]"

definition service_grant_json :: "service_grant \<Rightarrow> json" where
  "service_grant_json g = JObj [(''Name'', JStr (sg_Name g)), (''UpstreamEndpoint'', JStr (sg_UpstreamEndpoint g)),
     (''Tools'', JArr (map tool_grant_json (sg_Tools g))), (''WriteTools'', JNum (show_nat (sg_WriteTools g)))]"

definition policy_digest :: "policy_set \<Rightarrow> string" where
  "policy_digest s = sha256_hex (compact (JObj [(''Services'', JArr (map service_grant_json (grants s)))]))"

end
