(* ===== verification/Broker.thy ===== *)
theory Broker
  imports Policy Sinks
begin

text \<open>
  The MCP broker (\<open>internal/mcpbroker\<close>, \<open>cmd/torio-mcp-broker/policy.go\<close>): it lists what an upstream offers,
  advertises exactly the granted tools, and audits every call before it is forwarded. The MCP SDK, which
  dispatches a request to a registered handler, and the upstream session are parameters.
\<close>

section \<open>The policy directory\<close>

record dir_entry =
  de_Name :: string
  de_Regular :: "bool option" \<comment> \<open>\<open>None\<close> when the entry cannot be inspected\<close>
  de_Content :: "string option" \<comment> \<open>\<open>None\<close> when it cannot be opened, read or closed\<close>

datatype load_error = DirUnreadable | DirTooManyServices | EntryUninspected | EntryNotRegular | EntryUnreadable | EntryTooLarge
  | PolicyRejected policy_err

fun read_entries :: "dir_entry list \<Rightarrow> load_error + (string \<times> string) list" where
  "read_entries [] = Inr []"
| "read_entries (e # es) = (case de_Regular e of
       None \<Rightarrow> Inl EntryUninspected
     | Some regular \<Rightarrow>
         (if \<not> regular then Inl EntryNotRegular
          else (case de_Content e of
              None \<Rightarrow> Inl EntryUnreadable
            | Some data \<Rightarrow>
                (if length data > maxDocumentBytes then Inl EntryTooLarge
                 else map_sum id ((#) (de_Name e, data)) (read_entries es)))))"

definition load_policy_dir :: "dir_entry list option \<Rightarrow> load_error + policy_set" where
  "load_policy_dir dir = (case dir of
       None \<Rightarrow> Inl DirUnreadable
     | Some es \<Rightarrow>
         (if length es > maxServices then Inl DirTooManyServices
          else (case read_entries es of
              Inl e \<Rightarrow> Inl e
            | Inr docs \<Rightarrow> map_sum PolicyRejected id (parse_documents docs))))"

section \<open>The upstream's tools\<close>

record mcp_tool =
  mt_Name :: string
  mt_Rest :: string \<comment> \<open>description and schemas, passed through\<close>

text \<open>An answer to \<open>tools/list\<close>: an error, no result, or a page whose entries may be nil and the next cursor.\<close>

datatype page = PageError | PageNil | Page "mcp_tool option list" string

datatype list_err = ListFailed | ListNoResult | ListRepeatedCursor

text \<open>The \<open>k\<close>-th call, with a cursor. The loop has no bound of its own: not returning is \<open>None\<close>.\<close>

partial_function (option) list_all_tools ::
  "(nat \<Rightarrow> string \<Rightarrow> page) \<Rightarrow> nat \<Rightarrow> string \<Rightarrow> mcp_tool option list \<Rightarrow> (list_err + mcp_tool option list) option" where
  "list_all_tools up k cursor acc = (case up k cursor of
       PageError \<Rightarrow> Some (Inl ListFailed)
     | PageNil \<Rightarrow> Some (Inl ListNoResult)
     | Page ts next \<Rightarrow>
         (if next = [] then Some (Inr (acc @ ts))
          else if next = cursor then Some (Inl ListRepeatedCursor)
          else list_all_tools up (Suc k) next (acc @ ts)))"

section \<open>The server of a service\<close>

record server =
  srv_Tools :: "mcp_tool list" \<comment> \<open>in the order of registration\<close>
  srv_Writes :: "(string \<times> bool) list"

datatype server_err =
    BadServiceName policy_err
  | NoUpstream
  | NoRecorder
  | NoSuchService
  | ToolsNotListed
  | UnnamedTool
  | DuplicateTool
  | ToolAbsent string

fun tools_by_name :: "(string \<times> mcp_tool) list \<Rightarrow> mcp_tool option list \<Rightarrow> server_err + (string \<times> mcp_tool) list" where
  "tools_by_name acc [] = Inr acc"
| "tools_by_name acc (t # ts) = (case t of
       None \<Rightarrow> Inl UnnamedTool
     | Some tool \<Rightarrow>
         (if mt_Name tool = [] then Inl UnnamedTool
          else if map_of acc (mt_Name tool) \<noteq> None then Inl DuplicateTool
          else tools_by_name (acc @ [(mt_Name tool, tool)]) ts))"

fun granted_writes :: "(string \<times> mcp_tool) list \<Rightarrow> tool_grant list \<Rightarrow> server_err + (string \<times> bool) list" where
  "granted_writes available [] = Inr []"
| "granted_writes available (g # gs) = (if map_of available (g_Name g) = None then Inl (ToolAbsent (g_Name g))
     else map_sum id ((#) (g_Name g, g_Writes g)) (granted_writes available gs))"

definition service_grant_for :: "policy_set \<Rightarrow> string \<Rightarrow> service_grant option" where
  "service_grant_for s name = find (\<lambda>g. sg_Name g = name) (grants s)"

text \<open>\<open>None\<close> outside is a listing that does not return.\<close>

definition new_service_server :: "policy_set \<Rightarrow> string \<Rightarrow> (nat \<Rightarrow> string \<Rightarrow> page) option \<Rightarrow> bool \<Rightarrow>
    (server_err + server) option" where
  "new_service_server policy name upstream has_audit = (case validate_service_name name of
       Some e \<Rightarrow> Some (Inl (BadServiceName e))
     | None \<Rightarrow> (case upstream of
         None \<Rightarrow> Some (Inl NoUpstream)
       | Some up \<Rightarrow>
           (if \<not> has_audit then Some (Inl NoRecorder)
            else (case service_grant_for policy name of
                None \<Rightarrow> Some (Inl NoSuchService)
              | Some grant \<Rightarrow> (case list_all_tools up 0 [] [] of
                  None \<Rightarrow> None
                | Some (Inl e) \<Rightarrow> Some (Inl ToolsNotListed)
                | Some (Inr ts) \<Rightarrow> Some (case tools_by_name [] ts of
                    Inl e \<Rightarrow> Inl e
                  | Inr available \<Rightarrow> (case granted_writes available (sg_Tools grant) of
                      Inl e \<Rightarrow> Inl e
                    | Inr writes \<Rightarrow> Inr \<lparr>srv_Tools = map (\<lambda>n. the (map_of available n)) (sort (map fst writes)),
                        srv_Writes = writes\<rparr>)))))))"

section \<open>Calls\<close>

record tool_call =
  c_Name :: string
  c_Arguments :: string
  c_Meta :: string
  c_InputResponses :: string
  c_RequestState :: string

record mcp_request =
  rq_Method :: string
  rq_Params :: "tool_call option" \<comment> \<open>\<open>None\<close> when the parameters are not those of a tool call\<close>
  rq_Body :: string

record audit_record =
  a_Time :: string
  a_PeerUID :: nat
  a_Service :: string
  a_Tool :: string
  a_Writes :: bool
  a_Allowed :: bool

datatype broker_event = Audited audit_record bool | Forwarded tool_call

record broker =
  b_Log :: "broker_event list"
  b_Audit :: recorder

datatype call_err = InvalidCall | AuditFailed | NotGranted | UpstreamFailed | UpstreamNoResult | SdkError string

type_synonym 'a call_step = "broker \<Rightarrow> (call_err + 'a) \<times> broker"

text \<open>What a connection is bound to: the peer's uid comes from the kernel.\<close>

record service_env =
  se_Service :: string
  se_PeerUID :: nat
  se_Clock :: "broker_event list \<Rightarrow> string"
  se_Sink :: sink_env
  se_Call :: "broker_event list \<Rightarrow> tool_call \<Rightarrow> call_err + string option"

definition audit_json :: "audit_record \<Rightarrow> json" where
  "audit_json a = JObj [(''time'', JStr (a_Time a)), (''peer_uid'', JNum (show_nat (a_PeerUID a))),
     (''service'', JStr (a_Service a)), (''tool'', JStr (a_Tool a)), (''writes'', JBool (a_Writes a)),
     (''allowed'', JBool (a_Allowed a))]"

definition audit_line :: "audit_record \<Rightarrow> string" where
  "audit_line a = compact (audit_json a) @ [newline]"

definition audit_call :: "sink_env \<Rightarrow> audit_record \<Rightarrow> recorder \<Rightarrow> bool \<times> recorder" where
  "audit_call env a r = append_line env (audit_line a) r"

text \<open>\<open>forwardTool\<close>: the call as it came, and its result; an upstream's error text does not cross.\<close>

definition forward_tool :: "service_env \<Rightarrow> tool_call \<Rightarrow> string call_step" where
  "forward_tool env c b = (let b' = b\<lparr>b_Log := b_Log b @ [Forwarded c]\<rparr> in
     case se_Call env (b_Log b) c of
       Inl _ \<Rightarrow> (Inl UpstreamFailed, b')
     | Inr None \<Rightarrow> (Inl UpstreamNoResult, b')
     | Inr (Some result) \<Rightarrow> (Inr result, b'))"

type_synonym sdk = "(tool_call \<Rightarrow> string call_step) \<Rightarrow> string list \<Rightarrow> mcp_request \<Rightarrow> string call_step"

definition audit_middleware :: "service_env \<Rightarrow> (string \<times> bool) list \<Rightarrow> (mcp_request \<Rightarrow> string call_step) \<Rightarrow>
    mcp_request \<Rightarrow> string call_step" where
  "audit_middleware env writes next_handler r b = (if rq_Method r \<noteq> ''tools/call'' then next_handler r b
     else (case rq_Params r of
       None \<Rightarrow> (Inl InvalidCall, b)
     | Some c \<Rightarrow>
         (let allowed = map_of writes (c_Name c) \<noteq> None;
              a = \<lparr>a_Time = se_Clock env (b_Log b), a_PeerUID = se_PeerUID env, a_Service = se_Service env,
                a_Tool = c_Name c, a_Writes = (map_of writes (c_Name c) = Some True), a_Allowed = allowed\<rparr>;
              (ok, r') = audit_call (se_Sink env) a (b_Audit b);
              b' = b\<lparr>b_Log := b_Log b @ [Audited a ok], b_Audit := r'\<rparr> in
          if \<not> ok then (Inl AuditFailed, b')
          else if \<not> allowed then (Inl NotGranted, b')
          else next_handler r b')))"

definition serve :: "sdk \<Rightarrow> service_env \<Rightarrow> server \<Rightarrow> mcp_request \<Rightarrow> string call_step" where
  "serve sdk env srv = audit_middleware env (srv_Writes srv) (sdk (forward_tool env) (map mt_Name (srv_Tools srv)))"

fun serve_all :: "sdk \<Rightarrow> service_env \<Rightarrow> server \<Rightarrow> mcp_request list \<Rightarrow> broker \<Rightarrow> (call_err + string) list \<times> broker" where
  "serve_all sdk env srv [] b = ([], b)"
| "serve_all sdk env srv (r # rs) b = (case serve sdk env srv r b of (x, b1) \<Rightarrow>
     (case serve_all sdk env srv rs b1 of (xs, b2) \<Rightarrow> (x # xs, b2)))"

section \<open>Tokens\<close>

record token =
  AccessToken :: string
  TokenType :: string
  RefreshToken :: string
  Expiry :: int

datatype token_answer = TokenError | TokenNil | TokenIs token

datatype token_err = SourceIncomplete | RefreshFailed | RefreshNoToken | NotPersisted

text \<open>
  What \<open>SessionStorage.Save\<close> did: the rename is the commit, and the sync of the directory after it may still
  fail. The state is the source's current token and every token a session file has held, the latest first.
\<close>

datatype save_outcome = Saved | CommittedNotSynced | NotSaved

record token_state =
  ts_Current :: "token option"
  ts_Stored :: "token list"

definition same_token :: "token option \<Rightarrow> token \<Rightarrow> bool" where
  "same_token a b = (case a of None \<Rightarrow> False
     | Some t \<Rightarrow> AccessToken t = AccessToken b \<and> TokenType t = TokenType b \<and> RefreshToken t = RefreshToken b \<and>
         Expiry t = Expiry b)"

definition save_token :: "save_outcome \<Rightarrow> token \<Rightarrow> token_state \<Rightarrow> token_state" where
  "save_token outcome t s = (if outcome = NotSaved then s else s\<lparr>ts_Stored := t # ts_Stored s\<rparr>)"

text \<open>\<open>savingTokenSource.Token\<close>: \<open>answer\<close> is what the wrapped source returns.\<close>

definition next_token :: "bool \<Rightarrow> token_answer \<Rightarrow> save_outcome \<Rightarrow> token_state \<Rightarrow> (token_err + token) \<times> token_state" where
  "next_token complete answer outcome s =
     (if \<not> complete then (Inl SourceIncomplete, s)
      else (case answer of
          TokenError \<Rightarrow> (Inl RefreshFailed, s)
        | TokenNil \<Rightarrow> (Inl RefreshNoToken, s)
        | TokenIs t \<Rightarrow>
            (if same_token (ts_Current s) t then (Inr t, s)
             else (let s' = save_token outcome t s in
               if outcome \<noteq> Saved then (Inl NotPersisted, s')
               else (Inr t, s'\<lparr>ts_Current := Some t\<rparr>)))))"

fun tokens_served :: "(bool \<times> token_answer \<times> save_outcome) list \<Rightarrow> token_state \<Rightarrow>
    ((token_err + token) \<times> token list) list \<times> token_state" where
  "tokens_served [] s = ([], s)"
| "tokens_served ((complete, answer, outcome) # xs) s = (case next_token complete answer outcome s of (r, s1) \<Rightarrow>
     (case tokens_served xs s1 of (rs, s2) \<Rightarrow> ((r, ts_Stored s1) # rs, s2)))"

end
