(* ===== verification/Policy_Facts.thy ===== *)
theory Policy_Facts
  imports Policy Json_Facts "HOL-Library.Multiset"
begin

text \<open>
  What a loaded policy grants: exactly the tools its documents list and classify, independent of how they are
  written; and the one spelling by which a tool is granted without its own classification.
\<close>

section \<open>Tools\<close>

definition tool_name_ok :: "string \<Rightarrow> bool" where
  "tool_name_ok n \<longleftrightarrow> length n \<le> maxToolNameLen \<and> full_match toolPattern n"

lemma collect_tools_Inr:
  assumes "collect_tools acc ts = Inr out" and "distinct (map fst acc)"
  shows "list_all (\<lambda>t. tool_name_ok (tj_Name t) \<and> tj_Writes t \<noteq> None) ts \<and> distinct (map fst out) \<and>
    out = acc @ map (\<lambda>t. (tj_Name t, the (tj_Writes t))) ts"
  using assms
proof (induction acc ts rule: collect_tools.induct)
  case (2 acc t ts)
  from "2.prems"(1) obtain w where w: "tj_Writes t = Some w" and name: "tool_name_ok (tj_Name t)"
    and new: "map_of acc (tj_Name t) = None" and rest: "collect_tools (acc @ [(tj_Name t, w)]) ts = Inr out"
    by (auto simp: tool_name_ok_def split: if_splits option.splits)
  have p: "\<not> (maxToolNameLen < length (tj_Name t) \<or> \<not> full_match toolPattern (tj_Name t))"
    "\<not> map_of acc (tj_Name t) \<noteq> None" "distinct (map fst (acc @ [(tj_Name t, w)]))"
    using name new "2.prems"(2) by (simp_all add: tool_name_ok_def map_of_eq_None_iff)
  note ih = "2.IH" [OF p(1,2) w rest p(3)]
  show ?case by (intro conjI ih [THEN conjunct2, THEN conjunct1]) (use ih name w in simp_all)
qed simp

definition service_ok :: "service \<Rightarrow> bool" where
  "service_ok svc \<longleftrightarrow> validate_upstream_endpoint (upstreamEndpoint svc) = None \<and> length (tools svc) \<le> 256 \<and>
     distinct (map fst (tools svc)) \<and> list_all (\<lambda>t. tool_name_ok (fst t)) (tools svc)"

definition policy_ok :: "policy_set \<Rightarrow> bool" where
  "policy_ok s \<longleftrightarrow> length s \<le> 32 \<and> distinct (map fst s) \<and>
     list_all (\<lambda>(n, svc). validate_service_name n = None \<and> service_ok svc) s"

lemma parse_document_Inr:
  assumes "parse_document data stem = Inr svc"
  obtains raw ts where "decode_strict document_member data no_documentJSON = Some raw" and "dj_Service raw = stem"
    and "dj_Tools raw = Some ts" and "upstreamEndpoint svc = dj_UpstreamEndpoint raw"
    and "list_all (\<lambda>t. tj_Writes t \<noteq> None) (slice_elems ts)"
    and "tools svc = map (\<lambda>t. (tj_Name t, the (tj_Writes t))) (slice_elems ts)"
    and "validate_service_name stem = None" and "service_ok svc"
proof -
  from assms obtain raw ts found where r: "decode_strict document_member data no_documentJSON = Some raw"
    "validate_service_name stem = None" "dj_Service raw = stem"
    "validate_upstream_endpoint (dj_UpstreamEndpoint raw) = None" "dj_Tools raw = Some ts"
    "length (slice_elems ts) \<le> maxToolsPerService" "collect_tools [] (slice_elems ts) = Inr found"
    "svc = \<lparr>upstreamEndpoint = dj_UpstreamEndpoint raw, tools = found\<rparr>"
    unfolding parse_document_def
    by (auto simp: map_sum_def split: option.splits if_splits sum.splits)
  note c = collect_tools_Inr [OF r(7)]
  have "service_ok svc"
    using r c by (auto simp: service_ok_def maxToolsPerService_def list_all_iff)
  then show thesis using that r c by (simp add: list_all_iff)
qed

section \<open>The set\<close>

definition stem_of :: "string \<Rightarrow> string" where "stem_of name = trim_suffix name policyFileExt"

lemma parse_each_Inr:
  assumes "parse_each docs = Inr s"
  shows "map fst s = map (stem_of \<circ> fst) docs \<and> list_all (\<lambda>(name, data). has_suffix name policyFileExt) docs \<and>
    list_all2 (\<lambda>(name, data) (n, svc). n = stem_of name \<and> parse_document data n = Inr svc) docs s"
  using assms
proof (induction docs arbitrary: s rule: parse_each.induct)
  case (2 name data docs)
  then obtain svc s' where r: "has_suffix name policyFileExt" "\<not> length data > maxDocumentBytes"
    "parse_document data (stem_of name) = Inr svc" "parse_each docs = Inr s'" "s = (stem_of name, svc) # s'"
    by (auto simp: stem_of_def Let_def map_sum_def split: if_splits sum.splits)
  show ?case using "2.IH" [OF _ r(2) refl r(3) [unfolded stem_of_def] r(4)] r by simp
qed simp

lemma stem_inject:
  assumes "has_suffix a policyFileExt" and "has_suffix b policyFileExt" and "stem_of a = stem_of b"
  shows "a = b"
  using assms by (metis has_suffixE stem_of_def)

lemma parse_documents_ok:
  assumes "parse_documents docs = Inr s" and "distinct (map fst docs)"
  shows "policy_ok s"
    and "list_all2 (\<lambda>(name, data) (n, svc). n = stem_of name \<and> parse_document data n = Inr svc) (sort_key fst docs) s"
proof -
  have len: "length docs \<le> 32" and e: "parse_each (sort_key fst docs) = Inr s"
    using assms(1) by (auto simp: parse_documents_def maxServices_def split: if_splits)
  note p = parse_each_Inr [OF e]
  show r: "list_all2 (\<lambda>(name, data) (n, svc). n = stem_of name \<and> parse_document data n = Inr svc) (sort_key fst docs) s"
    using p by blast
  have "distinct (map fst (sort_key fst docs))" using assms(2) by (simp add: distinct_map)
  moreover have "inj_on stem_of (set (map fst (sort_key fst docs)))"
  proof (rule inj_onI)
    fix x y assume "x \<in> set (map fst (sort_key fst docs))" "y \<in> set (map fst (sort_key fst docs))"
    then have "has_suffix x policyFileExt" "has_suffix y policyFileExt" using p by (auto simp: list_all_iff)
    then show "stem_of x = stem_of y \<Longrightarrow> x = y" by (rule stem_inject)
  qed
  ultimately have "distinct (map fst s)" using p by (simp add: distinct_map comp_inj_on_iff flip: map_map)
  moreover have "length s \<le> 32" using list_all2_lengthD [OF r] len by simp
  moreover have "validate_service_name n = None \<and> service_ok svc" if m: "(n, svc) \<in> set s" for n svc
  proof -
    obtain i where i: "i < length s" "s ! i = (n, svc)" using m by (metis in_set_conv_nth)
    obtain name data where d: "sort_key fst docs ! i = (name, data)" by fastforce
    have "parse_document data n = Inr svc" using list_all2_nthD2 [OF r i(1), unfolded i(2) d prod.case] by (rule conjunct2)
    then show ?thesis by (rule parse_document_Inr) blast
  qed
  ultimately show "policy_ok s" by (auto simp: policy_ok_def list_all_iff)
qed

section \<open>The grant is the effective policy\<close>

text \<open>What a policy says, with nothing about how its maps are laid out.\<close>

definition effective :: "policy_set \<Rightarrow> string \<Rightarrow> (string \<times> (string \<Rightarrow> bool option)) option" where
  "effective s n = map_option (\<lambda>svc. (upstreamEndpoint svc, map_of (tools svc))) (map_of s n)"

lemma distinct_sorted_names: "distinct (map f xs) \<Longrightarrow> distinct (map f (sort_key f xs))"
  by (simp add: distinct_map)

lemma sort_key_canonical:
  assumes "set xs = set ys" and "distinct (map f xs)" and "distinct (map f ys)"
  shows "sort_key f xs = sort_key f ys"
proof -
  have "mset xs = mset ys" using assms by (simp add: set_eq_iff_mset_eq_distinct distinct_map)
  then show ?thesis
    using assms(2) by (intro sort_key_inj_key_eq) (simp_all add: distinct_map)
qed

lemma map_of_sets:
  assumes "distinct (map fst xs)" and "distinct (map fst ys)" and "map_of xs = map_of ys"
  shows "set xs = set ys"
proof -
  show ?thesis using assms map_of_inject_set by blast
qed

definition tool_grants :: "(string \<times> bool) list \<Rightarrow> tool_grant list" where
  "tool_grants ts = map (\<lambda>(t, w). \<lparr>g_Name = t, g_Writes = w\<rparr>) ts"

lemma tool_grants_names: "map g_Name (tool_grants ts) = map fst ts"
  by (induction ts) (auto simp: tool_grants_def)

lemma grant_of_eq:
  assumes "service_ok a" and "service_ok b" and "upstreamEndpoint a = upstreamEndpoint b"
    and "map_of (tools a) = map_of (tools b)"
  shows "grant_of (n, a) = grant_of (n, b)"
proof -
  have d: "distinct (map fst (tools a))" "distinct (map fst (tools b))" using assms(1,2) by (simp_all add: service_ok_def)
  have same: "set (tools a) = set (tools b)" by (rule map_of_sets [OF d assms(4)])
  then have m: "mset (tools a) = mset (tools b)" using d by (simp add: set_eq_iff_mset_eq_distinct distinct_map)
  have "sort_key g_Name (tool_grants (tools a)) = sort_key g_Name (tool_grants (tools b))"
    using same d by (intro sort_key_canonical) (simp_all only: tool_grants_names, simp add: tool_grants_def)
  moreover have "length (filter g_Writes (tool_grants (tools a))) = length (filter g_Writes (tool_grants (tools b)))"
    using m unfolding tool_grants_def by (metis mset_filter mset_map size_mset)
  ultimately show ?thesis using assms(3) by (simp add: grant_of_def Let_def tool_grants_def)
qed

text \<open>The effective policy can be read off the grant.\<close>

definition granted_service :: "service_grant \<Rightarrow> string \<times> (string \<Rightarrow> bool option)" where
  "granted_service g = (sg_UpstreamEndpoint g, map_of (map (\<lambda>t. (g_Name t, g_Writes t)) (sg_Tools g)))"

lemma granted_grant_of:
  assumes "service_ok a"
  shows "granted_service (grant_of (n, a)) = (upstreamEndpoint a, map_of (tools a))"
proof -
  have d: "distinct (map fst (tools a))" using assms by (simp add: service_ok_def)
  have "set (map (\<lambda>t. (g_Name t, g_Writes t)) (sort_key g_Name (tool_grants (tools a)))) = set (tools a)"
    by (force simp: tool_grants_def)
  moreover have "distinct (map fst (map (\<lambda>t. (g_Name t, g_Writes t)) (sort_key g_Name (tool_grants (tools a)))))"
  proof -
    have "distinct (map g_Name (sort_key g_Name (tool_grants (tools a))))"
      by (rule distinct_sorted_names) (simp only: tool_grants_names d)
    then show ?thesis by (simp add: comp_def)
  qed
  ultimately show ?thesis
    using d by (simp add: granted_service_def grant_of_def Let_def map_of_inject_set flip: tool_grants_def)
qed

lemma map_of_sorted:
  assumes "distinct (map f xs)"
  shows "map_of (map (\<lambda>g. (f g, g)) (sort_key f xs)) = map_of (map (\<lambda>g. (f g, g)) xs)"
  using assms by (subst map_of_inject_set) (simp_all add: comp_def distinct_map)

lemma map_of_grants: "map_of (map (\<lambda>g. (sg_Name g, g)) (map grant_of s)) n = map_option (\<lambda>a. grant_of (n, a)) (map_of s n)"
  by (induction s) (auto simp: grant_of_def Let_def)

lemma grant_names: "map sg_Name (map grant_of s) = map fst s"
  by (simp add: grant_of_def Let_def comp_def)

lemma effective_from_grants:
  assumes "policy_ok s"
  shows "effective s n = map_option granted_service (map_of (map (\<lambda>g. (sg_Name g, g)) (grants s)) n)"
proof -
  have d: "distinct (map sg_Name (map grant_of s))" using assms unfolding grant_names by (simp add: policy_ok_def)
  have "map_of (map (\<lambda>g. (sg_Name g, g)) (grants s)) = map_of (map (\<lambda>g. (sg_Name g, g)) (map grant_of s))"
    unfolding grants_def by (rule map_of_sorted [OF d])
  moreover have "service_ok a" if "map_of s n = Some a" for a
    using assms map_of_SomeD [OF that] by (auto simp: policy_ok_def list_all_iff)
  ultimately show ?thesis
    by (cases "map_of s n") (simp_all add: effective_def map_of_grants granted_grant_of del: map_map)
qed

lemma grants_from_effective:
  assumes "policy_ok s" and "policy_ok t" and "effective s = effective t"
  shows "set (map grant_of s) \<subseteq> set (map grant_of t)"
proof
  fix g assume "g \<in> set (map grant_of s)"
  then obtain n a where g: "g = grant_of (n, a)" "(n, a) \<in> set s" by auto
  then have a: "map_of s n = Some a" "service_ok a" using assms(1) by (auto simp: policy_ok_def list_all_iff)
  then obtain b where b: "map_of t n = Some b" "upstreamEndpoint a = upstreamEndpoint b" "map_of (tools a) = map_of (tools b)"
    using fun_cong [OF assms(3), of n] by (cases "map_of t n") (auto simp: effective_def)
  have "(n, b) \<in> set t" using b(1) by (rule map_of_SomeD)
  then have ok: "service_ok b" using assms(2) by (auto simp: policy_ok_def list_all_iff)
  have "g = grant_of (n, b)" unfolding g(1) by (rule grant_of_eq [OF a(2) ok b(2,3)])
  then show "g \<in> set (map grant_of t)" using map_of_SomeD [OF b(1)] by simp
qed

text \<open>C31: The reported grant, and with it the digest two processes compare, says what the policy says and nothing
  else: two policies grant the same exactly when they name the same services with the same endpoints and classify
  the same tools alike, however their documents were written or ordered.\<close>

theorem grant_is_effective_policy:
  assumes "policy_ok s" and "policy_ok t"
  shows "grants s = grants t \<longleftrightarrow> effective s = effective t"
proof
  assume "grants s = grants t"
  then show "effective s = effective t" using effective_from_grants assms by (intro ext) simp
next
  assume e: "effective s = effective t"
  have "distinct (map sg_Name (map grant_of s))" "distinct (map sg_Name (map grant_of t))"
    using assms unfolding grant_names by (simp_all add: policy_ok_def)
  then show "grants s = grants t"
    using grants_from_effective [OF assms e] grants_from_effective [OF assms(2,1) e [symmetric]]
    unfolding grants_def by (intro sort_key_canonical) blast+
qed

section \<open>Documents\<close>

text \<open>The document of service \<open>m\<close> with the given members after its endpoint.\<close>

definition policy_document :: "(string \<times> json) list \<Rightarrow> json" where
  "policy_document members = JObj ([(''schema_version'', JStr ''1''), (''service'', JStr ''m''),
     (''upstream_endpoint'', JStr ''https://h'')] @ members)"

definition tools_member :: "json list \<Rightarrow> string \<times> json" where "tools_member ts = (''tools'', JArr ts)"

definition tool_json :: "string \<Rightarrow> bool \<Rightarrow> json" where
  "tool_json n w = JObj [(''name'', JStr n), (''writes'', JBool w)]"

definition unclassified_json :: "string \<Rightarrow> json" where "unclassified_json n = JObj [(''name'', JStr n)]"

lemma demo_endpoint: "validate_upstream_endpoint ''https://h'' = None"
  by code_simp

lemma demo_service_name: "validate_service_name ''m'' = None"
  by code_simp

lemma demo_tool_names: "full_match toolPattern ''a''" "full_match toolPattern ''b''"
  by code_simp+

lemmas field_names = names_field_def fold_name_def runes_def ascii_spans fold_rune_def byte_of_def

lemma demo_members:
  "tool_member ''name'' v t = map_option (\<lambda>s. t\<lparr>tj_Name := s\<rparr>) (into_string v (tj_Name t))"
  "tool_member ''writes'' v t = map_option (\<lambda>w. t\<lparr>tj_Writes := w\<rparr>) (into_pointer False into_bool v (tj_Writes t))"
  "document_member ''schema_version'' v d = map_option (\<lambda>s. d\<lparr>dj_SchemaVersion := s\<rparr>) (into_string v (dj_SchemaVersion d))"
  "document_member ''service'' v d = map_option (\<lambda>s. d\<lparr>dj_Service := s\<rparr>) (into_string v (dj_Service d))"
  "document_member ''upstream_endpoint'' v d = map_option (\<lambda>s. d\<lparr>dj_UpstreamEndpoint := s\<rparr>) (into_string v (dj_UpstreamEndpoint d))"
  "document_member ''tools'' v d = map_option (\<lambda>ts. d\<lparr>dj_Tools := ts\<rparr>)
     (into_pointer None (into_slice no_toolJSON (into_struct tool_member)) v (dj_Tools d))"
  by (simp_all add: tool_member_def document_member_def field_names)

lemma demo_probes:
  "policy_probe ''schema_version'' v s = into_string v s" "policy_probe ''service'' v s = Some s"
  "policy_probe ''upstream_endpoint'' v s = Some s" "policy_probe ''tools'' v s = Some s"
  by (simp_all add: policy_probe_def field_names)

lemmas demo_decode = demo_members demo_probes policy_document_def tools_member_def tool_json_def unclassified_json_def
  into_struct_def into_string_def into_pointer_def into_bool_def into_slice_def slice_memory_def slice_elems_def
  no_documentJSON_def no_toolJSON_def

text \<open>A policy document is one identity, one endpoint and a classified list of tools.\<close>

lemma demo_parse:
  "parse_document (print_value 0 (policy_document [tools_member [tool_json ''a'' False, tool_json ''b'' True]])) ''m'' =
    Inr \<lparr>upstreamEndpoint = ''https://h'', tools = [(''a'', False), (''b'', True)]\<rparr>"
proof -
  let ?j = "policy_document [tools_member [tool_json ''a'' False, tool_json ''b'' True]]"
  have "printable ?j" "depth ?j \<le> maxNestingDepth"
    by (simp_all add: demo_decode ascii_utf8 byte_of_def maxNestingDepth_def)
  then have "json_document (print_value 0 ?j) = Some ?j" using document_back [of ?j "[]" 0] by (simp add: skip_space_def)
  then show ?thesis
    by (simp add: parse_document_def decode_strict_def demo_decode PolicySchemaVersion_def demo_service_name
        demo_endpoint maxToolsPerService_def maxToolNameLen_def demo_tool_names)
qed

text \<open>C40: A document that spells its list of tools twice grants a tool that declares no classification: the second
  list is decoded into the memory of the first, so \<open>b\<close> inherits what \<open>a\<close> declared although the parser refuses
  every tool without a \<open>writes\<close> of its own.\<close>

theorem repeated_tools_inherit_classification:
  "parse_document (print_value 0 (policy_document
      [tools_member [tool_json ''a'' w], tools_member [unclassified_json ''b'']])) ''m'' =
    Inr \<lparr>upstreamEndpoint = ''https://h'', tools = [(''b'', w)]\<rparr> \<and>
   parse_document (print_value 0 (policy_document [tools_member [unclassified_json ''b'']])) ''m'' = Inl ToolUnclassified"
proof -
  let ?j = "policy_document [tools_member [tool_json ''a'' w], tools_member [unclassified_json ''b'']]"
  let ?k = "policy_document [tools_member [unclassified_json ''b'']]"
  have "printable ?j" "depth ?j \<le> maxNestingDepth" "printable ?k" "depth ?k \<le> maxNestingDepth"
    by (simp_all add: demo_decode ascii_utf8 byte_of_def maxNestingDepth_def)
  then have "json_document (print_value 0 ?j) = Some ?j" "json_document (print_value 0 ?k) = Some ?k"
    using document_back [of ?j "[]" 0] document_back [of ?k "[]" 0] by (simp_all add: skip_space_def)
  then show ?thesis
    by (simp add: parse_document_def decode_strict_def demo_decode PolicySchemaVersion_def demo_service_name
        demo_endpoint maxToolsPerService_def maxToolNameLen_def demo_tool_names)
qed

theorem grant_is_effective_policy_witness:
  "grants [(''m'', \<lparr>upstreamEndpoint = ''https://h'', tools = [(''a'', False), (''b'', True)]\<rparr>)] =
   grants [(''m'', \<lparr>upstreamEndpoint = ''https://h'', tools = [(''b'', True), (''a'', False)]\<rparr>)]"
proof -
  let ?s = "[(''m'', \<lparr>upstreamEndpoint = ''https://h'', tools = [(''a'', False), (''b'', True)]\<rparr>)]"
  let ?t = "[(''m'', \<lparr>upstreamEndpoint = ''https://h'', tools = [(''b'', True), (''a'', False)]\<rparr>)]"
  have "policy_ok ?s" "policy_ok ?t"
    by (simp_all add: policy_ok_def service_ok_def demo_endpoint demo_service_name tool_name_ok_def maxToolNameLen_def
        demo_tool_names)
  moreover have "effective ?s = effective ?t"
    by (rule ext) (simp add: effective_def fun_upd_twist)
  ultimately show ?thesis using grant_is_effective_policy [of ?s ?t] by blast
qed

end
