(* ===== verification/Broker_Facts.thy ===== *)
theory Broker_Facts
  imports Broker Policy_Facts
begin

text \<open>
  What the broker lets through: the runs of its middleware as steps of a gate that records before it forwards,
  the granted tools it advertises, and when listing the upstream's tools returns.
\<close>

section \<open>The directory\<close>

lemma read_entries_Inr:
  assumes "read_entries es = Inr docs"
  shows "map fst docs = map de_Name es \<and> list_all (\<lambda>e. de_Regular e = Some True) es"
  using assms by (induction es arbitrary: docs) (auto simp: map_sum_def split: option.splits if_splits sum.splits)

lemma load_policy_dir_ok:
  assumes "load_policy_dir (Some es) = Inr s" and "distinct (map de_Name es)"
  shows "policy_ok s"
proof -
  from assms(1) obtain docs where "read_entries es = Inr docs" and p: "parse_documents docs = Inr s"
    by (auto simp: load_policy_dir_def map_sum_def split: if_splits sum.splits)
  then have "distinct (map fst docs)" using read_entries_Inr assms(2) by metis
  then show ?thesis by (rule parse_documents_ok(1) [OF p])
qed

section \<open>The server\<close>

lemma tools_by_name_Inr:
  assumes "tools_by_name acc ts = Inr out" and "\<forall>(n, t)\<in>set acc. mt_Name t = n" and "distinct (map fst acc)"
  shows "(\<forall>(n, t)\<in>set out. mt_Name t = n) \<and> distinct (map fst out)"
  using assms
proof (induction acc ts rule: tools_by_name.induct)
  case (2 acc t ts)
  from "2.prems"(1) obtain tool where t: "t = Some tool" "mt_Name tool \<noteq> []" "map_of acc (mt_Name tool) = None"
    "tools_by_name (acc @ [(mt_Name tool, tool)]) ts = Inr out"
    by (auto split: option.splits if_splits)
  show ?case using "2.IH" [OF t(1,2) _ t(4)] t(3) "2.prems"(2,3) by (simp add: map_of_eq_None_iff)
qed simp

lemma granted_writes_Inr:
  assumes "granted_writes available gs = Inr ws"
  shows "ws = map (\<lambda>g. (g_Name g, g_Writes g)) gs \<and> (\<forall>g\<in>set gs. map_of available (g_Name g) \<noteq> None)"
  using assms by (induction gs arbitrary: ws) (auto simp: map_sum_def split: if_splits sum.splits)

lemma find_sorted:
  assumes "distinct (map f xs)" and "x \<in> set xs"
  shows "find (\<lambda>y. f y = f x) (sort_key f xs) = Some x"
proof -
  have "inj_on f (set (sort_key f xs))" using assms(1) by (simp add: distinct_map)
  then have "find (\<lambda>y. f y = f x) ys = Some x" if "x \<in> set ys" "set ys \<subseteq> set (sort_key f xs)" for ys
    using that assms(2) by (induction ys) (auto dest: inj_onD)
  then show ?thesis using assms(2) by simp
qed

lemma service_grant_found:
  assumes "policy_ok s" and "service_grant_for s name = Some g"
  obtains svc where "map_of s name = Some svc" and "service_ok svc" and "g = grant_of (name, svc)"
proof -
  from assms(2) have "g \<in> set (grants s)" "sg_Name g = name"
    by (auto simp: service_grant_for_def find_Some_iff in_set_conv_nth)
  then obtain n svc where "(n, svc) \<in> set s" "g = grant_of (n, svc)" "n = name"
    by (auto simp: grants_def grant_of_def Let_def)
  then show thesis using that assms(1) by (auto simp: policy_ok_def list_all_iff)
qed

lemma new_service_server_Inr:
  assumes "policy_ok s" and "new_service_server s name up audit = Some (Inr srv)"
  obtains svc available where "map_of s name = Some svc" and "service_ok svc" and "audit"
    and "map_of (srv_Writes srv) = map_of (tools svc)"
    and "map fst (srv_Writes srv) = map g_Name (sg_Tools (grant_of (name, svc)))"
    and "srv_Tools srv = map (\<lambda>n. the (map_of available n)) (sort (map fst (srv_Writes srv)))"
    and "\<forall>n\<in>set (map fst (srv_Writes srv)). map_of available n \<noteq> None"
    and "\<forall>(n, t)\<in>set available. mt_Name t = n"
proof -
  from assms(2) obtain f grant ts available writes where r: "up = Some f" "audit" "service_grant_for s name = Some grant"
    "list_all_tools f 0 [] [] = Some (Inr ts)" "tools_by_name [] ts = Inr available"
    "granted_writes available (sg_Tools grant) = Inr writes"
    "srv = \<lparr>srv_Tools = map (\<lambda>n. the (map_of available n)) (sort (map fst writes)), srv_Writes = writes\<rparr>"
    by (auto simp: new_service_server_def split: option.splits if_splits sum.splits)
  obtain svc where svc: "map_of s name = Some svc" "service_ok svc" "grant = grant_of (name, svc)"
    by (rule service_grant_found [OF assms(1) r(3)])
  note w = granted_writes_Inr [OF r(6)]
  have "map_of writes = map_of (tools svc)"
    using granted_grant_of [OF svc(2), of name] w by (simp add: granted_service_def svc(3))
  then show thesis
    using that [OF svc(1,2) r(2), of available] r(7) w tools_by_name_Inr [OF r(5)] by (simp add: svc(3) comp_def)
qed

section \<open>The gate\<close>

text \<open>
  What the SDK does with a request that reaches it: it answers by itself, or it runs the handler on the
  parameters of a tool call whose tool is registered.
\<close>

definition sdk_dispatches :: "sdk \<Rightarrow> bool" where
  "sdk_dispatches sdk \<longleftrightarrow> (\<forall>handler names r b. snd (sdk handler names r b) = b \<or>
     (\<exists>c. rq_Method r = ''tools/call'' \<and> rq_Params r = Some c \<and> c_Name c \<in> set names \<and>
       snd (sdk handler names r b) = snd (handler c b)))"

text \<open>One step of the broker: a decision is recorded, and a call follows only the record that allows it.\<close>

inductive gate :: "service_env \<Rightarrow> (string \<Rightarrow> bool option) \<Rightarrow> broker \<Rightarrow> broker \<Rightarrow> bool" for env W where
  gate_record: "gate env W b \<lparr>b_Log = b_Log b @ [Audited a ok], b_Audit = r'\<rparr>"
    if "a_PeerUID a = se_PeerUID env" and "a_Service a = se_Service env"
      and "audit_call (se_Sink env) a (b_Audit b) = (ok, r')"
| gate_forward: "gate env W b \<lparr>b_Log = b_Log b @ [Audited a True, Forwarded c], b_Audit = r'\<rparr>"
    if "a_PeerUID a = se_PeerUID env" and "a_Service a = se_Service env" and "a_Tool a = c_Name c"
      and "W (c_Name c) = Some (a_Writes a)" and "a_Allowed a"
      and "audit_call (se_Sink env) a (b_Audit b) = (True, r')"

lemma forward_tool_log: "snd (forward_tool env c b) = b\<lparr>b_Log := b_Log b @ [Forwarded c]\<rparr>"
  by (simp add: forward_tool_def Let_def split: sum.split option.split)

lemma serve_gate:
  assumes "sdk_dispatches sdk"
  shows "snd (serve sdk env srv r b) = b \<or> gate env (map_of (srv_Writes srv)) b (snd (serve sdk env srv r b))"
proof -
  let ?next = "sdk (forward_tool env) (map mt_Name (srv_Tools srv))"
  let ?W = "map_of (srv_Writes srv)"
  show ?thesis
  proof (cases "rq_Method r = ''tools/call'' \<and> rq_Params r \<noteq> None")
    case False
    then have "snd (serve sdk env srv r b) = b \<or> rq_Method r \<noteq> ''tools/call'' \<and> serve sdk env srv r b = ?next r b"
      by (auto simp: serve_def audit_middleware_def)
    then show ?thesis using assms unfolding sdk_dispatches_def by metis
  next
    case True
    then obtain c where c: "rq_Method r = ''tools/call''" "rq_Params r = Some c" by auto
    define a where "a = \<lparr>a_Time = se_Clock env (b_Log b), a_PeerUID = se_PeerUID env, a_Service = se_Service env,
      a_Tool = c_Name c, a_Writes = (?W (c_Name c) = Some True), a_Allowed = (?W (c_Name c) \<noteq> None)\<rparr>"
    obtain ok r' where rec: "audit_call (se_Sink env) a (b_Audit b) = (ok, r')" by fastforce
    define b1 where "b1 = \<lparr>b_Log = b_Log b @ [Audited a ok], b_Audit = r'\<rparr>"
    have recorded: "gate env ?W b b1" unfolding b1_def by (rule gate_record [OF _ _ rec]) (simp_all add: a_def)
    have b1: "b\<lparr>b_Log := b_Log b @ [Audited a ok], b_Audit := r'\<rparr> = b1" by (simp add: b1_def)
    have step: "serve sdk env srv r b = (if \<not> ok then (Inl AuditFailed, b1)
        else if ?W (c_Name c) = None then (Inl NotGranted, b1) else ?next r b1)"
      unfolding serve_def audit_middleware_def
      by (simp only: c Let_def option.case simp_thms if_False a_def [symmetric] rec prod.case b1 not_not)
    show ?thesis
    proof (cases "ok \<and> ?W (c_Name c) \<noteq> None \<and> snd (?next r b1) \<noteq> b1")
      case False
      then show ?thesis using recorded step by (auto split: if_splits)
    next
      case True
      then obtain c' where "rq_Params r = Some c'" and fwd: "snd (?next r b1) = snd (forward_tool env c' b1)"
        using assms unfolding sdk_dispatches_def by blast
      then have "c' = c" using c(2) by simp
      then have "snd (serve sdk env srv r b) = b1\<lparr>b_Log := b_Log b1 @ [Forwarded c]\<rparr>"
        using True fwd by (simp add: step forward_tool_log)
      moreover have "gate env ?W b \<lparr>b_Log = b_Log b @ [Audited a True, Forwarded c], b_Audit = r'\<rparr>"
        using True rec by (intro gate_forward) (auto simp: a_def)
      ultimately show ?thesis using True by (simp add: b1_def)
    qed
  qed
qed

lemma serve_all_gate:
  assumes "sdk_dispatches sdk" and "serve_all sdk env srv rs b = (xs, b')"
  shows "(gate env (map_of (srv_Writes srv)))\<^sup>*\<^sup>* b b'"
  using assms(2)
proof (induction rs arbitrary: b xs)
  case (Cons r rs)
  obtain x b1 where s: "serve sdk env srv r b = (x, b1)" by fastforce
  then obtain ys where rest: "serve_all sdk env srv rs b1 = (ys, b')"
    using Cons.prems by (auto split: prod.splits)
  have "(gate env (map_of (srv_Writes srv)))\<^sup>*\<^sup>* b b1"
    using serve_gate [OF assms(1), of env srv r b] s by auto
  then show ?case using Cons.IH [OF rest] by simp
qed simp

section \<open>What every run of the gate keeps\<close>

definition decision_of :: "broker_event \<Rightarrow> (audit_record \<times> bool) list" where
  "decision_of e = (case e of Audited a ok \<Rightarrow> [(a, ok)] | Forwarded c \<Rightarrow> [])"

definition decisions :: "broker_event list \<Rightarrow> (audit_record \<times> bool) list" where
  "decisions log = concat (map decision_of log)"

lemma decisions_simps [simp]:
  "decisions [] = []" "decisions (log @ [Audited a ok]) = decisions log @ [(a, ok)]"
  "decisions (log @ [Audited a ok, Forwarded c]) = decisions log @ [(a, ok)]"
  by (simp_all add: decisions_def decision_of_def)

text \<open>A forwarded call and the event just before it.\<close>

definition call_recorded :: "service_env \<Rightarrow> (string \<Rightarrow> bool option) \<Rightarrow> broker_event list \<Rightarrow> bool" where
  "call_recorded env W log \<longleftrightarrow> (\<forall>i c. i < length log \<longrightarrow> log ! i = Forwarded c \<longrightarrow>
     (\<exists>a. 0 < i \<and> log ! (i - 1) = Audited a True \<and> a_Allowed a \<and> a_Tool a = c_Name c \<and>
       a_PeerUID a = se_PeerUID env \<and> a_Service a = se_Service env \<and> W (c_Name c) = Some (a_Writes a)))"

lemma call_recorded_snoc:
  assumes "call_recorded env W log"
  shows "call_recorded env W (log @ [Audited a ok])"
  using assms unfolding call_recorded_def by (auto simp: nth_append less_Suc_eq)

lemma gate_call_recorded:
  assumes "(gate env W)\<^sup>*\<^sup>* b b'" and "b_Log b = []"
  shows "call_recorded env W (b_Log b')"
  using assms(1)
proof induction
  case base
  then show ?case by (simp add: call_recorded_def assms(2))
next
  case (step y z)
  from step.hyps(2) show ?case
  proof cases
    case (gate_record a ok r')
    then show ?thesis using call_recorded_snoc [OF step.IH] by simp
  next
    case (gate_forward a c r')
    then show ?thesis
      using step.IH unfolding call_recorded_def by (auto simp: nth_append less_Suc_eq nth_Cons split: nat.splits)
  qed
qed

interpretation audit_log: decision_log "audit_call env" Contents audit_line "sink_closed env" for env
  unfolding audit_call_def by (rule append_line_log)

lemma record_all_snoc:
  "record_all rec (ds @ [d]) r = (case record_all rec ds r of (oks, r1) \<Rightarrow> case rec d r1 of (ok, r2) \<Rightarrow> (oks @ [ok], r2))"
  by (induction ds arbitrary: r) (auto split: prod.splits)

lemma gate_decisions:
  assumes "(gate env W)\<^sup>*\<^sup>* b b'" and "b_Log b = []"
  shows "record_all (audit_call (se_Sink env)) (map fst (decisions (b_Log b'))) (b_Audit b) =
    (map snd (decisions (b_Log b')), b_Audit b')"
  using assms(1)
proof induction
  case base
  then show ?case by (simp add: assms(2))
next
  case (step y z)
  from step.hyps(2) show ?case by cases (simp_all add: record_all_snoc step.IH)
qed

lemma gate_closed:
  assumes "(gate env W)\<^sup>*\<^sup>* b b'" and "b_Log b = []"
  shows "(\<exists>a. Audited a False \<in> set (b_Log b')) \<longrightarrow> sink_closed (se_Sink env) (b_Audit b')"
    and "\<forall>i j a c. i < j \<longrightarrow> j < length (b_Log b') \<longrightarrow> b_Log b' ! i = Audited a False \<longrightarrow> b_Log b' ! j \<noteq> Forwarded c"
proof -
  have "((\<exists>a. Audited a False \<in> set (b_Log b')) \<longrightarrow> sink_closed (se_Sink env) (b_Audit b')) \<and>
    (\<forall>i j a c. i < j \<longrightarrow> j < length (b_Log b') \<longrightarrow> b_Log b' ! i = Audited a False \<longrightarrow> b_Log b' ! j \<noteq> Forwarded c)"
    using assms(1)
  proof induction
    case base
    then show ?case by (simp add: assms(2))
  next
    case (step y z)
    from step.hyps(2) show ?case
    proof cases
      case (gate_record a ok r')
      have "sink_closed (se_Sink env) r'" if "\<not> ok \<or> sink_closed (se_Sink env) (b_Audit y)"
        using that audit_log.refused [of "se_Sink env" a "b_Audit y" r'] gate_record(4) audit_log.closed [of "se_Sink env" "b_Audit y" a]
        by (cases ok) auto
      then show ?thesis using step.IH gate_record by (auto simp: nth_append less_Suc_eq)
    next
      case (gate_forward a c r')
      then have "\<not> sink_closed (se_Sink env) (b_Audit y)"
        using audit_log.closed [of "se_Sink env" "b_Audit y" a] by auto
      then have "Audited a' False \<notin> set (b_Log y)" for a' using step.IH by blast
      then show ?thesis using gate_forward by (auto simp: nth_append nth_Cons less_Suc_eq in_set_conv_nth split: nat.splits)
    qed
  qed
  then show "(\<exists>a. Audited a False \<in> set (b_Log b')) \<longrightarrow> sink_closed (se_Sink env) (b_Audit b')"
    "\<forall>i j a c. i < j \<longrightarrow> j < length (b_Log b') \<longrightarrow> b_Log b' ! i = Audited a False \<longrightarrow> b_Log b' ! j \<noteq> Forwarded c"
    by blast+
qed

end
