(* ===== verification/Broker_Props.thy ===== *)
theory Broker_Props
  imports Broker_Facts
begin

text \<open>
  The broker from the policy directory to the calls it forwards, the listing of the upstream's tools, and the
  tokens a session uses.
\<close>

section \<open>A demonstration\<close>

text \<open>A policy directory with one document, an upstream of two tools, and an SDK that dispatches by name.\<close>

definition demo_dir :: "dir_entry list" where
  "demo_dir = [\<lparr>de_Name = ''m.json'', de_Regular = Some True, de_Content = Some (print_value 0
     (policy_document [tools_member [tool_json ''a'' False, tool_json ''b'' True]]))\<rparr>]"

definition demo_policy :: policy_set where
  "demo_policy = [(''m'', \<lparr>upstreamEndpoint = ''https://h'', tools = [(''a'', False), (''b'', True)]\<rparr>)]"

definition demo_upstream :: "nat \<Rightarrow> string \<Rightarrow> page" where
  "demo_upstream k cursor = (if k = 0 then Page [Some \<lparr>mt_Name = ''b'', mt_Rest = ''B''\<rparr>, Some \<lparr>mt_Name = ''x'', mt_Rest = []\<rparr>] ''next''
     else if k = 1 then Page [Some \<lparr>mt_Name = ''a'', mt_Rest = ''A''\<rparr>] [] else PageError)"

definition demo_server :: server where
  "demo_server = \<lparr>srv_Tools = [\<lparr>mt_Name = ''a'', mt_Rest = ''A''\<rparr>, \<lparr>mt_Name = ''b'', mt_Rest = ''B''\<rparr>],
     srv_Writes = [(''a'', False), (''b'', True)]\<rparr>"

definition demo_sdk :: sdk where
  "demo_sdk handler names r b = (case rq_Params r of
       Some c \<Rightarrow> if rq_Method r = ''tools/call'' \<and> c_Name c \<in> set names then handler c b else (Inl (SdkError ''unknown tool''), b)
     | None \<Rightarrow> (Inr ''answered'', b))"

definition demo_sink :: sink_env where
  "demo_sink = \<lparr>has_writer = True, sink_writes = (\<lambda>s l. (length l, False)), sink_syncs = (\<lambda>s. s = [])\<rparr>"

definition demo_env :: service_env where
  "demo_env = \<lparr>se_Service = ''m'', se_PeerUID = 1000, se_Clock = (\<lambda>log. ''now''),
     se_Sink = demo_sink\<lparr>sink_syncs := (\<lambda>s. True)\<rparr>, se_Call = (\<lambda>log c. Inr (Some ''done''))\<rparr>"

definition demo_call :: "string \<Rightarrow> mcp_request" where
  "demo_call n = \<lparr>rq_Method = ''tools/call'', rq_Params = Some \<lparr>c_Name = n, c_Arguments = ''{}'', c_Meta = [],
     c_InputResponses = [], c_RequestState = []\<rparr>, rq_Body = []\<rparr>"

definition fresh_broker :: "string \<Rightarrow> broker" where
  "fresh_broker held = \<lparr>b_Log = [], b_Audit = \<lparr>Contents = held, Failed = False\<rparr>\<rparr>"

lemma demo_sdk_dispatches: "sdk_dispatches demo_sdk"
  by (auto simp: sdk_dispatches_def demo_sdk_def split: option.splits)

lemma demo_load: "load_policy_dir (Some demo_dir) = Inr demo_policy"
proof -
  have "length (print_value 0 (policy_document [tools_member [tool_json ''a'' False, tool_json ''b'' True]])) \<le> 1000"
    by code_simp
  then show ?thesis
    using demo_parse
    by (simp add: load_policy_dir_def demo_dir_def maxServices_def maxDocumentBytes_def parse_documents_def
        policyFileExt_def has_suffix_def trim_suffix_def demo_policy_def)
qed

lemma demo_listing: "list_all_tools demo_upstream 0 [] [] = Some (Inr
    [Some \<lparr>mt_Name = ''b'', mt_Rest = ''B''\<rparr>, Some \<lparr>mt_Name = ''x'', mt_Rest = []\<rparr>, Some \<lparr>mt_Name = ''a'', mt_Rest = ''A''\<rparr>])"
  by (simp add: demo_upstream_def list_all_tools.simps [of _ 0] list_all_tools.simps [of _ "Suc 0"])

lemma demo_new_server: "new_service_server demo_policy ''m'' (Some demo_upstream) True = Some (Inr demo_server)"
  by (simp add: new_service_server_def demo_service_name service_grant_for_def grants_def grant_of_def demo_policy_def
      demo_listing demo_server_def Let_def less_char_def)

text \<open>C32: A server that is built advertises exactly the tools its policy grants, each once and in the order of their
  names, whatever else the upstream offers and however it pages them.\<close>

theorem advertised_is_granted:
  assumes "policy_ok s" and "new_service_server s name up audit = Some (Inr srv)"
  shows "\<exists>e m. effective s name = Some (e, m) \<and> set (map mt_Name (srv_Tools srv)) = dom m \<and>
    sorted (map mt_Name (srv_Tools srv)) \<and> distinct (map mt_Name (srv_Tools srv))"
proof -
  obtain svc available where r: "map_of s name = Some svc" "service_ok svc"
    "map_of (srv_Writes srv) = map_of (tools svc)"
    "map fst (srv_Writes srv) = map g_Name (sg_Tools (grant_of (name, svc)))"
    "srv_Tools srv = map (\<lambda>n. the (map_of available n)) (sort (map fst (srv_Writes srv)))"
    "\<forall>n\<in>set (map fst (srv_Writes srv)). map_of available n \<noteq> None" "\<forall>(n, t)\<in>set available. mt_Name t = n"
    by (rule new_service_server_Inr [OF assms])
  have own: "mt_Name (the (map_of available n)) = n" if "n \<in> set (map fst (srv_Writes srv))" for n
  proof -
    obtain t where "map_of available n = Some t" using r(6) \<open>n \<in> _\<close> by auto
    then show ?thesis using r(7) by (auto dest: map_of_SomeD)
  qed
  have names: "map mt_Name (srv_Tools srv) = sort (map fst (srv_Writes srv))"
    unfolding r(5) map_map by (rule map_idI) (simp add: own del: set_map)
  have "distinct (map g_Name (tool_grants (tools svc)))"
    using r(2) unfolding tool_grants_names by (simp add: service_ok_def)
  then have "distinct (map fst (srv_Writes srv))"
    unfolding r(4) by (simp add: grant_of_def Let_def distinct_map flip: tool_grants_def)
  then show ?thesis
    using r(1,3) unfolding names by (simp add: effective_def dom_map_of_conv_image_fst flip: r(3))
qed

theorem advertised_is_granted_witness:
  "map mt_Name (srv_Tools demo_server) = [''a'', ''b''] \<and>
   (\<exists>e m. effective demo_policy ''m'' = Some (e, m) \<and> set (map mt_Name (srv_Tools demo_server)) = dom m)"
proof -
  have "distinct (map de_Name demo_dir)" by (simp add: demo_dir_def)
  then show ?thesis
    using advertised_is_granted [OF load_policy_dir_ok [OF demo_load] demo_new_server] by (auto simp: demo_server_def)
qed

section \<open>Calls\<close>

text \<open>C29: From the policy directory to the upstream: the broker forwards a call only when the policy it loaded grants
  that tool for that service, and only directly after it recorded, durably and with the write classification the
  policy gives and the uid of the peer, that it allows it. This holds for every sequence of requests, however the
  upstream answers and whatever the audit file does.\<close>

theorem forwarded_call_is_granted_and_recorded:
  assumes "sdk_dispatches sdk"
    and "load_policy_dir (Some dir) = Inr s" and "distinct (map de_Name dir)"
    and "new_service_server s name up audit = Some (Inr srv)"
    and "serve_all sdk env srv rs (fresh_broker held) = (xs, b)"
    and "i < length (b_Log b)" and "b_Log b ! i = Forwarded c"
  shows "\<exists>a e m. effective s name = Some (e, m) \<and> m (c_Name c) = Some (a_Writes a) \<and> 0 < i \<and>
    b_Log b ! (i - 1) = Audited a True \<and> a_Allowed a \<and> a_Tool a = c_Name c \<and>
    a_PeerUID a = se_PeerUID env \<and> a_Service a = se_Service env"
proof -
  have ok: "policy_ok s" by (rule load_policy_dir_ok [OF assms(2,3)])
  obtain svc available where svc: "map_of s name = Some svc" "map_of (srv_Writes srv) = map_of (tools svc)"
    by (rule new_service_server_Inr [OF ok assms(4)])
  have "call_recorded env (map_of (srv_Writes srv)) (b_Log b)"
    by (rule gate_call_recorded [OF serve_all_gate [OF assms(1,5)]]) (simp add: fresh_broker_def)
  then obtain a where "0 < i" "b_Log b ! (i - 1) = Audited a True" "a_Allowed a" "a_Tool a = c_Name c"
    "a_PeerUID a = se_PeerUID env" "a_Service a = se_Service env" "map_of (tools svc) (c_Name c) = Some (a_Writes a)"
    using assms(6,7) unfolding call_recorded_def svc(2) by blast
  then show ?thesis
    using svc(1) by (intro exI [of _ a] exI [of _ "upstreamEndpoint svc"] exI [of _ "map_of (tools svc)"]) (simp add: effective_def)
qed

lemmas demo_serve = serve_def audit_middleware_def demo_server_def demo_sdk_def forward_tool_def demo_call_def
  audit_call_def append_line_def Let_def fresh_broker_def

theorem forwarded_call_is_granted_and_recorded_witness:
  "\<exists>xs b a c. serve_all demo_sdk demo_env demo_server [demo_call ''x'', demo_call ''b''] (fresh_broker []) = (xs, b) \<and>
     length (b_Log b) = 3 \<and> b_Log b ! 2 = Forwarded c \<and> b_Log b ! 1 = Audited a True \<and> a_Tool a = ''b'' \<and> a_Writes a"
proof -
  obtain xs b where run: "serve_all demo_sdk demo_env demo_server [demo_call ''x'', demo_call ''b''] (fresh_broker []) = (xs, b)"
    by fastforce
  then have log: "length (b_Log b) = 3" "b_Log b ! 2 = Forwarded \<lparr>c_Name = ''b'', c_Arguments = ''{}'', c_Meta = [],
      c_InputResponses = [], c_RequestState = []\<rparr>"
    by (auto simp: demo_serve demo_env_def demo_sink_def)
  have "distinct (map de_Name demo_dir)" by (simp add: demo_dir_def)
  from forwarded_call_is_granted_and_recorded [OF demo_sdk_dispatches demo_load this demo_new_server run, of 2]
  show ?thesis using run log by (fastforce simp: effective_def demo_policy_def)
qed



section \<open>Listing the upstream's tools\<close>

text \<open>The cursor of the \<open>k\<close>-th call, and whether the listing ends there.\<close>

fun cursor_at :: "(nat \<Rightarrow> string \<Rightarrow> page) \<Rightarrow> nat \<Rightarrow> string" where
  "cursor_at up 0 = []"
| "cursor_at up (Suc k) = (case up k (cursor_at up k) of Page ts next \<Rightarrow> next | _ \<Rightarrow> [])"

definition listing_ends :: "(nat \<Rightarrow> string \<Rightarrow> page) \<Rightarrow> nat \<Rightarrow> bool" where
  "listing_ends up k \<longleftrightarrow> (case up k (cursor_at up k) of Page ts next \<Rightarrow> next = [] \<or> next = cursor_at up k | _ \<Rightarrow> True)"

lemma listing_returns_at: "listing_ends up (n + k) \<Longrightarrow> list_all_tools up k (cursor_at up k) acc \<noteq> None"
proof (induction n arbitrary: k acc)
  case 0
  then show ?case by (subst list_all_tools.simps) (auto simp: listing_ends_def split: page.splits)
next
  case (Suc n)
  have "list_all_tools up (Suc k) (cursor_at up (Suc k)) acc' \<noteq> None" for acc'
    using Suc.IH [of "Suc k" acc'] Suc.prems by (simp del: cursor_at.simps)
  then show ?case by (subst list_all_tools.simps) (auto split: page.splits)
qed

lemma listing_returned_ends:
  "list_all_tools up k c acc = Some r \<Longrightarrow> c = cursor_at up k \<Longrightarrow> \<exists>n. listing_ends up n"
proof (induction rule: list_all_tools.raw_induct [rotated, consumes 1, case_names step])
  case (step rec up k c acc r)
  show ?case
  proof (cases "listing_ends up k")
    case False
    then obtain ts next' where p: "up k c = Page ts next'" "next' \<noteq> []" "next' \<noteq> c"
      using step.prems(1) by (auto simp: listing_ends_def split: page.splits)
    then have "rec up (Suc k) next' (acc @ ts) = Some r" "next' = cursor_at up (Suc k)"
      using step by simp_all
    then show ?thesis using step.IH by blast
  qed blast
qed

text \<open>C33: Listing the upstream's tools returns exactly when some call of it fails, answers nothing, carries no next
  cursor or repeats the cursor it was asked with.\<close>

theorem listing_returns_iff: "(\<exists>r. list_all_tools up 0 [] [] = Some r) \<longleftrightarrow> (\<exists>k. listing_ends up k)"
  using listing_returns_at [of up _ 0 "[]"] listing_returned_ends [of up 0 "[]" "[]"] by fastforce

text \<open>So a deadline ends it, and an upstream that alternates two cursors does not: only an immediate repetition is
  noticed.\<close>

lemma deadline_ends_listing:
  assumes "\<And>c. up k c = PageError"
  shows "\<exists>r. list_all_tools up 0 [] [] = Some r"
proof -
  have "listing_ends up k" by (simp add: listing_ends_def assms)
  then show ?thesis using listing_returns_at [of up k 0 "[]"] by auto
qed

lemma alternating_cursors_never_end:
  "list_all_tools (\<lambda>k c. Page [] (if c = ''a'' then ''b'' else ''a'')) 0 [] [] = None"
proof -
  have "\<not> listing_ends (\<lambda>k c. Page [] (if c = ''a'' then ''b'' else ''a'')) k" for k
    by (simp add: listing_ends_def)
  then show ?thesis using listing_returned_ends [of _ 0 "[]" "[]"] by fastforce
qed

section \<open>Tokens\<close>

lemma same_token_eq: "same_token a b \<longleftrightarrow> a = Some b"
  by (cases a) (auto simp: same_token_def)

definition current_is_stored :: "token_state \<Rightarrow> bool" where
  "current_is_stored s \<longleftrightarrow> (\<forall>t. ts_Current s = Some t \<longrightarrow> t \<in> set (ts_Stored s))"

lemma next_token_stored:
  assumes "current_is_stored s" and "next_token complete answer outcome s = (r, s')"
  shows "current_is_stored s' \<and> (\<forall>t. r = Inr t \<longrightarrow> t \<in> set (ts_Stored s'))"
  using assms by (auto simp: next_token_def current_is_stored_def save_token_def same_token_eq Let_def
      split: if_splits token_answer.splits)

text \<open>C34: However often a token is asked for, however the refreshes answer and whatever the session file does, a token
  that is handed out was written to the session file before.\<close>

theorem token_served_was_stored:
  assumes "current_is_stored s" and "tokens_served xs s = (rs, s')" and "(Inr t, stored) \<in> set rs"
  shows "t \<in> set stored"
  using assms
proof (induction xs s arbitrary: rs rule: tokens_served.induct)
  case (2 complete answer outcome xs s)
  obtain r s1 where n: "next_token complete answer outcome s = (r, s1)" by fastforce
  obtain rs2 s2 where rest: "tokens_served xs s1 = (rs2, s2)" by fastforce
  note kept = next_token_stored [OF "2.prems"(1) n]
  from "2.prems"(2,3) consider "r = Inr t" "stored = ts_Stored s1" | "(Inr t, stored) \<in> set rs2"
    by (auto simp: n rest)
  then show ?case
  proof cases
    case 2
    moreover have "s2 = s'" using "2.prems"(2) by (simp add: n rest)
    ultimately show ?thesis using "2.IH" [OF n [symmetric]] kept rest by blast
  qed (use kept in blast)
qed simp

definition demo_token :: token where
  "demo_token = \<lparr>AccessToken = ''t'', TokenType = [], RefreshToken = [], Expiry = 0\<rparr>"

theorem token_served_was_stored_witness:
  "demo_token \<in> set (snd (fst (tokens_served [(True, TokenIs demo_token, NotSaved), (True, TokenIs demo_token, Saved)]
     \<lparr>ts_Current = None, ts_Stored = []\<rparr>) ! 1))"
proof -
  let ?s = "\<lparr>ts_Current = None, ts_Stored = []\<rparr>"
  have run: "tokens_served [(True, TokenIs demo_token, NotSaved), (True, TokenIs demo_token, Saved)] ?s =
    ([(Inl NotPersisted, []), (Inr demo_token, [demo_token])], \<lparr>ts_Current = Some demo_token, ts_Stored = [demo_token]\<rparr>)"
    by (simp add: next_token_def same_token_def save_token_def)
  have "current_is_stored ?s" by (simp add: current_is_stored_def)
  then have "demo_token \<in> set [demo_token]" by (rule token_served_was_stored [OF _ run]) simp
  then show ?thesis unfolding run by simp
qed

end
