(* ===== verification/Host_Transfer.thy ===== *)
theory Host_Transfer
  imports Projects Digests
begin

text \<open>
  The host side of \<open>torio brain import\<close>, \<open>internal/transfer/transfer.go\<close>: the filter over a local tree, the
  manifest of what survives it and the checksum file the guest verifies. The tree is what the walk finds; opening
  an entry is a step of its own that may find something else, so the \<open>k\<close>-th open of a path is a function of \<open>k\<close>.
\<close>

section \<open>Names\<close>

datatype skip_reason = SkipExcluded | SkipUnsupportedType | SkipSymlink | SkipHardlink | SkipSpecialFile
  | SkipExecutable | SkipUnsafePath | SkipInvalidCanvas

definition markdownExt :: string where "markdownExt = ''.md''"
definition canvasExt :: string where "canvasExt = ''.canvas''"

definition attachmentExts :: "string list" where
  "attachmentExts = [''.png'', ''.jpg'', ''.jpeg'', ''.gif'', ''.webp'', ''.svg'', ''.pdf'']"

definition maxCanvasBytes :: nat where "maxCanvasBytes = 8388608"

definition excludedDirs :: "string list" where
  "excludedDirs = [''.git'', ''.obsidian'', ''.ssh'', ''.aws'']"

definition excludedExactNames :: "string list" where
  "excludedExactNames = [''.env'', ''id_rsa'', ''id_ed25519'', ''credentials'', ''credentials.json'']"

definition excludedPrefixes :: "string list" where
  "excludedPrefixes = [''.env.'', ''id_rsa'', ''id_ed25519'', ''credentials'']"

definition excludedSuffixes :: "string list" where
  "excludedSuffixes = [''.pem'', ''.key'', ''.credentials.json'']"

text \<open>
  \<open>strings.ToLower\<close> as far as a comparison with an ASCII text can tell: besides the ASCII capitals, the dotted
  capital I and the Kelvin sign are the runes with an ASCII lower case.
\<close>

definition lower_name :: "string \<Rightarrow> string" where
  "lower_name s = concat (map (\<lambda>(r, bs). if r = 0x130 then ''i'' else if r = 0x212A then ''k'' else to_lower bs) (rune_spans s))"

definition path_ext :: "string \<Rightarrow> string" where
  "path_ext p = (let base = (case last_index_of CHR ''/'' p of None \<Rightarrow> p | Some i \<Rightarrow> drop (Suc i) p) in
     case last_index_of CHR ''.'' base of None \<Rightarrow> [] | Some i \<Rightarrow> drop i base)"

datatype rel_err = RelEmpty | RelAbsolute | RelNotUTF8 | RelByte | RelNotCanonical | RelAboveRoot

definition check_rel_path :: "string \<Rightarrow> rel_err option" where
  "check_rel_path rel =
     (if rel = [] then Some RelEmpty
      else if has_prefix rel ''/'' then Some RelAbsolute
      else if \<not> valid_utf8 rel then Some RelNotUTF8
      else if contains_any rel [newline, CHR 0x0D, CHR 0x5C, CHR 0x00] then Some RelByte
      else if path_clean rel \<noteq> rel \<or> rel = ''.'' then Some RelNotCanonical
      else if list_ex (\<lambda>seg. seg = ''..'') (split_on CHR ''/'' rel) then Some RelAboveRoot
      else None)"

definition excluded_rel :: "string \<Rightarrow> bool" where
  "excluded_rel rel \<longleftrightarrow> list_ex (\<lambda>seg. seg \<in> set excludedDirs) (split_on CHR ''/'' rel) \<or>
     (let base = lower_name (path_base rel) in
       base \<in> set excludedExactNames \<or> list_ex (has_prefix base) excludedPrefixes \<or> list_ex (has_suffix base) excludedSuffixes)"

section \<open>Entries\<close>

datatype entry_type = TypeRegular | TypeSymlink | TypeSpecial

text \<open>An entry of the walk. \<open>lf_Info\<close> is \<open>None\<close> when it cannot be inspected, else whether it has several links
  (or a count that cannot be read) and its permission bits.\<close>

record leaf =
  lf_Type :: entry_type
  lf_Info :: "(bool \<times> nat) option"

datatype tree = Leaf leaf | Dir "(string \<times> tree) list option" \<comment> \<open>\<open>None\<close> when it cannot be listed\<close>

definition any_execute :: "nat \<Rightarrow> bool" where
  "any_execute perm \<longleftrightarrow> odd (perm div 64) \<or> odd (perm div 8) \<or> odd perm"

definition reject_entry :: "string \<Rightarrow> leaf \<Rightarrow> skip_reason option" where
  "reject_entry rel d =
     (if check_rel_path rel \<noteq> None then Some SkipUnsafePath
      else if excluded_rel rel then Some SkipExcluded
      else if lf_Type d = TypeSymlink then Some SkipSymlink
      else if lf_Type d \<noteq> TypeRegular then Some SkipSpecialFile
      else (case lf_Info d of
          None \<Rightarrow> Some SkipSpecialFile
        | Some (hard, perm) \<Rightarrow>
            (if hard then Some SkipHardlink else if any_execute perm then Some SkipExecutable else None)))"

text \<open>What \<open>openRegularNoFollow\<close> opened, \<open>None\<close> for its error; \<open>op_Content\<close> is \<open>None\<close> when reading fails.\<close>

record opened =
  op_HardLinked :: bool
  op_Size :: nat
  op_Content :: "string option"

record transfer_host =
  th_SourceOK :: bool
  th_Source :: string
  th_Staging :: "string option" \<comment> \<open>\<open>None\<close> for a dry run\<close>
  th_StagingOK :: bool
  th_Root :: "(string \<times> tree) list option"
  th_Open :: "nat \<Rightarrow> string \<Rightarrow> opened option"
  th_Stage :: "nat \<Rightarrow> string \<Rightarrow> bool"
  th_Sync :: bool

record entry =
  Path :: string
  Size :: nat
  Sha256 :: string

record collected =
  co_Entries :: "entry list"
  co_Markdown :: nat
  co_Attachments :: nat
  co_Skipped :: "skip_reason \<Rightarrow> nat"
  co_Opens :: nat
  co_Staged :: "(string \<times> string) list"

definition no_collected :: collected where
  "no_collected = \<lparr>co_Entries = [], co_Markdown = 0, co_Attachments = 0, co_Skipped = (\<lambda>_. 0), co_Opens = 0, co_Staged = []\<rparr>"

definition skip :: "skip_reason \<Rightarrow> collected \<Rightarrow> collected" where
  "skip r c = c\<lparr>co_Skipped := (co_Skipped c)(r := co_Skipped c r + 1)\<rparr>"

text \<open>The struct \<open>validCanvas\<close> decodes into: whether each of the two lists is there.\<close>

definition canvas_member :: "string \<Rightarrow> json \<Rightarrow> bool \<times> bool \<Rightarrow> (bool \<times> bool) option" where
  "canvas_member k v b =
     (let there = (case v of JArr _ \<Rightarrow> Some True | JNull \<Rightarrow> Some False | _ \<Rightarrow> None) in
      if names_field k ''nodes'' then map_option (\<lambda>x. (x, snd b)) there
      else if names_field k ''edges'' then map_option (\<lambda>x. (fst b, x)) there
      else Some b)"

definition canvas_payload_ok :: "string \<Rightarrow> bool" where
  "canvas_payload_ok payload = (case json_document payload of
       None \<Rightarrow> False
     | Some j \<Rightarrow> into_struct canvas_member j (False, False) = Some (True, True))"

definition valid_canvas :: "transfer_host \<Rightarrow> string \<Rightarrow> collected \<Rightarrow> (bool \<times> collected) option" where
  "valid_canvas h rel c = (let c' = c\<lparr>co_Opens := Suc (co_Opens c)\<rparr> in
     case th_Open h (co_Opens c) rel of
       None \<Rightarrow> None
     | Some f \<Rightarrow>
         (if op_Size f > maxCanvasBytes then Some (False, c')
          else (case op_Content f of
              None \<Rightarrow> None
            | Some s \<Rightarrow> Some (canvas_payload_ok (take (maxCanvasBytes + 1) s), c'))))"

definition stage_file :: "transfer_host \<Rightarrow> string \<Rightarrow> collected \<Rightarrow> collected option" where
  "stage_file h rel c = (case th_Open h (co_Opens c) rel of
       None \<Rightarrow> None
     | Some f \<Rightarrow>
         (if op_HardLinked f then None
          else if th_Staging h \<noteq> None \<and> rel \<in> fst ` set (co_Staged c) then None
          else if th_Staging h \<noteq> None \<and> \<not> th_Stage h (co_Opens c) rel then None
          else (case op_Content f of
              None \<Rightarrow> None
            | Some s \<Rightarrow> Some (c\<lparr>co_Entries := co_Entries c @ [\<lparr>Path = rel, Size = length s, Sha256 = sha256_hex s\<rparr>],
                co_Opens := Suc (co_Opens c),
                co_Staged := co_Staged c @ (if th_Staging h = None then [] else [(rel, s)])\<rparr>))))"

definition count_markdown :: "collected \<Rightarrow> collected" where
  "count_markdown c = c\<lparr>co_Markdown := co_Markdown c + 1\<rparr>"

definition count_attachment :: "collected \<Rightarrow> collected" where
  "count_attachment c = c\<lparr>co_Attachments := co_Attachments c + 1\<rparr>"

definition visit_leaf :: "transfer_host \<Rightarrow> string \<Rightarrow> leaf \<Rightarrow> collected \<Rightarrow> collected option" where
  "visit_leaf h rel d c = (case reject_entry rel d of
       Some reason \<Rightarrow> Some (skip reason c)
     | None \<Rightarrow> (let ext = lower_name (path_ext rel) in
         if ext = markdownExt then stage_file h rel (count_markdown c)
         else if ext \<in> set attachmentExts then stage_file h rel (count_attachment c)
         else if ext = canvasExt then
           (case valid_canvas h rel c of
              None \<Rightarrow> None
            | Some (ok, c') \<Rightarrow>
                if \<not> ok then Some (skip SkipInvalidCanvas c') else stage_file h rel (count_attachment c'))
         else Some (skip SkipUnsupportedType c)))"

text \<open>\<open>relPath\<close>: the path below the root.\<close>

definition rel_join :: "string \<Rightarrow> string \<Rightarrow> string" where
  "rel_join rel name = (if rel = [] then name else rel @ ''/'' @ name)"

fun walk_tree :: "transfer_host \<Rightarrow> string \<Rightarrow> tree \<Rightarrow> collected \<Rightarrow> collected option"
  and walk_trees :: "transfer_host \<Rightarrow> string \<Rightarrow> (string \<times> tree) list \<Rightarrow> collected \<Rightarrow> collected option" where
  "walk_tree h rel (Leaf d) c = visit_leaf h rel d c"
| "walk_tree h rel (Dir es) c =
     (if path_base rel \<in> set excludedDirs then Some (skip SkipExcluded c)
      else (case es of None \<Rightarrow> None | Some ts \<Rightarrow> walk_trees h rel ts c))"
| "walk_trees h rel [] c = Some c"
| "walk_trees h rel ((name, t) # ts) c =
     (case walk_tree h (rel_join rel name) t c of None \<Rightarrow> None | Some c' \<Rightarrow> walk_trees h rel ts c')"

datatype transfer_err = SourceNotDirectory | StagingNotPrivate | SameDirectory | TreeNotStaged | StagingNotDurable
  | ChecksumPrefix | ManifestUnsafePath | ManifestDigest

definition collect :: "transfer_host \<Rightarrow> transfer_err + collected" where
  "collect h =
     (if \<not> th_SourceOK h then Inl SourceNotDirectory
      else if th_Staging h \<noteq> None \<and> \<not> th_StagingOK h then Inl StagingNotPrivate
      else if (case th_Staging h of None \<Rightarrow> False | Some dst \<Rightarrow> path_clean (th_Source h) = path_clean dst) then Inl SameDirectory
      else (case (case th_Root h of None \<Rightarrow> None | Some ts \<Rightarrow> walk_trees h [] ts no_collected) of
          None \<Rightarrow> Inl TreeNotStaged
        | Some c \<Rightarrow>
            (if th_Staging h \<noteq> None \<and> \<not> th_Sync h then Inl StagingNotDurable
             else Inr (c\<lparr>co_Entries := sort_key Path (co_Entries c)\<rparr>))))"

section \<open>The manifest\<close>

definition manifest_bytes :: "entry list \<Rightarrow> nat" where
  "manifest_bytes es = sum_list (map Size es)"

definition digest_line :: "entry \<Rightarrow> string" where
  "digest_line e = Sha256 e @ ''  '' @ Path e @ [newline]"

definition manifest_digest :: "entry list \<Rightarrow> string" where
  "manifest_digest es = sha256_hex (concat (map digest_line (sort_key Path es)))"

fun checksum_lines :: "string \<Rightarrow> entry list \<Rightarrow> transfer_err + string" where
  "checksum_lines guest_prefix [] = Inr []"
| "checksum_lines guest_prefix (e # es) =
     (if check_rel_path (Path e) \<noteq> None then Inl ManifestUnsafePath
      else if length (Sha256 e) \<noteq> 64 then Inl ManifestDigest
      else map_sum id (\<lambda>t. Sha256 e @ ''  '' @ guest_prefix @ ''/'' @ Path e @ [newline] @ t) (checksum_lines guest_prefix es))"

definition checksum_file :: "string \<Rightarrow> entry list \<Rightarrow> transfer_err + string" where
  "checksum_file guest_prefix es =
     (if \<not> has_prefix guest_prefix ''/'' \<or> path_clean guest_prefix \<noteq> guest_prefix \<or>
         contains_any guest_prefix [CHR 0x00, newline, CHR 0x0D, CHR 0x5C] then Inl ChecksumPrefix
      else checksum_lines guest_prefix es)"

end
