(* ===== verification/Host_Transfer_Facts.thy ===== *)
theory Host_Transfer_Facts
  imports Host_Transfer Path_Facts Json_Facts
begin

text \<open>
  What a host transfer promises: only notes and attachments with safe names are staged, every staged byte is the
  byte that was hashed, every entry of the tree is accounted for, and the checksum file says the manifest and
  nothing else.
\<close>

section \<open>The walk\<close>

fun tree_leaves :: "string \<Rightarrow> tree \<Rightarrow> (string \<times> leaf) list" and trees_leaves :: "string \<Rightarrow> (string \<times> tree) list \<Rightarrow> (string \<times> leaf) list" where
  "tree_leaves rel (Leaf d) = [(rel, d)]"
| "tree_leaves rel (Dir es) = (if path_base rel \<in> set excludedDirs then []
     else (case es of None \<Rightarrow> [] | Some ts \<Rightarrow> trees_leaves rel ts))"
| "trees_leaves rel [] = []"
| "trees_leaves rel ((name, t) # ts) = tree_leaves (rel_join rel name) t @ trees_leaves rel ts"

text \<open>How many decisions a walk makes: one per leaf and one per excluded directory.\<close>

fun tree_decisions :: "string \<Rightarrow> tree \<Rightarrow> nat" and trees_decisions :: "string \<Rightarrow> (string \<times> tree) list \<Rightarrow> nat" where
  "tree_decisions rel (Leaf d) = 1"
| "tree_decisions rel (Dir es) = (if path_base rel \<in> set excludedDirs then 1
     else (case es of None \<Rightarrow> 0 | Some ts \<Rightarrow> trees_decisions rel ts))"
| "trees_decisions rel [] = 0"
| "trees_decisions rel ((name, t) # ts) = tree_decisions (rel_join rel name) t + trees_decisions rel ts"

definition all_reasons :: "skip_reason list" where
  "all_reasons = [SkipExcluded, SkipUnsupportedType, SkipSymlink, SkipHardlink, SkipSpecialFile, SkipExecutable,
     SkipUnsafePath, SkipInvalidCanvas]"

definition decided :: "collected \<Rightarrow> nat" where
  "decided c = length (co_Entries c) + sum_list (map (co_Skipped c) all_reasons)"

lemma decided_skip: "decided (skip r c) = Suc (decided c)"
  by (cases r) (simp_all add: decided_def skip_def all_reasons_def)

definition note_ext :: "string \<Rightarrow> bool" where
  "note_ext rel \<longleftrightarrow> lower_name (path_ext rel) \<in> set (markdownExt # canvasExt # attachmentExts)"

text \<open>What is known of an entry of the manifest.\<close>

definition admitted :: "transfer_host \<Rightarrow> (string \<times> leaf) set \<Rightarrow> entry \<Rightarrow> bool" where
  "admitted h L e \<longleftrightarrow> note_ext (Path e) \<and> (\<exists>d. (Path e, d) \<in> L \<and> reject_entry (Path e) d = None) \<and>
     (\<exists>k f s. th_Open h k (Path e) = Some f \<and> \<not> op_HardLinked f \<and> op_Content f = Some s \<and>
        Size e = length s \<and> Sha256 e = sha256_hex s)"

definition staged_entry :: "string \<times> string \<Rightarrow> string \<times> string" where
  "staged_entry rs = (fst rs, sha256_hex (snd rs))"

definition walk_ok :: "transfer_host \<Rightarrow> (string \<times> leaf) set \<Rightarrow> collected \<Rightarrow> bool" where
  "walk_ok h L c \<longleftrightarrow> list_all (admitted h L) (co_Entries c) \<and> length (co_Entries c) = co_Markdown c + co_Attachments c \<and>
     (th_Staging h \<noteq> None \<longrightarrow> map staged_entry (co_Staged c) = map (\<lambda>e. (Path e, Sha256 e)) (co_Entries c)) \<and>
     (th_Staging h = None \<longrightarrow> co_Staged c = [])"

lemma walk_ok_skip: "walk_ok h L c \<Longrightarrow> walk_ok h L (skip r c)"
  by (simp add: walk_ok_def skip_def)

lemma stage_file_Some:
  assumes "stage_file h rel c = Some c'"
  obtains f s where "th_Open h (co_Opens c) rel = Some f" and "\<not> op_HardLinked f" and "op_Content f = Some s"
    and "co_Entries c' = co_Entries c @ [\<lparr>Path = rel, Size = length s, Sha256 = sha256_hex s\<rparr>]"
    and "co_Staged c' = co_Staged c @ (if th_Staging h = None then [] else [(rel, s)])"
    and "co_Markdown c' = co_Markdown c" and "co_Attachments c' = co_Attachments c" and "co_Skipped c' = co_Skipped c"
  using assms by (auto simp: stage_file_def split: option.splits if_splits)

lemma visit_leaf_ok:
  assumes "visit_leaf h rel d c = Some c'" and "walk_ok h L c" and "(rel, d) \<in> L"
  shows "walk_ok h L c' \<and> decided c' = Suc (decided c)"
proof -
  have staged: "walk_ok h L c' \<and> decided c' = Suc (decided c)"
    if s: "stage_file h rel c1 = Some c'" and "reject_entry rel d = None" and "note_ext rel"
      and c1: "co_Entries c1 = co_Entries c" "co_Staged c1 = co_Staged c" "co_Skipped c1 = co_Skipped c"
        "co_Markdown c1 + co_Attachments c1 = Suc (co_Markdown c + co_Attachments c)" for c1
  proof (rule stage_file_Some [OF s])
    fix f s assume r: "th_Open h (co_Opens c1) rel = Some f" "\<not> op_HardLinked f" "op_Content f = Some s"
      "co_Entries c' = co_Entries c1 @ [\<lparr>Path = rel, Size = length s, Sha256 = sha256_hex s\<rparr>]"
      "co_Staged c' = co_Staged c1 @ (if th_Staging h = None then [] else [(rel, s)])"
      "co_Markdown c' = co_Markdown c1" "co_Attachments c' = co_Attachments c1" "co_Skipped c' = co_Skipped c1"
    have "admitted h L \<lparr>Path = rel, Size = length s, Sha256 = sha256_hex s\<rparr>"
      using r(1,2,3) that(2,3) assms(3) unfolding admitted_def by auto
    then show ?thesis using assms(2) r c1 by (auto simp: walk_ok_def decided_def staged_entry_def)
  qed
  show ?thesis
  proof (cases "reject_entry rel d")
    case (Some r)
    then show ?thesis using assms by (auto simp: visit_leaf_def walk_ok_skip decided_skip)
  next
    case None
    let ?ext = "lower_name (path_ext rel)"
    consider "?ext = markdownExt" | "?ext \<noteq> markdownExt" "?ext \<in> set attachmentExts"
      | "?ext \<noteq> markdownExt" "?ext \<notin> set attachmentExts" "?ext = canvasExt"
      | "?ext \<noteq> markdownExt" "?ext \<notin> set attachmentExts" "?ext \<noteq> canvasExt"
      by blast
    then show ?thesis
    proof cases
      case 1
      then have "stage_file h rel (count_markdown c) = Some c'" using assms(1) None by (simp add: visit_leaf_def)
      then show ?thesis using None by (rule staged) (simp_all add: note_ext_def 1 count_markdown_def)
    next
      case 2
      then have "stage_file h rel (count_attachment c) = Some c'" using assms(1) None by (simp add: visit_leaf_def)
      then show ?thesis using None by (rule staged) (use 2 in \<open>simp_all add: note_ext_def count_attachment_def\<close>)
    next
      case 3
      then obtain ok c1 where v: "valid_canvas h rel c = Some (ok, c1)"
        "(if \<not> ok then Some (skip SkipInvalidCanvas c1) else stage_file h rel (count_attachment c1)) = Some c'"
        using assms(1) None by (auto simp: visit_leaf_def split: option.splits)
      have c1: "c1 = c\<lparr>co_Opens := Suc (co_Opens c)\<rparr>"
        using v(1) by (auto simp: valid_canvas_def Let_def split: option.splits if_splits)
      show ?thesis
      proof (cases ok)
        case True
        then have "stage_file h rel (count_attachment c1) = Some c'" using v(2) by simp
        then show ?thesis using None by (rule staged) (use 3 c1 in \<open>simp_all add: note_ext_def count_attachment_def\<close>)
      next
        case False
        then have "c' = skip SkipInvalidCanvas c1" using v(2) by simp
        moreover have "walk_ok h L c1" "decided c1 = decided c" using assms(2) c1 by (simp_all add: walk_ok_def decided_def)
        ultimately show ?thesis by (simp add: walk_ok_skip decided_skip)
      qed
    next
      case 4
      then show ?thesis using assms None by (auto simp: visit_leaf_def walk_ok_skip decided_skip)
    qed
  qed
qed

lemma walk_ok_walk:
  shows "walk_tree h rel t c = Some c' \<Longrightarrow> walk_ok h L c \<Longrightarrow> set (tree_leaves rel t) \<subseteq> L \<Longrightarrow>
      walk_ok h L c' \<and> decided c' = decided c + tree_decisions rel t"
    and "walk_trees h rel ts c = Some c' \<Longrightarrow> walk_ok h L c \<Longrightarrow> set (trees_leaves rel ts) \<subseteq> L \<Longrightarrow>
      walk_ok h L c' \<and> decided c' = decided c + trees_decisions rel ts"
proof (induction h rel t c and h rel ts c arbitrary: c' and c' rule: walk_tree_walk_trees.induct)
  case (1 h rel d c)
  then show ?case using visit_leaf_ok [of h rel d c c' L] by simp
next
  case (2 h rel es c)
  then show ?case by (auto simp: walk_ok_skip decided_skip split: if_splits option.splits)
next
  case (3 h rel c)
  then show ?case by simp
next
  case (4 h rel name t ts c)
  from "4.prems"(1) obtain c1 where c1: "walk_tree h (rel_join rel name) t c = Some c1" "walk_trees h rel ts c1 = Some c'"
    by (auto split: option.splits)
  have "walk_ok h L c1 \<and> decided c1 = decided c + tree_decisions (rel_join rel name) t"
    using "4.IH"(1) [OF c1(1)] "4.prems" by simp
  then show ?case using "4.IH"(2) [OF c1(1) c1(2)] "4.prems" by simp
qed

lemma collect_Inr:
  assumes "collect h = Inr c"
  obtains ts c0 where "th_Root h = Some ts" and "walk_trees h [] ts no_collected = Some c0"
    and "c = c0\<lparr>co_Entries := sort_key Path (co_Entries c0)\<rparr>"
    and "walk_ok h (set (trees_leaves [] ts)) c0" and "decided c0 = trees_decisions [] ts"
proof -
  from assms obtain ts c0 where r: "th_Root h = Some ts" "walk_trees h [] ts no_collected = Some c0"
    "c = c0\<lparr>co_Entries := sort_key Path (co_Entries c0)\<rparr>"
    by (auto simp: collect_def split: if_splits option.splits)
  have "walk_ok h L no_collected" "decided no_collected = 0" for L
    by (simp_all add: walk_ok_def no_collected_def decided_def all_reasons_def)
  then have "walk_ok h (set (trees_leaves [] ts)) c0 \<and> decided c0 = trees_decisions [] ts"
    using walk_ok_walk(2) [OF r(2) _ order_refl] by simp
  then show thesis using that [OF r] by simp
qed

lemma reject_entry_None:
  assumes "reject_entry rel d = None"
  shows "check_rel_path rel = None" and "\<not> excluded_rel rel" and "lf_Type d = TypeRegular"
    and "\<exists>perm. lf_Info d = Some (False, perm) \<and> \<not> any_execute perm"
  using assms by (auto simp: reject_entry_def split: if_splits option.splits)

section \<open>A demonstration\<close>

definition demo_note :: string where "demo_note = ''a.md''"

definition demo_host :: transfer_host where
  "demo_host = \<lparr>th_SourceOK = True, th_Source = ''/n'', th_Staging = Some ''/s'', th_StagingOK = True,
     th_Root = Some [(''.git'', Dir None), (''a.md'', Leaf \<lparr>lf_Type = TypeRegular, lf_Info = Some (False, 420)\<rparr>),
       (''b.md'', Leaf \<lparr>lf_Type = TypeSymlink, lf_Info = None\<rparr>)],
     th_Open = (\<lambda>k rel. Some \<lparr>op_HardLinked = False, op_Size = 1, op_Content = Some ''x''\<rparr>),
     th_Stage = (\<lambda>k rel. True), th_Sync = True\<rparr>"

definition demo_collected :: collected where
  "demo_collected = \<lparr>co_Entries = [\<lparr>Path = ''a.md'', Size = 1, Sha256 = sha256_hex ''x''\<rparr>], co_Markdown = 1,
     co_Attachments = 0, co_Skipped = (\<lambda>_. 0)(SkipExcluded := 1, SkipSymlink := 1), co_Opens = 1, co_Staged = [(''a.md'', ''x'')]\<rparr>"

lemma demo_rejects:
  "reject_entry ''a.md'' \<lparr>lf_Type = TypeRegular, lf_Info = Some (False, 420)\<rparr> = None"
  "reject_entry ''b.md'' \<lparr>lf_Type = TypeSymlink, lf_Info = None\<rparr> = Some SkipSymlink"
  by (simp_all add: reject_entry_def check_rel_path_def excluded_rel_def lower_name_def ascii_spans byte_of_def
      has_prefix_def has_suffix_def contains_any_def newline_def path_clean_def excludedDirs_def excludedExactNames_def
      excludedPrefixes_def excludedSuffixes_def path_base_def to_lower_def to_lower_char_def is_upper_def between_def
      any_execute_def ascii_utf8)

lemma demo_collect_at:
  assumes "path_clean s \<noteq> ''/n''"
  shows "collect (demo_host\<lparr>th_Source := ''/n'', th_Staging := Some s\<rparr>) = Inr demo_collected"
proof -
  obtain h where h: "h = demo_host\<lparr>th_Source := ''/n'', th_Staging := Some s\<rparr>" by blast
  have ext: "lower_name (path_ext ''a.md'') = ''.md''"
    by (simp add: lower_name_def path_ext_def last_index_of_def ascii_spans byte_of_def to_lower_def to_lower_char_def
        is_upper_def between_def)
  have base: "path_base ''.git'' = ''.git''" by (simp add: path_base_def)
  let ?reg = "\<lparr>lf_Type = TypeRegular, lf_Info = Some (False, 420)\<rparr>" and ?sym = "\<lparr>lf_Type = TypeSymlink, lf_Info = None\<rparr>"
  have sel: "th_Open h k rel = Some \<lparr>op_HardLinked = False, op_Size = 1, op_Content = Some ''x''\<rparr>"
    "th_Staging h = Some s" "th_Stage h k rel" "th_Source h = ''/n''" "th_SourceOK h"
    "th_StagingOK h" "th_Sync h"
    "th_Root h = Some [(''.git'', Dir None), (''a.md'', Leaf ?reg), (''b.md'', Leaf ?sym)]" for k rel
    by (simp_all add: h demo_host_def)
  have accepted: "visit_leaf h ''a.md'' ?reg c = stage_file h ''a.md'' (count_markdown c)" for c
    by (simp add: visit_leaf_def demo_rejects ext markdownExt_def)
  have link: "visit_leaf h ''b.md'' ?sym c = Some (skip SkipSymlink c)" for c
    by (simp add: visit_leaf_def demo_rejects)
  have "walk_trees h [] [(''.git'', Dir None), (''a.md'', Leaf ?reg), (''b.md'', Leaf ?sym)] no_collected = Some demo_collected"
    by (simp add: rel_join_def base excludedDirs_def accepted link stage_file_def sel count_markdown_def skip_def
        no_collected_def demo_collected_def fun_upd_def)
  moreover have "path_clean ''/n'' \<noteq> path_clean s" using assms by (simp add: path_clean_def has_prefix_def)
  moreover have "demo_collected\<lparr>co_Entries := sort_key Path (co_Entries demo_collected)\<rparr> = demo_collected"
    by (simp add: demo_collected_def)
  ultimately show ?thesis by (simp add: h [symmetric] collect_def sel)
qed

lemma demo_collect: "collect demo_host = Inr demo_collected"
proof -
  have "demo_host\<lparr>th_Source := ''/n'', th_Staging := Some ''/s''\<rparr> = demo_host" by (simp add: demo_host_def)
  moreover have "path_clean ''/s'' \<noteq> ''/n''" by (simp add: path_clean_def has_prefix_def)
  ultimately show ?thesis using demo_collect_at by metis
qed

text \<open>A canvas is checked through one open and staged through another: what is staged need not be what was checked.\<close>

lemma canvas_checked_and_staged_apart:
  assumes "reject_entry rel d = None" and "lower_name (path_ext rel) = canvasExt"
    and "th_Open h (co_Opens c) rel = Some f" and "op_Size f \<le> maxCanvasBytes" and "op_Content f = Some s"
    and "canvas_payload_ok (take (maxCanvasBytes + 1) s)"
    and "th_Open h (Suc (co_Opens c)) rel = Some g" and "\<not> op_HardLinked g" and "op_Content g = Some other"
    and "th_Staging h = None"
  shows "\<exists>c'. visit_leaf h rel d c = Some c' \<and>
    co_Entries c' = co_Entries c @ [\<lparr>Path = rel, Size = length other, Sha256 = sha256_hex other\<rparr>]"
  using assms by (simp add: visit_leaf_def Let_def valid_canvas_def stage_file_def count_attachment_def canvasExt_def
      markdownExt_def attachmentExts_def)

section \<open>The properties\<close>

text \<open>C38: Every file of a transfer has a safe relative path outside the exclusion list and an admitted extension, is
  in the tree as a plain unlinked non-executable file, and what was staged and hashed is one content that was read
  from it; every leaf of the tree is either staged or counted under one reason, and the manifest is in path order.\<close>

theorem only_notes_are_transferred:
  assumes "collect h = Inr c"
  shows "\<exists>ts. th_Root h = Some ts \<and>
    (\<forall>e\<in>set (co_Entries c). check_rel_path (Path e) = None \<and> \<not> excluded_rel (Path e) \<and> note_ext (Path e) \<and>
       (\<exists>d perm. (Path e, d) \<in> set (trees_leaves [] ts) \<and> lf_Type d = TypeRegular \<and> lf_Info d = Some (False, perm) \<and>
          \<not> any_execute perm) \<and>
       (\<exists>k f s. th_Open h k (Path e) = Some f \<and> op_Content f = Some s \<and> Size e = length s \<and> Sha256 e = sha256_hex s \<and>
          (th_Staging h \<noteq> None \<longrightarrow> (Path e, sha256_hex s) \<in> staged_entry ` set (co_Staged c)))) \<and>
    staged_entry ` set (co_Staged c) \<subseteq> (\<lambda>e. (Path e, Sha256 e)) ` set (co_Entries c) \<and>
    sorted (map Path (co_Entries c)) \<and> decided c = trees_decisions [] ts \<and>
    length (co_Entries c) = co_Markdown c + co_Attachments c"
proof -
  obtain ts c0 where r: "th_Root h = Some ts" "c = c0\<lparr>co_Entries := sort_key Path (co_Entries c0)\<rparr>"
    "walk_ok h (set (trees_leaves [] ts)) c0" "decided c0 = trees_decisions [] ts"
    by (rule collect_Inr [OF assms])
  have staged: "staged_entry ` set (co_Staged c0) = (\<lambda>e. (Path e, Sha256 e)) ` set (co_Entries c0)" if "th_Staging h \<noteq> None"
    using r(3) that unfolding walk_ok_def by (metis list.set_map)
  have entry: "check_rel_path (Path e) = None \<and> \<not> excluded_rel (Path e) \<and> note_ext (Path e) \<and>
       (\<exists>d perm. (Path e, d) \<in> set (trees_leaves [] ts) \<and> lf_Type d = TypeRegular \<and> lf_Info d = Some (False, perm) \<and>
          \<not> any_execute perm) \<and>
       (\<exists>k f s. th_Open h k (Path e) = Some f \<and> op_Content f = Some s \<and> Size e = length s \<and> Sha256 e = sha256_hex s \<and>
          (th_Staging h \<noteq> None \<longrightarrow> (Path e, sha256_hex s) \<in> staged_entry ` set (co_Staged c)))" if e: "e \<in> set (co_Entries c)" for e
  proof -
    have "e \<in> set (co_Entries c0)" using e r(2) by simp
    then have a: "admitted h (set (trees_leaves [] ts)) e" using r(3) by (simp add: walk_ok_def list_all_iff)
    then obtain d where d: "(Path e, d) \<in> set (trees_leaves [] ts)" "reject_entry (Path e) d = None" by (auto simp: admitted_def)
    obtain k f s where f: "th_Open h k (Path e) = Some f" "op_Content f = Some s" "Size e = length s" "Sha256 e = sha256_hex s"
      using a by (auto simp: admitted_def)
    have "th_Staging h \<noteq> None \<longrightarrow> (Path e, sha256_hex s) \<in> staged_entry ` set (co_Staged c)"
      using staged \<open>e \<in> set (co_Entries c0)\<close> f(4) r(2) by force
    then show ?thesis using reject_entry_None [OF d(2)] d(1) f a unfolding admitted_def by blast
  qed
  have "staged_entry ` set (co_Staged c) \<subseteq> (\<lambda>e. (Path e, Sha256 e)) ` set (co_Entries c)"
    using r(2,3) staged by (cases "th_Staging h") (auto simp: walk_ok_def)
  moreover have "decided c = decided c0" "sorted (map Path (co_Entries c))" using r(2) by (simp_all add: decided_def)
  moreover have "length (co_Entries c) = co_Markdown c + co_Attachments c" using r(2,3) by (simp add: walk_ok_def)
  ultimately show ?thesis using entry r(1,4) by (intro exI [of _ ts]) simp
qed

theorem only_notes_are_transferred_witness:
  "check_rel_path ''a.md'' = None \<and> decided demo_collected = 3 \<and> ''a.md'' \<in> Path ` set (co_Entries demo_collected)"
  using only_notes_are_transferred [OF demo_collect] by (auto simp: demo_collected_def decided_def all_reasons_def)

text \<open>How \<open>sha256sum --check\<close> reads the file: a digest, two spaces and a path per line.\<close>

definition read_checksums :: "string \<Rightarrow> (string \<times> string) list" where
  "read_checksums text = map (\<lambda>l. (take 64 l, drop 66 l)) (filter (\<lambda>l. l \<noteq> []) (split_lines text))"

lemma split_on_first: "d \<notin> set l \<Longrightarrow> split_on d (l @ d # t) = l # split_on d t"
  by (induction l) auto

lemma read_checksums_line:
  assumes "length d = 64" and "newline \<notin> set d" and "newline \<notin> set p"
  shows "read_checksums (d @ ''  '' @ p @ [newline] @ t) = (d, p) # read_checksums t"
proof -
  have "newline \<notin> set (d @ ''  '' @ p)" using assms by (simp add: newline_def)
  then have "split_lines ((d @ ''  '' @ p) @ newline # t) = (d @ ''  '' @ p) # split_lines t"
    unfolding split_lines_def by (rule split_on_first)
  then show ?thesis using assms(1) by (simp add: read_checksums_def)
qed

lemma hex_no_newline: "list_all is_hex d \<Longrightarrow> newline \<notin> set d"
  by (auto simp: list_all_iff is_hex_def newline_def char_class_defs)

lemma checksum_lines_back:
  assumes "\<forall>e\<in>set es. check_rel_path (Path e) = None \<and> length (Sha256 e) = 64 \<and> list_all is_hex (Sha256 e)"
    and "newline \<notin> set guest_prefix"
  shows "\<exists>t. checksum_lines guest_prefix es = Inr t \<and> read_checksums t = map (\<lambda>e. (Sha256 e, guest_prefix @ ''/'' @ Path e)) es"
  using assms(1)
proof (induction es)
  case (Cons e es)
  then obtain t where t: "checksum_lines guest_prefix es = Inr t"
    "read_checksums t = map (\<lambda>e. (Sha256 e, guest_prefix @ ''/'' @ Path e)) es"
    by auto
  have e: "check_rel_path (Path e) = None" "length (Sha256 e) = 64" "newline \<notin> set (Sha256 e)"
    using Cons.prems hex_no_newline by auto
  have "newline \<notin> set (Path e)" using e(1) by (auto simp: check_rel_path_def contains_any_def list_ex_iff split: if_splits)
  then have "newline \<notin> set (guest_prefix @ ''/'' @ Path e)" using assms(2) by (simp add: newline_def)
  from read_checksums_line [OF e(2,3) this, of t] show ?case using t e by simp
qed (simp add: read_checksums_def split_lines_def)

text \<open>C39: The checksum file of a collected manifest is always written, and read the way \<open>sha256sum --check\<close> reads it
  it names exactly the entries of the manifest under the guest directory, each with its digest: no file name can
  add, hide or change a line.\<close>

theorem checksum_file_says_manifest:
  assumes "collect h = Inr c" and "has_prefix dir ''/''" and "path_clean dir = dir"
    and "\<not> contains_any dir [CHR 0x00, newline, CHR 0x0D, CHR 0x5C]"
  shows "\<exists>text. checksum_file dir (co_Entries c) = Inr text \<and>
    read_checksums text = map (\<lambda>e. (Sha256 e, dir @ ''/'' @ Path e)) (co_Entries c)"
proof -
  obtain ts c0 where r: "c = c0\<lparr>co_Entries := sort_key Path (co_Entries c0)\<rparr>" "walk_ok h (set (trees_leaves [] ts)) c0"
    by (rule collect_Inr [OF assms(1)])
  have "\<forall>e\<in>set (co_Entries c). check_rel_path (Path e) = None \<and> length (Sha256 e) = 64 \<and> list_all is_hex (Sha256 e)"
    using r reject_entry_None(1) by (auto simp: walk_ok_def list_all_iff admitted_def sha256_hex_length
        sha256_hex_hex [unfolded list_all_iff])
  moreover have "newline \<notin> set dir" using assms(4) by (auto simp: contains_any_def list_ex_iff)
  ultimately show ?thesis using checksum_lines_back [of "co_Entries c" dir] assms(2-4) by (simp add: checksum_file_def)
qed

theorem checksum_file_says_manifest_witness:
  "\<exists>text. checksum_file ''/h'' (co_Entries demo_collected) = Inr text \<and>
    read_checksums text = [(sha256_hex ''x'', ''/h/a.md'')]"
proof -
  have "has_prefix ''/h'' ''/''" "path_clean ''/h'' = ''/h''"
    "\<not> contains_any ''/h'' [CHR 0x00, newline, CHR 0x0D, CHR 0x5C]"
    by (simp_all add: has_prefix_def path_clean_def contains_any_def newline_def)
  from checksum_file_says_manifest [OF demo_collect this] show ?thesis by (simp add: demo_collected_def)
qed

end
