(* ===== verification/Brain.thy ===== *)
theory Brain
  imports Hub Host_Transfer
begin

text \<open>
  The Second Brain of a guest, \<open>internal/brain\<close>: the report, the errors and the boundary (\<open>brain.go\<close>,
  \<open>errors.go\<close>), the initialization lock, the retrieval skill and the inspection of the vault (\<open>manager.go\<close>).
  The guest, the host's Git and file system and the random source are functions of the history of everything that
  was asked of them; an event of the history carries the answer it got.
\<close>

section \<open>Values\<close>

definition SkillName :: string where "SkillName = ''torio-brain''"
definition staleLockAge :: string where "staleLockAge = ''10''"
definition issueSkillDrift :: string where "issueSkillDrift = ''retrieval_skill_drift''"

definition canonicalDirectories :: "string list" where
  "canonicalDirectories = [''inbox'', ''daily'', ''projects'', ''people'', ''meetings'', ''resources'', ''attachments'']"

definition canonicalFiles :: "string list" where
  "canonicalFiles = [''README.md'', ''AGENTS.md'', ''todo.md'']"

datatype brain_state = NoBrainState | StateInitialized | StateUninitialized | StateDrift
datatype git_state = GitMissing | GitClean | GitDirty
datatype skill_state = SkillNotApplicable | SkillNotInstalled | SkillInstalled | SkillDrift

record status_report =
  st_State :: brain_state
  st_Path :: string
  st_PathExists :: bool
  st_PathSecure :: bool
  st_NativeFilesystem :: bool
  st_FSType :: string
  st_Owner :: string
  st_Group :: string
  st_Mode :: string
  st_ManagedScaffold :: bool
  st_GitState :: git_state
  st_GitHasRemote :: bool
  st_MarkdownFiles :: nat
  st_AttachmentFiles :: nat
  st_TotalBytes :: int
  st_SkillState :: skill_state
  st_SkillPath :: string
  st_HubRefKnown :: bool
  st_AheadOfHub :: int
  st_BehindHub :: int
  st_Issues :: "string list"

record init_report =
  ir_Created :: bool
  ir_SkillUpdated :: bool
  ir_Status :: status_report

text \<open>One constructor per message; \<open>BRollback\<close> wraps the failure it followed.\<close>

datatype brain_cause =
    BGuest guest_err
  | BTruncated
  | BExit int
  | BNotBootstrapped
  | BUnsafeDrift
  | BRemainsInDrift
  | BUnknownState
  | BNoScaffold
  | BNotInitialized
  | BNoSkill
  | BSkillSymlink
  | BSkillMismatch
  | BLegacySymlink
  | BSkillDigest
  | BByteCount
  | BLockToken
  | BLockHeld
  | BLockOwnership
  | BLockAge
  | BLockChanged
  | BSnapshot
  | BRemotePresent
  | BInto
  | BHostStaging
  | BPreflight
  | BNothingToImport
  | BDestinationExists
  | BConflicts nat
  | BManifest
  | BSessionUser
  | BPayload
  | BPrivatePath
  | BExchange
  | BPristineTree
  | BNoHub
  | BNoBrain
  | BNotCarried
  | BNoGit
  | BCountUnreadable
  | BHostVault
  | BRollback brain_cause

datatype brain_err = BErr (be_op: string) (be_kind: ErrorKind) (be_cause: brain_cause)

fun brain_guest_err :: "string \<Rightarrow> guest_err \<Rightarrow> brain_err" where
  "brain_guest_err opn DeadlineExceeded = BErr opn KindTimeout (BGuest DeadlineExceeded)"
| "brain_guest_err opn Canceled = BErr opn KindCancelled (BGuest Canceled)"
| "brain_guest_err opn TransportFailure = BErr opn KindTransport (BGuest TransportFailure)"

definition brain_command_error :: "string \<Rightarrow> ErrorKind \<Rightarrow> int \<Rightarrow> brain_err" where
  "brain_command_error opn kind code = BErr opn kind (BExit code)"

section \<open>The boundary\<close>

datatype brain_event =
    BootstrapAsked
  | Ran "string option" "string list" "guest_err + result"
  | RanGit "string list" "guest_err + result"
  | CopiedIn string string "guest_err option"
  | CopiedOut string string "guest_err option"
  | MadeTemp string
  | MadeDir string
  | RemovedAll string

type_synonym brain_history = "brain_event list"
type_synonym 'a bprog = "(brain_err, brain_history, 'a) eprog"

text \<open>
  The manager: the identity and the skill its backend declares, where the host keeps its data, and the boundary.
  \<open>bm_scaffold\<close> is the embedded file system of templates.
\<close>

record brain_manager =
  bm_Name :: string
  bm_User :: string
  bm_Home :: string
  bm_Vault :: string
  bm_SkillRoot :: string
  bm_SkillCategory :: string
  bm_SkillPayload :: string
  bm_CategoryPayload :: string
  bm_HubRoot :: string
  bm_XdgDataHome :: string
  bm_UserHome :: "string option"
  bm_scaffold :: "string \<Rightarrow> string option"
  bm_bootstrap :: "brain_history \<Rightarrow> bool"
  bm_ssh :: "brain_history \<Rightarrow> string option \<Rightarrow> string list \<Rightarrow> guest_err + result"
  bm_git :: "brain_history \<Rightarrow> string list \<Rightarrow> guest_err + result"
  bm_copy_in :: "brain_history \<Rightarrow> guest_err option"
  bm_copy_out :: "brain_history \<Rightarrow> guest_err option"
  bm_token :: "brain_history \<Rightarrow> string option"
  bm_mkdir_temp :: "brain_history \<Rightarrow> string option"
  bm_mkdir :: "brain_history \<Rightarrow> string \<Rightarrow> bool"
  bm_exists :: "brain_history \<Rightarrow> string \<Rightarrow> bool"
  bm_collect :: "brain_history \<Rightarrow> string \<Rightarrow> transfer_host"

definition Installable :: "brain_manager \<Rightarrow> bool" where
  "Installable m \<longleftrightarrow> bm_SkillRoot m \<noteq> [] \<and> bm_SkillPayload m \<noteq> []"

definition stagingPath :: "brain_manager \<Rightarrow> string" where "stagingPath m = bm_Home m @ ''/.torio-brain-staging''"
definition skillStagingPath :: "brain_manager \<Rightarrow> string" where
  "skillStagingPath m = bm_Home m @ ''/.torio-brain-skill-staging''"
definition lockPath :: "brain_manager \<Rightarrow> string" where "lockPath m = bm_Home m @ ''/.torio-brain-init.lock''"

definition skillCategoryPath :: "brain_manager \<Rightarrow> string" where
  "skillCategoryPath m = (if bm_SkillCategory m = [] then bm_SkillRoot m else bm_SkillRoot m @ ''/'' @ bm_SkillCategory m)"

definition skillCategoryFilePath :: "brain_manager \<Rightarrow> string" where
  "skillCategoryFilePath m = (if bm_SkillCategory m = [] then [] else skillCategoryPath m @ ''/DESCRIPTION.md'')"

definition skillPath :: "brain_manager \<Rightarrow> string" where "skillPath m = skillCategoryPath m @ ''/'' @ SkillName"
definition skillFilePath :: "brain_manager \<Rightarrow> string" where "skillFilePath m = skillPath m @ ''/SKILL.md''"

definition legacySkillPath :: "brain_manager \<Rightarrow> string" where
  "legacySkillPath m = (if bm_SkillCategory m = [] then [] else bm_SkillRoot m @ ''/'' @ SkillName)"

text \<open>\<open>declaredPayload\<close>: an empty payload is an error.\<close>

definition declared_payload :: "string \<Rightarrow> (string \<times> string) option" where
  "declared_payload payload = (if payload = [] then None else Some (payload, sha256_hex payload))"

section \<open>Commands\<close>

definition brain_exec :: "brain_manager \<Rightarrow> string option \<Rightarrow> string list \<Rightarrow> brain_history \<Rightarrow> (guest_err + result) \<times> brain_history" where
  "brain_exec m stdin argv h = (let r = bm_ssh m h stdin argv in (r, h @ [Ran stdin argv r]))"

definition brain_run_input :: "brain_manager \<Rightarrow> string \<Rightarrow> string option \<Rightarrow> string list \<Rightarrow> result bprog" where
  "brain_run_input m opn stdin argv = (\<lambda>h. case brain_exec m stdin argv h of
       (Inl e, h') \<Rightarrow> (Inl (brain_guest_err opn e), h')
     | (Inr res, h') \<Rightarrow> (if StdoutTruncated res \<or> StderrTruncated res then (Inl (BErr opn KindVerification BTruncated), h')
                        else (Inr res, h')))"

definition brain_run :: "brain_manager \<Rightarrow> string \<Rightarrow> string list \<Rightarrow> result bprog" where
  "brain_run m opn argv = brain_run_input m opn None argv"

definition exit_ok :: "string \<Rightarrow> ErrorKind \<Rightarrow> result \<Rightarrow> unit bprog" where
  "exit_ok opn kind res = (if ExitCode res \<noteq> 0 then raise (brain_command_error opn kind (ExitCode res)) else ret ())"

definition brain_must_run :: "brain_manager \<Rightarrow> string \<Rightarrow> ErrorKind \<Rightarrow> string list \<Rightarrow> unit bprog" where
  "brain_must_run m opn kind argv = bnd (brain_run m opn argv) (exit_ok opn kind)"

definition brain_must_run_input :: "brain_manager \<Rightarrow> string \<Rightarrow> ErrorKind \<Rightarrow> string \<Rightarrow> string list \<Rightarrow> unit bprog" where
  "brain_must_run_input m opn kind stdin argv = bnd (brain_run_input m opn (Some stdin) argv) (exit_ok opn kind)"

text \<open>A run whose outcome is dropped.\<close>

definition brain_try_run :: "brain_manager \<Rightarrow> string \<Rightarrow> string list \<Rightarrow> unit bprog" where
  "brain_try_run m opn argv = bnd (attempt (brain_run m opn argv)) (\<lambda>_. ret ())"

definition brain_test_answer :: "string \<Rightarrow> result \<Rightarrow> bool bprog" where
  "brain_test_answer opn res = (if ExitCode res = 0 then ret True else if ExitCode res = 1 then ret False
     else raise (brain_command_error opn KindGuestCommand (ExitCode res)))"

definition as_agent :: "brain_manager \<Rightarrow> string list \<Rightarrow> string list" where
  "as_agent m args = user_exec_as (bm_User m) args"

definition brain_test_path :: "brain_manager \<Rightarrow> string \<Rightarrow> string \<Rightarrow> string \<Rightarrow> bool bprog" where
  "brain_test_path m opn flag p = bnd (brain_run m opn (as_agent m [''test'', flag, p])) (brain_test_answer opn)"

definition brain_test_root_path :: "brain_manager \<Rightarrow> string \<Rightarrow> string \<Rightarrow> string \<Rightarrow> bool bprog" where
  "brain_test_root_path m opn flag p = bnd (brain_run m opn (root_exec [''test'', flag, p])) (brain_test_answer opn)"

definition require_bootstrap_verified :: "brain_manager \<Rightarrow> string \<Rightarrow> unit bprog" where
  "require_bootstrap_verified m opn = (\<lambda>h. if bm_bootstrap m h then (Inr (), h @ [BootstrapAsked])
     else (Inl (BErr opn KindPrecondition BNotBootstrapped), h @ [BootstrapAsked]))"

definition require_root_access :: "brain_manager \<Rightarrow> string \<Rightarrow> unit bprog" where
  "require_root_access m opn = brain_must_run m opn KindGuestCommand (root_exec [''true''])"

definition nativeFilesystem :: "string \<Rightarrow> bool" where
  "nativeFilesystem fstype \<longleftrightarrow> fstype \<in> {''ext4'', ''ext3'', ''ext2'', ''xfs'', ''btrfs''}"

definition onlyDots :: "string \<Rightarrow> bool" where
  "onlyDots b \<longleftrightarrow> list_all (\<lambda>c. c = CHR ''.'') b"

definition parseTotalBytes :: "result \<Rightarrow> int option" where
  "parseTotalBytes res = (if ExitCode res \<noteq> 0 then None
     else (case str_fields (Stdout res) of
         [] \<Rightarrow> None
       | f # _ \<Rightarrow> (case parse_int64 f of None \<Rightarrow> None | Some n \<Rightarrow> if n < 0 then None else Some n)))"

definition owned_by :: "brain_manager \<Rightarrow> string \<Rightarrow> string \<Rightarrow> bool" where
  "owned_by m mode out = (let (owner, grp, md) = parse_ownership_mode out in
     owner = bm_User m \<and> grp = bm_User m \<and> (md = mode \<or> md = CHR ''0'' # mode))"

text \<open>An error handled by a clean-up before it is returned.\<close>

definition on_error :: "('e, 's, 'a) eprog \<Rightarrow> ('e, 's, 'b) eprog \<Rightarrow> ('e, 's, 'a) eprog" where
  "on_error p c = (\<lambda>s. case p s of (Inl e, s') \<Rightarrow> (Inl e, snd (c s')) | (Inr x, s') \<Rightarrow> (Inr x, s'))"

section \<open>The initialization lock\<close>

definition stat_argv :: "string \<Rightarrow> string list" where
  "stat_argv p = root_exec [''stat'', ''-c'', ''%U:%G %a'', p]"

definition verify_init_lock :: "brain_manager \<Rightarrow> string \<Rightarrow> string \<Rightarrow> unit bprog" where
  "verify_init_lock m opn token = bnd (brain_run m opn (stat_argv (lockPath m))) (\<lambda>meta.
     if ExitCode meta \<noteq> 0 \<or> \<not> owned_by m ''700'' (Stdout meta) then raise (BErr opn KindVerification BLockOwnership)
     else bnd (brain_run m opn (as_agent m [''cat'', lockPath m @ ''/token''])) (\<lambda>current.
       if ExitCode current \<noteq> 0 \<or> trim_space (Stdout current) \<noteq> token then raise (BErr opn KindConflict BLockOwnership)
       else ret ()))"

definition refresh_init_lock :: "brain_manager \<Rightarrow> string \<Rightarrow> string \<Rightarrow> unit bprog" where
  "refresh_init_lock m opn token = thn (verify_init_lock m opn token)
     (brain_must_run m opn KindGuestCommand (as_agent m [''touch'', lockPath m]))"

definition release_init_lock :: "brain_manager \<Rightarrow> string \<Rightarrow> string \<Rightarrow> unit bprog" where
  "release_init_lock m opn token = thn (verify_init_lock m opn token)
     (thn (brain_must_run m opn KindGuestCommand (root_exec [''rm'', ''-f'', ''--'', lockPath m @ ''/token'']))
        (brain_must_run m opn KindGuestCommand (root_exec [''rmdir'', lockPath m])))"

definition recover_stale_init_lock :: "brain_manager \<Rightarrow> string \<Rightarrow> string \<Rightarrow> bool bprog" where
  "recover_stale_init_lock m opn token = bnd (brain_test_root_path m opn ''-d'' (lockPath m)) (\<lambda>exists.
     if \<not> exists then ret True
     else bnd (brain_run m opn (stat_argv (lockPath m))) (\<lambda>meta.
       if ExitCode meta \<noteq> 0 \<or> \<not> owned_by m ''700'' (Stdout meta) then raise (BErr opn KindConflict BLockOwnership)
       else bnd (brain_run m opn (root_exec [''find'', lockPath m, ''-maxdepth'', ''0'', ''-mmin'', CHR ''+'' # staleLockAge,
           ''-print'', ''-quit''])) (\<lambda>stale.
         if ExitCode stale \<noteq> 0 then raise (brain_command_error opn KindGuestCommand (ExitCode stale))
         else if trim_space (Stdout stale) = [] then ret False
         else if trim_space (Stdout stale) \<noteq> lockPath m then raise (BErr opn KindVerification BLockAge)
         else (let quarantine = lockPath m @ ''.stale-'' @ token in
           bnd (brain_run m opn (root_exec [''mv'', ''-T'', lockPath m, quarantine])) (\<lambda>mv.
             if ExitCode mv \<noteq> 0 then raise (BErr opn KindConflict BLockChanged)
             else thn (brain_must_run m opn KindGuestCommand (root_exec [''rm'', ''-rf'', ''--'', quarantine]))
               (ret True))))))"

definition claim_init_lock :: "brain_manager \<Rightarrow> string \<Rightarrow> string \<Rightarrow> unit bprog" where
  "claim_init_lock m opn token = on_error
     (thn (brain_must_run_input m opn KindGuestCommand (token @ [newline]) (as_agent m [''tee'', lockPath m @ ''/token'']))
       (thn (brain_must_run m opn KindGuestCommand (root_exec [''chmod'', ''0600'', lockPath m @ ''/token'']))
         (verify_init_lock m opn token)))
     (brain_try_run m opn (root_exec [''rm'', ''-rf'', ''--'', lockPath m]))"

text \<open>The two turns of the loop of \<open>acquireInitLock\<close>.\<close>

definition lock_turn :: "brain_manager \<Rightarrow> string \<Rightarrow> string \<Rightarrow> unit bprog \<Rightarrow> unit bprog" where
  "lock_turn m opn token again = bnd (brain_run m opn (as_agent m [''mkdir'', ''-m'', ''0700'', lockPath m])) (\<lambda>mkdir.
     if ExitCode mkdir = 0 then claim_init_lock m opn token
     else if ExitCode mkdir \<noteq> 1 then raise (brain_command_error opn KindGuestCommand (ExitCode mkdir))
     else again)"

definition acquire_init_lock :: "brain_manager \<Rightarrow> string \<Rightarrow> string bprog" where
  "acquire_init_lock m opn = (\<lambda>h. case bm_token m h of
       None \<Rightarrow> (Inl (BErr opn KindVerification BLockToken), h)
     | Some token \<Rightarrow> thn (lock_turn m opn token
         (bnd (recover_stale_init_lock m opn token) (\<lambda>recovered.
            if \<not> recovered then raise (BErr opn KindConflict BLockHeld)
            else lock_turn m opn token (raise (BErr opn KindConflict BLockHeld)))))
         (ret token) h)"

end
