(* ===== verification/Brain_Status.thy ===== *)
theory Brain_Status
  imports Brain
begin

text \<open>
  The retrieval skill and the inspection of the vault (\<open>internal/brain/manager.go\<close>, with the count of commits of
  \<open>sync.go\<close>). An inspection fills in a report and returns it with its error.
\<close>

section \<open>Loops over paths\<close>

fun any_of :: "('a \<Rightarrow> bool bprog) \<Rightarrow> 'a list \<Rightarrow> bool bprog" where
  "any_of test [] = ret False"
| "any_of test (p # ps) = bnd (test p) (\<lambda>b. if b then ret True else any_of test ps)"

fun all_of :: "('a \<Rightarrow> bool bprog) \<Rightarrow> 'a list \<Rightarrow> bool bprog" where
  "all_of test [] = ret True"
| "all_of test (p # ps) = bnd (test p) (\<lambda>b. if \<not> b then ret False else all_of test ps)"

text \<open>Every test is run, whatever the ones before answered.\<close>

fun each_of :: "('a \<Rightarrow> bool bprog) \<Rightarrow> 'a list \<Rightarrow> bool list bprog" where
  "each_of test [] = ret []"
| "each_of test (p # ps) = bnd (test p) (\<lambda>b. bnd (each_of test ps) (\<lambda>bs. ret (b # bs)))"

definition given :: "string list \<Rightarrow> string list" where "given ps = filter (\<lambda>p. p \<noteq> []) ps"

section \<open>The retrieval skill\<close>

definition skill_ownership_secure :: "brain_manager \<Rightarrow> string \<Rightarrow> bool bprog" where
  "skill_ownership_secure m opn = all_of (\<lambda>(p, mode). bnd (brain_run m opn (stat_argv p)) (\<lambda>meta.
       ret (ExitCode meta = 0 \<and> owned_by m mode (Stdout meta))))
     (filter (\<lambda>(p, mode). p \<noteq> []) [(skillCategoryPath m, ''750''), (skillCategoryFilePath m, ''640''),
        (skillPath m, ''750''), (skillFilePath m, ''640'')])"

definition skill_digest_matches :: "brain_manager \<Rightarrow> string \<Rightarrow> string \<times> string \<Rightarrow> bool bprog" where
  "skill_digest_matches m opn spec = bnd (brain_run m opn (as_agent m [''sha256sum'', ''--'', fst spec])) (\<lambda>sum.
     if ExitCode sum \<noteq> 0 then raise (brain_command_error opn KindVerification (ExitCode sum))
     else (case str_fields (Stdout sum) of
         [] \<Rightarrow> raise (BErr opn KindVerification BSkillDigest)
       | f # _ \<Rightarrow> ret (f = snd spec)))"

text \<open>The state of the skill and whether one of its paths is a symbolic link.\<close>

definition probe_skill :: "brain_manager \<Rightarrow> string \<Rightarrow> string \<Rightarrow> string \<Rightarrow> (skill_state \<times> bool) bprog" where
  "probe_skill m opn digest categoryDigest =
     (if \<not> Installable m then ret (SkillNotApplicable, False)
      else bnd (any_of (brain_test_path m opn ''-L'')
          (given [skillFilePath m, skillPath m, skillCategoryFilePath m, skillCategoryPath m])) (\<lambda>link.
        if link then ret (SkillDrift, True)
        else bnd (if legacySkillPath m = [] then ret False
            else brain_test_path m opn ''-f'' (legacySkillPath m @ ''/SKILL.md'')) (\<lambda>legacy.
          if legacy then ret (SkillDrift, False)
          else bnd (all_of (brain_test_path m opn ''-d'') [skillCategoryPath m, skillPath m]) (\<lambda>dirs.
            if \<not> dirs then ret (SkillNotInstalled, False)
            else bnd (all_of (brain_test_path m opn ''-f'') (given [skillFilePath m, skillCategoryFilePath m])) (\<lambda>present.
              if \<not> present then ret (SkillNotInstalled, False)
              else bnd (skill_ownership_secure m opn) (\<lambda>secure.
                if \<not> secure then ret (SkillDrift, False)
                else bnd (all_of (skill_digest_matches m opn) (filter (\<lambda>(p, d). p \<noteq> [])
                    [(skillFilePath m, digest), (skillCategoryFilePath m, categoryDigest)])) (\<lambda>same.
                  ret (if same then SkillInstalled else SkillDrift, False))))))))"

text \<open>\<open>retrievalSkill\<close> and \<open>retrievalCategory\<close>: the two payloads with their digests.\<close>

definition skill_payloads :: "brain_manager \<Rightarrow> string \<Rightarrow> ((string \<times> string) \<times> (string \<times> string)) bprog" where
  "skill_payloads m opn = (case declared_payload (bm_SkillPayload m) of
       None \<Rightarrow> raise (BErr opn KindVerification BNoSkill)
     | Some skill \<Rightarrow>
         (if bm_SkillCategory m = [] then ret (skill, ([], []))
          else (case declared_payload (bm_CategoryPayload m) of
              None \<Rightarrow> raise (BErr opn KindVerification BNoSkill)
            | Some category \<Rightarrow> ret (skill, category))))"

definition write_skill_file :: "brain_manager \<Rightarrow> string \<Rightarrow> string \<Rightarrow> string \<Rightarrow> unit bprog" where
  "write_skill_file m opn payload dest =
     thn (brain_must_run_input m opn KindGuestCommand payload (as_agent m [''tee'', skillStagingPath m]))
       (thn (brain_must_run m opn KindGuestCommand (root_exec [''chmod'', ''0640'', skillStagingPath m]))
         (brain_must_run m opn KindGuestCommand (root_exec [''mv'', ''-T'', skillStagingPath m, dest])))"

definition remove_legacy_skill :: "brain_manager \<Rightarrow> string \<Rightarrow> unit bprog" where
  "remove_legacy_skill m opn = (if legacySkillPath m = [] then ret ()
     else bnd (brain_test_path m opn ''-L'' (legacySkillPath m)) (\<lambda>link.
       if link then raise (BErr opn KindConflict BLegacySymlink)
       else bnd (brain_test_path m opn ''-d'' (legacySkillPath m)) (\<lambda>present.
         if \<not> present then ret ()
         else thn (brain_must_run m opn KindGuestCommand (root_exec [''rm'', ''-f'', ''--'', legacySkillPath m @ ''/SKILL.md'']))
           (brain_try_run m opn (root_exec [''rmdir'', ''--'', legacySkillPath m])))))"

definition install_dir :: "brain_manager \<Rightarrow> string list \<Rightarrow> string list" where
  "install_dir m dirs = root_exec ([''install'', ''-d'', ''-o'', bm_User m, ''-g'', bm_User m, ''-m'', ''0750''] @ dirs)"

definition install_skill :: "brain_manager \<Rightarrow> string \<Rightarrow> bool bprog" where
  "install_skill m opn = (if \<not> Installable m then ret False
     else bnd (skill_payloads m opn) (\<lambda>((payload, digest), (category, categoryDigest)).
       bnd (probe_skill m opn digest categoryDigest) (\<lambda>(state, symlink).
         if symlink then raise (BErr opn KindConflict BSkillSymlink)
         else if state = SkillInstalled then ret False
         else on_error
           (thn (remove_legacy_skill m opn)
             (thn (brain_must_run m opn KindGuestCommand (install_dir m [skillCategoryPath m]))
               (thn (if skillCategoryFilePath m \<noteq> [] then write_skill_file m opn category (skillCategoryFilePath m) else ret ())
                 (thn (brain_must_run m opn KindGuestCommand (install_dir m [skillPath m]))
                   (thn (write_skill_file m opn payload (skillFilePath m))
                     (bnd (probe_skill m opn digest categoryDigest) (\<lambda>(after, _).
                       if after \<noteq> SkillInstalled then raise (BErr opn KindVerification BSkillMismatch) else ret True)))))))
           (brain_try_run m opn (root_exec [''rm'', ''-f'', ''--'', skillStagingPath m])))))"

section \<open>The inspection\<close>

definition new_status_report :: "brain_manager \<Rightarrow> status_report" where
  "new_status_report m = \<lparr>st_State = NoBrainState, st_Path = bm_Vault m, st_PathExists = False, st_PathSecure = False,
     st_NativeFilesystem = False, st_FSType = [], st_Owner = [], st_Group = [], st_Mode = [], st_ManagedScaffold = False,
     st_GitState = GitMissing, st_GitHasRemote = False, st_MarkdownFiles = 0, st_AttachmentFiles = 0, st_TotalBytes = 0,
     st_SkillState = (if Installable m then SkillNotInstalled else SkillNotApplicable),
     st_SkillPath = (if Installable m then skillFilePath m else []),
     st_HubRefKnown = False, st_AheadOfHub = 0, st_BehindHub = 0, st_Issues = []\<rparr>"

type_synonym 'a sprog = "(brain_err, status_report \<times> brain_history, 'a) eprog"

definition look :: "('e, 'r \<times> 'w, 'r) eprog" where "look = (\<lambda>(r, w). (Inr r, (r, w)))"

definition st_issue :: "string \<Rightarrow> unit sprog" where
  "st_issue s = update (\<lambda>r. r\<lparr>st_Issues := st_Issues r @ [s]\<rparr>)"

definition set_state :: "brain_state \<Rightarrow> unit sprog" where
  "set_state s = update (\<lambda>r. r\<lparr>st_State := s\<rparr>)"

definition when_do :: "bool \<Rightarrow> ('e, 's, unit) eprog \<Rightarrow> ('e, 's, unit) eprog" where
  "when_do b p = (if b then p else ret ())"

definition hubBranch :: string where "hubBranch = ''main''"
definition hubRef :: string where "hubRef = ''refs/torio/hub''"

definition vault_git :: "brain_manager \<Rightarrow> string list \<Rightarrow> string list" where
  "vault_git m args = as_agent m ([''git'', ''-C'', bm_Vault m] @ args)"

definition brain_parse_count :: "string \<Rightarrow> result \<Rightarrow> int bprog" where
  "brain_parse_count opn res = (case parse_int64 (trim_space (Stdout res)) of
       None \<Rightarrow> raise (BErr opn KindVerification BCountUnreadable)
     | Some n \<Rightarrow> if n < 0 then raise (BErr opn KindVerification BCountUnreadable) else ret n)"

definition brain_count_guest :: "brain_manager \<Rightarrow> string \<Rightarrow> string \<Rightarrow> int bprog" where
  "brain_count_guest m opn span = bnd (brain_run m opn (vault_git m [''rev-list'', ''--count'', span])) (\<lambda>res.
     if ExitCode res \<noteq> 0 then raise (brain_command_error opn KindGit (ExitCode res)) else brain_parse_count opn res)"

definition describe_hub_distance :: "brain_manager \<Rightarrow> string \<Rightarrow> unit sprog" where
  "describe_hub_distance m opn = bnd (lift (attempt (brain_run m opn (vault_git m [''rev-parse'', ''--verify'', ''--quiet'', hubRef])))) (\<lambda>known.
     case known of
       Inl e \<Rightarrow> ret ()
     | Inr res \<Rightarrow>
         (if ExitCode res \<noteq> 0 then ret ()
          else thn (update (\<lambda>r. r\<lparr>st_HubRefKnown := True\<rparr>))
            (bnd (lift (attempt (brain_count_guest m opn (hubRef @ ''..'' @ hubBranch)))) (\<lambda>ahead.
              thn (case ahead of Inl e \<Rightarrow> ret () | Inr n \<Rightarrow> update (\<lambda>r. r\<lparr>st_AheadOfHub := n\<rparr>))
                (bnd (lift (attempt (brain_count_guest m opn (hubBranch @ ''..'' @ hubRef)))) (\<lambda>behind.
                  case behind of Inl e \<Rightarrow> ret () | Inr n \<Rightarrow> update (\<lambda>r. r\<lparr>st_BehindHub := n\<rparr>)))))))"

text \<open>What Git says of the vault: whether there is a repository with a commit, its remotes and its worktree.\<close>

definition inspect_git :: "brain_manager \<Rightarrow> string \<Rightarrow> bool sprog" where
  "inspect_git m opn = bnd (lift (brain_run m opn (vault_git m [''rev-parse'', ''--verify'', ''HEAD'']))) (\<lambda>head.
     let gitRepo = ExitCode head = 0 \<and> trim_space (Stdout head) \<noteq> [] in
     if \<not> gitRepo then thn (st_issue ''git_repository_missing'') (ret False)
     else bnd (lift (brain_run m opn (vault_git m [''remote'']))) (\<lambda>remotes.
       if ExitCode remotes \<noteq> 0 then raise (brain_command_error opn KindGit (ExitCode remotes))
       else (let has = trim_space (Stdout remotes) \<noteq> [] in
         thn (update (\<lambda>r. r\<lparr>st_GitHasRemote := has\<rparr>))
           (thn (when_do has (st_issue ''git_remote_present''))
             (bnd (lift (brain_run m opn (vault_git m [''status'', ''--porcelain=v1'', ''--untracked-files=normal'']))) (\<lambda>worktree.
               if ExitCode worktree \<noteq> 0 then raise (brain_command_error opn KindGit (ExitCode worktree))
               else thn (update (\<lambda>r. r\<lparr>st_GitState := (if Stdout worktree = [] then GitClean else GitDirty)\<rparr>)) (ret True)))))))"

text \<open>The number of files a \<open>find\<close> printed a dot for.\<close>

definition count_dots :: "brain_manager \<Rightarrow> string \<Rightarrow> string list \<Rightarrow> nat bprog" where
  "count_dots m opn args = bnd (brain_run m opn (as_agent m args)) (\<lambda>res.
     if ExitCode res \<noteq> 0 \<or> \<not> onlyDots (Stdout res) then raise (brain_command_error opn KindVerification (ExitCode res))
     else ret (length (Stdout res)))"

definition find_in :: "string \<Rightarrow> string list \<Rightarrow> string list" where "find_in p args = ''find'' # p # args"

definition inspect_counts :: "brain_manager \<Rightarrow> string \<Rightarrow> bool \<Rightarrow> unit sprog" where
  "inspect_counts m opn attachmentsPresent =
     bnd (lift (count_dots m opn (find_in (bm_Vault m) [''-type'', ''f'', ''-name'', ''*.md'', ''-printf'', ''.'']))) (\<lambda>n.
       thn (update (\<lambda>r. r\<lparr>st_MarkdownFiles := n\<rparr>))
         (thn (when_do attachmentsPresent
             (bnd (lift (count_dots m opn (find_in (bm_Vault m @ ''/attachments'') [''-type'', ''f'', ''-printf'', ''.'']))) (\<lambda>k.
               update (\<lambda>r. r\<lparr>st_AttachmentFiles := k\<rparr>))))
           (bnd (lift (brain_run m opn (as_agent m [''du'', ''-sb'', ''--'', bm_Vault m]))) (\<lambda>size.
             case parseTotalBytes size of
               None \<Rightarrow> raise (BErr opn KindVerification BByteCount)
             | Some n \<Rightarrow> update (\<lambda>r. r\<lparr>st_TotalBytes := n\<rparr>)))))"

text \<open>The contents of a vault whose ownership and file system were accepted.\<close>

definition inspect_contents :: "brain_manager \<Rightarrow> string \<Rightarrow> unit sprog" where
  "inspect_contents m opn =
     bnd (lift (brain_run m opn (as_agent m (find_in (bm_Vault m) [''-type'', ''l'', ''-printf'', ''.'', ''-quit''])))) (\<lambda>symlinks.
     let hasSymlink = ExitCode symlinks \<noteq> 0 \<or> Stdout symlinks \<noteq> [] in
     thn (when_do hasSymlink (st_issue ''symlink_present''))
       (bnd (lift (each_of (\<lambda>name. brain_test_path m opn ''-f'' (bm_Vault m @ ''/'' @ name)) canonicalFiles)) (\<lambda>present.
       bnd (lift (each_of (\<lambda>name. brain_test_path m opn ''-d'' (bm_Vault m @ ''/'' @ name)) canonicalDirectories)) (\<lambda>dirs.
       let attachmentsPresent = (map_of (zip canonicalDirectories dirs) ''attachments'' = Some True);
           scaffoldComplete = list_all id present \<and> list_all id dirs in
       thn (when_do (\<not> scaffoldComplete) (st_issue ''canonical_scaffold_incomplete''))
         (bnd (inspect_git m opn) (\<lambda>gitRepo.
           thn (inspect_counts m opn attachmentsPresent)
             (thn (when_do gitRepo (describe_hub_distance m opn))
               (bnd look (\<lambda>r.
                 let managed = scaffoldComplete \<and> gitRepo \<and> \<not> st_GitHasRemote r \<and> \<not> hasSymlink in
                 thn (update (\<lambda>r. r\<lparr>st_ManagedScaffold := managed\<rparr>))
                   (set_state (if \<not> st_PathSecure r \<or> \<not> st_NativeFilesystem r \<or> \<not> managed then StateDrift
                     else StateInitialized)))))))))))"

definition inspect_vault_directory :: "brain_manager \<Rightarrow> string \<Rightarrow> unit sprog" where
  "inspect_vault_directory m opn = bnd look (\<lambda>r.
     if \<not> st_PathSecure r \<or> \<not> st_NativeFilesystem r then set_state StateDrift
     else bnd (lift (brain_run m opn (as_agent m (find_in (bm_Vault m)
         [''-mindepth'', ''1'', ''-maxdepth'', ''1'', ''-printf'', ''.'', ''-quit''])))) (\<lambda>emptyRes.
       if ExitCode emptyRes \<noteq> 0 then raise (brain_command_error opn KindGuestCommand (ExitCode emptyRes))
       else if Stdout emptyRes = [] then
         set_state (if st_PathSecure r \<and> st_NativeFilesystem r then StateUninitialized else StateDrift)
       else inspect_contents m opn))"

definition inspect_vault :: "brain_manager \<Rightarrow> string \<Rightarrow> unit sprog" where
  "inspect_vault m opn = bnd (lift (brain_test_root_path m opn ''-L'' (bm_Vault m))) (\<lambda>link.
     if link then thn (update (\<lambda>r. r\<lparr>st_PathExists := True\<rparr>))
       (thn (st_issue ''canonical_path_is_symlink'') (set_state StateDrift))
     else bnd (lift (brain_test_root_path m opn ''-d'' (bm_Vault m))) (\<lambda>exists.
       if \<not> exists then set_state StateUninitialized
       else thn (update (\<lambda>r. r\<lparr>st_PathExists := True\<rparr>))
         (bnd (lift (brain_run m opn (stat_argv (bm_Vault m)))) (\<lambda>meta.
           if ExitCode meta \<noteq> 0 then raise (brain_command_error opn KindGuestCommand (ExitCode meta))
           else (let (owner, grp, mode) = parse_ownership_mode (Stdout meta); secure = owned_by m ''750'' (Stdout meta) in
             thn (update (\<lambda>r. r\<lparr>st_Owner := owner, st_Group := grp, st_Mode := mode, st_PathSecure := secure\<rparr>))
               (thn (when_do (\<not> secure) (st_issue ''owner_group_or_mode_mismatch''))
                 (bnd (lift (brain_run m opn (root_exec [''findmnt'', ''-n'', ''-o'', ''FSTYPE'', ''-T'', bm_Vault m]))) (\<lambda>fs.
                   let fstype = trim_space (Stdout fs); native = ExitCode fs = 0 \<and> nativeFilesystem fstype in
                   thn (update (\<lambda>r. r\<lparr>st_FSType := fstype, st_NativeFilesystem := native\<rparr>))
                     (thn (when_do (\<not> native) (st_issue ''non_native_filesystem''))
                       (inspect_vault_directory m opn))))))))))"

definition inspect_status_prog :: "brain_manager \<Rightarrow> string \<Rightarrow> unit sprog" where
  "inspect_status_prog m opn =
     bnd (lift (if Installable m then skill_payloads m opn else ret (([], []), ([], [])))) (\<lambda>((_, digest), (_, categoryDigest)).
       bnd (lift (probe_skill m opn digest categoryDigest)) (\<lambda>(state, _).
         thn (update (\<lambda>r. r\<lparr>st_SkillState := state\<rparr>))
           (thn (when_do (state = SkillDrift) (st_issue issueSkillDrift)) (inspect_vault m opn))))"

text \<open>\<open>inspectStatus\<close> returns the report also with an error.\<close>

definition inspect_status :: "brain_manager \<Rightarrow> string \<Rightarrow> (status_report \<times> brain_err option) bprog" where
  "inspect_status m opn = (\<lambda>h. case with_report (new_status_report m) (inspect_status_prog m opn) h of (r, h') \<Rightarrow> (Inr r, h'))"

text \<open>A caller that returns on the error.\<close>

definition inspect_or_fail :: "brain_manager \<Rightarrow> string \<Rightarrow> status_report bprog" where
  "inspect_or_fail m opn = bnd (inspect_status m opn) (\<lambda>(r, e). case e of None \<Rightarrow> ret r | Some err \<Rightarrow> raise err)"

definition brain_status :: "brain_manager \<Rightarrow> brain_history \<Rightarrow> (status_report \<times> brain_err option) \<times> brain_history" where
  "brain_status m h = (case thn (require_bootstrap_verified m ''status'') (require_root_access m ''status'') h of
       (Inl e, h') \<Rightarrow> ((new_status_report m, Some e), h')
     | (Inr _, h') \<Rightarrow> with_report (new_status_report m) (inspect_status_prog m ''status'') h')"

end
