(* ===== verification/Brain_Init.thy ===== *)
theory Brain_Init
  imports Brain_Status
begin

text \<open>
  \<open>Manager.Init\<close> of \<open>internal/brain/manager.go\<close>: a scaffold is built in a private staging directory, committed
  there and moved to the place of a directory that \<open>rmdir\<close> proved empty.
\<close>

section \<open>Deferred steps\<close>

text \<open>A function body and its deferred function, which sees the error and returns the one that is reported.\<close>

definition deferring :: "('e, 's, 'a) eprog \<Rightarrow> ('e option \<Rightarrow> ('e, 's, 'e option) eprog) \<Rightarrow> ('e, 's, unit) eprog" where
  "deferring body d = (\<lambda>s. case body s of (r, s1) \<Rightarrow>
     (case d (case r of Inl e \<Rightarrow> Some e | Inr _ \<Rightarrow> None) s1 of
        (Inl e, s2) \<Rightarrow> (Inl e, s2)
      | (Inr None, s2) \<Rightarrow> (Inr (), s2)
      | (Inr (Some e), s2) \<Rightarrow> (Inl e, s2)))"

definition first_error :: "'e option \<Rightarrow> 'e + 'a \<Rightarrow> 'e option" where
  "first_error e r = (case e of Some _ \<Rightarrow> e | None \<Rightarrow> (case r of Inl x \<Rightarrow> Some x | Inr _ \<Rightarrow> None))"

section \<open>Activating the retrieval skill\<close>

definition activate_retrieval :: "brain_manager \<Rightarrow> string \<Rightarrow> init_report \<Rightarrow> init_report bprog" where
  "activate_retrieval m opn r =
     (if st_State (ir_Status r) \<noteq> StateInitialized then raise (BErr opn KindVerification BNotInitialized)
      else bnd (install_skill m opn) (\<lambda>updated.
        let st = ir_Status r;
            st1 = (if Installable m then st\<lparr>st_SkillState := SkillInstalled\<rparr> else st) in
        ret (r\<lparr>ir_SkillUpdated := updated,
          ir_Status := st1\<lparr>st_Issues := filter (\<lambda>i. i \<noteq> issueSkillDrift) (st_Issues st1)\<rparr>\<rparr>)))"

section \<open>Initialization\<close>

record init_locals =
  il_Report :: init_report
  il_Promoted :: bool

type_synonym 'a iprog = "(brain_err, init_locals \<times> brain_history, 'a) eprog"

definition no_init_report :: init_report where
  "no_init_report = \<lparr>ir_Created = False, ir_SkillUpdated = False, ir_Status = \<lparr>st_State = NoBrainState, st_Path = [],
     st_PathExists = False, st_PathSecure = False, st_NativeFilesystem = False, st_FSType = [], st_Owner = [],
     st_Group = [], st_Mode = [], st_ManagedScaffold = False, st_GitState = GitMissing, st_GitHasRemote = False,
     st_MarkdownFiles = 0, st_AttachmentFiles = 0, st_TotalBytes = 0, st_SkillState = SkillNotInstalled,
     st_SkillPath = [], st_HubRefKnown = False, st_AheadOfHub = 0, st_BehindHub = 0, st_Issues = []\<rparr>\<rparr>"

definition set_init_status :: "status_report \<Rightarrow> unit iprog" where
  "set_init_status st = update (\<lambda>l. l\<lparr>il_Report := (il_Report l)\<lparr>ir_Status := st\<rparr>\<rparr>)"

text \<open>Inspect, keep the report whatever the outcome, and fail on its error.\<close>

definition init_inspect :: "brain_manager \<Rightarrow> string \<Rightarrow> status_report iprog" where
  "init_inspect m opn = bnd (lift (inspect_status m opn)) (\<lambda>(st, e). thn (set_init_status st) (thn (check e) (ret st)))"

definition init_activate :: "brain_manager \<Rightarrow> string \<Rightarrow> unit iprog" where
  "init_activate m opn = bnd look (\<lambda>l. bnd (lift (activate_retrieval m opn (il_Report l))) (\<lambda>r.
     update (\<lambda>l. l\<lparr>il_Report := r\<rparr>)))"

definition git_in :: "brain_manager \<Rightarrow> string \<Rightarrow> string list \<Rightarrow> string list" where
  "git_in m dir args = as_agent m ([''git'', ''-C'', dir] @ args)"

definition torio_author :: "string list" where
  "torio_author = [''-c'', ''user.name=torio'', ''-c'', ''user.email=torio@localhost'']"

definition verify_snapshot_repository :: "brain_manager \<Rightarrow> string \<Rightarrow> string \<Rightarrow> unit bprog" where
  "verify_snapshot_repository m opn dir = bnd (brain_run m opn (git_in m dir [''rev-parse'', ''--verify'', ''HEAD''])) (\<lambda>head.
     if ExitCode head \<noteq> 0 \<or> trim_space (Stdout head) = [] then raise (BErr opn KindGit BSnapshot)
     else bnd (brain_run m opn (git_in m dir [''remote''])) (\<lambda>remote.
       if ExitCode remote \<noteq> 0 \<or> trim_space (Stdout remote) \<noteq> [] then raise (BErr opn KindGit BRemotePresent) else ret ()))"

definition write_scaffold_file :: "brain_manager \<Rightarrow> string \<Rightarrow> string \<Rightarrow> string \<Rightarrow> unit bprog" where
  "write_scaffold_file m opn name target = (case bm_scaffold m name of
       None \<Rightarrow> raise (BErr opn KindVerification BNoScaffold)
     | Some payload \<Rightarrow> thn (brain_must_run_input m opn KindGuestCommand payload (as_agent m [''tee'', target]))
         (brain_must_run m opn KindGuestCommand (root_exec [''chmod'', ''0640'', target])))"

definition build_scaffold :: "brain_manager \<Rightarrow> string \<Rightarrow> string \<Rightarrow> unit bprog" where
  "build_scaffold m opn token = thn (refresh_init_lock m opn token)
     (thn (brain_must_run m opn KindGuestCommand (root_exec [''rm'', ''-rf'', ''--'', stagingPath m]))
     (thn (brain_must_run m opn KindGuestCommand
         (install_dir m (stagingPath m # map (\<lambda>name. stagingPath m @ ''/'' @ name) canonicalDirectories)))
     (thn (for_each canonicalFiles (\<lambda>name. write_scaffold_file m opn name (stagingPath m @ ''/'' @ name)))
     (thn (brain_must_run m opn KindGit (git_in m (stagingPath m) [''init'', ''--initial-branch=main'']))
     (thn (brain_must_run m opn KindGit (git_in m (stagingPath m) [''add'', ''--'', ''README.md'', ''AGENTS.md'', ''todo.md'']))
     (thn (brain_must_run m opn KindGit (git_in m (stagingPath m)
         (torio_author @ [''commit'', ''-m'', ''Initialize Torio Second Brain''])))
     (thn (verify_snapshot_repository m opn (stagingPath m))
       (refresh_init_lock m opn token))))))))"

definition promote_scaffold :: "brain_manager \<Rightarrow> string \<Rightarrow> unit bprog" where
  "promote_scaffold m opn = thn (brain_must_run m opn KindConflict (root_exec [''rmdir'', bm_Vault m]))
     (brain_must_run m opn KindGuestCommand (root_exec [''mv'', ''-T'', stagingPath m, bm_Vault m]))"

definition init_build :: "brain_manager \<Rightarrow> string \<Rightarrow> string \<Rightarrow> unit iprog" where
  "init_build m opn token = thn (lift (build_scaffold m opn token))
     (thn (lift (promote_scaffold m opn))
       (thn (update (\<lambda>l. l\<lparr>il_Promoted := True, il_Report := (il_Report l)\<lparr>ir_Created := True\<rparr>\<rparr>))
         (bnd (init_inspect m opn) (\<lambda>final.
           if st_State final \<noteq> StateInitialized then raise (BErr opn KindVerification BNotInitialized)
           else init_activate m opn))))"

definition init_body :: "brain_manager \<Rightarrow> string \<Rightarrow> string \<Rightarrow> unit iprog" where
  "init_body m opn token = bnd (lift (inspect_or_fail m opn)) (\<lambda>status0.
     bnd (lift (if \<not> st_PathExists status0
         then thn (brain_must_run m opn KindGuestCommand (install_dir m [bm_Vault m])) (inspect_or_fail m opn)
         else ret status0)) (\<lambda>status.
       if st_State status = StateInitialized then thn (set_init_status status) (init_activate m opn)
       else if st_State status = StateDrift then
         (if st_ManagedScaffold status \<and> st_PathSecure status \<and> st_NativeFilesystem status then
            bnd (init_inspect m opn) (\<lambda>final.
              if st_State final \<noteq> StateInitialized then raise (BErr opn KindVerification BRemainsInDrift)
              else init_activate m opn)
          else raise (BErr opn KindConflict BUnsafeDrift))
       else if st_State status = StateUninitialized then init_build m opn token
       else raise (BErr opn KindVerification BUnknownState)))"

definition init_deferred :: "brain_manager \<Rightarrow> string \<Rightarrow> string \<Rightarrow> brain_err option \<Rightarrow> brain_err option iprog" where
  "init_deferred m opn token e = bnd look (\<lambda>l.
     thn (when_do (\<not> il_Promoted l) (lift (brain_try_run m opn (root_exec [''rm'', ''-rf'', ''--'', stagingPath m]))))
       (bnd (lift (attempt (release_init_lock m opn token))) (\<lambda>r. ret (first_error e r))))"

definition init_prepare :: "brain_manager \<Rightarrow> string \<Rightarrow> string bprog" where
  "init_prepare m opn = thn (require_bootstrap_verified m opn) (thn (require_root_access m opn) (acquire_init_lock m opn))"

definition brain_init :: "brain_manager \<Rightarrow> brain_history \<Rightarrow> (init_report \<times> brain_err option) \<times> brain_history" where
  "brain_init m h = (case with_report \<lparr>il_Report = no_init_report, il_Promoted = False\<rparr>
       (bnd (lift (init_prepare m ''init'')) (\<lambda>token. deferring (init_body m ''init'' token) (init_deferred m ''init'' token))) h of
     ((l, e), h') \<Rightarrow> ((il_Report l, e), h'))"

end
