(* ===== verification/Brain_Import.thy ===== *)
theory Brain_Import
  imports Brain_Init
begin

text \<open>
  \<open>Manager.Import\<close> of \<open>internal/brain/transfer.go\<close>: the payload is collected on the host, carried into a private
  staging directory, verified there, built into a candidate beside the vault, and the two are exchanged in one
  rename. The deferred function exchanges them back when something fails after that.
\<close>

section \<open>Paths and options\<close>

definition importStagingPath :: "brain_manager \<Rightarrow> string" where
  "importStagingPath m = bm_Home m @ ''/.torio-brain-import-staging''"
definition importPayloadPath :: "brain_manager \<Rightarrow> string" where "importPayloadPath m = importStagingPath m @ ''/payload''"
definition importManifestPath :: "brain_manager \<Rightarrow> string" where
  "importManifestPath m = importStagingPath m @ ''/manifest.sha256''"
definition importCandidatePath :: "brain_manager \<Rightarrow> string" where
  "importCandidatePath m = bm_Home m @ ''/.torio-brain-candidate''"

text \<open>The text of the program that calls \<open>renameat2\<close> with \<open>RENAME_EXCHANGE\<close>.\<close>

definition renameExchangeProgram :: string where
  "renameExchangeProgram = concat (map (\<lambda>l. l @ [newline])
    [''import ctypes, os, sys'',
     ''if len(sys.argv) != 3:'',
     ''    sys.exit(64)'',
     ''libc = ctypes.CDLL(None, use_errno=True)'',
     ''renameat2 = libc.renameat2'',
     ''renameat2.argtypes = [ctypes.c_int, ctypes.c_char_p, ctypes.c_int, ctypes.c_char_p, ctypes.c_uint]'',
     ''renameat2.restype = ctypes.c_int'',
     ''rc = renameat2(-100, os.fsencode(sys.argv[1]), -100, os.fsencode(sys.argv[2]), 2)'',
     ''sys.exit(0 if rc == 0 else 1)''])"

record import_options =
  io_Source :: string
  io_Into :: string
  io_DryRun :: bool

record transfer_report =
  tr_DryRun :: bool
  tr_Files :: nat
  tr_Markdown :: nat
  tr_Attachments :: nat
  tr_Bytes :: nat
  tr_ManifestSHA256 :: string
  tr_Conflicts :: nat
  tr_Skipped :: "skip_reason \<Rightarrow> nat"
  tr_FinalPath :: string

text \<open>\<open>None\<close> is the error.\<close>

definition validate_into :: "string \<Rightarrow> string option" where
  "validate_into v =
     (if v = [] then Some []
      else if has_prefix v ''/'' \<or> contains_any v [CHR 0x00, newline, CHR 0x0D, CHR 0x5C] \<or> path_clean v \<noteq> v \<or> v = ''.'' then None
      else if list_ex (\<lambda>seg. seg \<in> {[], ''.'', ''..'', ''.git'', ''.obsidian''}) (split_on CHR ''/'' v) then None
      else Some v)"

section \<open>Private steps\<close>

text \<open>The two commands that bypass the wrapper, so that no diagnostic carries their argv.\<close>

definition test_private_path :: "brain_manager \<Rightarrow> string \<Rightarrow> string \<Rightarrow> string \<Rightarrow> bool bprog" where
  "test_private_path m opn flag p = (\<lambda>h. case brain_exec m None (as_agent m [''test'', flag, p]) h of
       (Inl e, h') \<Rightarrow> (Inl (BErr opn KindTransport BPrivatePath), h')
     | (Inr res, h') \<Rightarrow> (if ExitCode res = 0 then Inr True else if ExitCode res = 1 then Inr False
                        else Inl (BErr opn KindGuestCommand BPrivatePath), h'))"

definition exchange_argv :: "brain_manager \<Rightarrow> string list" where
  "exchange_argv m = root_exec [''python3'', ''-c'', renameExchangeProgram, bm_Vault m, importCandidatePath m]"

definition exchange_import_candidate :: "brain_manager \<Rightarrow> string \<Rightarrow> unit bprog" where
  "exchange_import_candidate m opn = (\<lambda>h. case brain_exec m None (exchange_argv m) h of
       (Inl e, h') \<Rightarrow> (Inl (BErr opn KindTransport BExchange), h')
     | (Inr res, h') \<Rightarrow> (if ExitCode res \<noteq> 0 then Inl (BErr opn KindVerification BExchange) else Inr (), h'))"

fun count_conflicts :: "brain_manager \<Rightarrow> string \<Rightarrow> string \<Rightarrow> entry list \<Rightarrow> nat bprog" where
  "count_conflicts m opn base [] = ret 0"
| "count_conflicts m opn base (e # es) = bnd (test_private_path m opn ''-e'' (base @ ''/'' @ Path e)) (\<lambda>b.
     bnd (count_conflicts m opn base es) (\<lambda>n. ret (if b then Suc n else n)))"

definition import_conflicts :: "brain_manager \<Rightarrow> string \<Rightarrow> entry list \<Rightarrow> string \<Rightarrow> nat bprog" where
  "import_conflicts m opn es into =
     count_conflicts m opn (bm_Vault m @ (if into \<noteq> [] then ''/'' @ into else [])) es"

section \<open>The payload in the guest\<close>

definition brain_session_user :: "brain_manager \<Rightarrow> string \<Rightarrow> string bprog" where
  "brain_session_user m opn = bnd (brain_run m opn [''id'', ''-un'']) (\<lambda>res.
     if ExitCode res \<noteq> 0 then raise (brain_command_error opn KindGuestCommand (ExitCode res))
     else (let user = trim_space (Stdout res) in
       if validate_operator_user user then ret user else raise (BErr opn KindVerification BSessionUser)))"

definition install_shared :: "string \<Rightarrow> string \<Rightarrow> string \<Rightarrow> string list" where
  "install_shared owner mode dir = root_exec [''install'', ''-d'', ''-o'', owner, ''-g'', sharedGroup, ''-m'', mode, dir]"

definition brain_copy_in :: "brain_manager \<Rightarrow> (guest_err \<Rightarrow> brain_err) \<Rightarrow> string \<Rightarrow> string \<Rightarrow> unit bprog" where
  "brain_copy_in m f src dst = (\<lambda>h. let e = bm_copy_in m h in
     (case e of None \<Rightarrow> Inr () | Some x \<Rightarrow> Inl (f x), h @ [CopiedIn src dst e]))"

definition adopt_guest_payload :: "brain_manager \<Rightarrow> string \<Rightarrow> unit bprog" where
  "adopt_guest_payload m opn =
     thn (brain_must_run m opn KindGuestCommand (root_exec [''chown'', ''-R'', ''--'',
         bm_User m @ '':'' @ bm_User m, importPayloadPath m]))
       (brain_must_run m opn KindGuestCommand (root_exec [''chmod'', ''-R'', ''u=rwX,g=rX,o='', ''--'', importPayloadPath m]))"

definition no_special_files :: "brain_manager \<Rightarrow> string \<Rightarrow> string list \<Rightarrow> unit bprog" where
  "no_special_files m opn args = bnd (brain_run m opn (as_agent m args)) (\<lambda>res.
     if ExitCode res \<noteq> 0 \<or> Stdout res \<noteq> [] then raise (BErr opn KindVerification BPayload) else ret ())"

definition verify_guest_payload :: "brain_manager \<Rightarrow> string \<Rightarrow> entry list \<Rightarrow> unit bprog" where
  "verify_guest_payload m opn es =
     thn (no_special_files m opn (find_in (importPayloadPath m) [''-type'', ''l'', ''-printf'', ''.'', ''-quit'']))
     (thn (no_special_files m opn (find_in (importPayloadPath m)
         [''!'', ''-type'', ''d'', ''!'', ''-type'', ''f'', ''-printf'', ''.'', ''-quit'']))
     (bnd (brain_run m opn (as_agent m (find_in (importPayloadPath m) [''-type'', ''f'', ''-printf'', ''.'']))) (\<lambda>count.
       if ExitCode count \<noteq> 0 \<or> \<not> onlyDots (Stdout count) \<or> length (Stdout count) \<noteq> length es
       then raise (BErr opn KindVerification BPayload)
       else bnd (brain_run m opn (as_agent m [''sha256sum'', ''--quiet'', ''--strict'', ''-c'', importManifestPath m])) (\<lambda>sum.
         if ExitCode sum \<noteq> 0 then raise (BErr opn KindVerification BPayload) else ret ()))))"

definition prepare_guest_import :: "brain_manager \<Rightarrow> string \<Rightarrow> string \<Rightarrow> entry list \<Rightarrow> unit bprog" where
  "prepare_guest_import m opn hostPayload es =
     thn (brain_must_run m opn KindGuestCommand (root_exec [''rm'', ''-rf'', ''--'', importStagingPath m, importCandidatePath m]))
     (bnd (brain_session_user m opn) (\<lambda>transportUser.
       thn (brain_must_run m opn KindGuestCommand (install_shared (bm_User m) ''0750'' (importStagingPath m)))
       (thn (brain_must_run m opn KindGuestCommand (install_shared transportUser ''2770'' (importPayloadPath m)))
       (case checksum_file (importPayloadPath m) es of
          Inl e \<Rightarrow> raise (BErr opn KindVerification BManifest)
        | Inr checksums \<Rightarrow>
            thn (brain_must_run_input m opn KindGuestCommand checksums
                (as_agent m [''dd'', ''of='' @ importManifestPath m, ''status=none'', ''conv=fsync'']))
            (thn (brain_copy_in m (brain_guest_err opn) hostPayload (importPayloadPath m))
            (thn (adopt_guest_payload m opn) (verify_guest_payload m opn es)))))))"

section \<open>The candidate\<close>

definition move_payload_into_contained_candidate :: "brain_manager \<Rightarrow> string \<Rightarrow> string \<Rightarrow> unit bprog" where
  "move_payload_into_contained_candidate m opn into = (let target = importCandidatePath m @ ''/'' @ into; parent = path_dir target in
     thn (when_do (parent \<noteq> importCandidatePath m) (brain_must_run m opn KindGuestCommand (install_dir m [parent])))
       (brain_must_run m opn KindGuestCommand (root_exec [''mv'', ''-T'', importPayloadPath m, target])))"

definition commit_candidate :: "brain_manager \<Rightarrow> string \<Rightarrow> string list \<Rightarrow> unit bprog" where
  "commit_candidate m opn args = thn (brain_must_run m opn KindGit (git_in m (importCandidatePath m) [''add'', ''-A'']))
     (brain_must_run m opn KindGit (git_in m (importCandidatePath m) (torio_author @ [''commit''] @ args)))"

definition build_first_import_candidate :: "brain_manager \<Rightarrow> string \<Rightarrow> string \<Rightarrow> unit bprog" where
  "build_first_import_candidate m opn into =
     thn (if into = [] then brain_must_run m opn KindGuestCommand
             (root_exec [''mv'', ''-T'', importPayloadPath m, importCandidatePath m])
          else thn (brain_must_run m opn KindGuestCommand (install_dir m [importCandidatePath m]))
             (move_payload_into_contained_candidate m opn into))
     (thn (brain_must_run m opn KindGuestCommand
         (install_dir m (importCandidatePath m # map (\<lambda>name. importCandidatePath m @ ''/'' @ name) canonicalDirectories)))
     (thn (for_each canonicalFiles (\<lambda>name. let target = importCandidatePath m @ ''/'' @ name in
         bnd (test_private_path m opn ''-f'' target) (\<lambda>exists.
           if exists then ret () else write_scaffold_file m opn name target)))
     (thn (brain_must_run m opn KindGit (git_in m (importCandidatePath m) [''init'', ''--initial-branch=main'']))
     (thn (commit_candidate m opn [''-m'', ''Import Torio Second Brain''])
       (verify_snapshot_repository m opn (importCandidatePath m))))))"

definition build_existing_import_candidate :: "brain_manager \<Rightarrow> string \<Rightarrow> string \<Rightarrow> bool \<Rightarrow> unit bprog" where
  "build_existing_import_candidate m opn into replacePristine =
     thn (brain_must_run m opn KindGuestCommand (install_dir m [importCandidatePath m]))
     (thn (brain_must_run m opn KindGuestCommand (root_exec [''cp'', ''-a'', ''--'', bm_Vault m @ ''/.'', importCandidatePath m @ ''/'']))
     (thn (commit_candidate m opn [''--allow-empty'', ''-m'', ''Checkpoint before Torio Brain import''])
     (thn (if into \<noteq> [] then move_payload_into_contained_candidate m opn into
           else thn (brain_must_run m opn KindConflict (root_exec
               ([''cp'', ''-a''] @ (if replacePristine then [] else [''--update=none-fail'']) @
                [''--'', importPayloadPath m @ ''/.'', importCandidatePath m @ ''/''])))
             (brain_must_run m opn KindGuestCommand (root_exec [''rm'', ''-rf'', ''--'', importPayloadPath m])))
     (thn (commit_candidate m opn [''-m'', ''Import Torio Second Brain''])
       (verify_snapshot_repository m opn (importCandidatePath m))))))"

text \<open>Whether the vault is still exactly the scaffold an initialization committed.\<close>

definition pristine_file :: "brain_manager \<Rightarrow> string \<Rightarrow> string list \<Rightarrow> string \<Rightarrow> bool bprog" where
  "pristine_file m opn got name = (if name \<notin> set got then ret False
     else (case bm_scaffold m name of
         None \<Rightarrow> raise (BErr opn KindVerification BNoScaffold)
       | Some payload \<Rightarrow> bnd (brain_run m opn (as_agent m [''sha256sum'', ''--'', bm_Vault m @ ''/'' @ name])) (\<lambda>sum.
           ret (ExitCode sum = 0 \<and> (case str_fields (Stdout sum) of [] \<Rightarrow> False | f # _ \<Rightarrow> f = sha256_hex payload)))))"

definition is_pristine_scaffold :: "brain_manager \<Rightarrow> string \<Rightarrow> status_report \<Rightarrow> bool bprog" where
  "is_pristine_scaffold m opn status =
     (if st_GitState status \<noteq> GitClean \<or> st_MarkdownFiles status \<noteq> length canonicalFiles \<or> st_AttachmentFiles status \<noteq> 0
      then ret False
      else bnd (brain_run m opn (vault_git m [''rev-list'', ''--count'', ''HEAD''])) (\<lambda>count.
        if ExitCode count \<noteq> 0 \<or> trim_space (Stdout count) \<noteq> ''1'' then ret False
        else bnd (brain_run m opn (vault_git m [''ls-tree'', ''-r'', ''--name-only'', ''HEAD''])) (\<lambda>tree.
          if ExitCode tree \<noteq> 0 then raise (BErr opn KindGit BPristineTree)
          else (let got = remdups (str_fields (Stdout tree)) in
            if length got \<noteq> length canonicalFiles then ret False
            else all_of (pristine_file m opn got) canonicalFiles))))"

section \<open>The import\<close>

record import_locals =
  ml_Report :: transfer_report
  ml_Swapped :: bool

type_synonym 'a mprog = "(brain_err, import_locals \<times> brain_history, 'a) eprog"

definition set_swapped :: "bool \<Rightarrow> unit mprog" where
  "set_swapped b = update (\<lambda>l. l\<lparr>ml_Swapped := b\<rparr>)"

definition set_conflicts :: "nat \<Rightarrow> unit mprog" where
  "set_conflicts n = update (\<lambda>l. l\<lparr>ml_Report := (ml_Report l)\<lparr>tr_Conflicts := n\<rparr>\<rparr>)"

definition no_transfer_report :: "bool \<Rightarrow> transfer_report" where
  "no_transfer_report dry = \<lparr>tr_DryRun = dry, tr_Files = 0, tr_Markdown = 0, tr_Attachments = 0, tr_Bytes = 0,
     tr_ManifestSHA256 = [], tr_Conflicts = 0, tr_Skipped = (\<lambda>_. 0), tr_FinalPath = []\<rparr>"

text \<open>Private host staging, none for a dry run: its root and the payload directory in it.\<close>

definition import_host_staging :: "brain_manager \<Rightarrow> string \<Rightarrow> string bprog" where
  "import_host_staging m opn = (\<lambda>h. case bm_mkdir_temp m h of
       None \<Rightarrow> (Inl (BErr opn KindPrecondition BHostStaging), h)
     | Some root \<Rightarrow> (Inr root, h @ [MadeTemp root]))"

definition brain_mkdir :: "brain_manager \<Rightarrow> string \<Rightarrow> string \<Rightarrow> unit bprog" where
  "brain_mkdir m opn dir = (\<lambda>h. if bm_mkdir m h dir then (Inr (), h @ [MadeDir dir])
     else (Inl (BErr opn KindPrecondition BHostStaging), h))"

definition brain_remove_all :: "string \<Rightarrow> unit bprog" where
  "brain_remove_all dir = (\<lambda>h. (Inr (), h @ [RemovedAll dir]))"

definition import_collect :: "brain_manager \<Rightarrow> string \<Rightarrow> import_options \<Rightarrow> string option \<Rightarrow> collected bprog" where
  "import_collect m opn opts payload = (\<lambda>h.
     case collect ((bm_collect m h (io_Source opts))\<lparr>th_Source := io_Source opts, th_Staging := payload\<rparr>) of
       Inl e \<Rightarrow> (Inl (BErr opn KindPrecondition BPreflight), h)
     | Inr c \<Rightarrow> (Inr c, h))"

definition report_collected :: "collected \<Rightarrow> unit mprog" where
  "report_collected c = update (\<lambda>l. l\<lparr>ml_Report := (ml_Report l)\<lparr>tr_Files := length (co_Entries c), tr_Markdown := co_Markdown c,
     tr_Attachments := co_Attachments c, tr_Bytes := manifest_bytes (co_Entries c),
     tr_ManifestSHA256 := manifest_digest (co_Entries c), tr_Skipped := co_Skipped c\<rparr>\<rparr>)"

definition import_dry_run :: "brain_manager \<Rightarrow> string \<Rightarrow> string \<Rightarrow> entry list \<Rightarrow> unit mprog" where
  "import_dry_run m opn into es = bnd (lift (inspect_or_fail m opn)) (\<lambda>status.
     if st_State status = StateUninitialized then ret ()
     else if st_State status = StateInitialized then bnd (lift (import_conflicts m opn es into)) set_conflicts
     else if st_State status = StateDrift then raise (BErr opn KindConflict BUnsafeDrift)
     else raise (BErr opn KindVerification BUnknownState))"

text \<open>Whether an existing vault may be replaced because it is pristine; a conflict otherwise fails.\<close>

definition import_admission :: "brain_manager \<Rightarrow> string \<Rightarrow> string \<Rightarrow> entry list \<Rightarrow> status_report \<Rightarrow> bool mprog" where
  "import_admission m opn into es status =
     (if st_State status \<noteq> StateInitialized then ret False
      else if into \<noteq> [] then bnd (lift (test_private_path m opn ''-e'' (bm_Vault m @ ''/'' @ into))) (\<lambda>exists.
        if exists then thn (set_conflicts 1) (raise (BErr opn KindConflict BDestinationExists)) else ret False)
      else bnd (lift (import_conflicts m opn es [])) (\<lambda>n. thn (set_conflicts n)
        (if n = 0 then ret False
         else bnd (lift (is_pristine_scaffold m opn status)) (\<lambda>pristine.
           if \<not> pristine then raise (BErr opn KindConflict (BConflicts n)) else ret True))))"

definition import_build :: "brain_manager \<Rightarrow> string \<Rightarrow> string \<Rightarrow> string \<Rightarrow> entry list \<Rightarrow> unit mprog" where
  "import_build m opn into hostPayload es = bnd (lift (inspect_or_fail m opn)) (\<lambda>status.
     let existing = (st_State status = StateInitialized) in
     if st_State status \<noteq> StateUninitialized \<and> \<not> existing then raise (BErr opn KindConflict BUnsafeDrift)
     else bnd (import_admission m opn into es status) (\<lambda>replacePristine.
       thn (lift (prepare_guest_import m opn hostPayload es))
         (lift (if existing then build_existing_import_candidate m opn into replacePristine
                else build_first_import_candidate m opn into))))"

text \<open>What follows the exchange: the new vault is inspected and its skill installed.\<close>

definition import_finish :: "brain_manager \<Rightarrow> string \<Rightarrow> unit mprog" where
  "import_finish m opn = bnd (lift (inspect_or_fail m opn)) (\<lambda>final.
     if st_State final \<noteq> StateInitialized then raise (BErr opn KindVerification BNotInitialized)
     else bnd (lift (activate_retrieval m opn (no_init_report\<lparr>ir_Status := final\<rparr>))) (\<lambda>_. set_swapped False))"

definition import_body :: "brain_manager \<Rightarrow> string \<Rightarrow> string \<Rightarrow> string \<Rightarrow> entry list \<Rightarrow> string \<Rightarrow> unit mprog" where
  "import_body m opn into hostPayload es token = thn (import_build m opn into hostPayload es)
     (thn (lift (refresh_init_lock m opn token))
       (thn (lift (exchange_import_candidate m opn))
         (thn (set_swapped True) (import_finish m opn))))"

definition import_deferred :: "brain_manager \<Rightarrow> string \<Rightarrow> string \<Rightarrow> brain_err option \<Rightarrow> brain_err option mprog" where
  "import_deferred m opn token e = bnd look (\<lambda>l.
     bnd (case e of
         None \<Rightarrow> ret (None, False)
       | Some err \<Rightarrow>
           (if \<not> ml_Swapped l then ret (Some err, False)
            else bnd (lift (attempt (exchange_import_candidate m opn))) (\<lambda>r. case r of
              Inl _ \<Rightarrow> ret (Some (BErr opn KindVerification (BRollback (be_cause err))), True)
            | Inr _ \<Rightarrow> ret (Some err, False)))) (\<lambda>(e1, rollbackFailed).
       thn (lift (brain_try_run m opn (root_exec ([''rm'', ''-rf'', ''--'', importStagingPath m] @
           (if rollbackFailed then [] else [importCandidatePath m])))))
         (bnd (lift (attempt (release_init_lock m opn token))) (\<lambda>r. ret (first_error e1 r)))))"

text \<open>From the validated options on; \<open>root\<close> is the host staging of a real run.\<close>

definition import_run :: "brain_manager \<Rightarrow> string \<Rightarrow> import_options \<Rightarrow> string \<Rightarrow> string option \<Rightarrow> unit mprog" where
  "import_run m opn opts into root =
     (let payload = map_option (\<lambda>r. file_join [r, ''payload'']) root in
      thn (lift (case payload of None \<Rightarrow> ret () | Some dir \<Rightarrow> brain_mkdir m opn dir))
      (bnd (lift (import_collect m opn opts payload)) (\<lambda>c.
        thn (report_collected c)
        (thn (lift (require_bootstrap_verified m opn))
        (thn (lift (require_root_access m opn))
        (case payload of
           None \<Rightarrow> import_dry_run m opn into (co_Entries c)
         | Some dir \<Rightarrow>
             (if co_Entries c = [] then raise (BErr opn KindPrecondition BNothingToImport)
              else bnd (lift (acquire_init_lock m opn)) (\<lambda>token.
                deferring (import_body m opn into dir (co_Entries c) token) (import_deferred m opn token)))))))))"

definition import_prog :: "brain_manager \<Rightarrow> string \<Rightarrow> import_options \<Rightarrow> unit mprog" where
  "import_prog m opn opts = (case validate_into (io_Into opts) of
       None \<Rightarrow> raise (BErr opn KindPrecondition BInto)
     | Some into \<Rightarrow>
         thn (update (\<lambda>l. l\<lparr>ml_Report := (ml_Report l)\<lparr>tr_FinalPath :=
             (if into \<noteq> [] then bm_Vault m @ ''/'' @ into else bm_Vault m)\<rparr>\<rparr>))
           (if io_DryRun opts then import_run m opn opts into None
            else bnd (lift (import_host_staging m opn)) (\<lambda>root.
              finally_do (import_run m opn opts into (Some root)) (lift (brain_remove_all root)))))"

definition brain_import :: "brain_manager \<Rightarrow> import_options \<Rightarrow> brain_history \<Rightarrow>
    (transfer_report \<times> brain_err option) \<times> brain_history" where
  "brain_import m opts h = (case with_report \<lparr>ml_Report = no_transfer_report (io_DryRun opts), ml_Swapped = False\<rparr>
       (import_prog m ''import'' opts) h of
     ((l, e), h') \<Rightarrow> ((ml_Report l, e), h'))"

end
