(* ===== verification/Brain_Sync.thy ===== *)
theory Brain_Sync
  imports Brain_Import
begin

text \<open>
  \<open>Manager.Sync\<close> of \<open>internal/brain/sync.go\<close>: the vault of a guest and the hub on the host exchange Git bundles and
  merge, outbound first. A merge that cannot be made is aborted and reported, and the other direction goes on.
\<close>

definition syncCommitMessage :: string where "syncCommitMessage = ''torio brain sync''"

definition syncStagingPath :: "brain_manager \<Rightarrow> string" where
  "syncStagingPath m = bm_Home m @ ''/.torio-brain-sync-staging''"

text \<open>The empty text when no data directory can be resolved.\<close>

definition hub_vault :: "brain_manager \<Rightarrow> string" where
  "hub_vault m =
     (if bm_HubRoot m \<noteq> [] then file_join [bm_HubRoot m, ''vault'']
      else if bm_XdgDataHome m \<noteq> [] then file_join [bm_XdgDataHome m, ''torio'', ''brain'', ''vault'']
      else (case bm_UserHome m of
          None \<Rightarrow> []
        | Some home \<Rightarrow> file_join [file_join [home, ''.local'', ''share''], ''torio'', ''brain'', ''vault'']))"

record brain_sync_report =
  bs_HubPath :: string
  bs_HubCreated :: bool
  bs_Snapshotted :: bool
  bs_ToHub :: int
  bs_ToGuest :: int
  bs_ConflictOutbound :: bool
  bs_ConflictInbound :: bool
  bs_Notes :: "string list"

definition brain_conflicted :: "brain_sync_report \<Rightarrow> bool" where
  "brain_conflicted r \<longleftrightarrow> bs_ConflictOutbound r \<or> bs_ConflictInbound r"

type_synonym 'a yprog = "(brain_err, brain_sync_report \<times> brain_history, 'a) eprog"

section \<open>Git on the host\<close>

definition brain_run_host :: "brain_manager \<Rightarrow> string \<Rightarrow> string \<Rightarrow> string list \<Rightarrow> result bprog" where
  "brain_run_host m opn dir args = (\<lambda>h.
     let argv = [''git''] @ (if dir \<noteq> [] then [''-C'', dir] else []) @ args; r = bm_git m h argv; h' = h @ [RanGit argv r] in
     case r of Inl e \<Rightarrow> (Inl (BErr opn KindGit BNoGit), h') | Inr res \<Rightarrow> (Inr res, h'))"

definition brain_must_run_host :: "brain_manager \<Rightarrow> string \<Rightarrow> string \<Rightarrow> string list \<Rightarrow> unit bprog" where
  "brain_must_run_host m opn dir args = bnd (brain_run_host m opn dir args) (exit_ok opn KindGit)"

definition brain_count_host :: "brain_manager \<Rightarrow> string \<Rightarrow> string \<Rightarrow> string \<Rightarrow> int bprog" where
  "brain_count_host m opn dir span = bnd (brain_run_host m opn dir [''rev-list'', ''--count'', span]) (\<lambda>res.
     if ExitCode res \<noteq> 0 then raise (brain_command_error opn KindGit (ExitCode res)) else brain_parse_count opn res)"

definition merge_args :: "string \<Rightarrow> string list" where
  "merge_args ref = torio_author @ [''merge'', ''--no-edit'', ''--allow-unrelated-histories'', ref]"

definition merge_host :: "brain_manager \<Rightarrow> string \<Rightarrow> string \<Rightarrow> string \<Rightarrow> bool bprog" where
  "merge_host m opn hub ref = bnd (brain_run_host m opn hub (merge_args ref)) (\<lambda>res.
     if ExitCode res = 0 then ret True
     else thn (brain_must_run_host m opn hub [''merge'', ''--abort'']) (ret False))"

definition merge_guest :: "brain_manager \<Rightarrow> string \<Rightarrow> string \<Rightarrow> bool bprog" where
  "merge_guest m opn ref = bnd (brain_run m opn (vault_git m (merge_args ref))) (\<lambda>res.
     if ExitCode res = 0 then ret True
     else thn (brain_must_run m opn KindGit (vault_git m [''merge'', ''--abort''])) (ret False))"

section \<open>The two directions\<close>

definition replica_ref :: "brain_manager \<Rightarrow> string" where
  "replica_ref m = ''refs/torio/'' @ (if bm_Name m = [] then ''replica'' else bm_Name m)"

definition snapshot_guest_vault :: "brain_manager \<Rightarrow> string \<Rightarrow> status_report \<Rightarrow> bool bprog" where
  "snapshot_guest_vault m opn status = (if st_GitState status \<noteq> GitDirty then ret False
     else thn (brain_must_run m opn KindGit (vault_git m [''add'', ''-A'', ''--'', ''.'']))
       (thn (brain_must_run m opn KindGit (vault_git m (torio_author @ [''commit'', ''-q'', ''-m'', syncCommitMessage])))
         (ret True)))"

definition brain_exists :: "brain_manager \<Rightarrow> string \<Rightarrow> bool bprog" where
  "brain_exists m p = (\<lambda>h. (Inr (bm_exists m h p), h))"

definition brain_copy_out :: "brain_manager \<Rightarrow> brain_err \<Rightarrow> string \<Rightarrow> string \<Rightarrow> unit bprog" where
  "brain_copy_out m err src dst = (\<lambda>h. let e = bm_copy_out m h in
     (case e of None \<Rightarrow> Inr () | Some x \<Rightarrow> Inl err, h @ [CopiedOut src dst e]))"

definition brain_mkdir_all :: "brain_manager \<Rightarrow> string \<Rightarrow> string \<Rightarrow> unit bprog" where
  "brain_mkdir_all m opn dir = (\<lambda>h. if bm_mkdir m h dir then (Inr (), h @ [MadeDir dir])
     else (Inl (BErr opn KindPrecondition BHostVault), h))"

definition ensure_hub_vault :: "brain_manager \<Rightarrow> string \<Rightarrow> string \<Rightarrow> bool bprog" where
  "ensure_hub_vault m opn hostBundle = (let hub = hub_vault m in
     bnd (brain_exists m (file_join [hub, ''.git''])) (\<lambda>present.
       if present then ret False
       else thn (brain_mkdir_all m opn hub)
         (thn (brain_must_run_host m opn [] [''clone'', ''--quiet'', ''--branch'', hubBranch, hostBundle, hub])
           (thn (brain_must_run_host m opn hub [''remote'', ''remove'', ''origin'']) (ret True)))))"

definition carry_vault_out :: "brain_manager \<Rightarrow> string \<Rightarrow> string \<Rightarrow> string bprog" where
  "carry_vault_out m opn hostRoot = bnd (brain_session_user m opn) (\<lambda>transportUser.
     thn (brain_must_run m opn KindGuestCommand (install_shared transportUser ''2770'' (syncStagingPath m)))
     (thn (brain_must_run m opn KindGit (vault_git m [''bundle'', ''create'', syncStagingPath m @ ''/guest.bundle'', hubBranch]))
     (let hostStaging = file_join [hostRoot, ''from-guest'']; hostBundle = file_join [hostStaging, ''guest.bundle''] in
      thn (brain_mkdir m opn hostStaging)
      (thn (brain_copy_out m (BErr opn KindTransport BNotCarried) (syncStagingPath m) hostStaging)
      (bnd (brain_exists m hostBundle) (\<lambda>arrived.
        if \<not> arrived then raise (BErr opn KindTransport BNotCarried) else ret hostBundle))))))"

definition brain_sync_outbound :: "brain_manager \<Rightarrow> string \<Rightarrow> string \<Rightarrow> unit yprog" where
  "brain_sync_outbound m opn hostRoot = bnd (lift (carry_vault_out m opn hostRoot)) (\<lambda>hostBundle.
     bnd (lift (ensure_hub_vault m opn hostBundle)) (\<lambda>created.
       thn (update (\<lambda>r. r\<lparr>bs_HubCreated := created\<rparr>))
       (if created then ret ()
        else (let hub = hub_vault m in
          thn (lift (brain_must_run_host m opn hub [''bundle'', ''verify'', hostBundle]))
          (thn (lift (brain_must_run_host m opn hub [''fetch'', ''--quiet'', hostBundle, hubBranch @ '':'' @ replica_ref m]))
          (bnd (lift (brain_count_host m opn hub (hubBranch @ ''..'' @ replica_ref m))) (\<lambda>ahead.
            if ahead = 0 then ret ()
            else bnd (lift (merge_host m opn hub (replica_ref m))) (\<lambda>merged.
              if \<not> merged then update (\<lambda>r. r\<lparr>bs_ConflictOutbound := True, bs_Notes := bs_Notes r @ [''conflict_to_hub'']\<rparr>)
              else update (\<lambda>r. r\<lparr>bs_ToHub := ahead\<rparr>)))))))))"

definition brain_sync_inbound :: "brain_manager \<Rightarrow> string \<Rightarrow> string \<Rightarrow> unit yprog" where
  "brain_sync_inbound m opn hostRoot =
     (let hostStaging = file_join [hostRoot, ''to-guest'']; hostBundle = file_join [hostStaging, ''hub.bundle''];
          guestBundle = syncStagingPath m @ ''/hub.bundle'' in
      thn (lift (brain_mkdir m opn hostStaging))
      (thn (lift (brain_must_run_host m opn (hub_vault m) [''bundle'', ''create'', hostBundle, hubBranch]))
      (thn (lift (brain_copy_in m (\<lambda>_. BErr opn KindTransport BNotCarried) hostStaging (syncStagingPath m)))
      (thn (lift (brain_must_run m opn KindGuestCommand (root_exec [''chmod'', ''2770'', syncStagingPath m])))
      (thn (lift (brain_must_run m opn KindGit (vault_git m [''bundle'', ''verify'', guestBundle])))
      (thn (lift (brain_must_run m opn KindGit (vault_git m [''fetch'', ''--quiet'', guestBundle, hubBranch @ '':'' @ hubRef])))
      (bnd (lift (brain_count_guest m opn (hubBranch @ ''..'' @ hubRef))) (\<lambda>behind.
        if behind = 0 then ret ()
        else bnd (lift (merge_guest m opn hubRef)) (\<lambda>merged.
          if \<not> merged then update (\<lambda>r. r\<lparr>bs_ConflictInbound := True, bs_Notes := bs_Notes r @ [''conflict_to_guest'']\<rparr>)
          else update (\<lambda>r. r\<lparr>bs_ToGuest := behind\<rparr>)))))))))) "

definition sync_admission :: "brain_manager \<Rightarrow> string \<Rightarrow> status_report bprog" where
  "sync_admission m opn = thn (require_bootstrap_verified m opn) (bnd (inspect_or_fail m opn) (\<lambda>status.
     if st_State status = StateInitialized then ret status
     else if st_State status = StateUninitialized then raise (BErr opn KindPrecondition BNoBrain)
     else raise (BErr opn KindConflict BUnsafeDrift)))"

definition brain_sync_body :: "brain_manager \<Rightarrow> string \<Rightarrow> status_report \<Rightarrow> string \<Rightarrow> unit yprog" where
  "brain_sync_body m opn status hostRoot = bnd (lift (snapshot_guest_vault m opn status)) (\<lambda>snapshotted.
     thn (update (\<lambda>r. r\<lparr>bs_Snapshotted := snapshotted\<rparr>))
       (thn (brain_sync_outbound m opn hostRoot) (brain_sync_inbound m opn hostRoot)))"

definition sync_clean_up :: "brain_manager \<Rightarrow> string \<Rightarrow> string \<Rightarrow> unit bprog" where
  "sync_clean_up m opn hostRoot = thn (brain_remove_all hostRoot)
     (brain_try_run m opn (root_exec [''rm'', ''-rf'', ''--'', syncStagingPath m]))"

definition brain_sync_prog :: "brain_manager \<Rightarrow> string \<Rightarrow> unit yprog" where
  "brain_sync_prog m opn = thn (update (\<lambda>r. r\<lparr>bs_HubPath := hub_vault m\<rparr>))
     (if hub_vault m = [] then raise (BErr opn KindPrecondition BNoHub)
      else bnd (lift (sync_admission m opn)) (\<lambda>status.
        bnd (lift (import_host_staging m opn)) (\<lambda>hostRoot.
          finally_do (brain_sync_body m opn status hostRoot) (lift (sync_clean_up m opn hostRoot)))))"

definition brain_sync :: "brain_manager \<Rightarrow> brain_history \<Rightarrow> (brain_sync_report \<times> brain_err option) \<times> brain_history" where
  "brain_sync m h = with_report \<lparr>bs_HubPath = [], bs_HubCreated = False, bs_Snapshotted = False, bs_ToHub = 0, bs_ToGuest = 0,
     bs_ConflictOutbound = False, bs_ConflictInbound = False, bs_Notes = []\<rparr> (brain_sync_prog m ''sync'') h"

end
