(* ===== verification/Brain_Facts.thy ===== *)
theory Brain_Facts
  imports Brain_Sync
begin

text \<open>
  What the operations of the Brain may do in the guest. \<open>written_paths\<close> reads an argv as the paths it may change;
  the frames carry a bound on every command through the steps.
\<close>

section \<open>Reading an argv\<close>

definition brain_command :: "string list \<Rightarrow> string list" where
  "brain_command argv = (if take 3 argv = [''sudo'', ''-n'', ''--''] then drop 3 argv
     else if take 3 argv = [''sudo'', ''-n'', ''-u''] then drop 5 argv else argv)"

definition git_written :: "string \<Rightarrow> string list \<Rightarrow> string list option" where
  "git_written dir args = (let sub = (if take 1 args = [''-c''] then drop 4 args else args); k = take 1 sub in
     if k \<in> {[''rev-parse''], [''status''], [''rev-list''], [''ls-tree'']} \<or> sub = [''remote''] \<or>
         take 2 sub = [''bundle'', ''verify''] then Some []
     else if k \<in> {[''init''], [''add''], [''commit''], [''merge''], [''fetch'']} then Some [dir]
     else if take 2 sub = [''bundle'', ''create''] then Some [sub ! 2] else None)"

text \<open>The paths a command may change, \<open>None\<close> for a command that is not known.\<close>

definition written_paths :: "string list \<Rightarrow> string list option" where
  "written_paths argv = (let c = brain_command argv; k = take 1 c in
     if take 2 c = [''git'', ''-C''] then git_written (c ! 2) (drop 3 c)
     else if k \<in> {[''true''], [''test''], [''stat''], [''findmnt''], [''cat''], [''sha256sum''], [''du''], [''id'']} then Some []
     else if k = [''find''] \<and> set (drop 2 c) \<inter> {''-delete'', ''-exec'', ''-execdir'', ''-ok'', ''-okdir'', ''-fprint''} = {} then Some []
     else if take 3 c \<in> {[''rm'', ''-rf'', ''--''], [''rm'', ''-f'', ''--'']} then Some (drop 3 c)
     else if k = [''rmdir''] then Some (filter (\<lambda>a. a \<noteq> ''--'') (drop 1 c))
     else if take 2 c = [''mv'', ''-T''] then Some (drop 2 c)
     else if take 2 c = [''cp'', ''-a''] then Some [last c]
     else if k \<in> {[''tee''], [''touch'']} then Some (drop 1 c)
     else if take 2 c = [''mkdir'', ''-m''] then Some (drop 3 c)
     else if take 2 c = [''chmod'', ''-R''] \<or> k = [''chown''] then Some [last c]
     else if k = [''chmod''] then Some (drop 2 c)
     else if take 2 c = [''install'', ''-d''] then Some (drop 8 c)
     else if k = [''dd''] then Some [drop 3 (c ! 1)]
     else if k = [''python3''] then Some (drop 3 c)
     else None)"

lemma has_prefix_same [simp]: "has_prefix (r @ s) r" "has_prefix r r"
  by (simp_all add: has_prefix_def)

definition below :: "string list \<Rightarrow> string \<Rightarrow> bool" where
  "below roots p \<longleftrightarrow> (\<exists>r\<in>set roots. has_prefix p r)"

lemma below_intros [simp]: "r \<in> set roots \<Longrightarrow> below roots r" "r \<in> set roots \<Longrightarrow> below roots (r @ s)"
  unfolding below_def by (metis has_prefix_same)+

lemma below_trans: "has_prefix p r \<Longrightarrow> r \<in> set roots \<Longrightarrow> below roots p"
  by (auto simp: below_def)

definition writes_below :: "string list \<Rightarrow> string list \<Rightarrow> bool" where
  "writes_below roots argv \<longleftrightarrow> (\<exists>ps. written_paths argv = Some ps \<and> list_all (below roots) ps)"

lemmas brain_argv = writes_below_def written_paths_def brain_command_def git_written_def root_exec_def user_exec_as_def
  as_agent_def stat_argv_def vault_git_def git_in_def find_in_def install_dir_def install_shared_def torio_author_def
  merge_args_def exchange_argv_def

section \<open>The frame of a history\<close>

definition extends :: "('e \<Rightarrow> bool) \<Rightarrow> 'e list \<Rightarrow> 'e list \<Rightarrow> bool" where
  "extends P h h' \<longleftrightarrow> (\<exists>es. h' = h @ es \<and> list_all P es)"

lemma extends_refl: "extends P h h"
  by (simp add: extends_def)

lemma extends_trans: "extends P h h1 \<Longrightarrow> extends P h1 h2 \<Longrightarrow> extends P h h2"
  by (auto simp: extends_def)

interpretation ext: frame "extends P" for P
  by unfold_locales (auto intro: extends_refl extends_trans)

interpretation ext_rep: frame "on_world (extends P)" for P
  by unfold_locales (auto simp: on_world_def intro: extends_refl extends_trans)

named_theorems brain_frame \<open>rules that carry a bound on the commands through a program\<close>

declare ext.keeps_rules [brain_frame] ext_rep.keeps_rules [brain_frame] rep_lift [brain_frame]

lemma ext_update [brain_frame]: "keeps (on_world (extends P)) (update f)"
  by (auto simp: keeps_def on_world_def update_def extends_refl)

lemma ext_look [brain_frame]: "keeps (on_world (extends P)) look"
  by (auto simp: keeps_def on_world_def look_def extends_refl)

lemma keeps_on_error: "keeps (extends P) p \<Longrightarrow> keeps (extends P) c \<Longrightarrow> keeps (extends P) (on_error p c)"
  unfolding keeps_def on_error_def by (auto split: prod.splits sum.splits intro: extends_refl) (metis snd_conv extends_trans)+

declare keeps_on_error [brain_frame]

lemma keeps_case_prod_app [brain_frame]:
  "(\<And>a b. z = (a, b) \<Longrightarrow> keeps R (f a b y)) \<Longrightarrow> keeps R ((case z of (a, b) \<Rightarrow> f a b) y)"
  by (cases z) simp

lemma keeps_when [brain_frame]: "(b \<Longrightarrow> keeps (extends P) p) \<Longrightarrow> keeps (extends P) (when_do b p)"
  by (simp add: when_do_def ext.keeps_ret)

lemma keeps_when_rep [brain_frame]: "(b \<Longrightarrow> keeps (on_world (extends P)) p) \<Longrightarrow> keeps (on_world (extends P)) (when_do b p)"
  by (simp add: when_do_def ext_rep.keeps_ret)

lemma keeps_deferring [brain_frame]:
  "keeps (on_world (extends P)) p \<Longrightarrow> (\<And>e. keeps (on_world (extends P)) (d e)) \<Longrightarrow> keeps (on_world (extends P)) (deferring p d)"
  unfolding keeps_def deferring_def
  by (auto split: prod.splits sum.splits option.splits) (metis ext_rep.trans snd_conv)+

lemma ext_run_input:
  "(\<And>r. P (Ran stdin argv r)) \<Longrightarrow> keeps (extends P) (brain_run_input m opn stdin argv)"
  by (auto simp: keeps_def brain_run_input_def brain_exec_def Let_def extends_def split: sum.split)

lemma ext_run: "(\<And>r. P (Ran None argv r)) \<Longrightarrow> keeps (extends P) (brain_run m opn argv)"
  unfolding brain_run_def by (rule ext_run_input)

lemma ext_exit_ok [brain_frame]: "keeps (extends P) (exit_ok opn kind res)"
  unfolding exit_ok_def by (intro brain_frame)

lemma ext_must_run: "(\<And>r. P (Ran None argv r)) \<Longrightarrow> keeps (extends P) (brain_must_run m opn kind argv)"
  unfolding brain_must_run_def by (intro brain_frame ext_run)

lemma ext_must_run_input:
  "(\<And>r. P (Ran (Some stdin) argv r)) \<Longrightarrow> keeps (extends P) (brain_must_run_input m opn kind stdin argv)"
  unfolding brain_must_run_input_def by (intro brain_frame ext_run_input)

lemma ext_try_run: "(\<And>r. P (Ran None argv r)) \<Longrightarrow> keeps (extends P) (brain_try_run m opn argv)"
  unfolding brain_try_run_def by (intro brain_frame ext_run)

lemma ext_test_answer [brain_frame]: "keeps (extends P) (brain_test_answer opn res)"
  unfolding brain_test_answer_def by (intro brain_frame)

lemma ext_any_of: "(\<And>p. p \<in> set ps \<Longrightarrow> keeps (extends P) (test p)) \<Longrightarrow> keeps (extends P) (any_of test ps)"
  by (induction ps) (auto intro!: brain_frame)

lemma ext_all_of: "(\<And>p. p \<in> set ps \<Longrightarrow> keeps (extends P) (test p)) \<Longrightarrow> keeps (extends P) (all_of test ps)"
  by (induction ps) (auto intro!: brain_frame)

lemma ext_each_of: "(\<And>p. p \<in> set ps \<Longrightarrow> keeps (extends P) (test p)) \<Longrightarrow> keeps (extends P) (each_of test ps)"
  by (induction ps) (auto intro!: brain_frame)

section \<open>Bounds on commands\<close>

text \<open>\<open>P\<close> admits every command that changes nothing outside the given roots, and every step on the host.\<close>

definition admits :: "string list \<Rightarrow> (brain_event \<Rightarrow> bool) \<Rightarrow> bool" where
  "admits roots P \<longleftrightarrow> (\<forall>stdin argv r. writes_below roots argv \<longrightarrow> P (Ran stdin argv r)) \<and>
     P BootstrapAsked \<and> (\<forall>a r. P (RanGit a r)) \<and> (\<forall>s d e. P (CopiedIn s d e)) \<and> (\<forall>s d e. P (CopiedOut s d e)) \<and>
     (\<forall>d. P (MadeTemp d) \<and> P (MadeDir d) \<and> P (RemovedAll d))"

lemma admits_Ran: "admits roots P \<Longrightarrow> writes_below roots argv \<Longrightarrow> P (Ran stdin argv r)"
  by (simp add: admits_def)

lemma writes_below_mono: "writes_below roots' argv \<Longrightarrow> set roots' \<subseteq> set roots \<Longrightarrow> writes_below roots argv"
  unfolding writes_below_def below_def list_all_iff by (meson subsetD)

lemma admits_mono: "admits roots P \<Longrightarrow> set roots' \<subseteq> set roots \<Longrightarrow> admits roots' P"
  by (auto simp: admits_def dest: writes_below_mono)

lemma adm_run: "admits roots P \<Longrightarrow> writes_below roots argv \<Longrightarrow> keeps (extends P) (brain_run m opn argv)"
  by (rule ext_run) (rule admits_Ran)

lemma adm_must_run: "admits roots P \<Longrightarrow> writes_below roots argv \<Longrightarrow> keeps (extends P) (brain_must_run m opn kind argv)"
  by (rule ext_must_run) (rule admits_Ran)

lemma adm_must_run_input:
  "admits roots P \<Longrightarrow> writes_below roots argv \<Longrightarrow> keeps (extends P) (brain_must_run_input m opn kind stdin argv)"
  by (rule ext_must_run_input) (rule admits_Ran)

lemma adm_try_run: "admits roots P \<Longrightarrow> writes_below roots argv \<Longrightarrow> keeps (extends P) (brain_try_run m opn argv)"
  by (rule ext_try_run) (rule admits_Ran)

lemma adm_test_path: "admits roots P \<Longrightarrow> keeps (extends P) (brain_test_path m opn flag p)"
  unfolding brain_test_path_def by (intro brain_frame adm_run) (simp_all add: brain_argv)

lemma adm_test_root_path: "admits roots P \<Longrightarrow> keeps (extends P) (brain_test_root_path m opn flag p)"
  unfolding brain_test_root_path_def by (intro brain_frame adm_run) (simp_all add: brain_argv)

lemma adm_test_private_path: "admits roots P \<Longrightarrow> keeps (extends P) (test_private_path m opn flag p)"
proof -
  assume a: "admits roots P"
  have "P (Ran None (as_agent m [''test'', flag, p]) r)" for r
    using a by (rule admits_Ran) (simp add: brain_argv)
  then show ?thesis by (auto simp: keeps_def test_private_path_def brain_exec_def Let_def extends_def split: sum.split)
qed

lemma adm_bootstrap: "admits roots P \<Longrightarrow> keeps (extends P) (require_bootstrap_verified m opn)"
  by (auto simp: keeps_def require_bootstrap_verified_def extends_def admits_def)

lemma adm_root_access: "admits roots P \<Longrightarrow> keeps (extends P) (require_root_access m opn)"
  unfolding require_root_access_def by (intro adm_must_run) (simp_all add: brain_argv)

lemmas adm_basic = adm_test_path adm_test_root_path adm_test_private_path adm_bootstrap adm_root_access

lemmas adm_intros = ext_any_of ext_all_of ext_each_of adm_run adm_must_run adm_must_run_input adm_try_run adm_basic

section \<open>Inspections change nothing\<close>

text \<open>Every command of an inspection is admitted whatever the roots are.\<close>

lemma adm_digest: "admits roots P \<Longrightarrow> keeps (extends P) (skill_digest_matches m opn spec)"
  unfolding skill_digest_matches_def
  by (intro brain_frame adm_intros) (simp_all add: brain_argv brain_frame split: list.split)

lemma adm_ownership: "admits roots P \<Longrightarrow> keeps (extends P) (skill_ownership_secure m opn)"
  unfolding skill_ownership_secure_def
  by (intro ext_all_of) (auto intro!: brain_frame adm_intros simp: brain_argv)

lemma adm_probe: "admits roots P \<Longrightarrow> keeps (extends P) (probe_skill m opn d cd)"
  unfolding probe_skill_def by (intro brain_frame adm_intros adm_digest adm_ownership)

lemma adm_payloads [brain_frame]: "keeps (extends P) (skill_payloads m opn)"
  unfolding skill_payloads_def by (intro brain_frame)

lemma adm_issue [brain_frame]: "keeps (on_world (extends P)) (st_issue s)"
  unfolding st_issue_def by (rule ext_update)

lemma adm_set_state [brain_frame]: "keeps (on_world (extends P)) (set_state s)"
  unfolding set_state_def by (rule ext_update)

lemma adm_parse_count [brain_frame]: "keeps (extends P) (brain_parse_count opn res)"
  unfolding brain_parse_count_def by (intro brain_frame)

lemma adm_count_guest: "admits roots P \<Longrightarrow> keeps (extends P) (brain_count_guest m opn span)"
  unfolding brain_count_guest_def by (intro brain_frame adm_intros) (simp_all add: brain_argv)

lemma adm_distance: "admits roots P \<Longrightarrow> keeps (on_world (extends P)) (describe_hub_distance m opn)"
  unfolding describe_hub_distance_def by (intro brain_frame adm_intros adm_count_guest) (simp_all add: brain_argv)

lemma adm_inspect_git: "admits roots P \<Longrightarrow> keeps (on_world (extends P)) (inspect_git m opn)"
  unfolding inspect_git_def by (intro brain_frame adm_intros) (simp_all add: brain_argv)

lemma adm_count_dots:
  "admits roots P \<Longrightarrow> writes_below roots (as_agent m args) \<Longrightarrow> keeps (extends P) (count_dots m opn args)"
  unfolding count_dots_def by (intro brain_frame adm_intros)

lemma adm_counts: "admits roots P \<Longrightarrow> keeps (on_world (extends P)) (inspect_counts m opn b)"
  unfolding inspect_counts_def by (intro brain_frame adm_intros adm_count_dots) (simp_all add: brain_argv)

lemma adm_contents: "admits roots P \<Longrightarrow> keeps (on_world (extends P)) (inspect_contents m opn)"
  unfolding inspect_contents_def
  by (intro brain_frame adm_intros adm_inspect_git adm_counts adm_distance) (simp_all add: brain_argv)

lemma adm_directory: "admits roots P \<Longrightarrow> keeps (on_world (extends P)) (inspect_vault_directory m opn)"
  unfolding inspect_vault_directory_def by (intro brain_frame adm_intros adm_contents) (simp_all add: brain_argv)

lemma adm_vault: "admits roots P \<Longrightarrow> keeps (on_world (extends P)) (inspect_vault m opn)"
  unfolding inspect_vault_def by (intro brain_frame adm_intros adm_directory) (simp_all add: brain_argv)

lemma adm_inspect_prog: "admits roots P \<Longrightarrow> keeps (on_world (extends P)) (inspect_status_prog m opn)"
  unfolding inspect_status_prog_def by (intro brain_frame adm_intros adm_probe adm_vault)

lemma with_report_extends:
  "keeps (on_world R) p \<Longrightarrow> R h (snd (with_report r0 p h))"
  by (auto simp: keeps_def on_world_def with_report_world)

lemma adm_inspect: "admits roots P \<Longrightarrow> keeps (extends P) (inspect_status m opn)"
  using with_report_extends [OF adm_inspect_prog]
  by (auto simp: keeps_def inspect_status_def split: prod.splits) (metis snd_conv)

lemma adm_inspect_or_fail: "admits roots P \<Longrightarrow> keeps (extends P) (inspect_or_fail m opn)"
  unfolding inspect_or_fail_def by (intro brain_frame adm_intros adm_inspect)

section \<open>The lock and the skill\<close>

lemma adm_verify_lock: "admits roots P \<Longrightarrow> keeps (extends P) (verify_init_lock m opn token)"
  unfolding verify_init_lock_def by (intro brain_frame adm_intros) (simp_all add: brain_argv)

lemma adm_refresh_lock:
  "admits roots P \<Longrightarrow> lockPath m \<in> set roots \<Longrightarrow> keeps (extends P) (refresh_init_lock m opn token)"
  unfolding refresh_init_lock_def by (intro brain_frame adm_intros adm_verify_lock) (auto simp: brain_argv)

lemma adm_release_lock:
  "admits roots P \<Longrightarrow> lockPath m \<in> set roots \<Longrightarrow> keeps (extends P) (release_init_lock m opn token)"
  unfolding release_init_lock_def by (intro brain_frame adm_intros adm_verify_lock) (auto simp: brain_argv)

lemma adm_recover_lock:
  "admits roots P \<Longrightarrow> lockPath m \<in> set roots \<Longrightarrow> keeps (extends P) (recover_stale_init_lock m opn token)"
  unfolding recover_stale_init_lock_def by (intro brain_frame adm_intros) (auto simp: brain_argv)

lemma adm_claim_lock:
  "admits roots P \<Longrightarrow> lockPath m \<in> set roots \<Longrightarrow> keeps (extends P) (claim_init_lock m opn token)"
  unfolding claim_init_lock_def by (intro brain_frame adm_intros adm_verify_lock) (auto simp: brain_argv)

lemma adm_acquire_lock:
  assumes "admits roots P" and "lockPath m \<in> set roots"
  shows "keeps (extends P) (acquire_init_lock m opn)"
proof -
  have turn: "keeps (extends P) (lock_turn m opn token p)" if "keeps (extends P) p" for token p
    unfolding lock_turn_def using that assms by (intro brain_frame adm_intros adm_claim_lock) (auto simp: brain_argv)
  have "keeps (extends P) (thn (lock_turn m opn token (bnd (recover_stale_init_lock m opn token) (\<lambda>recovered.
      if \<not> recovered then raise (BErr opn KindConflict BLockHeld)
      else lock_turn m opn token (raise (BErr opn KindConflict BLockHeld))))) (ret token))" for token
    by (intro brain_frame adm_intros turn adm_recover_lock [OF assms])
  then show ?thesis unfolding keeps_def acquire_init_lock_def by (auto simp: extends_refl split: option.split)
qed

text \<open>The directories the skill is kept in, none when there is no skill to install, and where it is staged.\<close>

definition skill_roots :: "brain_manager \<Rightarrow> string list" where
  "skill_roots m = skillStagingPath m # (if Installable m then [bm_SkillRoot m] else [])"

lemma skill_paths_below:
  "has_prefix (skillCategoryPath m) (bm_SkillRoot m)" "has_prefix (skillPath m) (bm_SkillRoot m)"
  "has_prefix (skillFilePath m) (bm_SkillRoot m)"
  "skillCategoryFilePath m \<noteq> [] \<Longrightarrow> has_prefix (skillCategoryFilePath m) (bm_SkillRoot m)"
  "legacySkillPath m \<noteq> [] \<Longrightarrow> has_prefix (legacySkillPath m @ s) (bm_SkillRoot m)"
  by (auto simp: skillCategoryPath_def skillPath_def skillFilePath_def skillCategoryFilePath_def legacySkillPath_def has_prefix_def)

lemma adm_write_skill:
  assumes "admits roots P" and "set (skill_roots m) \<subseteq> set roots" and "Installable m"
    and "has_prefix dest (bm_SkillRoot m)"
  shows "keeps (extends P) (write_skill_file m opn payload dest)"
  unfolding write_skill_file_def using assms
  by (intro brain_frame adm_intros) (auto simp: brain_argv skill_roots_def below_trans)

lemma adm_legacy:
  assumes "admits roots P" and "set (skill_roots m) \<subseteq> set roots" and "Installable m"
  shows "keeps (extends P) (remove_legacy_skill m opn)"
  unfolding remove_legacy_skill_def using assms skill_paths_below(5) [of m "''/SKILL.md''"] skill_paths_below(5) [of m "[]"]
  by (intro brain_frame adm_intros) (auto simp: brain_argv skill_roots_def below_trans)

lemma adm_install_skill:
  assumes "admits roots P" and "set (skill_roots m) \<subseteq> set roots"
  shows "keeps (extends P) (install_skill m opn)"
proof (cases "Installable m")
  case True
  then show ?thesis
    unfolding install_skill_def using assms skill_paths_below [of m]
    by (intro brain_frame adm_intros adm_probe adm_legacy adm_write_skill)
      (auto simp: brain_argv skill_roots_def below_trans)
qed (simp add: install_skill_def ext.keeps_ret)

lemma adm_activate:
  "admits roots P \<Longrightarrow> set (skill_roots m) \<subseteq> set roots \<Longrightarrow> keeps (extends P) (activate_retrieval m opn r)"
  unfolding activate_retrieval_def by (intro brain_frame adm_intros adm_install_skill)

section \<open>Building a scaffold and a candidate\<close>

lemma adm_snapshot: "admits roots P \<Longrightarrow> keeps (extends P) (verify_snapshot_repository m opn dir)"
  unfolding verify_snapshot_repository_def by (intro brain_frame adm_intros) (simp_all add: brain_argv)

lemma adm_scaffold_file:
  "admits roots P \<Longrightarrow> below roots target \<Longrightarrow> keeps (extends P) (write_scaffold_file m opn name target)"
  unfolding write_scaffold_file_def by (intro brain_frame adm_intros) (simp_all add: brain_argv)

lemma adm_build_scaffold:
  assumes "admits roots P" and "lockPath m \<in> set roots" and "stagingPath m \<in> set roots"
  shows "keeps (extends P) (build_scaffold m opn token)"
  unfolding build_scaffold_def using assms
  by (intro brain_frame adm_intros adm_refresh_lock adm_scaffold_file adm_snapshot) (auto simp: brain_argv list_all_iff)

lemma adm_session_user: "admits roots P \<Longrightarrow> keeps (extends P) (brain_session_user m opn)"
  unfolding brain_session_user_def by (intro brain_frame adm_intros) (simp_all add: brain_argv)

lemma adm_copy_in [brain_frame]: "admits roots P \<Longrightarrow> keeps (extends P) (brain_copy_in m f src dst)"
  by (auto simp: keeps_def brain_copy_in_def Let_def extends_def admits_def)

lemma adm_copy_out: "admits roots P \<Longrightarrow> keeps (extends P) (brain_copy_out m e src dst)"
  by (auto simp: keeps_def brain_copy_out_def Let_def extends_def admits_def)

lemma adm_mkdir: "admits roots P \<Longrightarrow> keeps (extends P) (brain_mkdir m opn dir)"
  by (auto simp: keeps_def brain_mkdir_def extends_def admits_def)

lemma adm_temp: "admits roots P \<Longrightarrow> keeps (extends P) (import_host_staging m opn)"
  by (auto simp: keeps_def import_host_staging_def extends_def admits_def split: option.split)

lemma adm_remove_all: "admits roots P \<Longrightarrow> keeps (extends P) (brain_remove_all dir)"
  by (auto simp: keeps_def brain_remove_all_def extends_def admits_def)

lemma adm_collect [brain_frame]: "keeps (extends P) (import_collect m opn opts payload)"
  by (auto simp: keeps_def import_collect_def extends_refl split: sum.split)

lemma adm_conflicts: "admits roots P \<Longrightarrow> keeps (extends P) (count_conflicts m opn base es)"
  by (induction es) (auto intro!: brain_frame adm_intros)

lemma adm_pristine: "admits roots P \<Longrightarrow> keeps (extends P) (is_pristine_scaffold m opn status)"
  unfolding is_pristine_scaffold_def pristine_file_def by (intro brain_frame adm_intros) (simp_all add: brain_argv)

definition candidate_roots :: "brain_manager \<Rightarrow> string list" where
  "candidate_roots m = [importStagingPath m, importCandidatePath m]"

lemma adm_no_special:
  "admits roots P \<Longrightarrow> writes_below roots (as_agent m args) \<Longrightarrow> keeps (extends P) (no_special_files m opn args)"
  unfolding no_special_files_def by (intro brain_frame adm_intros)

lemma adm_verify_payload: "admits roots P \<Longrightarrow> keeps (extends P) (verify_guest_payload m opn es)"
  unfolding verify_guest_payload_def by (intro brain_frame adm_intros adm_no_special) (simp_all add: brain_argv)

lemma payload_below: "importStagingPath m \<in> set roots \<Longrightarrow> below roots (importPayloadPath m)"
  "importStagingPath m \<in> set roots \<Longrightarrow> below roots (importPayloadPath m @ s)"
  "importStagingPath m \<in> set roots \<Longrightarrow> below roots (importManifestPath m)"
  by (simp_all add: importPayloadPath_def importManifestPath_def)

lemma adm_prepare_import:
  assumes "admits roots P" and "set (candidate_roots m) \<subseteq> set roots"
  shows "keeps (extends P) (prepare_guest_import m opn payload es)"
  unfolding prepare_guest_import_def adopt_guest_payload_def using assms payload_below [of m roots]
  by (intro brain_frame adm_intros adm_session_user adm_verify_payload adm_copy_in)
    (auto simp: brain_argv candidate_roots_def)

end
