(* ===== verification/Brain_Import_Facts.thy ===== *)
theory Brain_Import_Facts
  imports Brain_Facts Path_Facts
begin

text \<open>
  The commands of an import and of a reconciliation, and where the previous vault is at every moment of an import.
\<close>

section \<open>A contained destination\<close>

lemma clean_join:
  assumes "clean_root c" and "list_all plain_name cs" and "cs \<noteq> []"
  shows "clean_root (c @ ''/'' @ join ''/'' cs) \<and>
    path_dir (c @ ''/'' @ join ''/'' cs) = (if length cs = 1 then c else c @ ''/'' @ join ''/'' (butlast cs))"
  using assms(2,3)
proof (induction cs rule: rev_induct)
  case (snoc x xs)
  show ?case
  proof (cases "xs = []")
    case True
    then show ?thesis using snoc.prems child_path [OF assms(1), of x] by simp
  next
    case False
    then have "clean_root (c @ ''/'' @ join ''/'' xs)" using snoc by simp
    from child_path [OF this, of x] show ?thesis using False snoc.prems by (simp add: join_snoc)
  qed
qed simp

lemma contained_parent:
  assumes "clean_root c" and "validate_into v = Some into" and "into \<noteq> []"
  shows "has_prefix (path_dir (c @ ''/'' @ into)) c"
proof -
  let ?cs = "split_on CHR ''/'' into"
  have v: "into = v" "\<forall>seg\<in>set ?cs. seg \<notin> {[], ''.'', ''..'', ''.git'', ''.obsidian''}"
    using assms(2,3) by (auto simp: validate_into_def list_ex_iff split: if_splits)
  then have "list_all plain_name ?cs" by (auto simp: list_all_iff plain_name_def dest: split_on_no_sep)
  from clean_join [OF assms(1) this] show ?thesis by (simp add: join_split_on split: if_splits)
qed

section \<open>Building the candidate\<close>

definition into_ok :: "brain_manager \<Rightarrow> string \<Rightarrow> bool" where
  "into_ok m into \<longleftrightarrow> into = [] \<or> has_prefix (path_dir (importCandidatePath m @ ''/'' @ into)) (importCandidatePath m)"

lemma adm_move_payload:
  assumes "admits roots P" and "set (candidate_roots m) \<subseteq> set roots" and "into \<noteq> []" and "into_ok m into"
  shows "keeps (extends P) (move_payload_into_contained_candidate m opn into)"
  unfolding move_payload_into_contained_candidate_def using assms payload_below [of m roots]
  by (intro brain_frame adm_intros) (auto simp: brain_argv candidate_roots_def into_ok_def below_trans)

lemma adm_commit_candidate:
  assumes "admits roots P" and "set (candidate_roots m) \<subseteq> set roots"
  shows "keeps (extends P) (commit_candidate m opn args)"
  unfolding commit_candidate_def using assms by (intro brain_frame adm_intros) (auto simp: brain_argv candidate_roots_def)

lemma adm_build_first:
  assumes "admits roots P" and "set (candidate_roots m) \<subseteq> set roots" and "into_ok m into"
  shows "keeps (extends P) (build_first_import_candidate m opn into)"
  unfolding build_first_import_candidate_def using assms payload_below [of m roots]
  by (intro brain_frame adm_intros adm_move_payload adm_commit_candidate adm_snapshot adm_scaffold_file)
    (auto simp: brain_argv candidate_roots_def list_all_iff)

lemma adm_build_existing:
  assumes "admits roots P" and "set (candidate_roots m) \<subseteq> set roots" and "into_ok m into"
  shows "keeps (extends P) (build_existing_import_candidate m opn into b)"
  unfolding build_existing_import_candidate_def using assms payload_below [of m roots]
  by (intro brain_frame adm_intros adm_move_payload adm_commit_candidate adm_snapshot)
    (auto simp: brain_argv candidate_roots_def list_all_iff)

section \<open>Steps that leave the exchange flag alone\<close>

definition calm :: "(brain_event \<Rightarrow> bool) \<Rightarrow> import_locals \<times> brain_history \<Rightarrow> import_locals \<times> brain_history \<Rightarrow> bool" where
  "calm P s s' \<longleftrightarrow> ml_Swapped (fst s') = ml_Swapped (fst s) \<and> extends P (snd s) (snd s')"

interpretation calm: frame "calm P" for P
  by unfold_locales (auto simp: calm_def intro: extends_refl extends_trans)

lemma calm_lift: "keeps (extends P) p \<Longrightarrow> keeps (calm P) (lift p)"
  by (auto simp: keeps_def calm_def lift_def split: prod.splits) (metis snd_conv)

lemma calm_update: "(\<And>l. ml_Swapped (f l) = ml_Swapped l) \<Longrightarrow> keeps (calm P) (update f)"
  by (auto simp: keeps_def calm_def update_def extends_refl)

lemma calm_conflicts: "keeps (calm P) (set_conflicts n)"
  unfolding set_conflicts_def by (rule calm_update) simp

lemma calm_collected: "keeps (calm P) (report_collected c)"
  unfolding report_collected_def by (rule calm_update) simp

lemmas calm_intros = calm.keeps_rules ext.keeps_if calm_lift calm_conflicts calm_collected

lemma calm_admission: "admits roots P \<Longrightarrow> keeps (calm P) (import_admission m opn into es status)"
  unfolding import_admission_def import_conflicts_def
  by (intro calm_intros adm_test_private_path adm_conflicts adm_pristine)

lemma calm_build:
  assumes "admits roots P" and "set (candidate_roots m) \<subseteq> set roots" and "into_ok m into"
  shows "keeps (calm P) (import_build m opn into payload es)"
  unfolding import_build_def using assms
  by (intro calm_intros adm_inspect_or_fail calm_admission adm_prepare_import adm_build_first adm_build_existing)

lemma calm_dry_run: "admits roots P \<Longrightarrow> keeps (calm P) (import_dry_run m opn into es)"
  unfolding import_dry_run_def import_conflicts_def
  by (intro calm_intros adm_inspect_or_fail adm_conflicts)

section \<open>Where the previous vault is\<close>

datatype brain_place = AtVault | AtCandidate | Lost

definition apart :: "string \<Rightarrow> string \<Rightarrow> bool" where
  "apart a b \<longleftrightarrow> \<not> has_prefix a b \<and> \<not> has_prefix b a"

definition path_at :: "brain_manager \<Rightarrow> brain_place \<Rightarrow> string" where
  "path_at m p = (if p = AtVault then bm_Vault m else importCandidatePath m)"

text \<open>A command known to change nothing at, below or above a path.\<close>

definition spares :: "string list \<Rightarrow> string \<Rightarrow> bool" where
  "spares argv p \<longleftrightarrow> (\<exists>ps. written_paths argv = Some ps \<and> list_all (apart p) ps)"

text \<open>An exchange that exits with zero moves the vault; any other command that may touch the place where it is
  counts as losing it.\<close>

fun place_step :: "brain_manager \<Rightarrow> brain_place \<Rightarrow> brain_event \<Rightarrow> brain_place" where
  "place_step m p (Ran stdin argv r) =
     (if p = Lost then Lost
      else if argv = exchange_argv m then
        (case r of
           Inr res \<Rightarrow> if ExitCode res \<noteq> 0 then p else if p = AtVault then AtCandidate else AtVault
         | Inl e \<Rightarrow> p)
      else if spares argv (path_at m p) then p else Lost)"
| "place_step m p _ = p"

definition place_after :: "brain_manager \<Rightarrow> brain_place \<Rightarrow> brain_event list \<Rightarrow> brain_place" where
  "place_after m p es = foldl (place_step m) p es"

lemma place_after_simps [simp]:
  "place_after m p [] = p" "place_after m p (es @ fs) = place_after m (place_after m p es) fs"
  "place_after m p (e # es) = place_after m (place_step m p e) es"
  by (simp_all add: place_after_def)

definition import_roots :: "brain_manager \<Rightarrow> string list" where
  "import_roots m = lockPath m # candidate_roots m @ skill_roots m"

definition finish_roots :: "brain_manager \<Rightarrow> string list" where
  "finish_roots m = lockPath m # importStagingPath m # skill_roots m"

text \<open>The vault and the skill are not kept where an import works.\<close>

definition separate :: "brain_manager \<Rightarrow> bool" where
  "separate m \<longleftrightarrow> clean_root (bm_Home m) \<and> list_all (apart (bm_Vault m)) (import_roots m) \<and>
     (Installable m \<longrightarrow> apart (importCandidatePath m) (bm_SkillRoot m))"

lemma has_prefix_prefix: "has_prefix s p \<longleftrightarrow> prefix p s"
  unfolding has_prefix_def by (metis append_take_drop_id append_eq_conv_conj prefix_def)

lemma below_apart:
  assumes "below roots p" and "list_all (apart a) roots"
  shows "apart a p"
proof -
  obtain r where r: "r \<in> set roots" "prefix r p" using assms(1) by (auto simp: below_def has_prefix_prefix)
  then have "\<not> prefix r a" "\<not> prefix a r" using assms(2) by (auto simp: list_all_iff apart_def has_prefix_prefix)
  then show ?thesis
    using r(2) prefix_same_cases [of a p r] prefix_order.trans [of r p a] by (auto simp: apart_def has_prefix_prefix)
qed

lemma writes_spares: "writes_below roots argv \<Longrightarrow> list_all (apart a) roots \<Longrightarrow> spares argv a"
  by (auto simp: writes_below_def spares_def list_all_iff intro: below_apart [unfolded list_all_iff])

lemma exchange_paths: "written_paths (exchange_argv m) = Some [bm_Vault m, importCandidatePath m]"
  by (simp add: brain_argv)

lemma exchange_not_spared: "\<not> spares (exchange_argv m) (path_at m p)"
  by (auto simp: spares_def exchange_paths path_at_def apart_def)

text \<open>Events that leave the vault where it is.\<close>

definition harmless :: "string list \<Rightarrow> brain_event \<Rightarrow> bool" where
  "harmless roots e = (case e of Ran stdin argv r \<Rightarrow> writes_below roots argv | _ \<Rightarrow> True)"

lemma admits_harmless: "admits roots (harmless roots)"
  by (simp add: admits_def harmless_def)

lemma harmless_place:
  assumes "list_all (harmless roots) es" and "list_all (apart (path_at m p)) roots" and "p \<noteq> Lost"
  shows "place_after m p es = p"
  using assms(1)
proof (induction es)
  case (Cons e es)
  have "place_step m p e = p"
  proof (cases e)
    case (Ran stdin argv r)
    then have "spares argv (path_at m p)" using Cons.prems assms(2) writes_spares by (auto simp: harmless_def)
    then show ?thesis using Ran assms(3) exchange_not_spared by auto
  qed simp_all
  then show ?case using Cons by simp
qed simp

lemma separate_apart:
  assumes "separate m"
  shows "list_all (apart (path_at m AtVault)) (import_roots m)" and "list_all (apart (path_at m AtCandidate)) (finish_roots m)"
    and "list_all (apart (path_at m AtVault)) (finish_roots m)"
proof -
  show "list_all (apart (path_at m AtVault)) (import_roots m)" using assms by (simp add: separate_def path_at_def)
  then show "list_all (apart (path_at m AtVault)) (finish_roots m)"
    by (simp add: finish_roots_def import_roots_def candidate_roots_def)
  show "list_all (apart (path_at m AtCandidate)) (finish_roots m)"
    using assms by (simp add: separate_def path_at_def finish_roots_def skill_roots_def apart_def has_prefix_def
        importCandidatePath_def lockPath_def importStagingPath_def skillStagingPath_def)
qed

lemma candidate_clean: "separate m \<Longrightarrow> clean_root (importCandidatePath m)"
  using child_path(4) [of "bm_Home m" "''.torio-brain-candidate''"]
  by (simp add: separate_def importCandidatePath_def plain_name_def)

section \<open>The exchange and what follows it\<close>

lemma exchange_cases:
  assumes "exchange_import_candidate m opn h = (r, h')"
  obtains res where "h' = h @ [Ran None (exchange_argv m) (Inr res)]" and "ExitCode res = 0" and "r = Inr ()"
  | res where "h' = h @ [Ran None (exchange_argv m) (Inr res)]" and "ExitCode res \<noteq> 0"
      and "r = Inl (BErr opn KindVerification BExchange)"
  | x where "bm_ssh m h None (exchange_argv m) = Inl x" and "h' = h @ [Ran None (exchange_argv m) (Inl x)]"
      and "r = Inl (BErr opn KindTransport BExchange)"
  using assms by (auto simp: exchange_import_candidate_def brain_exec_def Let_def split: sum.splits if_splits)

lemma keepsD: "keeps R p \<Longrightarrow> p s = (r, s') \<Longrightarrow> R s s'"
  by (metis keeps_def snd_conv)

lemma finish_outcome:
  assumes "import_finish m opn (l, h) = (r, (l', h'))"
  obtains es where "h' = h @ es" and "list_all (harmless (finish_roots m)) es"
    and "\<And>e. r = Inl e \<Longrightarrow> ml_Swapped l' = ml_Swapped l" and "\<And>x. r = Inr x \<Longrightarrow> \<not> ml_Swapped l'"
proof -
  let ?P = "harmless (finish_roots m)"
  have adm: "admits (finish_roots m) ?P" by (rule admits_harmless)
  have roots: "set (skill_roots m) \<subseteq> set (finish_roots m)" by (auto simp: finish_roots_def)
  obtain r1 h1 where i: "inspect_or_fail m opn h = (r1, h1)" by fastforce
  have e1: "extends ?P h h1" by (rule keepsD [OF adm_inspect_or_fail [OF adm] i])
  show thesis
  proof (cases r1)
    case (Inl e)
    then show thesis using that assms i e1 by (auto simp: import_finish_def bnd_def lift_def extends_def)
  next
    case (Inr final)
    show thesis
    proof (cases "st_State final = StateInitialized")
      case False
      then show thesis using that assms i e1 Inr by (auto simp: import_finish_def bnd_def lift_def extends_def raise_def)
    next
      case True
      obtain r2 h2 where a: "activate_retrieval m opn (no_init_report\<lparr>ir_Status := final\<rparr>) h1 = (r2, h2)" by fastforce
      have "extends ?P h1 h2" by (rule keepsD [OF adm_activate [OF adm roots] a])
      then have "extends ?P h h2" using e1 by (rule extends_trans [rotated])
      moreover have "h' = h2" "\<And>e. r = Inl e \<Longrightarrow> l' = l" "\<And>x. r = Inr x \<Longrightarrow> \<not> ml_Swapped l'"
        using assms i Inr True a
        by (cases r2; auto simp: import_finish_def bnd_def lift_def set_swapped_def update_def)+
      ultimately show thesis using that by (auto simp: extends_def)
    qed
  qed
qed

text \<open>How the body ends: with the vault in its place and an error, or exchanged and flagged for a rollback exactly
  when it failed.\<close>

lemma body_outcome:
  assumes sep: "separate m" and into: "into_ok m into" and reach: "\<And>h x. bm_ssh m h None (exchange_argv m) \<noteq> Inl x"
    and run: "import_body m opn into payload es token (l, h) = (r, (l', h'))" and flag: "\<not> ml_Swapped l"
  obtains ev where "h' = h @ ev" and "place_after m AtVault ev = AtVault" and "\<not> ml_Swapped l'" and "\<exists>e. r = Inl e"
  | ev where "h' = h @ ev" and "place_after m AtVault ev = AtCandidate" and "ml_Swapped l' \<longleftrightarrow> (\<exists>e. r = Inl e)"
proof -
  let ?P = "harmless (import_roots m)"
  have adm: "admits (import_roots m) ?P" by (rule admits_harmless)
  have cand: "set (candidate_roots m) \<subseteq> set (import_roots m)" and lock: "lockPath m \<in> set (import_roots m)"
    by (auto simp: import_roots_def)
  have stay: "place_after m AtVault ev = AtVault" if "list_all ?P ev" for ev
    by (rule harmless_place [OF that separate_apart(1) [OF sep]]) simp
  obtain r1 l1 h1 where b: "import_build m opn into payload es (l, h) = (r1, (l1, h1))" by (metis prod.exhaust)
  have c1: "ml_Swapped l1 = ml_Swapped l" "extends ?P h h1"
    using keepsD [OF calm_build [OF adm cand into] b] by (simp_all add: calm_def)
  show thesis
  proof (cases r1)
    case (Inl e)
    then have "r = Inl e" "l' = l1" "h' = h1" using run b by (auto simp: import_body_def thn_def bnd_def)
    then show thesis using that(1) c1 flag stay by (auto simp: extends_def)
  next
    case (Inr u)
    obtain r2 h2 where f: "refresh_init_lock m opn token h1 = (r2, h2)" by fastforce
    have "extends ?P h1 h2" by (rule keepsD [OF adm_refresh_lock [OF adm lock] f])
    then have c2: "extends ?P h h2" using c1(2) by (rule extends_trans [rotated])
    show thesis
    proof (cases r2)
      case (Inl e)
      then have "r = Inl e" "l' = l1" "h' = h2" using run b f Inr by (auto simp: import_body_def thn_def bnd_def lift_def)
      then show thesis using that(1) c1 c2 flag stay by (auto simp: extends_def)
    next
      case (Inr u2)
      obtain r3 h3 where x: "exchange_import_candidate m opn h2 = (r3, h3)" by fastforce
      have rest: "(r, (l', h')) = (case r3 of Inl e \<Rightarrow> (Inl e, (l1, h3))
          | Inr _ \<Rightarrow> import_finish m opn (l1\<lparr>ml_Swapped := True\<rparr>, h3))"
        using run b f x \<open>r1 = Inr u\<close> Inr
        by (auto simp: import_body_def thn_def bnd_def lift_def set_swapped_def update_def split: sum.split)
      obtain ev2 where ev2: "h2 = h @ ev2" "place_after m AtVault ev2 = AtVault" using c2 stay by (auto simp: extends_def)
      from x show thesis
      proof (cases rule: exchange_cases)
        case (1 res)
        have fin: "import_finish m opn (l1\<lparr>ml_Swapped := True\<rparr>, h3) = (r, (l', h'))" using rest 1 by simp
        obtain ev where ev: "h' = h3 @ ev" "list_all (harmless (finish_roots m)) ev"
          "\<And>e. r = Inl e \<Longrightarrow> ml_Swapped l'" "\<And>x. r = Inr x \<Longrightarrow> \<not> ml_Swapped l'"
          by (rule finish_outcome [OF fin]) simp
        have "place_after m AtCandidate ev = AtCandidate"
          by (rule harmless_place [OF ev(2) separate_apart(2) [OF sep]]) simp
        then have "place_after m AtVault (ev2 @ [Ran None (exchange_argv m) (Inr res)] @ ev) = AtCandidate"
          using ev2(2) 1(2) by simp
        moreover have "ml_Swapped l' \<longleftrightarrow> (\<exists>e. r = Inl e)" using ev(3,4) by (cases r) auto
        ultimately show thesis using that(2) [of "ev2 @ [Ran None (exchange_argv m) (Inr res)] @ ev"] ev(1) 1(1) ev2(1) by simp
      next
        case (2 res)
        then show thesis
          using that(1) [of "ev2 @ [Ran None (exchange_argv m) (Inr res)]"] rest ev2 c1 flag by simp
      next
        case (3 x)
        then show thesis using reach by blast
      qed
    qed
  qed
qed

text \<open>The deferred function.\<close>

text \<open>
  What a failed import may have done, as the events it added to a history: left the vault where it was, reported
  the failed rollback that keeps it at the candidate, or failed only in giving its lock back at the end.
\<close>

definition outcome_ok :: "brain_manager \<Rightarrow> brain_err \<Rightarrow> brain_history \<Rightarrow> brain_event list \<Rightarrow> bool" where
  "outcome_ok m e h es \<longleftrightarrow> place_after m AtVault es = AtVault \<or>
     place_after m AtVault es = AtCandidate \<and> (\<exists>c. be_cause e = BRollback c) \<or>
     (\<exists>token a b c. es = a @ b @ c \<and> release_init_lock m ''import'' token (h @ a) = (Inl e, h @ a @ b))"

lemma outcome_stay: "place_after m AtVault es = AtVault \<Longrightarrow> outcome_ok m e h es"
  by (simp add: outcome_ok_def)

lemma outcome_before: "place_after m AtVault p = AtVault \<Longrightarrow> outcome_ok m e (h @ p) es \<Longrightarrow> outcome_ok m e h (p @ es)"
  unfolding outcome_ok_def by (elim disjE exE conjE) (simp, simp, metis append_assoc)

lemma outcome_after: "outcome_ok m e h es \<Longrightarrow> outcome_ok m e h (es @ [RemovedAll root])"
  unfolding outcome_ok_def by (elim disjE exE conjE) (simp, simp, metis append_assoc)

lemma try_run_world: "brain_try_run m opn argv h = (Inr (), h @ [Ran None argv (bm_ssh m h None argv)])"
  by (auto simp: brain_try_run_def brain_run_def brain_run_input_def brain_exec_def Let_def bnd_def attempt_def ret_def
      split: sum.split)

text \<open>The end of the deferred function: the clean-up and the release of the lock.\<close>

definition clean_and_release :: "brain_manager \<Rightarrow> string \<Rightarrow> brain_err option \<Rightarrow> bool \<Rightarrow> brain_err option mprog" where
  "clean_and_release m token e1 failed = thn (lift (brain_try_run m ''import'' (root_exec ([''rm'', ''-rf'', ''--'', importStagingPath m] @
       (if failed then [] else [importCandidatePath m])))))
     (bnd (lift (attempt (release_init_lock m ''import'' token))) (\<lambda>r. ret (first_error e1 r)))"

lemma clean_cases:
  assumes "separate m" and "clean_and_release m token e1 failed (l, h) = (r, (l', h'))"
  obtains a b rr where "h' = h @ a @ b" and "release_init_lock m ''import'' token (h @ a) = (rr, h')" and "r = Inr (first_error e1 rr)"
    and "place_after m AtVault (a @ b) = AtVault" and "failed \<Longrightarrow> place_after m AtCandidate (a @ b) = AtCandidate"
proof -
  let ?rm = "root_exec ([''rm'', ''-rf'', ''--'', importStagingPath m] @ (if failed then [] else [importCandidatePath m]))"
  let ?ev = "Ran None ?rm (bm_ssh m h None ?rm)"
  have lock: "admits (finish_roots m) (harmless (finish_roots m))" "lockPath m \<in> set (finish_roots m)"
    by (simp_all add: admits_harmless finish_roots_def)
  obtain rr h2 where rel: "release_init_lock m ''import'' token (h @ [?ev]) = (rr, h2)" by fastforce
  then obtain ev where ev: "h2 = (h @ [?ev]) @ ev" "list_all (harmless (finish_roots m)) ev"
    using keepsD [OF adm_release_lock [OF lock] rel] by (auto simp: extends_def)
  have stay: "place_after m AtVault ev = AtVault" "place_after m AtCandidate ev = AtCandidate"
    using harmless_place [OF ev(2), of m] separate_apart [OF assms(1)] by simp_all
  have harm: "list_all (harmless (import_roots m)) [?ev]"
    by (simp add: harmless_def brain_argv import_roots_def candidate_roots_def)
  then have v: "place_after m AtVault [?ev] = AtVault"
    using harmless_place [OF harm, of m AtVault] separate_apart(1) [OF assms(1)] by simp
  have c: "place_after m AtCandidate [?ev] = AtCandidate" if "failed"
  proof -
    have "list_all (harmless (finish_roots m)) [?ev]" using that by (simp add: harmless_def brain_argv finish_roots_def)
    then show ?thesis using harmless_place [of "finish_roots m" _ m AtCandidate] separate_apart(2) [OF assms(1)] by blast
  qed
  have "r = Inr (first_error e1 rr)" "h' = h2"
    using assms(2) rel
    by (simp_all add: clean_and_release_def thn_def bnd_def lift_def attempt_def ret_def try_run_world)
  then show thesis using that [of "[?ev]" ev rr] ev(1) rel v c stay by simp
qed

lemma clean_result:
  assumes "separate m" and "clean_and_release m token e1 failed (l, h) = (r, (l', h'))"
  shows "\<exists>a b rr. h' = h @ a @ b \<and> release_init_lock m ''import'' token (h @ a) = (rr, h') \<and> r = Inr (first_error e1 rr) \<and>
    place_after m AtVault (a @ b) = AtVault \<and> (failed \<longrightarrow> place_after m AtCandidate (a @ b) = AtCandidate)"
  by (rule clean_cases [OF assms]) blast

lemma deferred_unfold: "import_deferred m ''import'' token e (l, h) =
    (case e of
       None \<Rightarrow> clean_and_release m token None False (l, h)
     | Some err \<Rightarrow> if \<not> ml_Swapped l then clean_and_release m token (Some err) False (l, h)
         else (case exchange_import_candidate m ''import'' h of
             (Inl _, h1) \<Rightarrow> clean_and_release m token (Some (BErr ''import'' KindVerification (BRollback (be_cause err)))) True (l, h1)
           | (Inr _, h1) \<Rightarrow> clean_and_release m token (Some err) False (l, h1)))"
  by (auto simp: import_deferred_def look_def bnd_def ret_def lift_def attempt_def clean_and_release_def
      split: option.split sum.split prod.split)

end
