(* ===== verification/Brain_Import_Demo.thy ===== *)
theory Brain_Import_Demo
  imports Brain_Import_Facts Host_Transfer_Facts
begin

text \<open>
  A concrete import, for the hypotheses of the theorems on \<open>Manager.Import\<close>: a guest that answers every command and
  takes the import to its exchange.
\<close>

section \<open>A demonstration\<close>

text \<open>
  A fresh guest of the Claude backend (\<open>/home/claude/brain\<close>) with no vault yet, which answers every command by its
  argv and the exchange as it is told to.
\<close>

definition answer_exit :: "string list \<Rightarrow> int" where
  "answer_exit argv = (let c = brain_command argv in
     if take 2 c = [''test'', ''-L''] \<or> take 2 c = [''test'', ''-d''] then 1 else 0)"

definition answer_out :: "string list \<Rightarrow> string" where
  "answer_out argv = (let c = brain_command argv in
     if take 1 c = [''stat''] then ''claude:claude 700''
     else if take 1 c = [''cat''] then ''t''
     else if take 1 c = [''id''] then ''op''
     else if take 2 (drop 2 c) = [''-type'', ''f''] then ''.''
     else if take 1 (drop 3 c) = [''rev-parse''] then ''c0ffee''
     else [])"

definition answer :: "string list \<Rightarrow> result" where
  "answer argv = \<lparr>ExitCode = answer_exit argv, Stdout = answer_out argv, Stderr = [], StdoutTruncated = False,
     StderrTruncated = False\<rparr>"

definition demo_brain :: "guest_err + result \<Rightarrow> brain_manager" where
  "demo_brain exchange = \<lparr>bm_Name = ''claude'', bm_User = ''claude'', bm_Home = ''/home/claude'', bm_Vault = ''/home/claude/brain'',
     bm_SkillRoot = [], bm_SkillCategory = [], bm_SkillPayload = [], bm_CategoryPayload = [], bm_HubRoot = [],
     bm_XdgDataHome = [], bm_UserHome = None, bm_scaffold = (\<lambda>name. Some ''x''), bm_bootstrap = (\<lambda>h. True),
     bm_ssh = (\<lambda>h stdin argv. if take 1 (brain_command argv) = [''python3''] then exchange else Inr (answer argv)),
     bm_git = (\<lambda>h argv. Inr (answer argv)), bm_copy_in = (\<lambda>h. None), bm_copy_out = (\<lambda>h. None),
     bm_token = (\<lambda>h. Some ''t''), bm_mkdir_temp = (\<lambda>h. Some ''/t''), bm_mkdir = (\<lambda>h d. True),
     bm_exists = (\<lambda>h p. False), bm_collect = (\<lambda>h source. demo_host)\<rparr>"

definition demo_options :: import_options where
  "demo_options = \<lparr>io_Source = ''/n'', io_Into = [], io_DryRun = False\<rparr>"


text \<open>A step that succeeds, with a result, from every state, and one that fails from every state.\<close>

definition yields :: "('e, 's, 'a) eprog \<Rightarrow> 'a \<Rightarrow> bool" where
  "yields p x \<longleftrightarrow> (\<forall>s. \<exists>s'. p s = (Inr x, s'))"

definition fails :: "('e, 's, 'a) eprog \<Rightarrow> bool" where
  "fails p \<longleftrightarrow> (\<forall>s. \<exists>e s'. p s = (Inl e, s'))"

lemma yields_ret: "yields (ret x) x"
  by (simp add: yields_def ret_def)

lemma yields_bnd: "yields p x \<Longrightarrow> yields (f x) y \<Longrightarrow> yields (bnd p f) y"
  unfolding yields_def bnd_def by (metis (no_types, lifting) old.sum.simps(6) split_conv)

lemma yields_thn: "yields p () \<Longrightarrow> yields q y \<Longrightarrow> yields (thn p q) y"
  unfolding thn_def by (rule yields_bnd)

lemma yields_for_each: "(\<And>x. x \<in> set xs \<Longrightarrow> yields (f x) ()) \<Longrightarrow> yields (for_each xs f) ()"
  by (induction xs) (auto intro: yields_ret yields_thn)

lemma yields_lift: "yields p x \<Longrightarrow> yields (lift p) x"
  unfolding yields_def lift_def by (metis (no_types, lifting) old.prod.exhaust split_conv)

lemma yields_update: "yields (update f) ()"
  by (simp add: yields_def update_def)

lemma yields_on_error: "yields p x \<Longrightarrow> yields (on_error p c) x"
  unfolding yields_def on_error_def by (metis (no_types, lifting) old.sum.simps(6) split_conv)

lemmas yields_intros = yields_ret yields_bnd yields_thn yields_for_each yields_lift yields_update yields_on_error

lemma fails_later: "yields p x \<Longrightarrow> fails (f x) \<Longrightarrow> fails (bnd p f)"
  unfolding yields_def fails_def bnd_def by (metis (no_types, lifting) old.sum.simps(6) split_conv)

lemma fails_now:
  assumes "fails p"
  shows "fails (bnd p f)"
proof -
  have "\<exists>e s'. bnd p f s = (Inl e, s')" for s
  proof -
    obtain e s' where "p s = (Inl e, s')" using assms unfolding fails_def by blast
    then show ?thesis by (simp add: bnd_def)
  qed
  then show ?thesis by (simp add: fails_def)
qed

lemma fails_lift: "fails p \<Longrightarrow> fails (lift p)"
  unfolding fails_def lift_def by (metis (no_types, lifting) old.prod.exhaust split_conv)

lemma fails_finally: "fails p \<Longrightarrow> yields q () \<Longrightarrow> fails (finally_do p q)"
  unfolding fails_def yields_def finally_do_def by (metis (no_types, lifting) split_conv)

section \<open>The steps on the demonstration guest\<close>

lemma answered_run:
  assumes "take 1 (brain_command argv) \<noteq> [''python3'']"
  shows "yields (brain_run_input (demo_brain x) opn stdin argv) (answer argv)"
  using assms by (simp add: yields_def brain_run_input_def brain_exec_def demo_brain_def answer_def Let_def)

lemma demo_must_run:
  assumes "take 1 (brain_command argv) \<noteq> [''python3'']" and "answer_exit argv = 0"
  shows "yields (brain_must_run (demo_brain x) opn kind argv) ()"
    and "yields (brain_must_run_input (demo_brain x) opn kind stdin argv) ()"
  unfolding brain_must_run_def brain_must_run_input_def brain_run_def
  by (intro yields_bnd [OF answered_run [OF assms(1)]], simp add: exit_ok_def answer_def assms(2) yields_ret)+

lemma demo_test:
  assumes "argv \<in> {as_agent (demo_brain x) [''test'', flag, p], root_exec [''test'', flag, p]}"
  shows "yields (bnd (brain_run (demo_brain x) opn argv) (brain_test_answer opn)) (answer_exit argv = 0)"
proof -
  have "take 1 (brain_command argv) \<noteq> [''python3'']" "answer_exit argv \<in> {0, 1}"
    using assms by (auto simp: brain_argv answer_exit_def)
  then show ?thesis unfolding brain_run_def
    by (intro yields_bnd [OF answered_run]) (auto simp: brain_test_answer_def answer_def yields_ret)
qed


lemma demo_simps:
  "bm_User (demo_brain x) = ''claude''" "bm_Home (demo_brain x) = ''/home/claude''" "bm_Vault (demo_brain x) = ''/home/claude/brain''"
  "\<not> Installable (demo_brain x)" "bm_token (demo_brain x) h = Some ''t''" "bm_mkdir_temp (demo_brain x) h = Some ''/t''"
  "bm_mkdir (demo_brain x) h d" "bm_collect (demo_brain x) h src = demo_host" "bm_bootstrap (demo_brain x) h"
  "bm_copy_in (demo_brain x) h = None"
  by (simp_all add: demo_brain_def Installable_def)

lemma demo_probe: "yields (probe_skill (demo_brain x) opn a b) (SkillNotApplicable, False)"
  by (simp add: probe_skill_def demo_simps yields_ret)

lemma demo_tests:
  "yields (brain_test_path (demo_brain x) opn flag p) (flag \<noteq> ''-L'' \<and> flag \<noteq> ''-d'')"
  "yields (brain_test_root_path (demo_brain x) opn flag p) (flag \<noteq> ''-L'' \<and> flag \<noteq> ''-d'')"
proof -
  have "answer_exit (as_agent (demo_brain x) [''test'', flag, p]) = 0 \<longleftrightarrow> flag \<noteq> ''-L'' \<and> flag \<noteq> ''-d''"
    "answer_exit (root_exec [''test'', flag, p]) = 0 \<longleftrightarrow> flag \<noteq> ''-L'' \<and> flag \<noteq> ''-d''"
    by (simp_all add: answer_exit_def brain_argv)
  then show "yields (brain_test_path (demo_brain x) opn flag p) (flag \<noteq> ''-L'' \<and> flag \<noteq> ''-d'')"
    "yields (brain_test_root_path (demo_brain x) opn flag p) (flag \<noteq> ''-L'' \<and> flag \<noteq> ''-d'')"
    unfolding brain_test_path_def brain_test_root_path_def
    using demo_test [of "as_agent (demo_brain x) [''test'', flag, p]" x flag p opn]
      demo_test [of "root_exec [''test'', flag, p]" x flag p opn] by simp_all
qed

lemma demo_inspect: "\<exists>st. st_State st = StateUninitialized \<and> yields (inspect_or_fail (demo_brain x) opn) st"
proof -
  let ?st = "(new_status_report (demo_brain x))\<lparr>st_SkillState := SkillNotApplicable, st_State := StateUninitialized\<rparr>"
  have "\<exists>h'. inspect_status_prog (demo_brain x) opn (new_status_report (demo_brain x), h) = (Inr (), (?st, h'))" for h
  proof -
    obtain h1 where 1: "brain_test_root_path (demo_brain x) opn ''-L'' ''/home/claude/brain'' h = (Inr False, h1)"
      using demo_tests(2) [of x opn "''-L''"] by (auto simp: yields_def)
    obtain h2 where 2: "brain_test_root_path (demo_brain x) opn ''-d'' ''/home/claude/brain'' h1 = (Inr False, h2)"
      using demo_tests(2) [of x opn "''-d''"] by (auto simp: yields_def)
    show ?thesis
      by (simp add: inspect_status_prog_def inspect_vault_def demo_simps probe_skill_def bnd_def thn_def lift_def ret_def
          update_def when_do_def set_state_def 1 2)
  qed
  then have "yields (inspect_or_fail (demo_brain x) opn) ?st"
    unfolding yields_def
  proof (intro allI)
    fix h
    assume "\<And>h. \<exists>h'. inspect_status_prog (demo_brain x) opn (new_status_report (demo_brain x), h) = (Inr (), (?st, h'))"
    then obtain h' where "inspect_status_prog (demo_brain x) opn (new_status_report (demo_brain x), h) = (Inr (), (?st, h'))"
      by blast
    then show "\<exists>s'. inspect_or_fail (demo_brain x) opn h = (Inr ?st, s')"
      by (simp add: inspect_or_fail_def inspect_status_def with_report_def bnd_def ret_def)
  qed
  then show ?thesis by (intro exI [of _ ?st]) simp
qed


lemma demo_texts:
  "str_fields (trim_space ''claude:claude 700'') = [''claude:claude'', ''700'']" "trim_space ''t'' = ''t''" "trim_space ''op'' = ''op''"
  "trim_space ''c0ffee'' = ''c0ffee''" "trim_space [] = []" "index_of CHR '':'' ''claude:claude'' = Some 6"
  by (simp_all add: trim_space_def str_fields_def Let_def ascii_spans byte_of_def is_space_def cont_def)

lemma demo_verify_lock: "yields (verify_init_lock (demo_brain x) opn ''t'') ()"
proof -
  let ?stat = "stat_argv (lockPath (demo_brain x))" and ?cat = "as_agent (demo_brain x) [''cat'', lockPath (demo_brain x) @ ''/token'']"
  have "answer_exit ?stat = 0" "owned_by (demo_brain x) ''700'' (answer_out ?stat)" "answer_exit ?cat = 0" "trim_space (answer_out ?cat) = ''t''"
    by (simp_all add: answer_exit_def answer_out_def brain_argv owned_by_def demo_simps parse_ownership_mode_def demo_texts)
  then show ?thesis
    unfolding verify_init_lock_def brain_run_def
    by (intro yields_bnd [OF answered_run]) (auto simp: brain_argv answer_def intro!: yields_bnd [OF answered_run] yields_ret)
qed

lemma demo_lock: "yields (acquire_init_lock (demo_brain x) opn) ''t''"
proof -
  have "yields (claim_init_lock (demo_brain x) opn ''t'') ()"
    unfolding claim_init_lock_def
    by (intro yields_intros demo_must_run demo_verify_lock) (simp_all add: brain_argv answer_exit_def)
  then have t: "yields (lock_turn (demo_brain x) opn ''t'' again) ()" for again
    unfolding lock_turn_def brain_run_def
    by (intro yields_bnd [OF answered_run]) (simp_all add: brain_argv answer_def answer_exit_def)
  show ?thesis by (simp add: acquire_init_lock_def demo_simps yields_thn [OF t yields_ret])
qed


lemma demo_prepare:
  "yields (prepare_guest_import (demo_brain x) opn dir (co_Entries demo_collected)) ()"
proof -
  let ?m = "demo_brain x"
  let ?count = "as_agent ?m (find_in (importPayloadPath ?m) [''-type'', ''f'', ''-printf'', ''.''])"
  obtain sums where sums: "checksum_file (importPayloadPath ?m) (co_Entries demo_collected) = Inr sums"
  proof -
    let ?p = "''/home/claude/.torio-brain-import-staging/payload''"
    have p: "has_prefix ?p ''/''" "path_clean ?p = ?p" "\<not> contains_any ?p [CHR 0x00, newline, CHR 0x0D, CHR 0x5C]"
      by (simp_all add: has_prefix_def path_clean_def contains_any_def newline_def)
    have "importPayloadPath ?m = ?p" by (simp add: importPayloadPath_def importStagingPath_def demo_simps)
    then show thesis using checksum_file_says_manifest [OF demo_collect p] that by auto
  qed
  have user: "yields (brain_session_user ?m opn) ''op''"
  proof -
    have "take 1 (brain_command [''id'', ''-un'']) \<noteq> [''python3'']" "answer [''id'', ''-un''] = (answer [])\<lparr>Stdout := ''op''\<rparr>"
      by (simp_all add: brain_command_def answer_def answer_exit_def answer_out_def)
    moreover have "validate_operator_user ''op''"
      by (simp add: validate_operator_user_def demo_texts placeholderOperator_def operatorUserPattern_def full_match_def
        alnum_or_def is_alnum_def byte_of_def is_lower_def is_upper_def is_digit_def between_def run_lengths_def)
    ultimately show ?thesis
      unfolding brain_session_user_def brain_run_def
      by (intro yields_bnd [OF answered_run]) (simp_all add: demo_texts answer_def answer_exit_def brain_command_def yields_ret)
  qed
  have copy: "yields (brain_copy_in ?m f a b) ()" for f a b
    by (simp add: yields_def brain_copy_in_def demo_simps Let_def)
  have quiet: "yields (no_special_files ?m opn (find_in p (t # ts))) ()"
    if "take 2 (t # ts) \<noteq> [''-type'', ''f'']" "take 1 ts \<noteq> [''rev-parse'']" for p t ts
    unfolding no_special_files_def brain_run_def
    by (intro yields_bnd [OF answered_run]) (use that in \<open>auto simp: brain_argv answer_def answer_exit_def answer_out_def yields_ret\<close>)
  have verify: "yields (verify_guest_payload ?m opn (co_Entries demo_collected)) ()"
    unfolding verify_guest_payload_def brain_run_def
    by (intro yields_thn quiet yields_bnd [OF answered_run])
      (auto simp: brain_argv answer_def answer_exit_def answer_out_def onlyDots_def demo_collected_def
        intro!: yields_bnd [OF answered_run] yields_ret)
  show ?thesis
    unfolding prepare_guest_import_def adopt_guest_payload_def
    by (intro yields_thn yields_bnd [OF user] demo_must_run)
      (auto simp: brain_argv answer_exit_def sums
        intro!: yields_thn demo_must_run copy verify)
qed


lemma demo_snapshot: "yields (verify_snapshot_repository (demo_brain x) opn dir) ()"
  unfolding verify_snapshot_repository_def brain_run_def
  by (intro yields_bnd [OF answered_run])
    (auto simp: brain_argv answer_def answer_exit_def answer_out_def demo_texts intro!: yields_bnd [OF answered_run] yields_ret)

lemma demo_private: "yields (test_private_path (demo_brain x) opn ''-f'' p) True"
  by (simp add: yields_def test_private_path_def brain_exec_def demo_brain_def brain_argv answer_def answer_exit_def Let_def)

lemma demo_build: "yields (build_first_import_candidate (demo_brain x) opn []) ()"
proof -
  have scaffold: "yields (for_each canonicalFiles (\<lambda>name. let target = importCandidatePath (demo_brain x) @ ''/'' @ name in
      bnd (test_private_path (demo_brain x) opn ''-f'' target) (\<lambda>exists.
        if exists then ret () else write_scaffold_file (demo_brain x) opn name target))) ()"
    by (rule yields_for_each) (simp add: Let_def, rule yields_bnd [OF demo_private], simp add: yields_ret)
  have commit: "yields (commit_candidate (demo_brain x) opn [''-m'', msg]) ()" for msg
    unfolding commit_candidate_def
    by (intro yields_thn demo_must_run) (simp_all add: brain_argv answer_exit_def)
  show ?thesis
    unfolding build_first_import_candidate_def
    by (intro yields_thn scaffold commit demo_snapshot demo_must_run)
      (simp_all add: brain_argv answer_exit_def, intro yields_thn demo_must_run, simp_all add: brain_argv answer_exit_def)
qed

section \<open>The import on the demonstration guest\<close>

text \<open>The exchange is answered, and refused.\<close>

definition refused :: "guest_err + result" where
  "refused = Inr \<lparr>ExitCode = 1, Stdout = [], Stderr = [], StdoutTruncated = False, StderrTruncated = False\<rparr>"

lemma demo_refused: "fails (exchange_import_candidate (demo_brain refused) opn)"
  by (simp add: fails_def exchange_import_candidate_def brain_exec_def demo_brain_def refused_def brain_argv Let_def)

lemma demo_answers_exchange: "bm_ssh (demo_brain refused) h None (exchange_argv m) \<noteq> Inl y"
  by (simp add: demo_brain_def refused_def brain_argv)

lemma answered_separate: "separate (demo_brain x)"
proof -
  have home: "clean_root ''/home/claude''" by (simp add: clean_root_def has_prefix_def path_clean_def)
  show ?thesis
    using home by (simp add: separate_def demo_simps import_roots_def candidate_roots_def skill_roots_def lockPath_def
        importStagingPath_def importCandidatePath_def skillStagingPath_def apart_def has_prefix_def)
qed

lemma demo_body: "fails (import_body (demo_brain refused) opn [] dir (co_Entries demo_collected) ''t'')"
proof -
  obtain st where st: "st_State st = StateUninitialized" "yields (inspect_or_fail (demo_brain refused) opn) st"
    using demo_inspect by blast
  have build: "yields (import_build (demo_brain refused) opn [] dir (co_Entries demo_collected)) ()"
    unfolding import_build_def
    by (rule yields_bnd [OF yields_lift [OF st(2)]])
      (simp add: Let_def st(1) import_admission_def, intro yields_bnd [OF yields_ret] yields_thn yields_lift demo_prepare, simp add: demo_build)
  have refresh: "yields (refresh_init_lock (demo_brain refused) opn ''t'') ()"
    unfolding refresh_init_lock_def
    by (intro yields_thn demo_verify_lock demo_must_run) (simp_all add: brain_argv answer_exit_def)
  show ?thesis
    unfolding import_body_def thn_def
    by (intro fails_later [OF build] fails_later [OF yields_lift [OF refresh]] fails_now fails_lift demo_refused)
qed

lemma demo_deferring:
  assumes "fails body"
  shows "fails (deferring body (import_deferred (demo_brain refused) ''import'' token))"
proof -
  have "\<exists>e s'. deferring body (import_deferred (demo_brain refused) ''import'' token) s = (Inl e, s')" for s
  proof -
    obtain e l h where b: "body s = (Inl e, (l, h))" using assms unfolding fails_def by (metis prod.exhaust)
    obtain r s2 where d: "import_deferred (demo_brain refused) ''import'' token (Some e) (l, h) = (r, s2)"
      by (metis prod.exhaust)
    moreover have "r \<noteq> Inr None"
    proof -
      obtain e1 failed h1 l2 h2 where "clean_and_release (demo_brain refused) token (Some e1) failed (l, h1) = (r, (l2, h2))"
        using d by (cases s2) (auto simp: deferred_unfold split: if_splits prod.splits sum.splits)
      from clean_result [OF answered_separate this] show ?thesis by (auto simp: first_error_def)
    qed
    ultimately show ?thesis using b by (cases r) (auto simp: deferring_def split: option.split)
  qed
  then show ?thesis by (simp add: fails_def)
qed

lemma demo_import_fails: "\<exists>rep e h'. brain_import (demo_brain refused) demo_options [] = ((rep, Some e), h')"
proof -
  let ?m = "demo_brain refused"
  have collect: "yields (import_collect ?m ''import'' demo_options (Some ''/t/payload'')) demo_collected"
    using demo_collect_at [of "''/t/payload''"]
    by (simp add: yields_def import_collect_def demo_simps demo_options_def path_clean_def has_prefix_def)
  have access: "yields (require_root_access ?m ''import'') ()" "yields (require_bootstrap_verified ?m ''import'') ()"
    unfolding require_root_access_def
    by (intro demo_must_run, simp_all add: brain_argv answer_exit_def) (simp add: yields_def require_bootstrap_verified_def demo_simps)
  have mkdir: "yields (brain_mkdir ?m ''import'' d) ()" for d
    by (simp add: yields_def brain_mkdir_def demo_simps)
  have dir: "file_join [''/t'', ''payload''] = ''/t/payload''" by code_simp
  have locked: "fails (bnd (lift (acquire_init_lock ?m ''import'')) (\<lambda>token.
      deferring (import_body ?m ''import'' [] ''/t/payload'' (co_Entries demo_collected) token) (import_deferred ?m ''import'' token)))"
    by (rule fails_later [OF yields_lift [OF demo_lock]]) (rule demo_deferring [OF demo_body])
  have run: "fails (import_run ?m ''import'' demo_options [] (Some ''/t''))"
    unfolding import_run_def Let_def thn_def
    by (simp add: dir, rule fails_later [OF yields_lift [OF mkdir]], rule fails_later [OF yields_lift [OF collect]],
        unfold report_collected_def, rule fails_later [OF yields_update],
        intro fails_later [OF yields_lift [OF access(2)]] fails_later [OF yields_lift [OF access(1)]])
      (use locked in \<open>simp add: demo_collected_def\<close>)
  have "yields (import_host_staging ?m ''import'') ''/t''"
    by (simp add: yields_def import_host_staging_def demo_simps)
  moreover have "yields (lift (brain_remove_all ''/t'')) ()"
    by (rule yields_lift) (simp add: yields_def brain_remove_all_def)
  ultimately have "fails (import_prog ?m ''import'' demo_options)"
    unfolding import_prog_def thn_def
    by (simp add: demo_options_def validate_into_def, intro fails_later [OF yields_update])
      (rule fails_later [OF yields_lift], assumption, rule fails_finally [OF run [unfolded demo_options_def]])
  then obtain e l h' where "import_prog ?m ''import'' demo_options
      (\<lparr>ml_Report = no_transfer_report (io_DryRun demo_options), ml_Swapped = False\<rparr>, []) = (Inl e, (l, h'))"
    unfolding fails_def by (metis prod.exhaust)
  then show ?thesis by (simp add: brain_import_def with_report_def)
qed

end
