(* ===== verification/Brain_Import_Props.thy ===== *)
theory Brain_Import_Props
  imports Brain_Import_Demo
begin

text \<open>
  A failing import never loses the vault that was there, and the one way it can be misled about it.
\<close>

section \<open>Composing the steps\<close>











section \<open>A failing import and the vault\<close>





section \<open>An exchange whose answer is lost\<close>

text \<open>
  The hypothesis on the answered exchanges is needed. When the transport fails after the guest exchanged the two
  trees, nothing flags the exchange, so the deferred function does not undo it and its first command removes the
  candidate path, where the previous vault then is.
\<close>

lemma lost_exchange_removes_candidate:
  assumes "bm_ssh m h None (exchange_argv m) = Inl x" and "\<not> ml_Swapped l"
  shows "\<exists>h1 r l' es. thn (lift (exchange_import_candidate m ''import'')) (thn (set_swapped True) (import_finish m ''import'')) (l, h) =
      (Inl (BErr ''import'' KindTransport BExchange), (l, h1)) \<and>
    import_deferred m ''import'' token (Some (BErr ''import'' KindTransport BExchange)) (l, h1) = (r, (l', h1 @ es)) \<and>
    es \<noteq> [] \<and> (\<exists>ans. hd es = Ran None (root_exec [''rm'', ''-rf'', ''--'', importStagingPath m, importCandidatePath m]) ans)"
proof -
  let ?h1 = "h @ [Ran None (exchange_argv m) (Inl x)]"
  let ?rm = "root_exec [''rm'', ''-rf'', ''--'', importStagingPath m, importCandidatePath m]"
  have first: "thn (lift (exchange_import_candidate m ''import'')) q (l, h) = (Inl (BErr ''import'' KindTransport BExchange), (l, ?h1))"
    for q :: "unit mprog"
    using assms(1) by (simp add: thn_def bnd_def lift_def exchange_import_candidate_def brain_exec_def Let_def)
  obtain rr h2 where rel: "release_init_lock m ''import'' token (?h1 @ [Ran None ?rm (bm_ssh m ?h1 None ?rm)]) = (rr, h2)"
    by (metis prod.exhaust)
  have "admits [lockPath m] (harmless [lockPath m])" by (rule admits_harmless)
  then obtain ev where ev: "h2 = (?h1 @ [Ran None ?rm (bm_ssh m ?h1 None ?rm)]) @ ev"
    using keepsD [OF adm_release_lock [of "[lockPath m]"] rel] by (fastforce simp: extends_def)
  have "import_deferred m ''import'' token (Some (BErr ''import'' KindTransport BExchange)) (l, ?h1) =
      (Inr (first_error (Some (BErr ''import'' KindTransport BExchange)) rr), (l, ?h1 @ Ran None ?rm (bm_ssh m ?h1 None ?rm) # ev))"
    using assms(2) rel ev
    by (simp add: deferred_unfold clean_and_release_def thn_def bnd_def lift_def attempt_def ret_def try_run_world)
  with first show ?thesis by (intro exI conjI) (assumption | simp)+
qed

end
