(* ===== verification/Brain_Props.thy ===== *)
theory Brain_Props
  imports Brain_Import_Demo
begin

text \<open>
  What an initialization may do to the place of the vault, and when an inspection looks into it.
\<close>

section \<open>Initialization\<close>



























section \<open>Inspection\<close>























end
