(* ===== verification/Spec2Isabelle.thy ===== *)
theory Spec2Isabelle
  imports Sync_Facts Config_Props Session_Facts Attach_Facts Record_Facts Agent_Proxy_Facts Wizard Config_Store_Props File_Registry Poller_Props
    Broker_Props Host_Transfer_Facts Brain_Import_Props Brain_Props
begin

text \<open>
  Torio keeps coding agents in Lima virtual machines. The host holds the configuration of every instance and one
  registry of projects; a guest holds the checkouts, the agent and its Second Brain. The command line and the
  terminal UI drive a handful of managers, each of which checks what it finds, runs commands in a guest through
  \<open>sudo\<close> as root or as the agent's user, and records what it has proved. This development models those managers and
  the documents, parsers and gates they rest on, and proves what they promise.

  The parts, and how they interact.

  \<^enum> Ground. \<open>Torio_Prelude\<close> has the functions of Go's standard library the source calls on strings (a Go string is a
    byte list) and their lemmas; \<open>Programs\<close> the programs with errors, the frames that carry an invariant through
    them and the programs that return a report with their error; \<open>Path_Facts\<close> lexical paths; \<open>Sinks\<close> the
    append-only logs; \<open>Json\<close>, \<open>Durations\<close>, \<open>Float_Text\<close>, \<open>Sha256\<close> and \<open>Digests\<close> the library formats, with
    \<open>Json_Facts\<close>, \<open>Json_Secrets\<close> and \<open>Duration_Facts\<close>: what is printed is read back, and printing adds no secret
    shape.
  \<^enum> Redaction, \<open>internal/redact/redact.go\<close>: \<open>Redact\<close>, the six patterns and the matcher that runs them.
  \<^enum> Configuration, \<open>internal/config\<close>: \<open>Config\<close> (the values of \<open>config.go\<close>, \<open>projects.go\<close>, \<open>file.go\<close>), \<open>Config_Doc\<close>
    (the texts that \<open>file.go\<close> and \<open>registry.go\<close> read and write), \<open>Config_Store\<close> (\<open>trust.go\<close>, \<open>storage.go\<close>,
    \<open>registry_lock.go\<close>: the documents on a file tree), \<open>Config_Paths\<close> (\<open>paths.go\<close>). Their \<open>_Facts\<close> and \<open>_Props\<close> show
    that the value operations keep the document valid, that what is written is read back and obeys the rules, that
    a write is all or nothing, and where the documents of an instance are.
  \<^enum> Projects, \<open>internal/projects\<close>: \<open>Projects\<close> (values, errors, remotes), \<open>Guest\<close> (the boundary: the world of the
    operations and the execution helpers of \<open>internal/guestexec\<close>), \<open>Registry\<close> (the registry interface as a locale),
    \<open>Hub\<close> (\<open>bundle.go\<close> and the host half of \<open>sync.go\<close>), \<open>Manager\<close>, \<open>Attach\<close>, \<open>Sessions\<close> (\<open>manager.go\<close>,
    \<open>remoteaccess.go\<close>), \<open>Sync\<close> (\<open>sync.go\<close>) and \<open>File_Registry\<close>, which puts the documents of the previous part under
    the manager. \<open>Guest_Commands\<close> reads an argv as what it may do; \<open>Attach_Facts\<close>, \<open>Session_Facts\<close>,
    \<open>Record_Facts\<close> and \<open>Sync_Facts\<close> show what the operations establish, what they leave behind when they fail, which
    commands they may run and that a reconciliation loses no history. \<open>Demo_Guest\<close> is a concrete guest for the
    witnesses.
  \<^enum> The mediated SSH agent, \<open>internal/sshagent\<close>: \<open>Ssh_Agent\<close> (\<open>protocol.go\<close>, \<open>proxy.go\<close>, \<open>audit.go\<close>, \<open>prompt.go\<close>),
    \<open>Agent_Wire_Facts\<close> (the wire format) and \<open>Agent_Proxy_Facts\<close> (no signature without an approval on record).
  \<^enum> The status poller, \<open>internal/status\<close>: \<open>Status\<close> (\<open>facts.go\<close>, \<open>marker.go\<close>, \<open>report.go\<close>), \<open>Poller\<close> (\<open>poller.go\<close> and
    the declarations of the backends), \<open>Status_Facts\<close>, \<open>Poller_Facts\<close>, \<open>Poller_Props\<close>: what a poll may ask, what it
    must have seen to report a wait, and that boxes do not influence each other.
  \<^enum> The MCP broker: \<open>Policy\<close> (\<open>internal/lima/mcppolicydoc.go\<close>), \<open>Broker\<close> (\<open>internal/mcpbroker\<close>,
    \<open>cmd/torio-mcp-broker/policy.go\<close>), \<open>Policy_Facts\<close>, \<open>Broker_Facts\<close>, \<open>Broker_Props\<close>: only granted and recorded calls
    are forwarded.
  \<^enum> The transfer of notes, \<open>internal/transfer\<close>: \<open>Host_Transfer\<close> and \<open>Host_Transfer_Facts\<close>: the filter, the manifest and
    the checksum file.
  \<^enum> The Second Brain, \<open>internal/brain\<close>: \<open>Brain\<close> (values, boundary, the initialization lock), \<open>Brain_Status\<close> (the
    inspection and the skill, \<open>manager.go\<close>), \<open>Brain_Init\<close>, \<open>Brain_Import\<close> (\<open>transfer.go\<close>) and \<open>Brain_Sync\<close>
    (\<open>sync.go\<close>). \<open>Brain_Facts\<close> bounds the paths their commands may change; \<open>Brain_Import_Facts\<close> follows the place of
    the previous vault through an import, \<open>Brain_Import_Props\<close> shows that a failing import keeps it and
    \<open>Brain_Import_Demo\<close> runs one to its exchange. \<open>Brain_Props\<close> shows that an initialization replaces only a
    directory that \<open>rmdir\<close> proved empty and that a status looks into the vault only when it is safe.
  \<^enum> Setup, \<open>internal/tui/wizard/graph.go\<close>: \<open>Wizard\<close>.

  How the code is modelled. A struct is a record, an enumeration a datatype, an error the rule that was broken (its
  wording is not kept). An operation with effects is a program over a history: the guest, the host's Git and file
  system, the clock, the operator's agent, the MCP SDK and the upstream are functions of everything that was
  asked of them before, so a theorem holds for every behaviour they can have, and an event carries the answer it
  got. A deferred function is a step that runs after the body and sees its error. An advisory lock makes an update
  of the registry one step. Timeouts are answers of the environment.

  Bounds. The JSON parser has fuel of twice the length of the text and two, more than the nesting and the tokens a
  text of that length can have (\<open>Json_Facts\<close> reads every printed value back with it). The proxy's loop over frames
  has a bound on the number of frames; each turn consumes at least a frame header, so the length of the input
  is enough. \<open>list_all_tools\<close> may not return: it is a partial function, and \<open>Broker_Props\<close> says exactly when it does.
  Regular expressions repeat only expressions that consume a character, or stop. Sizes and durations are 64-bit
  where the code computes with them, with the overflow checks written out.

  Interfaces are locales, interpreted on the model: \<open>frame\<close> (\<open>Programs\<close>) on every relation that is carried through a
  program, \<open>registry_doc\<close> and \<open>registry_store\<close> on the value operations, the world of the manager and the file tree,
  and the decision logs on both recorders.

  Not modelled. The bootstrap, the templates and the adapter of \<open>internal/lima\<close> and the installation steps of
  \<open>internal/backend\<close> are long scripts of guest commands whose effect is the guest's; what the modelled parts use of
  them (the verification of a bootstrap, the identity of a backend) is an input. The broker's daemon, OAuth login and
  session files are HTTP and socket plumbing around libraries. \<open>internal/execx\<close> starts processes. \<open>internal/cli\<close> and
  \<open>internal/tui\<close> parse flags and keys and render what the managers return. The sockets and the accept loop of the
  agent are operating-system calls.
\<close>

end
